(* ===== verification/Prelude.thy ===== *)
theory Prelude
  imports Main "HOL-Library.Word" "HOL-Library.AList"
begin

text \<open>
  Shared vocabulary of the development: the machine integers of the Rust sources, the byte
  strings they exchange, the results of fallible functions, and the generic facts about lists,
  sums and association lists that several components use.

  \<^item> \<open>u8\<close>, \<open>u16\<close>, \<open>u32\<close>, \<open>u64\<close>, \<open>i32\<close>, \<open>i64\<close> are words of that width; a signed type is
    the same word, read with \<open>sint\<close>.
  \<^item> \<open>usize\<close> values that only count bytes, entries or offsets are \<open>nat\<close>.
  \<^item> \<open>Result<T, E>\<close> is the sum \<open>'e + 'a\<close>, \<open>Inl\<close> the error.
\<close>

type_synonym u8 = "8 word"
type_synonym u16 = "16 word"
type_synonym u32 = "32 word"
type_synonym u64 = "64 word"
type_synonym i32 = "32 word"
type_synonym i64 = "64 word"

type_synonym bytes = "8 word list"

named_theorems slice_simps \<open>reading and writing slices of byte vectors\<close>
named_theorems tree_simps \<open>looking nodes up in an updated directory tree\<close>

subsection \<open>Byte slices\<close>

text \<open>
  \<open>copy_slice xs off d\<close> is \<open>xs[off..off + d.len()].copy_from_slice(d)\<close> of a vector that is
  long enough. \<open>write_at\<close> is a write at an offset of a file, which fills a gap with zeros.
  \<open>read_at\<close> is a read of at most \<open>n\<close> bytes at an offset.
\<close>

definition copy_slice :: "'a list \<Rightarrow> nat \<Rightarrow> 'a list \<Rightarrow> 'a list" where
  "copy_slice xs off d = take off xs @ d @ drop (off + length d) xs"

definition write_at :: "bytes \<Rightarrow> nat \<Rightarrow> bytes \<Rightarrow> bytes" where
  "write_at xs off d =
     (if d = [] then xs else copy_slice (xs @ replicate (off - length xs) 0) off d)"

definition read_at :: "'a list \<Rightarrow> nat \<Rightarrow> nat \<Rightarrow> 'a list" where
  "read_at xs off n = take n (drop off xs)"

lemma length_copy_slice [slice_simps]:
  "off + length d \<le> length xs \<Longrightarrow> length (copy_slice xs off d) = length xs"
  by (simp add: copy_slice_def)

lemma nth_copy_slice [slice_simps]:
  assumes "off + length d \<le> length xs" and "i < length xs"
  shows "copy_slice xs off d ! i = (if off \<le> i \<and> i < off + length d then d ! (i - off) else xs ! i)"
  using assms by (auto simp: copy_slice_def nth_append min_def)

lemma length_write_at [slice_simps]:
  "length (write_at xs off d) = (if d = [] then length xs else max (length xs) (off + length d))"
  by (auto simp: write_at_def copy_slice_def)

lemma length_read_at [slice_simps]: "length (read_at xs off n) = min n (length xs - off)"
  by (simp add: read_at_def min.commute)

lemma nth_read_at [slice_simps]:
  "i < n \<Longrightarrow> off + i < length xs \<Longrightarrow> read_at xs off n ! i = xs ! (off + i)"
  by (simp add: read_at_def)

lemma nth_write_at [slice_simps]:
  assumes "i < length (write_at xs off d)"
  shows "write_at xs off d ! i =
    (if off \<le> i \<and> i < off + length d then d ! (i - off)
     else if i < length xs then xs ! i else 0)"
proof (cases "d = []")
  case True
  with assms show ?thesis by (auto simp: write_at_def)
next
  case False
  with assms show ?thesis
    by (auto simp: write_at_def copy_slice_def nth_append length_write_at min_def)
qed

lemma read_at_write_at: "read_at (write_at xs off d) off (length d) = d"
  by (rule nth_equalityI) (auto simp: slice_simps)

lemma read_at_write_at_disjoint:
  assumes "off' + n \<le> off \<or> off + length d \<le> off'" and "off' + n \<le> length xs"
  shows "read_at (write_at xs off d) off' n = read_at xs off' n"
  using assms by (intro nth_equalityI) (auto simp: slice_simps)

subsection \<open>Sums as results\<close>

definition is_ok :: "'e + 'a \<Rightarrow> bool" where
  "is_ok r = (case r of Inl _ \<Rightarrow> False | Inr _ \<Rightarrow> True)"

lemma is_ok_simps [simp]: "is_ok (Inr x)" "\<not> is_ok (Inl e)"
  by (simp_all add: is_ok_def)

lemma is_ok_iff: "is_ok r \<longleftrightarrow> (\<exists>x. r = Inr x)"
  by (cases r) auto

definition map_err :: "('e \<Rightarrow> 'f) \<Rightarrow> 'e + 'a \<Rightarrow> 'f + 'a" where
  "map_err f r = (case r of Inl e \<Rightarrow> Inl (f e) | Inr x \<Rightarrow> Inr x)"

lemma map_err_simps [simp]:
  "map_err f (Inl e) = Inl (f e)" "map_err f (Inr x) = Inr x"
  "map_err f r = Inr x \<longleftrightarrow> r = Inr x"
  by (cases r; auto simp: map_err_def)+

subsection \<open>Splitting at a separator\<close>

text \<open>\<open>str::split(c)\<close>: \<open>k\<close> separators give \<open>k + 1\<close> pieces.\<close>

fun split_on :: "'a \<Rightarrow> 'a list \<Rightarrow> 'a list list" where
  "split_on c [] = [[]]"
| "split_on c (x # xs) =
     (if x = c then [] # split_on c xs
      else (case split_on c xs of [] \<Rightarrow> [[x]] | p # ps \<Rightarrow> (x # p) # ps))"

lemma split_on_nonempty [simp]: "split_on c xs \<noteq> []"
  by (induction xs) (auto split: list.splits)

lemma split_on_no_sep: "c \<notin> set xs \<Longrightarrow> split_on c xs = [xs]"
  by (induction xs) auto

lemma split_on_append: "split_on c (xs @ c # ys) = split_on c xs @ split_on c ys"
  by (induction xs) (auto split: list.splits)

lemma split_on_pieces: "p \<in> set (split_on c xs) \<Longrightarrow> c \<notin> set p"
proof (induction xs arbitrary: p)
  case Nil
  then show ?case by simp
next
  case (Cons x xs)
  show ?case
  proof (cases "x = c")
    case True
    with Cons show ?thesis by auto
  next
    case False
    obtain q qs where qs: "split_on c xs = q # qs" by (cases "split_on c xs") auto
    have "\<And>r. r \<in> set (q # qs) \<Longrightarrow> c \<notin> set r" using Cons.IH qs by simp
    with False Cons.prems qs show ?thesis by auto
  qed
qed

subsection \<open>Association lists\<close>

lemma map_of_alist_update: "map_of (AList.update k v al) = (map_of al)(k \<mapsto> v)"
  by (simp add: update_conv' )

lemma map_of_alist_delete: "map_of (AList.delete k al) = (map_of al)(k := None)"
  by (simp add: delete_conv')

subsection \<open>Panics\<close>

text \<open>A call that unwinds the thread is \<open>Panic\<close>; its state effects up to then remain.\<close>

datatype 'a outcome = Panic | Ret 'a

definition outcome_bind :: "'a outcome \<Rightarrow> ('a \<Rightarrow> 'b outcome) \<Rightarrow> 'b outcome" where
  "outcome_bind r f = (case r of Panic \<Rightarrow> Panic | Ret x \<Rightarrow> f x)"

lemma outcome_bind_simps [simp]:
  "outcome_bind Panic f = Panic" "outcome_bind (Ret x) f = f x"
  by (simp_all add: outcome_bind_def)

lemma outcome_bind_Ret: "outcome_bind r f = Ret y \<longleftrightarrow> (\<exists>x. r = Ret x \<and> f x = Ret y)"
  by (cases r) auto

lemma outcome_exhaust_iff: "r \<noteq> Panic \<longleftrightarrow> (\<exists>x. r = Ret x)"
  by (cases r) auto

end
