(* ===== verification/Rust_Path.thy ===== *)
theory Rust_Path
  imports Prelude
begin

text \<open>
  \<open>std::path\<close> on Unix, as far as the sources use it, and \<open>normalize_path\<close> of
  \<open>server/src/util.rs\<close> (the client has the same function in \<open>client/src/util.rs\<close>).

  \<^item> A \<open>Path\<close> of the client, and every path that is only compared or taken apart, is its list
    of \<open>components()\<close>: that is what \<open>Path\<close>'s equality and hash look at. \<open>components\<close> reads a
    string, \<open>path_render\<close> writes the canonical string of a list.
  \<^item> A path handed to the operating system is the list of its pieces between slashes after the
    leading one (\<open>ospath\<close>), empty and \<open>.\<close> pieces kept, because the kernel sees them.
  There is no \<open>Prefix\<close> component: it exists on Windows only.
\<close>

datatype component = RootDir | CurDir | ParentDir | Normal string

type_synonym pathbuf = "component list"
type_synonym ospath = "string list"

abbreviation slash :: char where "slash \<equiv> CHR ''/''"

definition seg_comp :: "string \<Rightarrow> component" where
  "seg_comp s = (if s = ''..'' then ParentDir else Normal s)"

definition real_seg :: "string \<Rightarrow> bool" where
  "real_seg s \<longleftrightarrow> s \<noteq> '''' \<and> s \<noteq> ''.''"

text \<open>\<open>Path::components\<close>: repeated slashes and inner \<open>.\<close> vanish, a leading \<open>.\<close> of a relative
  path is \<open>CurDir\<close>, \<open>..\<close> is kept.\<close>

definition components :: "string \<Rightarrow> pathbuf" where
  "components p =
     (let segs = split_on slash p
      in (if p \<noteq> [] \<and> hd p = slash then [RootDir]
          else if hd segs = ''.'' then [CurDir] else [])
         @ map seg_comp (filter real_seg segs))"

fun comp_str :: "component \<Rightarrow> string" where
  "comp_str RootDir = ''''"
| "comp_str CurDir = ''.''"
| "comp_str ParentDir = ''..''"
| "comp_str (Normal n) = n"

fun path_render :: "pathbuf \<Rightarrow> string" where
  "path_render [] = ''''"
| "path_render [RootDir] = ''/''"
| "path_render (RootDir # cs) = concat (map (\<lambda>c. slash # comp_str c) cs)"
| "path_render (c # cs) = comp_str c @ concat (map (\<lambda>c. slash # comp_str c) cs)"

definition path_parent :: "pathbuf \<Rightarrow> pathbuf option" where
  "path_parent cs = (case rev cs of [] \<Rightarrow> None | RootDir # _ \<Rightarrow> None | _ # r \<Rightarrow> Some (rev r))"

definition path_file_name :: "pathbuf \<Rightarrow> string option" where
  "path_file_name cs = (case rev cs of Normal n # _ \<Rightarrow> Some n | _ \<Rightarrow> None)"

text \<open>\<open>Path::join\<close>: an absolute argument replaces the path.\<close>

definition path_join :: "pathbuf \<Rightarrow> string \<Rightarrow> pathbuf" where
  "path_join p s =
     (case components s of
        RootDir # cs \<Rightarrow> RootDir # cs
      | CurDir # cs \<Rightarrow> (if p = [] then CurDir # cs else p @ cs)
      | cs \<Rightarrow> p @ cs)"

definition plain_name :: "string \<Rightarrow> bool" where
  "plain_name n \<longleftrightarrow> n \<noteq> '''' \<and> n \<noteq> ''.'' \<and> n \<noteq> ''..'' \<and> slash \<notin> set n"

definition abs_path :: "string list \<Rightarrow> pathbuf" where
  "abs_path ns = RootDir # map Normal ns"

lemma split_on_joined:
  assumes "slash \<notin> set n" and "\<forall>m \<in> set ns. slash \<notin> set m"
  shows "split_on slash (n @ concat (map (\<lambda>m. slash # m) ns)) = n # ns"
  using assms
proof (induction ns arbitrary: n)
  case Nil
  then show ?case by (simp add: split_on_no_sep)
next
  case (Cons m ns)
  have "split_on slash (n @ slash # (m @ concat (map (\<lambda>m. slash # m) ns)))
    = split_on slash n @ split_on slash (m @ concat (map (\<lambda>m. slash # m) ns))"
    by (rule split_on_append)
  with Cons show ?case by (simp add: split_on_no_sep)
qed

lemma seg_comp_plain: "plain_name n \<Longrightarrow> seg_comp n = Normal n"
  by (simp add: seg_comp_def plain_name_def)

lemma real_seg_plain: "plain_name n \<Longrightarrow> real_seg n"
  by (simp add: real_seg_def plain_name_def)

lemma components_render_abs:
  assumes "\<forall>n \<in> set ns. plain_name n"
  shows "components (path_render (abs_path ns)) = abs_path ns"
proof (cases ns)
  case Nil
  then show ?thesis by (simp add: abs_path_def components_def real_seg_def)
next
  case (Cons m ms)
  have str: "path_render (abs_path ns) = [] @ concat (map (\<lambda>m. slash # m) ns)"
    using Cons by (simp add: abs_path_def comp_def)
  have "split_on slash (path_render (abs_path ns)) = [] # ns"
    unfolding str using assms by (intro split_on_joined) (auto simp: plain_name_def)
  moreover have "filter real_seg ([] # ns) = ns"
    using assms by (auto simp: real_seg_def plain_name_def filter_id_conv)
  moreover have "map seg_comp ns = map Normal ns"
    using assms by (auto simp: seg_comp_plain)
  ultimately show ?thesis
    using Cons by (simp add: components_def abs_path_def Let_def)
qed

lemma path_join_plain: "plain_name n \<Longrightarrow> path_join p n = p @ [Normal n]"
proof -
  assume n: "plain_name n"
  then have "split_on slash n = [n]" by (simp add: plain_name_def split_on_no_sep)
  moreover have "n \<noteq> [] \<and> hd n \<noteq> slash" using n by (cases n) (auto simp: plain_name_def)
  ultimately have "components n = [Normal n]"
    using n by (simp add: components_def seg_comp_plain real_seg_plain) (simp add: plain_name_def)
  then show ?thesis by (simp add: path_join_def)
qed

lemma path_parent_abs: "path_parent (abs_path (ns @ [n])) = Some (abs_path ns)"
  by (simp add: path_parent_def abs_path_def)

lemma path_parent_root [simp]: "path_parent [RootDir] = None"
  by (simp add: path_parent_def)

lemma path_parent_snoc:
  "path_parent (p @ [c]) = (if c = RootDir then None else Some p)"
  by (cases c) (simp_all add: path_parent_def)

lemma path_file_name_snoc: "path_file_name (p @ [Normal n]) = Some n"
  by (simp add: path_file_name_def)

lemma path_parent_shorter: "path_parent p = Some q \<Longrightarrow> length q < length p"
  by (cases p rule: rev_cases) (auto simp: path_parent_snoc path_parent_def [of "[]"] split: if_splits)

subsection \<open>\<open>normalize_path\<close>\<close>

text \<open>\<open>PathBuf::pop\<close> truncates to the parent, if there is one.\<close>

definition path_pop :: "pathbuf \<Rightarrow> pathbuf" where
  "path_pop p = (case path_parent p of None \<Rightarrow> p | Some q \<Rightarrow> q)"

fun normalize_step :: "pathbuf \<Rightarrow> component \<Rightarrow> pathbuf" where
  "normalize_step ret RootDir = [RootDir]"
| "normalize_step ret CurDir = ret"
| "normalize_step ret ParentDir = path_pop ret"
| "normalize_step ret (Normal c) = ret @ [Normal c]"

definition normalize_path :: "pathbuf \<Rightarrow> pathbuf" where
  "normalize_path p = foldl normalize_step [] p"

definition normalize_optional_path :: "pathbuf option \<Rightarrow> pathbuf option" where
  "normalize_optional_path p = map_option normalize_path p"

definition is_normal :: "component \<Rightarrow> bool" where
  "is_normal c = (case c of Normal _ \<Rightarrow> True | _ \<Rightarrow> False)"

text \<open>The shape of a normalised path: an optional root, then names only.\<close>

definition normalized :: "pathbuf \<Rightarrow> bool" where
  "normalized p \<longleftrightarrow> (case p of RootDir # cs \<Rightarrow> list_all is_normal cs | cs \<Rightarrow> list_all is_normal cs)"

lemma normalized_cases:
  assumes "normalized p"
  obtains ns where "p = map Normal ns" | ns where "p = abs_path ns"
proof -
  have names: "\<exists>ns. cs = map Normal ns" if "list_all is_normal cs" for cs :: pathbuf
    using that
  proof (induction cs)
    case (Cons c cs)
    then obtain ns n where "cs = map Normal ns" and "c = Normal n"
      by (auto simp: is_normal_def split: component.splits)
    then show ?case by (intro exI [of _ "n # ns"]) simp
  qed simp
  show thesis
  proof (cases p)
    case Nil
    with that(1) [of "[]"] show ?thesis by simp
  next
    case (Cons c cs)
    show ?thesis
    proof (cases "c = RootDir")
      case True
      with assms Cons obtain ns where "cs = map Normal ns"
        using names [of cs] by (auto simp: normalized_def)
      with Cons True that(2) [of ns] show ?thesis by (simp add: abs_path_def)
    next
      case False
      with assms Cons have "list_all is_normal p"
        by (cases c) (auto simp: normalized_def)
      then obtain ns where "p = map Normal ns" using names [of p] by blast
      then show ?thesis by (rule that(1))
    qed
  qed
qed

lemma normalized_names [simp]:
  "normalized []" "normalized [RootDir]" "normalized (map Normal ns)" "normalized (abs_path ns)"
  by (cases ns; auto simp: normalized_def abs_path_def is_normal_def list_all_iff)+

lemma normalized_pop: "normalized p \<Longrightarrow> normalized (path_pop p)"
proof (elim normalized_cases)
  fix ns assume "p = map Normal ns"
  then show ?thesis
    by (cases ns rule: rev_cases) (auto simp: path_pop_def path_parent_def)
next
  fix ns assume "p = abs_path ns"
  then show ?thesis
    by (cases ns rule: rev_cases) (auto simp: path_pop_def path_parent_def abs_path_def normalized_def
        is_normal_def list_all_iff)
qed

lemma normalized_snoc: "normalized p \<Longrightarrow> normalized (p @ [Normal n])"
  by (elim normalized_cases)
     (use normalized_names(3) [of "_ @ [n]"] normalized_names(4) [of "_ @ [n]"] in
        \<open>auto simp: abs_path_def\<close>)

lemma normalize_step_normalized: "normalized ret \<Longrightarrow> normalized (normalize_step ret c)"
  by (cases c) (simp_all add: normalized_pop normalized_snoc)

lemma foldl_normalize_normalized: "normalized ret \<Longrightarrow> normalized (foldl normalize_step ret p)"
  by (induction p arbitrary: ret) (auto simp: normalize_step_normalized)

lemma normalize_path_normalized: "normalized (normalize_path p)"
  by (simp add: normalize_path_def foldl_normalize_normalized)

lemma foldl_normalize_names: "foldl normalize_step ret (map Normal ns) = ret @ map Normal ns"
  by (induction ns arbitrary: ret) auto

lemma normalize_path_id: "normalized p \<Longrightarrow> normalize_path p = p"
  by (elim normalized_cases)
     (simp_all add: normalize_path_def abs_path_def foldl_normalize_names)

subsection \<open>Paths handed to the operating system\<close>

definition os_components :: "ospath \<Rightarrow> component list" where
  "os_components p = map seg_comp (filter real_seg p)"

definition os_rtrim :: "ospath \<Rightarrow> ospath" where
  "os_rtrim p = rev (dropWhile (\<lambda>s. \<not> real_seg s) (rev p))"

definition os_parent :: "ospath \<Rightarrow> ospath option" where
  "os_parent p =
     (let q = os_rtrim p in if q = [] then None else Some (os_rtrim (butlast q)))"

definition os_file_name :: "ospath \<Rightarrow> string option" where
  "os_file_name p = path_file_name (os_components p)"

definition os_join :: "ospath \<Rightarrow> string \<Rightarrow> ospath" where
  "os_join p s =
     (if s \<noteq> [] \<and> hd s = slash then tl (split_on slash s)
      else (if p \<noteq> [] \<and> last p = '''' then butlast p else p) @ split_on slash s)"

text \<open>\<open>Path::with_extension\<close>: what follows the last dot of the file name is replaced; a name
  whose only dot is its first character has no extension.\<close>

definition file_stem :: "string \<Rightarrow> string" where
  "file_stem n =
     (let b = rev (tl (dropWhile (\<lambda>c. c \<noteq> CHR ''.'') (rev n)))
      in if CHR ''.'' \<notin> set n \<or> b = [] then n else b)"

definition os_with_extension :: "ospath \<Rightarrow> string \<Rightarrow> ospath" where
  "os_with_extension p ext =
     (case os_file_name p of
        None \<Rightarrow> p
      | Some n \<Rightarrow> butlast (os_rtrim p) @ [file_stem n @ (if ext = [] then [] else CHR ''.'' # ext)])"

end
