(* ===== verification/Server_Attributes.thy ===== *)
theory Server_Attributes
  imports Prelude
begin

unbundle bit_operations_syntax

text \<open>
  The data model of the server: \<open>server/src/attributes.rs\<close> and \<open>server/src/error.rs\<close>.
  The variants of the error enums are kept, the message strings they carry are not: no code
  branches on them. The trait \<open>Conversion\<close> of \<open>attributes.rs\<close> is the locale \<open>conversion\<close>,
  interpreted on the three types that implement it.
\<close>

subsection \<open>Errors (\<open>error.rs\<close>)\<close>

text \<open>The kinds of \<open>std::io::Error\<close> that the file operations of the sources can meet.\<close>

datatype io_error =
  Io_NotFound | Io_AlreadyExists | Io_PermissionDenied | Io_DirectoryNotEmpty | Io_Unsupported
| Io_NotADirectory | Io_IsADirectory | Io_FilesystemLoop | Io_InvalidInput | Io_ResourceBusy
| Io_Other

datatype storage_error =
  St_Io io_error | St_NotFound | St_InvalidPath | St_AlreadyExists | St_PermissionDenied
| St_DirectoryNotEmpty | St_UnsupportedOperation | St_ConversionFailed | St_MetadataError
| St_Other

datatype database_error =
  Db_CreationError | Db_ConnectionError | Db_MigrationError | Db_QueryError | Db_Other

datatype authentication_error = Auth_Unauthorized | Auth_NotFound

datatype api_error =
  Api_Unauthorized
| Api_NotFound | Api_AlreadyExists | Api_NotADirectory | Api_IsADirectory | Api_DirectoryNotEmpty
| Api_PermissionDenied | Api_OperationNotPermitted
| Api_StorageFull | Api_OutOfMemory
| Api_InvalidInput | Api_FileTooLarge
| Api_Unsupported | Api_CrossDeviceLink
| Api_IoError | Api_TextFileBusy
| Api_ResourceBusy | Api_TryAgain
| Api_InternalError

fun storage_error_of_io :: "io_error \<Rightarrow> storage_error" where
  "storage_error_of_io Io_NotFound = St_NotFound"
| "storage_error_of_io Io_AlreadyExists = St_AlreadyExists"
| "storage_error_of_io Io_PermissionDenied = St_PermissionDenied"
| "storage_error_of_io Io_DirectoryNotEmpty = St_DirectoryNotEmpty"
| "storage_error_of_io Io_Unsupported = St_UnsupportedOperation"
| "storage_error_of_io e = St_Io e"

fun api_error_of_storage :: "storage_error \<Rightarrow> api_error" where
  "api_error_of_storage (St_Io e) = Api_IoError"
| "api_error_of_storage St_NotFound = Api_NotFound"
| "api_error_of_storage St_InvalidPath = Api_InvalidInput"
| "api_error_of_storage St_AlreadyExists = Api_AlreadyExists"
| "api_error_of_storage St_PermissionDenied = Api_PermissionDenied"
| "api_error_of_storage St_UnsupportedOperation = Api_Unsupported"
| "api_error_of_storage St_DirectoryNotEmpty = Api_DirectoryNotEmpty"
| "api_error_of_storage St_ConversionFailed = Api_InternalError"
| "api_error_of_storage St_MetadataError = Api_InternalError"
| "api_error_of_storage St_Other = Api_InternalError"

fun api_error_of_authentication :: "authentication_error \<Rightarrow> api_error" where
  "api_error_of_authentication Auth_Unauthorized = Api_Unauthorized"
| "api_error_of_authentication Auth_NotFound = Api_NotFound"

fun api_error_of_database :: "database_error \<Rightarrow> api_error" where
  "api_error_of_database Db_CreationError = Api_InternalError"
| "api_error_of_database Db_ConnectionError = Api_InternalError"
| "api_error_of_database Db_MigrationError = Api_InternalError"
| "api_error_of_database Db_QueryError = Api_InternalError"
| "api_error_of_database Db_Other = Api_InternalError"

subsection \<open>Attributes (\<open>attributes.rs\<close>)\<close>

datatype file_type =
  NamedPipe | CharDevice | BlockDevice | Directory_T | RegularFile | Symlink_T | Socket

record timestamp =
  ts_sec :: i64
  ts_nsec :: u32

record file_attr =
  fa_size :: u64
  fa_blocks :: u64
  fa_atime :: timestamp
  fa_mtime :: timestamp
  fa_ctime :: timestamp
  fa_kind :: file_type
  fa_perm :: u32
  fa_nlink :: u32
  fa_uid :: u32
  fa_gid :: u32
  fa_rdev :: u32
  fa_blksize :: u32

record permission_type =
  p_read :: bool
  p_write :: bool
  p_execute :: bool

record permission =
  p_user :: permission_type
  p_group :: permission_type
  p_other :: permission_type

datatype operation = Op_Read | Op_Write | Op_Execute | Op_OwnerOnly

definition operation_try_from :: "u32 \<Rightarrow> api_error + operation" where
  "operation_try_from m =
     (if m = 4 then Inr Op_Read else if m = 2 then Inr Op_Write
      else if m = 1 then Inr Op_Execute else Inl Api_InvalidInput)"

text \<open>\<open>str::parse::<u32>()\<close>: an optional \<open>+\<close>, then at least one decimal digit, in range.\<close>

fun parse_digits :: "nat \<Rightarrow> string \<Rightarrow> nat option" where
  "parse_digits acc [] = Some acc"
| "parse_digits acc (c # cs) =
     (let d = (of_char c :: nat)
      in if 48 \<le> d \<and> d \<le> 57 then parse_digits (10 * acc + (d - 48)) cs else None)"

definition parse_u32 :: "string \<Rightarrow> u32 option" where
  "parse_u32 s =
     (let ds = (if s \<noteq> [] \<and> hd s = CHR ''+'' then tl s else s)
      in if ds = [] then None
         else (case parse_digits 0 ds of
                 None \<Rightarrow> None
               | Some n \<Rightarrow> (if n < 2 ^ 32 then Some (of_nat n) else None)))"

definition get_mask :: "string \<Rightarrow> api_error + u32" where
  "get_mask q = (case parse_u32 q of None \<Rightarrow> Inl Api_InvalidInput | Some m \<Rightarrow> Inr m)"

text \<open>
  \<open>std::time::SystemTime\<close> on Unix: whole seconds since the epoch (an \<open>i64\<close>) and nanoseconds
  below one second. A conversion that panics is \<open>None\<close>.
\<close>

record systime =
  st_sec :: int
  st_nsec :: nat

definition systime_ok :: "systime \<Rightarrow> bool" where
  "systime_ok t \<longleftrightarrow> - (2 ^ 63) \<le> st_sec t \<and> st_sec t < 2 ^ 63 \<and> st_nsec t < 1000000000"

definition timestamp_from_systime :: "systime \<Rightarrow> timestamp" where
  "timestamp_from_systime t =
     (if st_sec t < 0 then \<lparr>ts_sec = 0, ts_nsec = 0\<rparr>
      else \<lparr>ts_sec = (if st_sec t < 2 ^ 63 then of_int (st_sec t) else 2 ^ 63 - 1),
            ts_nsec = of_nat (st_nsec t)\<rparr>)"

text \<open>\<open>Duration::new(sec as u64, nsec)\<close> carries whole seconds and panics when the sum leaves
  \<open>u64\<close>; \<open>UNIX_EPOCH.checked_add(d).unwrap()\<close> panics when the result leaves \<open>i64\<close>.\<close>

definition systime_from_timestamp :: "timestamp \<Rightarrow> systime option" where
  "systime_from_timestamp t =
     (let secs = unat (ts_sec t) + unat (ts_nsec t) div 1000000000
      in if 2 ^ 64 \<le> secs then None
         else if 2 ^ 63 \<le> secs then None
         else Some \<lparr>st_sec = int secs, st_nsec = unat (ts_nsec t) mod 1000000000\<rparr>)"

record set_attr =
  sa_mode :: "u32 option"
  sa_uid :: "u32 option"
  sa_gid :: "u32 option"
  sa_size :: "u64 option"
  sa_atime :: "timestamp option"
  sa_mtime :: "timestamp option"
  sa_ctime :: "timestamp option"
  sa_crtime :: "timestamp option"
  sa_chgtime :: "timestamp option"
  sa_bkuptime :: "timestamp option"
  sa_flags :: "u32 option"

record stats =
  s_blocks :: u64
  s_bfree :: u64
  s_bavail :: u64
  s_files :: u64
  s_ffree :: u64
  s_bsize :: u32
  s_namelen :: u32
  s_frsize :: u32

subsection \<open>The \<open>Conversion\<close> trait\<close>

text \<open>
  An implementation encodes a value and decodes codes, decoding with an error for the codes
  it does not know. What its users rely on is that decoding inverts encoding.
\<close>

locale conversion =
  fixes from_target :: "'a \<Rightarrow> 'c"
    and try_to_target :: "'c \<Rightarrow> 'e + 'a"
  assumes try_from_target: "try_to_target (from_target x) = Inr x"
begin

lemma from_target_inj: "from_target x = from_target y \<longleftrightarrow> x = y"
  by (metis try_from_target sum.inject(2))

lemma try_to_target_onto: "\<exists>c. try_to_target c = Inr x"
  using try_from_target by blast

lemma recode: "try_to_target c = Inr x \<Longrightarrow> try_to_target (from_target x) = try_to_target c"
  by (simp add: try_from_target)

end

fun file_type_code :: "file_type \<Rightarrow> u32" where
  "file_type_code NamedPipe = 0"
| "file_type_code CharDevice = 1"
| "file_type_code BlockDevice = 2"
| "file_type_code Directory_T = 3"
| "file_type_code RegularFile = 4"
| "file_type_code Symlink_T = 5"
| "file_type_code Socket = 6"

definition file_type_of_code :: "u32 \<Rightarrow> api_error + file_type" where
  "file_type_of_code v =
     (if v = 0 then Inr NamedPipe else if v = 1 then Inr CharDevice
      else if v = 2 then Inr BlockDevice else if v = 3 then Inr Directory_T
      else if v = 4 then Inr RegularFile else if v = 5 then Inr Symlink_T
      else if v = 6 then Inr Socket else Inl Api_InvalidInput)"

definition permission_type_code :: "permission_type \<Rightarrow> i32" where
  "permission_type_code p =
     (let v = 0;
          v = (if p_read p then v OR 4 else v);
          v = (if p_write p then v OR 2 else v);
          v = (if p_execute p then v OR 1 else v)
      in v)"

definition permission_type_of_code :: "i32 \<Rightarrow> api_error + permission_type" where
  "permission_type_of_code v =
     Inr \<lparr>p_read = (v AND 4 \<noteq> 0), p_write = (v AND 2 \<noteq> 0), p_execute = (v AND 1 \<noteq> 0)\<rparr>"

definition permission_code :: "permission \<Rightarrow> i32" where
  "permission_code p =
     push_bit 6 (permission_type_code (p_user p)) OR push_bit 3 (permission_type_code (p_group p))
     OR permission_type_code (p_other p)"

definition permission_of_code :: "i32 \<Rightarrow> api_error + permission" where
  "permission_of_code v =
     (case permission_type_of_code (signed_drop_bit 6 v) of Inl e \<Rightarrow> Inl e
      | Inr u \<Rightarrow> (case permission_type_of_code (signed_drop_bit 3 v) of Inl e \<Rightarrow> Inl e
      | Inr g \<Rightarrow> (case permission_type_of_code v of Inl e \<Rightarrow> Inl e
      | Inr p \<Rightarrow> Inr \<lparr>p_user = u, p_group = g, p_other = p\<rparr>)))"

text \<open>\<open>TryFrom<u16> for Permission\<close>, generated by \<open>impl_conversion!(Permission, u16, i32)\<close>.\<close>

definition permission_try_from :: "u16 \<Rightarrow> api_error + permission" where
  "permission_try_from v = permission_of_code (ucast v)"

lemma bit_mask_simps:
  "((v :: 'a :: len word) AND 4 \<noteq> 0) = bit v 2" "(v AND 2 \<noteq> 0) = bit v 1" "(v AND 1 \<noteq> 0) = bit v 0"
  using and_exp_eq_0_iff_not_bit [of v 2] and_exp_eq_0_iff_not_bit [of v 1]
    and_exp_eq_0_iff_not_bit [of v 0] by simp_all

lemma bit_permission_type_code:
  "bit (permission_type_code p) n \<longleftrightarrow>
     n = 2 \<and> p_read p \<or> n = 1 \<and> p_write p \<or> n = 0 \<and> p_execute p"
proof -
  have "bit (4 :: i32) n \<longleftrightarrow> n = 2" and "bit (2 :: i32) n \<longleftrightarrow> n = 1"
    using bit_exp_iff [where 'a = "32 word", of 2 n] bit_exp_iff [where 'a = "32 word", of 1 n]
    by auto
  then show ?thesis
    by (auto simp: permission_type_code_def Let_def bit_or_iff bit_1_iff)
qed

lemma permission_of_code_eq:
  "permission_of_code v = Inr \<lparr>
     p_user = \<lparr>p_read = bit v 8, p_write = bit v 7, p_execute = bit v 6\<rparr>,
     p_group = \<lparr>p_read = bit v 5, p_write = bit v 4, p_execute = bit v 3\<rparr>,
     p_other = \<lparr>p_read = bit v 2, p_write = bit v 1, p_execute = bit v 0\<rparr>\<rparr>"
  by (simp add: permission_of_code_def permission_type_of_code_def bit_mask_simps
      bit_signed_drop_bit_iff)

interpretation file_type_conv: conversion file_type_code file_type_of_code
proof
  fix x show "file_type_of_code (file_type_code x) = Inr x"
    by (cases x) (simp_all add: file_type_of_code_def)
qed

interpretation permission_type_conv: conversion permission_type_code permission_type_of_code
  by unfold_locales
     (simp add: permission_type_of_code_def bit_mask_simps bit_permission_type_code)

interpretation permission_conv: conversion permission_code permission_of_code
  by unfold_locales
     (simp add: permission_of_code_eq permission_code_def bit_or_iff bit_push_bit_iff
        bit_permission_type_code)

lemma permission_try_from_ok: "\<exists>p. permission_try_from v = Inr p"
  by (simp add: permission_try_from_def permission_of_code_eq)

lemma systime_timestamp_roundtrip:
  assumes "systime_ok t" and "0 \<le> st_sec t"
  shows "systime_from_timestamp (timestamp_from_systime t) = Some t"
proof -
  from assms have s: "unat (of_int (st_sec t) :: i64) = nat (st_sec t)"
    by (simp add: systime_ok_def unat_eq_nat_uint word_of_int_inverse uint_word_of_int_eq
        take_bit_int_eq_self)
  from assms have n: "unat (of_nat (st_nsec t) :: u32) = st_nsec t"
    by (simp add: systime_ok_def unat_of_nat take_bit_nat_eq_self)
  from assms have "nat (st_sec t) < 2 ^ 63" by (simp add: systime_ok_def nat_less_iff)
  then show ?thesis
    using assms by (simp add: systime_from_timestamp_def timestamp_from_systime_def s n
        systime_ok_def Let_def)
qed

lemma systime_from_timestamp_panics:
  "systime_from_timestamp t = None \<longleftrightarrow>
     2 ^ 63 \<le> unat (ts_sec t) + unat (ts_nsec t) div 1000000000"
  by (auto simp: systime_from_timestamp_def Let_def)

end
