(* ===== verification/Unix_FS.thy ===== *)
theory Unix_FS
  imports Rust_Path Server_Attributes "HOL-Library.Sublist"
begin

text \<open>
  The part of \<open>std::fs\<close> that \<open>server/src/storage.rs\<close> uses, on a Unix kernel: a tree of nodes,
  path walks that follow symbolic links, and one function per operation. The server process
  runs as root (README, Server Setup), so the kernel itself refuses nothing on permissions.

  Bounds of the model: one mounted file system without hard links; device, pipe and socket
  nodes exist but are not opened; out-of-space and hardware errors do not occur; a directory's
  own times do not move when an entry of it changes; path names are free of NUL bytes and
  within the kernel's length limits.
\<close>

subsection \<open>Nodes\<close>

record meta =
  m_perm :: u32
  m_uid :: u32
  m_gid :: u32
  m_atime :: systime
  m_mtime :: systime
  m_ctime :: timestamp
  m_size :: u64 \<comment> \<open>what \<open>st_size\<close> says for a directory or a special file\<close>

datatype node =
  FileN meta bytes
| DirN meta "(string \<times> node) list"
| LinkN meta string
| OtherN meta u32 \<comment> \<open>device, pipe or socket, with its type bits\<close>

fun node_meta :: "node \<Rightarrow> meta" where
  "node_meta (FileN m b) = m"
| "node_meta (DirN m es) = m"
| "node_meta (LinkN m t) = m"
| "node_meta (OtherN m t) = m"

fun node_with_meta :: "(meta \<Rightarrow> meta) \<Rightarrow> node \<Rightarrow> node" where
  "node_with_meta f (FileN m b) = FileN (f m) b"
| "node_with_meta f (DirN m es) = DirN (f m) es"
| "node_with_meta f (LinkN m t) = LinkN (f m) t"
| "node_with_meta f (OtherN m t) = OtherN (f m) t"

fun is_dir :: "node \<Rightarrow> bool" where
  "is_dir (DirN m es) = True" | "is_dir _ = False"

fun is_file :: "node \<Rightarrow> bool" where
  "is_file (FileN m b) = True" | "is_file _ = False"

fun is_symlink :: "node \<Rightarrow> bool" where
  "is_symlink (LinkN m t) = True" | "is_symlink _ = False"

text \<open>\<open>Metadata::len\<close> and \<open>Permissions::mode\<close>: the mode holds the type bits too.\<close>

fun node_len :: "node \<Rightarrow> u64" where
  "node_len (FileN m b) = of_nat (length b)"
| "node_len (LinkN m t) = of_nat (length t)"
| "node_len n = m_size (node_meta n)"

fun node_type_bits :: "node \<Rightarrow> u32" where
  "node_type_bits (FileN m b) = 0x8000"
| "node_type_bits (DirN m es) = 0x4000"
| "node_type_bits (LinkN m t) = 0xA000"
| "node_type_bits (OtherN m t) = t"

definition node_mode :: "node \<Rightarrow> u32" where
  "node_mode n = node_type_bits n OR m_perm (node_meta n)"

lemma node_meta_with_meta [simp]: "node_meta (node_with_meta f n) = f (node_meta n)"
  by (cases n) auto

lemma is_dir_iff: "is_dir n \<longleftrightarrow> (\<exists>m es. n = DirN m es)"
  by (cases n) auto

subsection \<open>The tree\<close>

fun nlookup :: "node \<Rightarrow> string list \<Rightarrow> node option" where
  "nlookup t [] = Some t"
| "nlookup (DirN m es) (x # xs) =
     (case map_of es x of None \<Rightarrow> None | Some c \<Rightarrow> nlookup c xs)"
| "nlookup t (x # xs) = None"

fun nset :: "node \<Rightarrow> string list \<Rightarrow> node \<Rightarrow> node" where
  "nset t [] n = n"
| "nset (DirN m es) (x # xs) n =
     (case map_of es x of
        None \<Rightarrow> (if xs = [] then DirN m (AList.update x n es) else DirN m es)
      | Some c \<Rightarrow> DirN m (AList.update x (nset c xs n) es))"
| "nset t (x # xs) n = t"

fun ndel :: "node \<Rightarrow> string list \<Rightarrow> node" where
  "ndel (DirN m es) (x # xs) =
     (if xs = [] then DirN m (AList.delete x es)
      else (case map_of es x of
              None \<Rightarrow> DirN m es
            | Some c \<Rightarrow> DirN m (AList.update x (ndel c xs) es)))"
| "ndel t p = t"

definition dir_at :: "node \<Rightarrow> string list \<Rightarrow> bool" where
  "dir_at t p = (case nlookup t p of Some n \<Rightarrow> is_dir n | None \<Rightarrow> False)"

definition exists_at :: "node \<Rightarrow> string list \<Rightarrow> bool" where
  "exists_at t p \<longleftrightarrow> nlookup t p \<noteq> None"

lemma nlookup_append:
  "nlookup t (p @ q) = (case nlookup t p of None \<Rightarrow> None | Some n \<Rightarrow> nlookup n q)"
  by (induction t p rule: nlookup.induct) (auto split: option.splits)

lemma nlookup_parent_dir:
  "nlookup t (p @ [x]) = Some n \<Longrightarrow> dir_at t p"
  by (auto simp: nlookup_append dir_at_def split: option.splits) (metis nlookup.simps(3-5) is_dir.elims(3) option.distinct(1))

lemma nlookup_prefix_dir:
  assumes "nlookup t q = Some n" and "strict_prefix p q"
  shows "dir_at t p"
proof -
  from assms(2) obtain x r where q: "q = p @ x # r"
    by (auto simp: strict_prefix_def prefix_def) (metis append_Nil2 neq_Nil_conv)
  then have "nlookup t (p @ [x]) \<noteq> None"
    using assms(1) by (metis append_Cons append_Nil append_assoc nlookup_append not_None_eq option.simps(4) q)
  then show ?thesis by (auto dest: nlookup_parent_dir)
qed

lemma nlookup_nset_same [tree_simps]:
  assumes "p = [] \<or> dir_at t (butlast p)"
  shows "nlookup (nset t p n) p = Some n"
  using assms
proof (induction t p n rule: nset.induct)
  case (2 m es x xs n)
  then show ?case
    by (cases xs) (auto simp: map_of_alist_update dir_at_def split: option.splits)
qed (auto simp: dir_at_def split: if_splits)

lemma nlookup_nset_below [tree_simps]:
  assumes "p = [] \<or> dir_at t (butlast p)"
  shows "nlookup (nset t p n) (p @ r) = nlookup n r"
  using nlookup_nset_same [OF assms, of n] by (simp add: nlookup_append)

lemma nlookup_nset_parallel [tree_simps]:
  "p \<parallel> q \<Longrightarrow> nlookup (nset t p n) q = nlookup t q"
proof (induction t p n arbitrary: q rule: nset.induct)
  case (2 m es x xs n)
  then obtain y ys where q: "q = y # ys" by (cases q) auto
  show ?case
  proof (cases "x = y")
    case True
    with 2 q have "xs \<parallel> ys" by (auto simp: parallel_def)
    then have "xs \<noteq> []" by auto
    with 2 q True \<open>xs \<parallel> ys\<close> show ?thesis
      by (auto simp: map_of_alist_update split: option.splits)
  next
    case False
    with q show ?thesis by (auto simp: map_of_alist_update split: option.splits)
  qed
qed auto

lemma nlookup_nset_above:
  assumes "nlookup t q = Some (DirN m es)" and "strict_prefix q p"
  shows "\<exists>es'. nlookup (nset t p n) q = Some (DirN m es')"
  using assms
proof (induction t p n arbitrary: q rule: nset.induct)
  case (2 m' es' x xs n)
  show ?case
  proof (cases q)
    case Nil
    with 2 show ?thesis by (auto split: option.splits)
  next
    case (Cons y ys)
    with 2 show ?thesis by (auto simp: map_of_alist_update split: option.splits)
  qed
qed auto

lemma nlookup_ndel_same [tree_simps]: "p \<noteq> [] \<Longrightarrow> nlookup (ndel t p) p = None"
proof (induction t p rule: ndel.induct)
  case (1 m es x xs)
  then show ?case
    by (auto simp: map_of_alist_update map_of_alist_delete split: option.splits)
qed (auto simp: neq_Nil_conv)

lemma nlookup_ndel_below [tree_simps]: "p \<noteq> [] \<Longrightarrow> nlookup (ndel t p) (p @ r) = None"
  by (simp add: nlookup_append nlookup_ndel_same)

lemma nlookup_ndel_parallel [tree_simps]: "p \<parallel> q \<Longrightarrow> nlookup (ndel t p) q = nlookup t q"
proof (induction t p arbitrary: q rule: ndel.induct)
  case (1 m es x xs)
  then obtain y ys where q: "q = y # ys" by (cases q) auto
  show ?case
  proof (cases "x = y")
    case True
    with 1 q have "xs \<parallel> ys" by (auto simp: parallel_def)
    then have "xs \<noteq> []" by auto
    with 1 q True \<open>xs \<parallel> ys\<close> show ?thesis
      by (auto simp: map_of_alist_update split: option.splits)
  next
    case False
    with q show ?thesis
      by (auto simp: map_of_alist_update map_of_alist_delete split: option.splits)
  qed
qed auto

lemma nlookup_ndel_above:
  assumes "nlookup t q = Some (DirN m es)" and "strict_prefix q p"
  shows "\<exists>es'. nlookup (ndel t p) q = Some (DirN m es')"
  using assms
proof (induction t p arbitrary: q rule: ndel.induct)
  case (1 m' es' x xs)
  show ?case
  proof (cases q)
    case Nil
    with 1 show ?thesis by (auto split: option.splits)
  next
    case (Cons y ys)
    with 1 show ?thesis by (auto simp: map_of_alist_update split: option.splits)
  qed
qed auto

subsection \<open>Walking a path\<close>

text \<open>
  \<open>walk t n fl cur segs\<close> resolves the pieces \<open>segs\<close> from the directory \<open>cur\<close> (a path of plain
  names from the root of the tree). A symbolic link on the way is followed, the last piece only
  when \<open>fl\<close> holds; \<open>n\<close> is the number of links that may still be followed (Linux: 40). The result
  is the plain path of the node, which need not exist itself, but its directory does.
\<close>

fun walk :: "node \<Rightarrow> nat \<Rightarrow> bool \<Rightarrow> string list \<Rightarrow> string list \<Rightarrow> io_error + string list" where
  "walk t n fl cur [] = Inr cur"
| "walk t n fl cur (s # ss) =
     (case nlookup t cur of
        None \<Rightarrow> Inl Io_NotFound
      | Some (DirN m es) \<Rightarrow>
          if s = '''' \<or> s = ''.'' then walk t n fl cur ss
          else if s = ''..'' then walk t n fl (butlast cur) ss
          else (case map_of es s of
                  None \<Rightarrow> (if ss = [] then Inr (cur @ [s]) else Inl Io_NotFound)
                | Some (LinkN lm tgt) \<Rightarrow>
                    if ss = [] \<and> \<not> fl then Inr (cur @ [s])
                    else (case n of
                            0 \<Rightarrow> Inl Io_FilesystemLoop
                          | Suc n' \<Rightarrow>
                              walk t n' fl (if tgt \<noteq> [] \<and> hd tgt = slash then [] else cur)
                                (split_on slash tgt @ ss))
                | Some _ \<Rightarrow> walk t n fl (cur @ [s]) ss)
      | Some _ \<Rightarrow> Inl Io_NotADirectory)"

definition max_links :: nat where "max_links = 40"

record kernel =
  k_root :: node
  k_umask :: u32
  k_now :: systime

definition sys_resolve :: "bool \<Rightarrow> kernel \<Rightarrow> ospath \<Rightarrow> io_error + string list" where
  "sys_resolve fl k p = walk (k_root k) max_links fl [] p"

definition sys_node :: "bool \<Rightarrow> kernel \<Rightarrow> ospath \<Rightarrow> io_error + (string list \<times> node)" where
  "sys_node fl k p =
     (case sys_resolve fl k p of
        Inl e \<Rightarrow> Inl e
      | Inr q \<Rightarrow> (case nlookup (k_root k) q of None \<Rightarrow> Inl Io_NotFound | Some n \<Rightarrow> Inr (q, n)))"

text \<open>A path walk over plain names none of which is a link goes where the names say.\<close>

definition plain_walk :: "node \<Rightarrow> bool \<Rightarrow> string list \<Rightarrow> string list \<Rightarrow> bool" where
  "plain_walk t fl cur ns \<longleftrightarrow>
     (\<forall>n \<in> set ns. plain_name n)
     \<and> (\<forall>i < length ns. dir_at t (cur @ take i ns))
     \<and> (fl \<longrightarrow> (\<forall>lm l. nlookup t (cur @ ns) \<noteq> Some (LinkN lm l)))"

lemma walk_dirs:
  assumes "\<forall>n \<in> set ds. plain_name n"
    and "\<And>i. i \<le> length ds \<Longrightarrow> dir_at t (cur @ take i ds)"
  shows "walk t n fl cur (ds @ ss) = walk t n fl (cur @ ds) ss"
  using assms
proof (induction ds arbitrary: cur)
  case Nil
  then show ?case by simp
next
  case (Cons d ds)
  from Cons.prems(2) [of 0] obtain m es where cur: "nlookup t cur = Some (DirN m es)"
    by (auto simp: dir_at_def is_dir_iff split: option.splits)
  from Cons.prems(2) [of "Suc 0"] cur obtain m' es' where "map_of es d = Some (DirN m' es')"
    by (auto simp: dir_at_def is_dir_iff nlookup_append split: option.splits)
  with Cons.prems cur
  have "walk t n fl cur ((d # ds) @ ss) = walk t n fl (cur @ [d]) (ds @ ss)"
    by (auto simp: plain_name_def)
  also have "\<dots> = walk t n fl ((cur @ [d]) @ ds) ss"
  proof (rule Cons.IH)
    show "\<forall>n \<in> set ds. plain_name n" using Cons.prems(1) by simp
    show "dir_at t ((cur @ [d]) @ take i ds)" if "i \<le> length ds" for i
      using Cons.prems(2) [of "Suc i"] that by simp
  qed
  finally show ?case by simp
qed

lemma walk_plain:
  assumes "plain_walk t fl cur ns"
  shows "walk t n fl cur ns = Inr (cur @ ns)"
proof (cases ns rule: rev_cases)
  case Nil
  then show ?thesis by simp
next
  case (snoc ds d)
  have dirs: "dir_at t (cur @ take i ds)" if "i \<le> length ds" for i
  proof -
    from that snoc have "i < length ns" and "take i ns = take i ds" by auto
    with assms show ?thesis by (auto simp: plain_walk_def)
  qed
  then obtain m es where cur: "nlookup t (cur @ ds) = Some (DirN m es)"
    using dirs [of "length ds"] by (auto simp: dir_at_def is_dir_iff split: option.splits)
  have d: "plain_name d" using assms snoc by (simp add: plain_walk_def)
  have "walk t n fl cur ns = walk t n fl (cur @ ds) [d]"
    unfolding snoc using assms snoc dirs by (intro walk_dirs) (auto simp: plain_walk_def)
  also have "\<dots> = Inr (cur @ ns)"
  proof -
    have "nlookup t (cur @ ns) = map_of es d"
      using cur snoc nlookup_append [of t "cur @ ds" "[d]"] by (simp split: option.splits)
    with assms cur d snoc show ?thesis
      by (auto simp: plain_name_def plain_walk_def split: option.splits node.splits)
  qed
  finally show ?thesis .
qed

subsection \<open>File operations\<close>

text \<open>Trailing empty pieces are trailing slashes; some calls strip them from their argument.\<close>

definition strip_slashes :: "ospath \<Rightarrow> ospath" where
  "strip_slashes p = rev (dropWhile (\<lambda>s. s = '''') (rev p))"

definition dot_end :: "ospath \<Rightarrow> bool" where
  "dot_end p \<longleftrightarrow> p = [] \<or> last p = ''.'' \<or> last p = ''..''"

definition k_put :: "string list \<Rightarrow> node \<Rightarrow> kernel \<Rightarrow> kernel" where
  "k_put q n k = k\<lparr>k_root := nset (k_root k) q n\<rparr>"

definition k_del :: "string list \<Rightarrow> kernel \<Rightarrow> kernel" where
  "k_del q k = k\<lparr>k_root := ndel (k_root k) q\<rparr>"

definition timestamp_of_now :: "systime \<Rightarrow> timestamp" where
  "timestamp_of_now t = \<lparr>ts_sec = of_int (st_sec t), ts_nsec = of_nat (st_nsec t)\<rparr>"

definition new_meta :: "kernel \<Rightarrow> u32 \<Rightarrow> u64 \<Rightarrow> meta" where
  "new_meta k perm sz = \<lparr>m_perm = perm AND NOT (k_umask k), m_uid = 0, m_gid = 0,
     m_atime = k_now k, m_mtime = k_now k, m_ctime = timestamp_of_now (k_now k), m_size = sz\<rparr>"

definition touch_data :: "kernel \<Rightarrow> meta \<Rightarrow> meta" where
  "touch_data k m = m\<lparr>m_mtime := k_now k, m_ctime := timestamp_of_now (k_now k)\<rparr>"

definition touch_meta :: "kernel \<Rightarrow> meta \<Rightarrow> meta" where
  "touch_meta k m = m\<lparr>m_ctime := timestamp_of_now (k_now k)\<rparr>"

text \<open>\<open>fs::symlink_metadata\<close>\<close>

definition sys_lstat :: "kernel \<Rightarrow> ospath \<Rightarrow> io_error + node" where
  "sys_lstat k p = (case sys_node False k p of Inl e \<Rightarrow> Inl e | Inr (q, n) \<Rightarrow> Inr n)"

text \<open>\<open>fs::create_dir\<close>: mode \<open>0o777\<close> less the umask.\<close>

definition sys_mkdir :: "kernel \<Rightarrow> ospath \<Rightarrow> io_error + kernel" where
  "sys_mkdir k p =
     (case sys_resolve False k (strip_slashes p) of
        Inl e \<Rightarrow> Inl e
      | Inr q \<Rightarrow>
          if exists_at (k_root k) q then Inl Io_AlreadyExists
          else Inr (k_put q (DirN (new_meta k 0x1FF 4096) []) k))"

text \<open>\<open>fs::remove_file\<close> and \<open>fs::remove_dir\<close>\<close>

definition sys_unlink :: "kernel \<Rightarrow> ospath \<Rightarrow> io_error + kernel" where
  "sys_unlink k p =
     (case sys_node False k p of
        Inl e \<Rightarrow> Inl e
      | Inr (q, n) \<Rightarrow> if is_dir n then Inl Io_IsADirectory else Inr (k_del q k))"

definition sys_rmdir :: "kernel \<Rightarrow> ospath \<Rightarrow> io_error + kernel" where
  "sys_rmdir k p =
     (let p' = strip_slashes p
      in if p' = [] then Inl Io_ResourceBusy
         else if last p' = ''.'' then Inl Io_InvalidInput
         else if last p' = ''..'' then Inl Io_DirectoryNotEmpty
         else (case sys_node False k p' of
                 Inl e \<Rightarrow> Inl e
               | Inr (q, DirN m es) \<Rightarrow> if es = [] then Inr (k_del q k) else Inl Io_DirectoryNotEmpty
               | Inr _ \<Rightarrow> Inl Io_NotADirectory))"

text \<open>
  \<open>fs::rename\<close> (\<open>rename(2)\<close>). Both directories are resolved first. A directory cannot move
  below itself, nothing can replace a directory it lies in; a file replaces a non-directory, a
  directory replaces an empty directory.
\<close>

definition sys_rename :: "kernel \<Rightarrow> ospath \<Rightarrow> ospath \<Rightarrow> io_error + kernel" where
  "sys_rename k a b =
     (let a' = strip_slashes a; b' = strip_slashes b
      in if dot_end a' \<or> dot_end b' then Inl Io_ResourceBusy
         else (case sys_resolve False k a' of
           Inl e \<Rightarrow> Inl e
         | Inr qa \<Rightarrow> (case sys_resolve False k b' of
             Inl e \<Rightarrow> Inl e
           | Inr qb \<Rightarrow> (case nlookup (k_root k) qa of
               None \<Rightarrow> Inl Io_NotFound
             | Some n \<Rightarrow>
                 if (a' \<noteq> a \<or> b' \<noteq> b) \<and> \<not> is_dir n then Inl Io_NotADirectory
                 else if strict_prefix qa qb then Inl Io_InvalidInput
                 else if strict_prefix qb qa then Inl Io_DirectoryNotEmpty
                 else if qa = qb then Inr k
                 else (case nlookup (k_root k) qb of
                   None \<Rightarrow> Inr (k_put qb n (k_del qa k))
                 | Some (DirN m es) \<Rightarrow>
                     if \<not> is_dir n then Inl Io_IsADirectory
                     else if es \<noteq> [] then Inl Io_DirectoryNotEmpty
                     else Inr (k_put qb n (k_del qa k))
                 | Some _ \<Rightarrow>
                     if is_dir n then Inl Io_NotADirectory
                     else Inr (k_put qb n (k_del qa k)))))))"

text \<open>\<open>std::os::unix::fs::symlink\<close> and \<open>fs::read_link\<close>\<close>

definition sys_symlink :: "kernel \<Rightarrow> string \<Rightarrow> ospath \<Rightarrow> io_error + kernel" where
  "sys_symlink k target p =
     (if target = [] then Inl Io_NotFound
      else (case sys_resolve False k p of
              Inl e \<Rightarrow> Inl e
            | Inr q \<Rightarrow>
                if exists_at (k_root k) q then Inl Io_AlreadyExists
                else Inr (k_put q (LinkN ((new_meta k 0 0)\<lparr>m_perm := 0x1FF\<rparr>) target) k)))"

definition sys_readlink :: "kernel \<Rightarrow> ospath \<Rightarrow> io_error + string" where
  "sys_readlink k p =
     (case sys_node False k p of
        Inl e \<Rightarrow> Inl e
      | Inr (q, LinkN m t) \<Rightarrow> Inr t
      | Inr _ \<Rightarrow> Inl Io_InvalidInput)"

text \<open>
  \<open>OpenOptions\<close>. A handle is the plain path of the open file: nothing moves it while one
  request holds it. Special files are not opened by the model.
\<close>

definition sys_open_rw :: "bool \<Rightarrow> kernel \<Rightarrow> ospath \<Rightarrow> io_error + (string list \<times> kernel)" where
  "sys_open_rw create k p =
     (case sys_resolve True k p of
        Inl e \<Rightarrow> Inl e
      | Inr q \<Rightarrow> (case nlookup (k_root k) q of
            None \<Rightarrow>
              if create then Inr (q, k_put q (FileN (new_meta k 0x1B6 0) []) k)
              else Inl Io_NotFound
          | Some (FileN m b) \<Rightarrow> Inr (q, k)
          | Some (DirN m es) \<Rightarrow> Inl Io_IsADirectory
          | Some _ \<Rightarrow> Inl Io_Other))"

definition sys_open_read :: "kernel \<Rightarrow> ospath \<Rightarrow> io_error + string list" where
  "sys_open_read k p =
     (case sys_node True k p of
        Inl e \<Rightarrow> Inl e
      | Inr (q, OtherN m t) \<Rightarrow> Inl Io_Other
      | Inr (q, n) \<Rightarrow> Inr q)"

text \<open>\<open>seek(SeekFrom::Start(off))\<close>: the kernel's offsets are signed.\<close>

definition sys_seek :: "nat \<Rightarrow> io_error + nat" where
  "sys_seek off = (if off < 2 ^ 63 then Inr off else Inl Io_InvalidInput)"

definition sys_write_all :: "kernel \<Rightarrow> string list \<Rightarrow> nat \<Rightarrow> bytes \<Rightarrow> io_error + kernel" where
  "sys_write_all k q off d =
     (case nlookup (k_root k) q of
        Some (FileN m b) \<Rightarrow>
          if d = [] then Inr k
          else Inr (k_put q (FileN (touch_data k m) (write_at b off d)) k)
      | _ \<Rightarrow> Inl Io_Other)"

definition sys_read :: "kernel \<Rightarrow> string list \<Rightarrow> nat \<Rightarrow> nat \<Rightarrow> io_error + bytes" where
  "sys_read k q off n =
     (case nlookup (k_root k) q of
        Some (FileN m b) \<Rightarrow> Inr (read_at b off n)
      | Some (DirN m es) \<Rightarrow> Inl Io_IsADirectory
      | _ \<Rightarrow> Inl Io_Other)"

definition sys_set_len :: "kernel \<Rightarrow> string list \<Rightarrow> u64 \<Rightarrow> io_error + kernel" where
  "sys_set_len k q sz =
     (if 2 ^ 63 \<le> unat sz then Inl Io_InvalidInput
      else (case nlookup (k_root k) q of
        Some (FileN m b) \<Rightarrow>
          Inr (k_put q (FileN (touch_data k m)
            (take (unat sz) b @ replicate (unat sz - length b) 0)) k)
      | _ \<Rightarrow> Inl Io_Other))"

text \<open>\<open>fs::set_permissions\<close> follows links and keeps the twelve permission bits of the mode.\<close>

definition sys_chmod :: "kernel \<Rightarrow> ospath \<Rightarrow> u32 \<Rightarrow> io_error + kernel" where
  "sys_chmod k p mode =
     (case sys_node True k p of
        Inl e \<Rightarrow> Inl e
      | Inr (q, n) \<Rightarrow>
          Inr (k_put q (node_with_meta (\<lambda>m. touch_meta k (m\<lparr>m_perm := mode AND 0xFFF\<rparr>)) n) k))"

text \<open>\<open>fs::read_dir\<close>: the names of the entries, in the order of the directory.\<close>

definition sys_read_dir :: "kernel \<Rightarrow> ospath \<Rightarrow> io_error + string list" where
  "sys_read_dir k p =
     (case sys_node True k p of
        Inl e \<Rightarrow> Inl e
      | Inr (q, DirN m es) \<Rightarrow> Inr (map fst es)
      | Inr _ \<Rightarrow> Inl Io_NotADirectory)"

lemmas sys_defs = sys_lstat_def sys_mkdir_def sys_unlink_def sys_rmdir_def sys_rename_def
  sys_symlink_def sys_readlink_def sys_open_rw_def sys_open_read_def sys_seek_def
  sys_write_all_def sys_read_def sys_set_len_def sys_chmod_def sys_read_dir_def

lemma k_put_simps [simp]:
  "k_root (k_put q n k) = nset (k_root k) q n" "k_umask (k_put q n k) = k_umask k"
  "k_now (k_put q n k) = k_now k"
  by (simp_all add: k_put_def)

lemma k_del_simps [simp]:
  "k_root (k_del q k) = ndel (k_root k) q" "k_umask (k_del q k) = k_umask k"
  "k_now (k_del q k) = k_now k"
  by (simp_all add: k_del_def)

subsection \<open>Facts about walks\<close>

lemma dir_at_parent: "dir_at t (p @ q) \<Longrightarrow> dir_at t p"
  by (cases q) (auto simp: dir_at_def nlookup_append is_dir_iff neq_Nil_conv split: option.splits,
      (metis nlookup.simps(3-5) node.exhaust option.distinct(1)))

text \<open>The successful walks as a relation, one rule per kind of step.\<close>

inductive walks :: "node \<Rightarrow> string list \<Rightarrow> string list \<Rightarrow> string list \<Rightarrow> bool" for t where
  finish: "walks t cur [] cur"
| stay: "dir_at t cur \<Longrightarrow> \<not> real_seg s \<Longrightarrow> walks t cur ss q \<Longrightarrow> walks t cur (s # ss) q"
| up: "dir_at t cur \<Longrightarrow> walks t (butlast cur) ss q \<Longrightarrow> walks t cur (''..'' # ss) q"
| enter: "dir_at t cur \<Longrightarrow> s \<noteq> ''..'' \<Longrightarrow> walks t (cur @ [s]) ss q \<Longrightarrow> walks t cur (s # ss) q"
| follow: "dir_at t cur \<Longrightarrow> s \<noteq> ''..'' \<Longrightarrow> nlookup t (cur @ [s]) = Some (LinkN lm tgt) \<Longrightarrow>
    walks t (if tgt \<noteq> [] \<and> hd tgt = slash then [] else cur) (split_on slash tgt @ ss) q \<Longrightarrow>
    walks t cur (s # ss) q"

lemma walk_walks: "walk t n fl cur segs = Inr q \<Longrightarrow> walks t cur segs q"
proof (induction t n fl cur segs rule: walk.induct)
  case (1 t n fl cur)
  then show ?case by (simp add: walks.finish)
next
  case (2 t n fl cur s ss)
  from "2.prems"(1) obtain m es where cur: "nlookup t cur = Some (DirN m es)"
    by (auto split: option.splits node.splits)
  then have dir: "dir_at t cur" by (simp add: dir_at_def)
  have ent: "nlookup t (cur @ [s]) = map_of es s"
    using cur by (simp add: nlookup_append split: option.splits)
  consider "\<not> real_seg s" | "s = ''..''" | "real_seg s" "s \<noteq> ''..''" "map_of es s = None"
    | c where "real_seg s" "s \<noteq> ''..''" "map_of es s = Some c" "\<not> is_symlink c"
    | lm tgt where "real_seg s" "s \<noteq> ''..''" "map_of es s = Some (LinkN lm tgt)"
    by (cases "map_of es s") (auto, metis is_symlink.elims(2))
  then show ?case
  proof cases
    case 1
    with 2 cur have "walks t cur ss q" by (auto simp: real_seg_def)
    with dir 1 show ?thesis by (rule walks.stay)
  next
    case 2
    with "2.prems" "2.IH"(2) [OF cur refl] cur have "walks t (butlast cur) ss q"
      by (auto simp: real_seg_def)
    with dir 2 show ?thesis by (auto intro: walks.up)
  next
    case 3
    with "2.prems" cur have "ss = []" and "q = cur @ [s]" by (auto simp: real_seg_def split: if_splits)
    with dir 3 show ?thesis by (auto intro: walks.enter walks.finish)
  next
    case 4
    with "2.prems" cur have "walk t n fl (cur @ [s]) ss = Inr q"
      by (cases c) (auto simp: real_seg_def)
    with 4 "2.IH"(3-) cur have "walks t (cur @ [s]) ss q"
      by (cases c) (auto simp: real_seg_def)
    with dir 4 show ?thesis by (auto intro: walks.enter)
  next
    case 5
    show ?thesis
    proof (cases "ss = [] \<and> \<not> fl")
      case True
      with 5 "2.prems" cur have "q = cur @ [s]" by (auto simp: real_seg_def)
      with True dir 5 show ?thesis by (auto intro: walks.enter walks.finish)
    next
      case False
      with 5 "2.prems" cur obtain n' where "n = Suc n'"
        by (cases n) (auto simp: real_seg_def)
      with 5 False "2.prems" "2.IH"(3-) cur
      have "walks t (if tgt \<noteq> [] \<and> hd tgt = slash then [] else cur) (split_on slash tgt @ ss) q"
        by (auto simp: real_seg_def)
      with dir 5 ent show ?thesis by (auto intro: walks.follow)
    qed
  qed
qed

lemma walks_parent_dir:
  assumes "walks t cur segs q" and "is_dir t" and "cur = [] \<or> dir_at t (butlast cur)"
  shows "q = [] \<or> dir_at t (butlast q)"
  using assms
proof (induction rule: walks.induct)
  case (up cur ss q)
  have "butlast cur = [] \<or> dir_at t (butlast (butlast cur))"
    using up.hyps(1)
    by (cases cur rule: rev_cases; cases "butlast cur" rule: rev_cases)
       (auto simp: butlast_append intro: dir_at_parent [of t _ "[_, _]"])
  with up show ?case by blast
qed (auto split: if_splits)

lemma walk_parent_dir:
  "walk t n fl [] segs = Inr q \<Longrightarrow> is_dir t \<Longrightarrow> q = [] \<or> dir_at t (butlast q)"
  using walks_parent_dir walk_walks by blast

lemma sys_resolve_parent_dir:
  "sys_resolve fl k p = Inr q \<Longrightarrow> is_dir (k_root k) \<Longrightarrow> q = [] \<or> dir_at (k_root k) (butlast q)"
  by (auto simp: sys_resolve_def dest: walk_parent_dir)

lemma sys_node_lookup:
  "sys_node fl k p = Inr (q, n) \<Longrightarrow> nlookup (k_root k) q = Some n \<and> sys_resolve fl k p = Inr q"
  by (auto simp: sys_node_def split: sum.splits option.splits)

text \<open>Below a directory without links, a walk without \<open>..\<close> stays below that directory.\<close>

definition link_free :: "node \<Rightarrow> string list \<Rightarrow> bool" where
  "link_free t p \<longleftrightarrow> (\<forall>r lm l. nlookup t (p @ r) \<noteq> Some (LinkN lm l))"

lemma walk_below:
  assumes "walk t n fl cur segs = Inr q" and "''..'' \<notin> set segs"
    and "link_free t base" and "prefix base cur"
  shows "prefix base q"
  using assms
proof (induction segs arbitrary: cur)
  case (Cons s ss)
  from Cons.prems(1) obtain m es where cur: "nlookup t cur = Some (DirN m es)"
    by (auto split: option.splits node.splits)
  have no_link: "map_of es s \<noteq> Some (LinkN lm l)" for lm l
  proof
    assume "map_of es s = Some (LinkN lm l)"
    with cur have "nlookup t (cur @ [s]) = Some (LinkN lm l)" by (simp add: nlookup_append)
    with Cons.prems(3,4) show False by (auto simp: link_free_def prefix_def)
  qed
  consider "s = [] \<or> s = ''.''" | "map_of es s = None" "\<not> (s = [] \<or> s = ''.'')"
    | c where "map_of es s = Some c" "\<not> (s = [] \<or> s = ''.'')"
    by (cases "map_of es s") auto
  then show ?case
  proof cases
    case 1
    with Cons cur show ?thesis by auto
  next
    case 2
    with Cons.prems cur show ?thesis by (auto split: if_splits)
  next
    case 3
    with Cons.prems cur no_link have "walk t n fl (cur @ [s]) ss = Inr q"
      by (cases c) auto
    with Cons.prems show ?thesis by (intro Cons.IH [of "cur @ [s]"]) auto
  qed
qed auto

subsection \<open>Changes of the tree that keep walks\<close>

text \<open>
  \<open>node_ext o o'\<close>: what a walk can see at one place before (\<open>o\<close>) and after (\<open>o'\<close>) a change:
  directories stay directories, links keep their target, nothing becomes a link. A successful
  walk of a tree succeeds in an extension of it, with the same result.
\<close>

fun node_ext :: "node option \<Rightarrow> node option \<Rightarrow> bool" where
  "node_ext (Some (DirN m es)) o' = (case o' of Some n \<Rightarrow> is_dir n | None \<Rightarrow> False)"
| "node_ext (Some (LinkN m l)) o' =
     (case o' of Some (LinkN m' l') \<Rightarrow> l' = l | _ \<Rightarrow> False)"
| "node_ext (Some n) o' = (case o' of Some n' \<Rightarrow> \<not> is_symlink n' | None \<Rightarrow> False)"
| "node_ext None o' = (case o' of Some n' \<Rightarrow> \<not> is_symlink n' | None \<Rightarrow> True)"

definition tree_ext :: "node \<Rightarrow> node \<Rightarrow> bool" where
  "tree_ext t t' \<longleftrightarrow> (\<forall>p. node_ext (nlookup t p) (nlookup t' p))"

lemma node_ext_refl [simp]: "node_ext x x"
proof (cases x)
  case (Some n)
  then show ?thesis by (cases n) auto
qed simp

lemma tree_ext_refl [simp]: "tree_ext t t"
  by (simp add: tree_ext_def)

lemma node_ext_cases:
  assumes "node_ext (Some c) o'"
  obtains (link) m l m' where "c = LinkN m l" "o' = Some (LinkN m' l)"
  | (plain) c' where "\<not> is_symlink c" "o' = Some c'" "\<not> is_symlink c'"
  using assms by (cases c; cases o') (auto split: node.splits elim: is_dir.elims)

lemma walk_nonlink:
  assumes "nlookup t cur = Some (DirN m es)" and "real_seg s" and "s \<noteq> ''..''"
    and "map_of es s = Some c" and "\<not> is_symlink c"
  shows "walk t n fl cur (s # ss) = walk t n fl (cur @ [s]) ss"
  using assms by (cases c) (auto simp: real_seg_def)

text \<open>The last piece may also appear where nothing was, whatever appears, when the walk does not
  follow it.\<close>

lemma walk_tree_ext_at:
  assumes "walk t n fl cur segs = Inr q"
    and "\<And>p. node_ext (nlookup t p) (nlookup t' p) \<or> \<not> fl \<and> p = q \<and> nlookup t p = None"
  shows "walk t' n fl cur segs = Inr q"
  using assms
proof (induction t n fl cur segs rule: walk.induct)
  case (2 t n fl cur s ss)
  from "2.prems"(1) obtain m es where cur: "nlookup t cur = Some (DirN m es)"
    by (auto split: option.splits node.splits)
  with "2.prems"(2) [of cur] obtain m' es' where cur': "nlookup t' cur = Some (DirN m' es')"
    by (auto simp: is_dir_iff split: option.splits)
  have ext: "node_ext (map_of es s) (map_of es' s)
      \<or> \<not> fl \<and> cur @ [s] = q \<and> map_of es s = None"
    using "2.prems"(2) [of "cur @ [s]"] cur cur'
    by (simp add: nlookup_append option.case_eq_if split: if_splits)
  consider "\<not> real_seg s" | "s = ''..''" | "real_seg s" "s \<noteq> ''..''" "map_of es s = None"
    | c where "real_seg s" "s \<noteq> ''..''" "map_of es s = Some c"
    by (cases "map_of es s") auto
  then show ?case
  proof cases
    case 1
    with 2 cur cur' show ?thesis by (auto simp: real_seg_def)
  next
    case 2
    with "2.prems" "2.IH"(2) [OF cur refl] cur cur' show ?thesis
      by (auto simp: real_seg_def)
  next
    case 3
    with "2.prems" cur have q: "ss = []" "q = cur @ [s]"
      by (auto simp: real_seg_def split: if_splits)
    consider "map_of es' s = None" | lm l where "map_of es' s = Some (LinkN lm l)" "\<not> fl"
      | c' where "map_of es' s = Some c'" "\<not> is_symlink c'"
      using ext 3 by (cases "map_of es' s"; cases "the (map_of es' s)") auto
    then show ?thesis
    proof cases
      case 1
      with 3 q cur' show ?thesis by (auto simp: real_seg_def)
    next
      case 2
      with 3 q cur' show ?thesis by (auto simp: real_seg_def)
    next
      case (3 c')
      with \<open>real_seg s\<close> \<open>s \<noteq> ''..''\<close> q walk_nonlink [OF cur' _ _ 3, of n fl "[]"]
      show ?thesis by simp
    qed
  next
    case 4
    from ext 4(3) have "node_ext (Some c) (map_of es' s)" by auto
    then show ?thesis
    proof (cases rule: node_ext_cases)
      case (link lm l lm')
      with 4 "2.prems" "2.IH"(3-) cur cur' show ?thesis
        by (cases n) (auto simp: real_seg_def split: if_splits)
    next
      case (plain c')
      have "walk t n fl (cur @ [s]) ss = Inr q"
        using "2.prems"(1) walk_nonlink [OF cur 4 plain(1)] by simp
      then have "walk t' n fl (cur @ [s]) ss = Inr q"
        using 4 plain "2.IH"(3-) "2.prems"(2) cur by (cases c) (auto simp: real_seg_def)
      then show ?thesis by (simp only: walk_nonlink [OF cur' 4(1,2) plain(2,3)])
    qed
  qed
qed auto

lemma walk_tree_ext:
  "walk t n fl cur segs = Inr q \<Longrightarrow> tree_ext t t' \<Longrightarrow> walk t' n fl cur segs = Inr q"
  by (rule walk_tree_ext_at) (auto simp: tree_ext_def)

text \<open>Following the last piece makes no difference when it leads to no link.\<close>

lemma walk_follow:
  assumes "walk t n False cur segs = Inr q" and "\<And>m l. nlookup t q \<noteq> Some (LinkN m l)"
  shows "walk t n True cur segs = Inr q"
  using assms
proof (induction t n False cur segs rule: walk.induct)
  case (2 t n cur s ss)
  from "2.prems"(1) obtain m es where cur: "nlookup t cur = Some (DirN m es)"
    by (auto split: option.splits node.splits)
  have ent: "nlookup t (cur @ [s]) = map_of es s"
    using cur by (simp add: nlookup_append split: option.splits)
  consider "\<not> real_seg s" | "s = ''..''" | "real_seg s" "s \<noteq> ''..''" "map_of es s = None"
    | c where "real_seg s" "s \<noteq> ''..''" "map_of es s = Some c" "\<not> is_symlink c"
    | lm tgt where "real_seg s" "s \<noteq> ''..''" "map_of es s = Some (LinkN lm tgt)"
    by (cases "map_of es s") (auto, metis is_symlink.elims(2))
  then show ?case
  proof cases
    case 1
    with 2 cur show ?thesis by (auto simp: real_seg_def)
  next
    case 2
    with "2.prems" "2.hyps"(2) [OF cur refl] cur show ?thesis by (auto simp: real_seg_def)
  next
    case 3
    with "2.prems" cur show ?thesis by (auto simp: real_seg_def split: if_splits)
  next
    case 4
    have "walk t n False (cur @ [s]) ss = Inr q"
      using "2.prems"(1) walk_nonlink [OF cur 4] by simp
    with 4 "2.prems" "2.hyps"(3-) cur have "walk t n True (cur @ [s]) ss = Inr q"
      by (cases c) (auto simp: real_seg_def)
    then show ?thesis using walk_nonlink [OF cur 4] by simp
  next
    case 5
    have "ss \<noteq> []"
    proof
      assume "ss = []"
      with 5 "2.prems"(1) cur have "q = cur @ [s]" by (auto simp: real_seg_def)
      with 5 ent "2.prems"(2) [of lm tgt] show False by simp
    qed
    with 5 "2.prems" cur obtain n' where "n = Suc n'"
      by (cases n) (auto simp: real_seg_def)
    with 5 \<open>ss \<noteq> []\<close> "2.prems" "2.hyps"(3-) cur show ?thesis
      by (auto simp: real_seg_def)
  qed
qed simp

lemma nset_tree_ext:
  assumes "q = [] \<or> dir_at t (butlast q)"
    and "\<And>r. node_ext (nlookup t (q @ r)) (nlookup n r)"
  shows "tree_ext t (nset t q n)"
  unfolding tree_ext_def
proof
  fix p
  consider r where "p = q @ r" | "strict_prefix p q" | "q \<parallel> p"
    by (metis parallelI prefixE strict_prefixI)
  then show "node_ext (nlookup t p) (nlookup (nset t q n) p)"
  proof cases
    case 1
    with assms show ?thesis by (simp add: nlookup_nset_below)
  next
    case 2
    then have "q \<noteq> []" and "prefix p (butlast q)"
      by (auto simp: strict_prefix_def prefix_def) (metis butlast_append)
    with assms(1) obtain r where "dir_at t (p @ r)" by (auto simp: prefix_def)
    then have "dir_at t p" by (rule dir_at_parent)
    then obtain m es where "nlookup t p = Some (DirN m es)"
      by (auto simp: dir_at_def is_dir_iff split: option.splits)
    with nlookup_nset_above [OF this 2, of n] show ?thesis by auto
  next
    case 3
    then show ?thesis by (simp add: nlookup_nset_parallel)
  qed
qed

lemma nlookup_leaf [simp]:
  "nlookup (FileN m b) r = (if r = [] then Some (FileN m b) else None)"
  "nlookup (LinkN m l) r = (if r = [] then Some (LinkN m l) else None)"
  "nlookup (OtherN m ty) r = (if r = [] then Some (OtherN m ty) else None)"
  "nlookup (DirN m []) r = (if r = [] then Some (DirN m []) else None)"
  by (cases r; simp)+

lemma nlookup_with_meta:
  "nlookup (node_with_meta f n) r =
     (if r = [] then Some (node_with_meta f n) else nlookup n r)"
  by (cases n; cases r) auto

lemma nset_file_ext:
  assumes "q = [] \<or> dir_at t (butlast q)"
    and "case nlookup t q of None \<Rightarrow> True | Some o' \<Rightarrow> is_file o'"
  shows "tree_ext t (nset t q (FileN m b))"
  using assms(2)
  by (intro nset_tree_ext assms(1)) (auto simp: nlookup_append split: option.splits elim: is_file.elims)

lemma nset_new_dir_ext:
  assumes "q = [] \<or> dir_at t (butlast q)" and "nlookup t q = None"
  shows "tree_ext t (nset t q (DirN m []))"
  using assms(2) by (intro nset_tree_ext assms(1)) (auto simp: nlookup_append)

lemma nset_meta_ext:
  assumes "q = [] \<or> dir_at t (butlast q)" and "nlookup t q = Some n"
  shows "tree_ext t (nset t q (node_with_meta f n))"
proof (rule nset_tree_ext [OF assms(1)])
  fix r
  show "node_ext (nlookup t (q @ r)) (nlookup (node_with_meta f n) r)"
    using assms(2)
    by (cases "r = []"; cases n) (simp_all add: nlookup_append nlookup_with_meta
        del: node_with_meta.simps, simp_all)
qed

text \<open>The same for the kernel.\<close>

lemma sys_resolve_ext:
  "sys_resolve fl k p = Inr q \<Longrightarrow> tree_ext (k_root k) (k_root k') \<Longrightarrow> sys_resolve fl k' p = Inr q"
  unfolding sys_resolve_def by (rule walk_tree_ext)

definition wf_kernel :: "kernel \<Rightarrow> bool" where
  "wf_kernel k \<longleftrightarrow> is_dir (k_root k)"

lemma nset_is_dir: "is_dir t \<Longrightarrow> q \<noteq> [] \<or> is_dir n \<Longrightarrow> is_dir (nset t q n)"
proof (cases q)
  case (Cons x xs)
  moreover assume "is_dir t"
  ultimately show ?thesis by (cases t) (auto split: option.split)
qed simp

lemma ndel_is_dir [simp]: "is_dir (ndel t q) = is_dir t"
  by (cases "(t, q)" rule: ndel.cases) (simp_all split: option.split)

lemma sys_resolve_put:
  assumes "wf_kernel k" and "sys_resolve fl k p = Inr q"
  shows "nlookup (k_root (k_put q n k)) q = Some n"
  using sys_resolve_parent_dir [OF assms(2)] assms(1)
  by (simp add: wf_kernel_def nlookup_nset_same)

text \<open>Trailing slashes change nothing once the path leads to a directory.\<close>

lemma walk_append_stay:
  assumes "walk t n fl cur segs = Inr q" and "dir_at t q" and "\<not> real_seg x"
  shows "walk t n fl cur (segs @ [x]) = Inr q"
  using assms
proof (induction t n fl cur segs rule: walk.induct)
  case (1 t n fl cur)
  then show ?case by (auto simp: dir_at_def is_dir_iff real_seg_def split: option.splits)
next
  case (2 t n fl cur s ss)
  from "2.prems"(1) obtain m es where cur: "nlookup t cur = Some (DirN m es)"
    by (auto split: option.splits node.splits)
  have ent: "nlookup t (cur @ [s]) = map_of es s"
    using cur by (simp add: nlookup_append split: option.splits)
  consider "\<not> real_seg s" | "s = ''..''" | "real_seg s" "s \<noteq> ''..''" "map_of es s = None"
    | c where "real_seg s" "s \<noteq> ''..''" "map_of es s = Some c" "\<not> is_symlink c"
    | lm tgt where "real_seg s" "s \<noteq> ''..''" "map_of es s = Some (LinkN lm tgt)"
    by (cases "map_of es s") (auto, metis is_symlink.elims(2))
  then show ?case
  proof cases
    case 1
    with 2 cur show ?thesis by (auto simp: real_seg_def)
  next
    case 2
    with "2.prems" "2.IH"(2) [OF cur refl] cur show ?thesis by (auto simp: real_seg_def)
  next
    case 3
    with "2.prems" cur have "q = cur @ [s]" by (auto simp: real_seg_def split: if_splits)
    with 3 ent "2.prems"(2) show ?thesis by (simp add: dir_at_def)
  next
    case 4
    have "walk t n fl (cur @ [s]) ss = Inr q"
      using "2.prems"(1) walk_nonlink [OF cur 4] by simp
    with 4 "2.prems" "2.IH"(3-) cur have "walk t n fl (cur @ [s]) (ss @ [x]) = Inr q"
      by (cases c) (auto simp: real_seg_def)
    then show ?thesis using walk_nonlink [OF cur 4] by simp
  next
    case 5
    have last: "\<not> (ss = [] \<and> \<not> fl)"
    proof
      assume "ss = [] \<and> \<not> fl"
      with 5 "2.prems"(1) cur have "q = cur @ [s]" by (auto simp: real_seg_def)
      with 5 ent "2.prems"(2) show False by (simp add: dir_at_def)
    qed
    with 5 "2.prems" cur obtain n' where "n = Suc n'"
      by (cases n) (auto simp: real_seg_def)
    with 5 last "2.prems" "2.IH"(3-) cur show ?thesis
      by (auto simp: real_seg_def)
  qed
qed

lemma sys_resolve_strip:
  assumes "sys_resolve fl k (strip_slashes p) = Inr q" and "dir_at (k_root k) q"
  shows "sys_resolve fl k p = Inr q"
  using assms
proof (induction p rule: rev_induct)
  case (snoc x xs)
  show ?case
  proof (cases "x = []")
    case True
    with snoc show ?thesis
      by (auto simp: strip_slashes_def sys_resolve_def real_seg_def intro: walk_append_stay)
  qed (use snoc in \<open>simp add: strip_slashes_def\<close>)
qed (simp add: strip_slashes_def)

lemma sys_resolve_follow:
  "sys_resolve False k p = Inr q \<Longrightarrow> (\<And>m l. nlookup (k_root k) q \<noteq> Some (LinkN m l)) \<Longrightarrow>
     sys_resolve True k p = Inr q"
  by (simp add: sys_resolve_def walk_follow)

lemma sys_resolve_ext_at:
  assumes "sys_resolve False k p = Inr q" and "nlookup (k_root k) q = None"
    and "is_dir (k_root k)" and "\<And>r. r \<noteq> [] \<Longrightarrow> nlookup n r = None"
  shows "sys_resolve False (k_put q n k) p = Inr q"
  unfolding sys_resolve_def
proof (rule walk_tree_ext_at)
  show "walk (k_root k) max_links False [] p = Inr q"
    using assms(1) by (simp add: sys_resolve_def)
  fix x
  have par: "q = [] \<or> dir_at (k_root k) (butlast q)"
    using assms(1,3) by (rule sys_resolve_parent_dir)
  consider "x = q" | r where "x = q @ r" "r \<noteq> []" | "strict_prefix x q" | "q \<parallel> x"
    by (metis append_Nil2 parallelI prefixE strict_prefixI)
  then show "node_ext (nlookup (k_root k) x) (nlookup (k_root (k_put q n k)) x)
      \<or> \<not> False \<and> x = q \<and> nlookup (k_root k) x = None"
  proof cases
    case (2 r)
    with assms(2,4) par nlookup_nset_below [OF par, of n r] show ?thesis
      by (simp add: nlookup_append)
  next
    case 3
    then obtain y r where q: "q = x @ y # r"
      by (metis append_Nil2 neq_Nil_conv prefixE strict_prefix_def)
    with par have "dir_at (k_root k) (x @ butlast (y # r))" by (simp add: butlast_append)
    then have "dir_at (k_root k) x" by (rule dir_at_parent)
    then obtain m es where d: "nlookup (k_root k) x = Some (DirN m es)"
      by (auto simp: dir_at_def is_dir_iff split: option.splits)
    from nlookup_nset_above [OF d 3, of n] d show ?thesis by auto
  qed (simp_all add: assms(2) nlookup_nset_parallel)
qed

text \<open>New metadata on a node reach no other node's metadata.\<close>

lemma nset_meta_lookup:
  assumes "q = [] \<or> dir_at t (butlast q)" and "nlookup t q = Some n" and "nlookup t p = Some c"
  obtains c' where "nlookup (nset t q (node_with_meta f n)) p = Some c'"
    "node_meta c' = (if p = q then f (node_meta n) else node_meta c)"
proof -
  consider r where "p = q @ r" | "strict_prefix p q" | "q \<parallel> p"
    by (metis parallelI prefixE strict_prefixI)
  then show thesis
  proof cases
    case (1 r)
    have "nlookup (nset t q (node_with_meta f n)) p = nlookup (node_with_meta f n) r"
      unfolding 1 using assms(1) by (rule nlookup_nset_below)
    moreover have "nlookup n r = Some c" using 1 assms(2,3) by (simp add: nlookup_append)
    ultimately show thesis
      using 1 by (cases "r = []") (auto intro!: that simp: nlookup_with_meta)
  next
    case 2
    then have "dir_at t p" using nlookup_prefix_dir assms(2) by blast
    then obtain m es where d: "nlookup t p = Some (DirN m es)"
      by (auto simp: dir_at_def is_dir_iff split: option.splits)
    from nlookup_nset_above [OF d 2, of "node_with_meta f n"] obtain es' where
      "nlookup (nset t q (node_with_meta f n)) p = Some (DirN m es')" by blast
    moreover have "node_meta (DirN m es') = (if p = q then f (node_meta n) else node_meta c)"
      using assms(3) d 2 by (auto simp: strict_prefix_def)
    ultimately show thesis by (rule that)
  next
    case 3
    with assms(3) show thesis by (intro that [of c]) (auto simp: nlookup_nset_parallel)
  qed
qed

end
