(* ===== verification/Storage.thy ===== *)
theory Storage
  imports Unix_FS
begin

text \<open>
  The storage layer of the server: \<open>server/src/nodes.rs\<close> and \<open>server/src/storage.rs\<close> on the
  kernel of \<open>Unix_FS\<close>. An operation takes the kernel, returns it updated, and keeps the effects
  of the system calls that succeeded before an error.

  Three calls belong to third-party crates and are parameters (\<open>externs\<close>): \<open>nix::unistd::chown\<close>,
  \<open>filetime::set_file_times\<close> and \<open>nix::sys::statvfs\<close>. What the code relies on is the locale
  \<open>unix_externs\<close>; \<open>sys_externs\<close> is an instance on the same kernel. A \<open>FileTime\<close> is the
  \<open>systime\<close> it stands for.
\<close>

subsection \<open>Items of a directory (\<open>nodes.rs\<close>)\<close>

datatype fs_item =
  FS_File string file_attr
| FS_SymLink string file_attr
| FS_Directory string "(pathbuf \<times> fs_item) list" file_attr

fun item_name :: "fs_item \<Rightarrow> string" where
  "item_name (FS_File n a) = n"
| "item_name (FS_SymLink n a) = n"
| "item_name (FS_Directory n cs a) = n"

fun item_attributes :: "fs_item \<Rightarrow> file_attr" where
  "item_attributes (FS_File n a) = a"
| "item_attributes (FS_SymLink n a) = a"
| "item_attributes (FS_Directory n cs a) = a"

fun item_get_children :: "fs_item \<Rightarrow> fs_item list option" where
  "item_get_children (FS_Directory n cs a) = Some (map snd cs)"
| "item_get_children _ = None"

fun item_add :: "fs_item \<Rightarrow> fs_item \<Rightarrow> fs_item outcome" where
  "item_add (FS_Directory n cs a) item =
     Ret (FS_Directory n (AList.update (components (item_name item)) item cs) a)"
| "item_add _ item = Panic"

fun item_get_child :: "fs_item \<Rightarrow> string \<Rightarrow> fs_item option" where
  "item_get_child (FS_Directory n cs a) name = map_of cs (components name)"
| "item_get_child _ name = None"

fun item_remove :: "fs_item \<Rightarrow> string \<Rightarrow> fs_item outcome" where
  "item_remove (FS_Directory n cs a) name = Ret (FS_Directory n (AList.delete (components name) cs) a)"
| "item_remove _ name = Panic"

fun item_set_name :: "fs_item \<Rightarrow> string \<Rightarrow> fs_item" where
  "item_set_name (FS_File n a) name = FS_File name a"
| "item_set_name (FS_SymLink n a) name = FS_SymLink name a"
| "item_set_name (FS_Directory n cs a) name = FS_Directory name cs a"

lemma item_get_child_add:
  "item_add d i = Ret d' \<Longrightarrow>
     item_get_child d' name =
       (if components name = components (item_name i) then Some i else item_get_child d name)"
  by (cases d) (auto simp: map_of_alist_update)

lemma item_get_child_remove:
  "item_remove d n = Ret d' \<Longrightarrow>
     item_get_child d' name = (if components name = components n then None else item_get_child d name)"
  by (cases d) (auto simp: map_of_alist_delete)

subsection \<open>Calls of third-party crates\<close>

record statvfs =
  vfs_blocks :: u64
  vfs_bfree :: u64
  vfs_bavail :: u64
  vfs_files :: u64
  vfs_ffree :: u64
  vfs_bsize :: u64
  vfs_namemax :: u64
  vfs_frsize :: u64

record externs =
  ext_chown :: "kernel \<Rightarrow> ospath \<Rightarrow> u32 option \<Rightarrow> u32 option \<Rightarrow> io_error + kernel"
  ext_utimes :: "kernel \<Rightarrow> ospath \<Rightarrow> systime \<Rightarrow> systime \<Rightarrow> io_error + kernel"
  ext_statvfs :: "kernel \<Rightarrow> ospath \<Rightarrow> io_error + statvfs"

text \<open>
  \<open>chown\<close> follows links, sets the ids that are given and leaves the nine access bits alone;
  \<open>set_file_times\<close> follows links and sets the two times. Both fail without effect, and only
  when the path does not lead to a node.
\<close>

definition chown_meta_ok :: "u32 option \<Rightarrow> u32 option \<Rightarrow> meta \<Rightarrow> meta \<Rightarrow> bool" where
  "chown_meta_ok u g m m' \<longleftrightarrow>
     m_uid m' = case_option (m_uid m) id u \<and> m_gid m' = case_option (m_gid m) id g
     \<and> m_perm m' AND 0x1FF = m_perm m AND 0x1FF \<and> m_size m' = m_size m
     \<and> m_atime m' = m_atime m \<and> m_mtime m' = m_mtime m"

definition utimes_meta_ok :: "systime \<Rightarrow> systime \<Rightarrow> meta \<Rightarrow> meta \<Rightarrow> bool" where
  "utimes_meta_ok at mt m m' \<longleftrightarrow>
     m_atime m' = at \<and> m_mtime m' = mt \<and> m_uid m' = m_uid m \<and> m_gid m' = m_gid m
     \<and> m_perm m' = m_perm m \<and> m_size m' = m_size m"

locale unix_externs =
  fixes E :: externs
  assumes chown_fail: "sys_node True k p = Inl e \<Longrightarrow> \<exists>e'. ext_chown E k p u g = Inl e'"
    and chown_ok: "sys_node True k p = Inr (q, n) \<Longrightarrow>
      \<exists>m'. ext_chown E k p u g = Inr (k_put q (node_with_meta (\<lambda>_. m') n) k)
        \<and> chown_meta_ok u g (node_meta n) m'"
    and utimes_fail: "sys_node True k p = Inl e \<Longrightarrow> \<exists>e'. ext_utimes E k p at mt = Inl e'"
    and utimes_ok: "sys_node True k p = Inr (q, n) \<Longrightarrow>
      \<exists>m'. ext_utimes E k p at mt = Inr (k_put q (node_with_meta (\<lambda>_. m') n) k)
        \<and> utimes_meta_ok at mt (node_meta n) m'"
begin

lemma chown_cases:
  obtains e where "ext_chown E k p u g = Inl e"
  | q n m' where "sys_node True k p = Inr (q, n)"
      "ext_chown E k p u g = Inr (k_put q (node_with_meta (\<lambda>_. m') n) k)"
      "chown_meta_ok u g (node_meta n) m'"
proof (cases "sys_node True k p")
  case (Inl e)
  then show thesis using chown_fail that(1) by blast
next
  case (Inr qn)
  obtain q n where "qn = (q, n)" by (cases qn)
  with Inr chown_ok [of k p q n u g] that(2) show thesis by blast
qed

lemma utimes_cases:
  obtains e where "ext_utimes E k p at mt = Inl e"
  | q n m' where "sys_node True k p = Inr (q, n)"
      "ext_utimes E k p at mt = Inr (k_put q (node_with_meta (\<lambda>_. m') n) k)"
      "utimes_meta_ok at mt (node_meta n) m'"
proof (cases "sys_node True k p")
  case (Inl e)
  then show thesis using utimes_fail that(1) by blast
next
  case (Inr qn)
  obtain q n where "qn = (q, n)" by (cases qn)
  with Inr utimes_ok [of k p q n at mt] that(2) show thesis by blast
qed

end

definition sys_chown :: "kernel \<Rightarrow> ospath \<Rightarrow> u32 option \<Rightarrow> u32 option \<Rightarrow> io_error + kernel" where
  "sys_chown k p u g =
     (case sys_node True k p of
        Inl e \<Rightarrow> Inl e
      | Inr (q, n) \<Rightarrow>
          Inr (k_put q (node_with_meta (\<lambda>m. touch_meta k
            (m\<lparr>m_uid := case_option (m_uid m) id u, m_gid := case_option (m_gid m) id g\<rparr>)) n) k))"

definition sys_utimes :: "kernel \<Rightarrow> ospath \<Rightarrow> systime \<Rightarrow> systime \<Rightarrow> io_error + kernel" where
  "sys_utimes k p at mt =
     (case sys_node True k p of
        Inl e \<Rightarrow> Inl e
      | Inr (q, n) \<Rightarrow>
          Inr (k_put q (node_with_meta
            (\<lambda>m. touch_meta k (m\<lparr>m_atime := at, m_mtime := mt\<rparr>)) n) k))"

definition sys_externs :: "(kernel \<Rightarrow> ospath \<Rightarrow> io_error + statvfs) \<Rightarrow> externs" where
  "sys_externs sv = \<lparr>ext_chown = sys_chown, ext_utimes = sys_utimes, ext_statvfs = sv\<rparr>"

lemma node_with_meta_cong:
  "f (node_meta n) = g (node_meta n) \<Longrightarrow> node_with_meta f n = node_with_meta g n"
  by (cases n) auto

interpretation sys_ext: unix_externs "sys_externs sv" for sv
proof
  fix k p u g q n at mt
  assume n: "sys_node True k p = Inr (q, n)"
  let ?c = "touch_meta k ((node_meta n)\<lparr>m_uid := case_option (m_uid (node_meta n)) id u,
    m_gid := case_option (m_gid (node_meta n)) id g\<rparr>)"
  have "ext_chown (sys_externs sv) k p u g = Inr (k_put q (node_with_meta (\<lambda>_. ?c) n) k)"
    using n by (auto simp: sys_externs_def sys_chown_def
        intro!: arg_cong [where f = "\<lambda>x. k_put q x k"] node_with_meta_cong)
  moreover have "chown_meta_ok u g (node_meta n) ?c"
    by (simp add: chown_meta_ok_def touch_meta_def)
  ultimately show "\<exists>m'. ext_chown (sys_externs sv) k p u g
      = Inr (k_put q (node_with_meta (\<lambda>_. m') n) k) \<and> chown_meta_ok u g (node_meta n) m'"
    by blast
  let ?t = "touch_meta k ((node_meta n)\<lparr>m_atime := at, m_mtime := mt\<rparr>)"
  have "ext_utimes (sys_externs sv) k p at mt = Inr (k_put q (node_with_meta (\<lambda>_. ?t) n) k)"
    using n by (auto simp: sys_externs_def sys_utimes_def
        intro!: arg_cong [where f = "\<lambda>x. k_put q x k"] node_with_meta_cong)
  moreover have "utimes_meta_ok at mt (node_meta n) ?t"
    by (simp add: utimes_meta_ok_def touch_meta_def)
  ultimately show "\<exists>m'. ext_utimes (sys_externs sv) k p at mt
      = Inr (k_put q (node_with_meta (\<lambda>_. m') n) k) \<and> utimes_meta_ok at mt (node_meta n) m'"
    by blast
qed (simp_all add: sys_externs_def sys_chown_def sys_utimes_def)

subsection \<open>\<open>FileSystem\<close> (\<open>storage.rs\<close>)\<close>

type_synonym 'a storage_result = "(storage_error + 'a) \<times> kernel"

definition io_result :: "kernel \<Rightarrow> io_error + kernel \<Rightarrow> unit storage_result" where
  "io_result k r = (case r of Inl e \<Rightarrow> (Inl (storage_error_of_io e), k) | Inr k' \<Rightarrow> (Inr (), k'))"

lemma io_result_simps [simp]:
  "io_result k (Inl e) = (Inl (storage_error_of_io e), k)" "io_result k (Inr k') = (Inr (), k')"
  by (simp_all add: io_result_def)

text \<open>The fields of a \<open>FileAttr\<close> are those of the node's metadata.\<close>

definition file_attr_of_node :: "node \<Rightarrow> file_attr" where
  "file_attr_of_node n =
     (let (kind, nlink) =
        (if is_dir n then (Directory_T, 2)
         else if is_file n then (RegularFile, 1)
         else if is_symlink n then (Symlink_T, 1)
         else (RegularFile, 1));
        m = node_meta n
      in \<lparr>fa_size = node_len n, fa_blocks = 0,
          fa_atime = timestamp_from_systime (m_atime m),
          fa_mtime = timestamp_from_systime (m_mtime m),
          fa_ctime = m_ctime m,
          fa_kind = kind, fa_perm = node_mode n, fa_nlink = nlink,
          fa_uid = m_uid m, fa_gid = m_gid m, fa_rdev = 0, fa_blksize = 0\<rparr>)"

definition get_attributes_by_path :: "kernel \<Rightarrow> ospath \<Rightarrow> storage_error + file_attr" where
  "get_attributes_by_path k p =
     (case sys_lstat k p of Inr n \<Rightarrow> Inr (file_attr_of_node n) | Inl e \<Rightarrow> Inl St_NotFound)"

definition set_owner :: "externs \<Rightarrow> u32 \<Rightarrow> u32 \<Rightarrow> ospath \<Rightarrow> kernel \<Rightarrow> unit storage_result" where
  "set_owner E user_id group_id p k =
     (case ext_chown E k p (Some user_id) (Some group_id) of
        Inl e \<Rightarrow> (Inl St_Other, k) | Inr k' \<Rightarrow> (Inr (), k'))"

text \<open>\<open>make_real_path\<close> drops the root component and appends the rest, \<open>..\<close> included. Joining
  the empty path leaves a trailing slash.\<close>

definition make_real_path :: "ospath \<Rightarrow> string \<Rightarrow> ospath" where
  "make_real_path real path =
     (let clean = filter (\<lambda>c. c \<noteq> RootDir) (components path)
      in real @ (if clean = [] then [''''] else map comp_str clean))"

text \<open>
  \<open>find\<close>: an item for the node at a path, a directory with its direct entries. The entries
  whose metadata cannot be read, and special files, are skipped. \<open>unwrap\<close> on the attributes
  cannot fail after a successful \<open>lstat\<close> of the same path.
\<close>

definition find_child :: "kernel \<Rightarrow> ospath \<Rightarrow> string \<Rightarrow> fs_item option" where
  "find_child k real name =
     (case sys_lstat k (os_join real name) of
        Inl e \<Rightarrow> None
      | Inr n \<Rightarrow>
          (case get_attributes_by_path k (os_join real name) of
             Inl e \<Rightarrow> None
           | Inr a \<Rightarrow>
               if is_file n then Some (FS_File name a)
               else if is_dir n then Some (FS_Directory name [] a)
               else if is_symlink n then Some (FS_SymLink name a)
               else None))"

fun find_children :: "kernel \<Rightarrow> ospath \<Rightarrow> string list \<Rightarrow> fs_item \<Rightarrow> fs_item" where
  "find_children k real [] root = root"
| "find_children k real (name # names) root =
     find_children k real names
       (case find_child k real name of
          None \<Rightarrow> root
        | Some child \<Rightarrow> (case item_add root child of Ret r \<Rightarrow> r | Panic \<Rightarrow> root))"

definition find_item :: "ospath \<Rightarrow> kernel \<Rightarrow> string \<Rightarrow> fs_item option" where
  "find_item root_path k path =
     (let real = make_real_path root_path path
      in case sys_lstat k real of
           Inl e \<Rightarrow> None
         | Inr n \<Rightarrow>
             (case (os_file_name real, get_attributes_by_path k real) of
                (Some name, Inr a) \<Rightarrow>
                  if is_file n then Some (FS_File name a)
                  else if is_dir n then
                    (case sys_read_dir k real of
                       Inl e \<Rightarrow> None
                     | Inr names \<Rightarrow> Some (find_children k real names (FS_Directory name [] a)))
                  else if is_symlink n then Some (FS_SymLink name a)
                  else None
              | _ \<Rightarrow> None))"

definition make_dir ::
  "externs \<Rightarrow> ospath \<Rightarrow> u32 \<Rightarrow> u32 \<Rightarrow> string \<Rightarrow> string \<Rightarrow> kernel \<Rightarrow> unit storage_result" where
  "make_dir E root_path user_id group_id path name k =
     (let target = os_join (make_real_path root_path path) name
      in if is_ok (sys_lstat k target) then (Inl St_AlreadyExists, k)
         else (case sys_mkdir k target of
                 Inl e \<Rightarrow> (Inl (storage_error_of_io e), k)
               | Inr k' \<Rightarrow> set_owner E user_id group_id target k'))"

definition rename_exchange :: "ospath \<Rightarrow> ospath \<Rightarrow> kernel \<Rightarrow> unit storage_result" where
  "rename_exchange a b k =
     (let tmp = os_with_extension a ''.swap_tmp''
      in case sys_rename k a tmp of
           Inl e \<Rightarrow> (Inl (storage_error_of_io e), k)
         | Inr k1 \<Rightarrow> (case sys_rename k1 b a of
             Inl e \<Rightarrow> (Inl (storage_error_of_io e), k1)
           | Inr k2 \<Rightarrow> io_result k2 (sys_rename k2 tmp b)))"

text \<open>\<open>RenameFlags\<close>: the three known bits; \<open>from_bits_truncate\<close> drops the others.\<close>

definition NOREPLACE :: u32 where "NOREPLACE = 1"
definition EXCHANGE :: u32 where "EXCHANGE = 2"
definition WHITEOUT :: u32 where "WHITEOUT = 4"

definition flags_truncate :: "u32 \<Rightarrow> u32" where
  "flags_truncate f = f AND (NOREPLACE OR EXCHANGE OR WHITEOUT)"

definition flags_contains :: "u32 \<Rightarrow> u32 \<Rightarrow> bool" where
  "flags_contains f g \<longleftrightarrow> f AND g = g"

definition st_rename :: "ospath \<Rightarrow> string \<Rightarrow> string \<Rightarrow> u32 \<Rightarrow> kernel \<Rightarrow> unit storage_result" where
  "st_rename root_path old_path new_path flags k =
     (let old = make_real_path root_path old_path; new = make_real_path root_path new_path
      in if flags_contains flags EXCHANGE then rename_exchange old new k
         else if flags_contains flags NOREPLACE \<and> is_ok (sys_lstat k new)
         then (Inl St_AlreadyExists, k)
         else io_result k (sys_rename k old new))"

definition st_delete :: "ospath \<Rightarrow> string \<Rightarrow> kernel \<Rightarrow> unit storage_result" where
  "st_delete root_path path k =
     (let real = make_real_path root_path path
      in case sys_lstat k real of
           Inl e \<Rightarrow> (Inl (storage_error_of_io e), k)
         | Inr n \<Rightarrow>
             if is_symlink n \<or> is_file n then io_result k (sys_unlink k real)
             else if is_dir n then
               (case sys_read_dir k real of
                  Inl e \<Rightarrow> (Inl (storage_error_of_io e), k)
                | Inr names \<Rightarrow>
                    if names \<noteq> [] then (Inl St_DirectoryNotEmpty, k)
                    else io_result k (sys_rmdir k real))
             else (Inl St_NotFound, k))"

definition st_write_file ::
  "externs \<Rightarrow> ospath \<Rightarrow> u32 \<Rightarrow> u32 \<Rightarrow> string \<Rightarrow> bytes \<Rightarrow> nat \<Rightarrow> kernel \<Rightarrow> unit storage_result" where
  "st_write_file E root_path user_id group_id path data offset k =
     (let real = make_real_path root_path path;
          created = (\<not> is_ok (sys_lstat k real))
      in case sys_open_rw True k real of
           Inl e \<Rightarrow> (Inl (storage_error_of_io e), k)
         | Inr (f, k1) \<Rightarrow> (case sys_seek offset of
             Inl e \<Rightarrow> (Inl (storage_error_of_io e), k1)
           | Inr off \<Rightarrow> (case sys_write_all k1 f off data of
               Inl e \<Rightarrow> (Inl (storage_error_of_io e), k1)
             | Inr k2 \<Rightarrow> if created then set_owner E user_id group_id real k2 else (Inr (), k2))))"

definition st_read_file :: "ospath \<Rightarrow> string \<Rightarrow> nat \<Rightarrow> nat \<Rightarrow> kernel \<Rightarrow> storage_error + bytes" where
  "st_read_file root_path path offset sz k =
     (let real = make_real_path root_path path
      in case sys_open_read k real of
           Inl e \<Rightarrow> Inl (storage_error_of_io e)
         | Inr f \<Rightarrow> (case sys_seek offset of
             Inl e \<Rightarrow> Inl (storage_error_of_io e)
           | Inr off \<Rightarrow> map_err storage_error_of_io (sys_read k f off sz)))"

definition st_get_attributes :: "ospath \<Rightarrow> string \<Rightarrow> kernel \<Rightarrow> storage_error + file_attr" where
  "st_get_attributes root_path path k = get_attributes_by_path k (make_real_path root_path path)"

definition st_get_permissions :: "ospath \<Rightarrow> string \<Rightarrow> kernel \<Rightarrow> storage_error + u32" where
  "st_get_permissions root_path path k =
     (case st_get_attributes root_path path k of Inl e \<Rightarrow> Inl e | Inr a \<Rightarrow> Inr (fa_perm a))"

text \<open>
  \<open>is_allowed\<close>: the class of the user (owner, group, other) is looked up in the mode of the
  node itself (links are not followed), or of the parent when the path does not exist. On the
  root of the served tree everything is allowed.
\<close>

fun class_allows :: "permission_type \<Rightarrow> bool \<Rightarrow> operation \<Rightarrow> bool" where
  "class_allows p owner Op_Read = p_read p"
| "class_allows p owner Op_Write = p_write p"
| "class_allows p owner Op_Execute = p_execute p"
| "class_allows p owner Op_OwnerOnly = owner"

definition is_allowed ::
  "ospath \<Rightarrow> kernel \<Rightarrow> u32 \<Rightarrow> u32 \<Rightarrow> string \<Rightarrow> operation \<Rightarrow> storage_error + bool" where
  "is_allowed root_path k user_id group_id path operation =
     (let path0 = make_real_path root_path path
      in case (if is_ok (sys_lstat k path0) then Some path0 else os_parent path0) of
           None \<Rightarrow> Inl St_NotFound
         | Some p \<Rightarrow> (case get_attributes_by_path k p of
             Inl e \<Rightarrow> Inl e
           | Inr attributes \<Rightarrow> (case permission_try_from (ucast (fa_perm attributes)) of
               Inl e \<Rightarrow> Inl St_MetadataError
             | Inr permissions \<Rightarrow>
                 if os_components p = os_components (make_real_path root_path ''/'') then Inr True
                 else if user_id = fa_uid attributes
                 then Inr (class_allows (p_user permissions) True operation)
                 else if group_id = fa_gid attributes
                 then Inr (class_allows (p_group permissions) False operation)
                 else Inr (class_allows (p_other permissions) False operation))))"

text \<open>
  \<open>set_attributes\<close> in the order of the code: the mode, the owner and group, the size, the
  check for the modification time, then the times. Each part is a definition that passes on
  the kernel it leaves; a negative or overflowing time panics in the conversion.
\<close>

definition set_mode_part ::
  "ospath \<Rightarrow> string \<Rightarrow> u32 \<Rightarrow> u32 \<Rightarrow> u32 option \<Rightarrow> kernel \<Rightarrow> unit storage_result" where
  "set_mode_part root_path path user_id group_id mode k =
     (case mode of
        None \<Rightarrow> (Inr (), k)
      | Some m \<Rightarrow> (case is_allowed root_path k user_id group_id path Op_OwnerOnly of
          Inl e \<Rightarrow> (Inl e, k)
        | Inr allowed \<Rightarrow>
            if allowed then io_result k (sys_chmod k (make_real_path root_path path) m)
            else (Inl St_PermissionDenied, k)))"

definition resolve_id ::
  "u32 \<Rightarrow> u32 option \<Rightarrow> u32 \<Rightarrow> bool \<Rightarrow> storage_error + u32 option" where
  "resolve_id user_id req current is_member =
     (case req of
        None \<Rightarrow> Inr None
      | Some r \<Rightarrow>
          if r = current then Inr None
          else if user_id = 0 \<or> is_member then Inr (Some r)
          else Inl St_PermissionDenied)"

definition set_owner_part ::
  "externs \<Rightarrow> ospath \<Rightarrow> string \<Rightarrow> u32 \<Rightarrow> u32 \<Rightarrow> u32 option \<Rightarrow> u32 option \<Rightarrow> kernel \<Rightarrow> unit storage_result"
  where
  "set_owner_part E root_path path user_id group_id uid gid k =
     (if uid = None \<and> gid = None then (Inr (), k)
      else (case is_allowed root_path k user_id group_id path Op_OwnerOnly of
        Inl e \<Rightarrow> (Inl e, k)
      | Inr allowed \<Rightarrow>
          if \<not> allowed then (Inl St_PermissionDenied, k)
          else (let real_path = make_real_path root_path path
            in case get_attributes_by_path k real_path of
              Inl e \<Rightarrow> (Inl e, k)
            | Inr metadata \<Rightarrow> (case resolve_id user_id uid (fa_uid metadata) False of
                Inl e \<Rightarrow> (Inl e, k)
              | Inr target_uid \<Rightarrow> (case resolve_id user_id gid (fa_gid metadata) (gid = Some group_id) of
                  Inl e \<Rightarrow> (Inl e, k)
                | Inr target_gid \<Rightarrow>
                    if target_uid = None \<and> target_gid = None then (Inr (), k)
                    else (case ext_chown E k real_path target_uid target_gid of
                            Inl e \<Rightarrow> (Inl St_Other, k)
                          | Inr k' \<Rightarrow> (Inr (), k')))))))"

definition set_size_part ::
  "ospath \<Rightarrow> string \<Rightarrow> u32 \<Rightarrow> u32 \<Rightarrow> u64 option \<Rightarrow> kernel \<Rightarrow> unit storage_result" where
  "set_size_part root_path path user_id group_id sz k =
     (case sz of
        None \<Rightarrow> (Inr (), k)
      | Some s \<Rightarrow> (case is_allowed root_path k user_id group_id path Op_Write of
          Inl e \<Rightarrow> (Inl e, k)
        | Inr allowed \<Rightarrow>
            if \<not> allowed then (Inl St_PermissionDenied, k)
            else (case sys_open_rw False k (make_real_path root_path path) of
                    Inl e \<Rightarrow> (Inl (storage_error_of_io e), k)
                  | Inr (f, k1) \<Rightarrow> io_result k1 (sys_set_len k1 f s))))"

definition time_or :: "timestamp option \<Rightarrow> systime \<Rightarrow> systime option" where
  "time_or new current =
     (case new of None \<Rightarrow> Some current | Some t \<Rightarrow> systime_from_timestamp t)"

definition set_times_part ::
  "externs \<Rightarrow> ospath \<Rightarrow> string \<Rightarrow> u32 \<Rightarrow> u32 \<Rightarrow> timestamp option \<Rightarrow> timestamp option \<Rightarrow> kernel \<Rightarrow>
     (storage_error + file_attr) outcome \<times> kernel" where
  "set_times_part E root_path path user_id group_id new_atime new_mtime k =
     (case (if new_mtime = None then Inr True
            else is_allowed root_path k user_id group_id path Op_Write) of
        Inl e \<Rightarrow> (Ret (Inl e), k)
      | Inr allowed \<Rightarrow>
          if \<not> allowed then (Ret (Inl St_PermissionDenied), k)
          else (let real_path = make_real_path root_path path
            in case sys_lstat k real_path of
              Inl e \<Rightarrow> (Ret (Inl (storage_error_of_io e)), k)
            | Inr n \<Rightarrow>
                (case (time_or new_atime (m_atime (node_meta n)),
                       time_or new_mtime (m_mtime (node_meta n))) of
                   (Some atime, Some mtime) \<Rightarrow>
                     (case ext_utimes E k real_path atime mtime of
                        Inl e \<Rightarrow> (Ret (Inl (storage_error_of_io e)), k)
                      | Inr k' \<Rightarrow> (Ret (get_attributes_by_path k' real_path), k'))
                 | _ \<Rightarrow> (Panic, k))))"

definition st_set_attributes ::
  "externs \<Rightarrow> ospath \<Rightarrow> string \<Rightarrow> u32 \<Rightarrow> u32 \<Rightarrow> set_attr \<Rightarrow> kernel \<Rightarrow>
     (storage_error + file_attr) outcome \<times> kernel" where
  "st_set_attributes E root_path path user_id group_id new k =
     (case set_mode_part root_path path user_id group_id (sa_mode new) k of
        (Inl e, k1) \<Rightarrow> (Ret (Inl e), k1)
      | (Inr _, k1) \<Rightarrow>
          (case set_owner_part E root_path path user_id group_id (sa_uid new) (sa_gid new) k1 of
             (Inl e, k2) \<Rightarrow> (Ret (Inl e), k2)
           | (Inr _, k2) \<Rightarrow>
               (case set_size_part root_path path user_id group_id (sa_size new) k2 of
                  (Inl e, k3) \<Rightarrow> (Ret (Inl e), k3)
                | (Inr _, k3) \<Rightarrow>
                    set_times_part E root_path path user_id group_id (sa_atime new) (sa_mtime new) k3)))"

definition st_read_symlink :: "ospath \<Rightarrow> string \<Rightarrow> kernel \<Rightarrow> storage_error + string" where
  "st_read_symlink root_path path k =
     map_err storage_error_of_io (sys_readlink k (make_real_path root_path path))"

definition st_create_symlink ::
  "ospath \<Rightarrow> string \<Rightarrow> string \<Rightarrow> kernel \<Rightarrow> file_attr storage_result" where
  "st_create_symlink root_path path target k =
     (let real = make_real_path root_path path
      in if is_ok (sys_lstat k real) then (Inl St_AlreadyExists, k)
         else (case sys_symlink k target real of
                 Inl e \<Rightarrow> (Inl (storage_error_of_io e), k)
               | Inr k' \<Rightarrow> (get_attributes_by_path k' real, k')))"

definition st_get_fs_stats :: "externs \<Rightarrow> ospath \<Rightarrow> string \<Rightarrow> kernel \<Rightarrow> storage_error + stats" where
  "st_get_fs_stats E root_path path k =
     (let real = make_real_path root_path path
      in if \<not> is_ok (sys_lstat k real) then Inl St_InvalidPath
         else (case ext_statvfs E k real of
                 Inr v \<Rightarrow> Inr \<lparr>s_blocks = vfs_blocks v, s_bfree = vfs_bfree v, s_bavail = vfs_bavail v,
                   s_files = vfs_files v, s_ffree = vfs_ffree v, s_bsize = ucast (vfs_bsize v),
                   s_namelen = ucast (vfs_namemax v), s_frsize = ucast (vfs_frsize v)\<rparr>
               | Inl e \<Rightarrow> Inl St_MetadataError))"

lemmas storage_ops = make_dir_def st_rename_def rename_exchange_def st_delete_def
  st_write_file_def st_read_file_def st_get_attributes_def st_set_attributes_def
  st_read_symlink_def st_create_symlink_def st_get_fs_stats_def

end
