(* ===== verification/Storage_Laws.thy ===== *)
theory Storage_Laws
  imports Storage
begin

text \<open>
  What the storage operations of \<open>Storage\<close> promise: contents after writes, what deletes and
  renames change and leave alone, who may do what, where paths lead.
\<close>

subsection \<open>One node replaced\<close>

lemma sys_node_put:
  assumes "wf_kernel k" and "sys_resolve fl k p = Inr q"
    and "tree_ext (k_root k) (nset (k_root k) q n)"
  shows "sys_node fl (k_put q n k) p = Inr (q, n)"
proof -
  have "sys_resolve fl (k_put q n k) p = Inr q"
    using assms(2) by (rule sys_resolve_ext) (simp add: assms(3))
  then show ?thesis
    using sys_resolve_put [OF assms(1,2), of n] by (simp add: sys_node_def)
qed

lemma wf_kernel_put:
  "wf_kernel k \<Longrightarrow> q \<noteq> [] \<or> is_dir n \<Longrightarrow> wf_kernel (k_put q n k)"
  by (simp add: wf_kernel_def nset_is_dir)

lemma wf_kernel_del [simp]: "wf_kernel (k_del q k) = wf_kernel k"
  by (simp add: wf_kernel_def)

lemma wf_kernel_root: "wf_kernel k \<Longrightarrow> nlookup (k_root k) [] \<noteq> Some (FileN m b)"
  by (auto simp: wf_kernel_def)

lemma sys_node_file_ne_root:
  "wf_kernel k \<Longrightarrow> sys_node fl k p = Inr (q, FileN m b) \<Longrightarrow> q \<noteq> []"
  using sys_node_lookup wf_kernel_root by blast

lemma sys_node_put_file:
  assumes "wf_kernel k" and "sys_resolve fl k p = Inr q"
    and "case nlookup (k_root k) q of None \<Rightarrow> True | Some o' \<Rightarrow> is_file o'"
  shows "sys_node fl (k_put q (FileN m b) k) p = Inr (q, FileN m b)"
    and "wf_kernel (k_put q (FileN m b) k)"
proof -
  have par: "q = [] \<or> dir_at (k_root k) (butlast q)"
    using assms(1,2) by (auto simp: wf_kernel_def dest: sys_resolve_parent_dir)
  show "sys_node fl (k_put q (FileN m b) k) p = Inr (q, FileN m b)"
    using assms(1,2) nset_file_ext [OF par assms(3)] by (rule sys_node_put)
  have "q \<noteq> []" using assms(1,3) by (cases q) (auto simp: wf_kernel_def is_dir_iff)
  then show "wf_kernel (k_put q (FileN m b) k)" using assms(1) by (simp add: wf_kernel_put)
qed

lemma sys_node_put_meta:
  assumes "wf_kernel k" and "sys_node fl k p = Inr (q, n)"
  shows "sys_node fl (k_put q (node_with_meta f n) k) p = Inr (q, node_with_meta f n)"
    and "wf_kernel (k_put q (node_with_meta f n) k)"
proof -
  from assms(2) have r: "sys_resolve fl k p = Inr q" and l: "nlookup (k_root k) q = Some n"
    by (simp_all add: sys_node_lookup)
  have par: "q = [] \<or> dir_at (k_root k) (butlast q)"
    using assms(1) r by (auto simp: wf_kernel_def dest: sys_resolve_parent_dir)
  show "sys_node fl (k_put q (node_with_meta f n) k) p = Inr (q, node_with_meta f n)"
    using assms(1) r nset_meta_ext [OF par l] by (rule sys_node_put)
  show "wf_kernel (k_put q (node_with_meta f n) k)"
  proof (cases "q = []")
    case True
    with l assms(1) show ?thesis
      by (auto intro!: wf_kernel_put simp: wf_kernel_def is_dir_iff)
  qed (simp add: assms(1) wf_kernel_put)
qed

text \<open>Two kernels agree away from one place: nothing beside it changes.\<close>

definition same_beside :: "string list \<Rightarrow> kernel \<Rightarrow> kernel \<Rightarrow> bool" where
  "same_beside q k k' \<longleftrightarrow> (\<forall>p. p \<parallel> q \<longrightarrow> nlookup (k_root k') p = nlookup (k_root k) p)"

lemma same_beside_refl [simp]: "same_beside q k k"
  by (simp add: same_beside_def)

lemma same_beside_trans: "same_beside q k k' \<Longrightarrow> same_beside q k' k'' \<Longrightarrow> same_beside q k k''"
  by (simp add: same_beside_def)

lemma same_beside_put [simp]: "same_beside q k (k_put q n k)"
  by (auto simp: same_beside_def intro: nlookup_nset_parallel)

lemma same_beside_del [simp]: "same_beside q k (k_del q k)"
  by (auto simp: same_beside_def intro: nlookup_ndel_parallel)

subsection \<open>Writing and reading\<close>

text \<open>The bytes a path leads to.\<close>

definition file_bytes :: "kernel \<Rightarrow> ospath \<Rightarrow> bytes option" where
  "file_bytes k p =
     (case sys_node True k p of Inr (q, FileN m b) \<Rightarrow> Some b | _ \<Rightarrow> None)"

lemma open_rw_ok:
  assumes "wf_kernel k" and "sys_open_rw c k p = Inr (q, k1)"
  obtains m b where "sys_node True k1 p = Inr (q, FileN m b)" "wf_kernel k1"
    "b = (case file_bytes k p of None \<Rightarrow> [] | Some b \<Rightarrow> b)" "same_beside q k k1"
proof -
  from assms(2) have r: "sys_resolve True k p = Inr q"
    by (auto simp: sys_open_rw_def split: sum.splits option.splits if_splits node.splits)
  show thesis
  proof (cases "nlookup (k_root k) q")
    case None
    with assms r have k1: "k1 = k_put q (FileN (new_meta k 0x1B6 0) []) k"
      by (auto simp: sys_open_rw_def split: if_splits)
    have "file_bytes k p = None" using r None by (simp add: file_bytes_def sys_node_def)
    with sys_node_put_file [OF assms(1) r, of "new_meta k 0x1B6 0" "[]"] None k1
    show thesis by (intro that) auto
  next
    case (Some n)
    with assms r obtain m b where "n = FileN m b" and "k1 = k"
      by (auto simp: sys_open_rw_def split: node.splits)
    with Some r assms(1) show thesis
      by (intro that [of m b]) (auto simp: file_bytes_def sys_node_def)
  qed
qed

lemma write_all_ok:
  assumes "wf_kernel k" and "sys_node True k p = Inr (q, FileN m b)"
  obtains k' m' where "sys_write_all k q off d = Inr k'"
    "sys_node True k' p = Inr (q, FileN m' (write_at b off d))" "wf_kernel k'" "same_beside q k k'"
proof (cases "d = []")
  case True
  with assms show thesis
    by (intro that [of k m]) (auto simp: sys_write_all_def write_at_def dest: sys_node_lookup)
next
  case False
  from assms(2) have r: "sys_resolve True k p = Inr q"
    and l: "nlookup (k_root k) q = Some (FileN m b)"
    by (simp_all add: sys_node_lookup)
  show thesis
    using sys_node_put_file [OF assms(1) r, of "touch_data k m" "write_at b off d"] l False
    by (intro that [of "k_put q (FileN (touch_data k m) (write_at b off d)) k"])
       (auto simp: sys_write_all_def)
qed

lemma set_owner_ok:
  assumes "wf_kernel k" and "unix_externs E" and "sys_node True k p = Inr (q, FileN m b)"
  obtains m' where "set_owner E u g p k = (Inr (), k_put q (FileN m' b) k)"
    "sys_node True (k_put q (FileN m' b) k) p = Inr (q, FileN m' b)"
    "wf_kernel (k_put q (FileN m' b) k)" "m_uid m' = u" "m_gid m' = g"
proof -
  from unix_externs.chown_ok [OF assms(2,3), of "Some u" "Some g"] obtain m' where
    "ext_chown E k p (Some u) (Some g) = Inr (k_put q (FileN m' b) k)"
    and "chown_meta_ok (Some u) (Some g) m m'" by auto
  with sys_node_put_meta [OF assms(1,3), of "\<lambda>_. m'"] show thesis
    by (intro that [of m']) (auto simp: set_owner_def chown_meta_ok_def)
qed

lemma write_file_cases:
  assumes "wf_kernel k" and "unix_externs E"
    and "st_write_file E r u g p d off k = (Inr (), k')"
  obtains q m where "sys_node True k' (make_real_path r p) =
      Inr (q, FileN m (write_at (case file_bytes k (make_real_path r p) of None \<Rightarrow> [] | Some b \<Rightarrow> b) off d))"
    "wf_kernel k'" "same_beside q k k'"
    "\<not> is_ok (sys_lstat k (make_real_path r p)) \<Longrightarrow> m_uid m = u \<and> m_gid m = g" "off < 2 ^ 63"
proof -
  let ?p = "make_real_path r p"
  from assms(3) obtain q k1 where o: "sys_open_rw True k ?p = Inr (q, k1)"
    by (auto simp: st_write_file_def Let_def split: sum.splits prod.splits)
  from open_rw_ok [OF assms(1) o] obtain m b where 1: "sys_node True k1 ?p = Inr (q, FileN m b)"
    "wf_kernel k1" "b = (case file_bytes k ?p of None \<Rightarrow> [] | Some b \<Rightarrow> b)" "same_beside q k k1"
    by blast
  have off: "off < 2 ^ 63" and seek: "sys_seek off = Inr off"
    using assms(3) o by (auto simp: st_write_file_def sys_seek_def split: if_splits)
  from write_all_ok [OF 1(2,1), of off d] obtain k2 m2 where 2: "sys_write_all k1 q off d = Inr k2"
    "sys_node True k2 ?p = Inr (q, FileN m2 (write_at b off d))" "wf_kernel k2" "same_beside q k1 k2"
    by blast
  from set_owner_ok [OF 2(3) assms(2) 2(2), of u g] obtain m3 where
    3: "set_owner E u g ?p k2 = (Inr (), k_put q (FileN m3 (write_at b off d)) k2)"
    "sys_node True (k_put q (FileN m3 (write_at b off d)) k2) ?p = Inr (q, FileN m3 (write_at b off d))"
    "wf_kernel (k_put q (FileN m3 (write_at b off d)) k2)" "m_uid m3 = u" "m_gid m3 = g"
    by blast
  have res: "(if \<not> is_ok (sys_lstat k ?p) then set_owner E u g ?p k2 else (Inr (), k2)) = (Inr (), k')"
    using assms(3) o seek 2(1) by (simp add: st_write_file_def Let_def)
  show thesis
  proof (cases "is_ok (sys_lstat k ?p)")
    case True
    with res have "k' = k2" by simp
    with 1 2 True off show thesis
      by (intro that [of q m2]) (auto intro: same_beside_trans)
  next
    case False
    with res 3(1) have k': "k' = k_put q (FileN m3 (write_at b off d)) k2" by simp
    have "same_beside q k k'"
      unfolding k' using 1(4) 2(4) by (meson same_beside_put same_beside_trans)
    with 1 3 False off k' show thesis by (intro that [of q m3]) auto
  qed
qed

text \<open>
  C12. A write that succeeds leaves the file with exactly the bytes it had, the new ones laid over
  them from the offset on and a gap before them filled with zeros; a missing file counts as
  empty and gets the caller as its owner. Nothing beside that one file changes.
\<close>

theorem write_file_contents:
  assumes "wf_kernel k" and "unix_externs E"
    and "st_write_file E r u g p d off k = (Inr (), k')"
  shows "file_bytes k' (make_real_path r p) =
      Some (write_at (case file_bytes k (make_real_path r p) of None \<Rightarrow> [] | Some b \<Rightarrow> b) off d)
    \<and> (\<not> is_ok (sys_lstat k (make_real_path r p)) \<longrightarrow>
        (\<exists>q n. sys_node True k' (make_real_path r p) = Inr (q, n)
          \<and> m_uid (node_meta n) = u \<and> m_gid (node_meta n) = g))
    \<and> (\<exists>q. sys_resolve True k' (make_real_path r p) = Inr q \<and> same_beside q k k')"
proof (rule write_file_cases [OF assms])
  fix q m
  let ?p = "make_real_path r p"
  let ?b = "write_at (case file_bytes k ?p of None \<Rightarrow> [] | Some b \<Rightarrow> b) off d"
  assume n: "sys_node True k' ?p = Inr (q, FileN m ?b)" and s: "same_beside q k k'"
    and o: "\<not> is_ok (sys_lstat k ?p) \<Longrightarrow> m_uid m = u \<and> m_gid m = g"
  have "file_bytes k' ?p = Some ?b" using n by (simp add: file_bytes_def [of k'])
  moreover have "sys_resolve True k' ?p = Inr q" using n by (simp add: sys_node_lookup)
  ultimately show ?thesis using n s o by auto
qed

definition witness_meta :: "u32 \<Rightarrow> u32 \<Rightarrow> u32 \<Rightarrow> meta" where
  "witness_meta perm u g = \<lparr>m_perm = perm, m_uid = u, m_gid = g,
     m_atime = \<lparr>st_sec = 5, st_nsec = 0\<rparr>, m_mtime = \<lparr>st_sec = 6, st_nsec = 0\<rparr>,
     m_ctime = \<lparr>ts_sec = 7, ts_nsec = 0\<rparr>, m_size = 4096\<rparr>"

text \<open>A small served tree for the witnesses: \<open>/s/a\<close> (three bytes), \<open>/s/d/\<close> and \<open>/s/d/f\<close>,
  and beside it the file \<open>/x\<close>.\<close>

definition witness_kernel :: kernel where
  "witness_kernel = \<lparr>
     k_root = DirN (witness_meta 0x1ED 0 0)
       [(''s'', DirN (witness_meta 0x1FF 0 0)
          [(''a'', FileN (witness_meta 0x1A4 7 8) [1, 2, 3]),
           (''d'', DirN (witness_meta 0x1FF 7 8) [(''f'', FileN (witness_meta 0x180 7 8) [9])]),
           (''l'', LinkN (witness_meta 0x1FF 0 0) ''a'')]),
        (''x'', FileN (witness_meta 0x180 0 0) [4])],
     k_umask = 0x12, k_now = \<lparr>st_sec = 100, st_nsec = 0\<rparr>\<rparr>"

definition witness_externs :: externs where
  "witness_externs = sys_externs (\<lambda>k p. Inl Io_Other)"

lemma witness_unix_externs: "unix_externs witness_externs"
  unfolding witness_externs_def by (rule sys_ext.unix_externs_axioms)

lemma witness_wf: "wf_kernel witness_kernel"
  by (simp add: wf_kernel_def witness_kernel_def)

lemma witness_paths [simp]:
  "make_real_path [''s''] ''/a'' = [''s'', ''a'']" "make_real_path [''s''] ''/b'' = [''s'', ''b'']"
  "make_real_path [''s''] ''/d'' = [''s'', ''d'']" "make_real_path [''s''] ''/d/f'' = [''s'', ''d'', ''f'']"
  "make_real_path [''s''] ''/l'' = [''s'', ''l'']" "make_real_path [''s''] ''/'' = [''s'', '''']"
  "make_real_path [''s''] ''/../x'' = [''s'', ''..'', ''x'']"
  by code_simp+

lemmas witness_eval = storage_ops Let_def sys_defs sys_node_def sys_resolve_def max_links_def
  witness_kernel_def

lemma write_file_contents_witness:
  "file_bytes (snd (st_write_file witness_externs [''s''] 7 8 ''/a'' [10, 11] 4 witness_kernel))
     (make_real_path [''s''] ''/a'') = Some [1, 2, 3, 0, 10, 11]"
proof -
  have old: "file_bytes witness_kernel (make_real_path [''s''] ''/a'') = Some [1, 2, 3]"
    by (simp add: file_bytes_def witness_eval)
  have "st_write_file witness_externs [''s''] 7 8 ''/a'' [10, 11] 4 witness_kernel
    = (Inr (), snd (st_write_file witness_externs [''s''] 7 8 ''/a'' [10, 11] 4 witness_kernel))"
    by (simp add: witness_eval)
  from write_file_contents [OF witness_wf witness_unix_externs this] old show ?thesis
    by (simp add: write_at_def copy_slice_def)
qed

lemma write_then_read:
  assumes "wf_kernel k" and "unix_externs E"
    and "st_write_file E r u g p d off k = (Inr (), k')"
  shows "st_read_file r p off (length d) k' = Inr d
    \<and> (\<forall>b off' n. file_bytes k (make_real_path r p) = Some b
          \<longrightarrow> (off' + n \<le> off \<or> off + length d \<le> off') \<longrightarrow> off' + n \<le> length b \<longrightarrow> off' < 2 ^ 63
          \<longrightarrow> st_read_file r p off' n k' = st_read_file r p off' n k)"
proof (rule write_file_cases [OF assms])
  fix q m
  let ?p = "make_real_path r p"
  let ?b = "case file_bytes k ?p of None \<Rightarrow> [] | Some b \<Rightarrow> b"
  assume n: "sys_node True k' ?p = Inr (q, FileN m (write_at ?b off d))" and o: "off < 2 ^ 63"
  then have "nlookup (k_root k') q = Some (FileN m (write_at ?b off d))"
    by (simp add: sys_node_lookup)
  with n have new: "off' < 2 ^ 63 \<Longrightarrow> st_read_file r p off' c k' = Inr (read_at (write_at ?b off d) off' c)"
    for off' c
    by (simp add: st_read_file_def Let_def sys_open_read_def sys_seek_def sys_read_def)
  have old: "off' < 2 ^ 63 \<Longrightarrow> file_bytes k ?p = Some b \<Longrightarrow>
      st_read_file r p off' c k = Inr (read_at b off' c)" for off' c b
    by (auto simp: file_bytes_def st_read_file_def Let_def sys_open_read_def sys_seek_def
        sys_read_def dest: sys_node_lookup split: sum.splits node.splits)
  show ?thesis
    using new old o by (auto simp: read_at_write_at read_at_write_at_disjoint)
qed

text \<open>
  What was written is what is read back: after a successful write at an offset, a read of
  that length at that offset returns the data, and a read elsewhere in the old file returns what
  it returned before.
\<close>

lemma write_read_roundtrip:
  assumes "wf_kernel k" and "unix_externs E"
    and "st_write_file E r u g p d off k = (Inr (), k')"
  shows "st_read_file r p off (length d) k' = Inr d
    \<and> (\<forall>b off' n. file_bytes k (make_real_path r p) = Some b
          \<longrightarrow> (off' + n \<le> off \<or> off + length d \<le> off') \<longrightarrow> off' + n \<le> length b \<longrightarrow> off' < 2 ^ 63
          \<longrightarrow> st_read_file r p off' n k' = st_read_file r p off' n k)"
  using assms by (rule write_then_read)

lemma write_read_roundtrip_witness:
  "st_read_file [''s''] ''/a'' 4 2
     (snd (st_write_file witness_externs [''s''] 7 8 ''/a'' [10, 11] 4 witness_kernel)) = Inr [10, 11]"
proof -
  have "st_write_file witness_externs [''s''] 7 8 ''/a'' [10, 11] 4 witness_kernel
    = (Inr (), snd (st_write_file witness_externs [''s''] 7 8 ''/a'' [10, 11] 4 witness_kernel))"
    by (simp add: witness_eval)
  from write_read_roundtrip [OF witness_wf witness_unix_externs this]
  show ?thesis by (simp add: numeral_2_eq_2)
qed



subsection \<open>Deleting\<close>

text \<open>
  C18. A delete fails without any effect, or it removes exactly one node, which is a file, a
  symbolic link (the link, not its target) or an empty directory; everything beside it stays.
\<close>

theorem delete_spec:
  "case st_delete r p k of
     (Inl e, k') \<Rightarrow> k' = k
   | (Inr _, k') \<Rightarrow> \<exists>q n. k' = k_del q k \<and> same_beside q k k'
       \<and> sys_resolve False k (make_real_path r p) = Inr q \<and> nlookup (k_root k) q = Some n
       \<and> (case n of DirN m es \<Rightarrow> es = [] | OtherN m t \<Rightarrow> False | _ \<Rightarrow> True)"
proof -
  let ?p = "make_real_path r p"
  show ?thesis
  proof (cases "sys_node False k ?p")
    case (Inl e)
    then show ?thesis by (simp add: st_delete_def Let_def sys_lstat_def)
  next
    case (Inr qn)
    obtain q n where qn: "qn = (q, n)" by (cases qn)
    show ?thesis
    proof (cases n)
      case (FileN m b)
      with Inr qn show ?thesis
        by (simp add: st_delete_def Let_def sys_lstat_def sys_unlink_def) (auto dest: sys_node_lookup)
    next
      case (LinkN m t)
      with Inr qn show ?thesis
        by (simp add: st_delete_def Let_def sys_lstat_def sys_unlink_def) (auto dest: sys_node_lookup)
    next
      case (OtherN m t)
      with Inr qn show ?thesis by (simp add: st_delete_def Let_def sys_lstat_def)
    next
      case (DirN m es)
      have "\<exists>q. k' = k_del q k \<and> sys_resolve False k ?p = Inr q
          \<and> nlookup (k_root k) q = Some (DirN m [])" if "sys_rmdir k ?p = Inr k'" for k'
      proof -
        from that obtain q' m' where n': "sys_node False k (strip_slashes ?p) = Inr (q', DirN m' [])"
          and k': "k' = k_del q' k"
          by (auto simp: sys_rmdir_def Let_def split: if_splits sum.splits node.splits)
        from sys_node_lookup [OF n'] have r': "sys_resolve False k (strip_slashes ?p) = Inr q'"
          and l: "nlookup (k_root k) q' = Some (DirN m' [])" by simp_all
        from r' have "sys_resolve False k ?p = Inr q'"
          by (rule sys_resolve_strip) (simp add: dir_at_def l)
        with sys_node_lookup [of False k ?p q n] Inr qn DirN k' l show ?thesis by auto
      qed
      moreover have "(\<exists>e. st_delete r p k = (Inl e, k))
          \<or> (\<exists>k'. sys_rmdir k ?p = Inr k' \<and> st_delete r p k = (Inr (), k'))"
        using DirN Inr qn
        by (cases "sys_read_dir k ?p"; cases "sys_rmdir k ?p")
           (simp_all add: st_delete_def Let_def sys_lstat_def)
      ultimately show ?thesis by fastforce
    qed
  qed
qed

subsection \<open>Renaming\<close>

lemma sys_rename_cases:
  assumes "sys_rename k a b = Inr k'"
  obtains qa qb n where "sys_resolve False k (strip_slashes a) = Inr qa"
    "sys_resolve False k (strip_slashes b) = Inr qb" "nlookup (k_root k) qa = Some n"
    "qa = qb \<and> k' = k \<or> qa \<parallel> qb \<and> k' = k_put qb n (k_del qa k)
       \<and> (case nlookup (k_root k) qb of None \<Rightarrow> True
          | Some (DirN m es) \<Rightarrow> es = [] \<and> is_dir n | Some o' \<Rightarrow> \<not> is_dir n)"
proof -
  from assms obtain qa qb where ra: "sys_resolve False k (strip_slashes a) = Inr qa"
    and rb: "sys_resolve False k (strip_slashes b) = Inr qb"
    by (auto simp: sys_rename_def Let_def split: if_splits sum.splits)
  from assms ra rb obtain n where n: "nlookup (k_root k) qa = Some n"
    by (auto simp: sys_rename_def Let_def split: if_splits option.splits)
  have "qa = qb \<and> k' = k \<or> \<not> strict_prefix qa qb \<and> \<not> strict_prefix qb qa \<and> qa \<noteq> qb"
    using assms ra rb n by (simp add: sys_rename_def Let_def split: if_splits)
  then consider "qa = qb" "k' = k" | "qa \<parallel> qb" "qa \<noteq> qb"
    by (metis parallel_def prefix_order.le_imp_less_or_eq)
  then show thesis
  proof cases
    case 1
    with ra rb n show thesis by (intro that) auto
  next
    case 2
    then have sp: "\<not> strict_prefix qa qb" "\<not> strict_prefix qb qa"
      by (auto simp: parallel_def strict_prefix_def)
    have "k' = k_put qb n (k_del qa k) \<and> (case nlookup (k_root k) qb of None \<Rightarrow> True
          | Some (DirN m es) \<Rightarrow> es = [] \<and> is_dir n | Some o' \<Rightarrow> \<not> is_dir n)"
      using assms ra rb n sp 2
      by (cases "nlookup (k_root k) qb"; cases "the (nlookup (k_root k) qb)")
         (simp_all add: sys_rename_def Let_def split: if_splits)
    with 2 ra rb n show thesis by (intro that) auto
  qed
qed

text \<open>A moved node is where it was moved to, with all that is below it; its old place is free.\<close>

lemma dir_at_keep:
  assumes "p \<parallel> q" and "q = [] \<or> dir_at t (butlast q)"
  shows "q = [] \<or> dir_at (ndel t p) (butlast q)" and "q = [] \<or> dir_at (nset t p n) (butlast q)"
proof -
  have "dir_at (ndel t p) (butlast q) \<and> dir_at (nset t p n) (butlast q)" if "q \<noteq> []"
  proof -
    from assms(2) that obtain m es where d: "nlookup t (butlast q) = Some (DirN m es)"
      by (auto simp: dir_at_def is_dir_iff split: option.splits)
    have "\<not> prefix p (butlast q)"
      using assms(1) that by (metis append_butlast_last_id parallelD1 prefix_append)
    then consider "strict_prefix (butlast q) p" | "p \<parallel> butlast q"
      using prefix_cases [of p "butlast q"] by blast
    then show ?thesis
    proof cases
      case 1
      with nlookup_ndel_above [OF d 1] nlookup_nset_above [OF d 1, of n] show ?thesis
        by (auto simp: dir_at_def)
    next
      case 2
      with d show ?thesis by (simp add: dir_at_def nlookup_ndel_parallel nlookup_nset_parallel)
    qed
  qed
  then show "q = [] \<or> dir_at (ndel t p) (butlast q)" "q = [] \<or> dir_at (nset t p n) (butlast q)"
    by blast+
qed

lemma move_lookup:
  assumes "qa \<parallel> qb" and "qb = [] \<or> dir_at (k_root k) (butlast qb)"
  shows "nlookup (k_root (k_put qb n (k_del qa k))) (qb @ r) = nlookup n r"
    and "nlookup (k_root (k_put qb n (k_del qa k))) (qa @ r) = None"
    and "q \<parallel> qa \<Longrightarrow> q \<parallel> qb \<Longrightarrow>
      nlookup (k_root (k_put qb n (k_del qa k))) q = nlookup (k_root k) q"
proof -
  show "nlookup (k_root (k_put qb n (k_del qa k))) (qb @ r) = nlookup n r"
    using dir_at_keep(1) [OF assms] by (simp add: nlookup_nset_below)
  have "qb \<parallel> qa @ r" using parallel_append [of qb qa "[]" r] assms(1) by (auto simp: parallel_def)
  moreover have "qa \<noteq> []" using assms(1) by auto
  ultimately show "nlookup (k_root (k_put qb n (k_del qa k))) (qa @ r) = None"
    by (simp add: nlookup_nset_parallel nlookup_ndel_below)
  show "nlookup (k_root (k_put qb n (k_del qa k))) q = nlookup (k_root k) q"
    if "q \<parallel> qa" "q \<parallel> qb"
    using that by (simp add: nlookup_nset_parallel nlookup_ndel_parallel parallel_def)
qed

text \<open>
  C19. A plain rename fails without effect, or moves one subtree: what was at and below the old
  path is at and below the new one, nothing remains at the old place, at most a non-directory or
  an empty directory was replaced, and everything beside the two places is unchanged.
\<close>

theorem rename_moves:
  assumes "wf_kernel k" and "\<not> flags_contains flags EXCHANGE"
  shows "case st_rename r old new flags k of
     (Inl e, k') \<Rightarrow> k' = k
   | (Inr _, k') \<Rightarrow> \<exists>qa qb n.
       sys_resolve False k (strip_slashes (make_real_path r old)) = Inr qa
       \<and> sys_resolve False k (strip_slashes (make_real_path r new)) = Inr qb
       \<and> nlookup (k_root k) qa = Some n
       \<and> (qa = qb \<and> k' = k
          \<or> (\<forall>s. nlookup (k_root k') (qb @ s) = nlookup n s \<and> nlookup (k_root k') (qa @ s) = None)
            \<and> (\<forall>q. q \<parallel> qa \<longrightarrow> q \<parallel> qb \<longrightarrow> nlookup (k_root k') q = nlookup (k_root k) q)
            \<and> (\<forall>m es. nlookup (k_root k) qb = Some (DirN m es) \<longrightarrow> es = [] \<and> is_dir n))"
proof (cases "sys_rename k (make_real_path r old) (make_real_path r new)")
  case (Inl e)
  with assms(2) show ?thesis by (auto simp: st_rename_def Let_def)
next
  case (Inr k')
  then show ?thesis
  proof (cases rule: sys_rename_cases)
    case (1 qa qb n)
    have "qb = [] \<or> dir_at (k_root k) (butlast qb)"
      using 1(2) assms(1) by (auto simp: wf_kernel_def dest: sys_resolve_parent_dir)
    with 1 have "qa = qb \<and> k' = k
          \<or> (\<forall>s. nlookup (k_root k') (qb @ s) = nlookup n s \<and> nlookup (k_root k') (qa @ s) = None)
            \<and> (\<forall>q. q \<parallel> qa \<longrightarrow> q \<parallel> qb \<longrightarrow> nlookup (k_root k') q = nlookup (k_root k) q)
            \<and> (\<forall>m es. nlookup (k_root k) qb = Some (DirN m es) \<longrightarrow> es = [] \<and> is_dir n)"
      using move_lookup [of qa qb k] by auto
    then show ?thesis
      using Inr 1 assms(2) by (auto simp: st_rename_def Let_def)
  qed
qed

lemma rename_moves_witness:
  "nlookup (k_root (snd (st_rename [''s''] ''/d/f'' ''/b'' 1 witness_kernel))) [''s'', ''b'']
     = Some (FileN (witness_meta 0x180 7 8) [9])"
proof -
  have f: "\<not> flags_contains 1 EXCHANGE" by (simp add: flags_contains_def EXCHANGE_def)
  have r: "sys_resolve False witness_kernel [''s'', ''d'', ''f''] = Inr [''s'', ''d'', ''f'']"
      "sys_resolve False witness_kernel [''s'', ''b''] = Inr [''s'', ''b'']"
      "nlookup (k_root witness_kernel) [''s'', ''d'', ''f''] = Some (FileN (witness_meta 0x180 7 8) [9])"
    by (simp_all add: witness_eval)
  have "fst (st_rename [''s''] ''/d/f'' ''/b'' 1 witness_kernel) = Inr ()"
    by (simp add: witness_eval flags_contains_def EXCHANGE_def NOREPLACE_def strip_slashes_def dot_end_def)
  with rename_moves [OF witness_wf f, of "[''s'']" "''/d/f''" "''/b''"] r show ?thesis
    by (auto simp: strip_slashes_def split: prod.splits sum.splits dest: spec [of _ "[]"])
qed

lemma move_keeps_file:
  assumes par: "qa \<parallel> qb" and dir: "qb = [] \<or> dir_at (k_root k) (butlast qb)"
    and n: "nlookup (k_root k) qa = Some n" and free: "nlookup (k_root k) qb = None"
    and q: "nlookup (k_root k) q = Some (FileN m b)"
  shows "\<exists>q'. nlookup (k_root (k_put qb n (k_del qa k))) q' = Some (FileN m b)"
proof -
  have no_dir: "\<not> dir_at (k_root k) q" using q by (simp add: dir_at_def)
  have "\<not> strict_prefix q qa" using nlookup_prefix_dir [OF n] no_dir by blast
  then consider s where "q = qa @ s" | "q \<parallel> qa"
    using prefix_cases [of qa q] by (metis parallel_commute prefixE)
  then show ?thesis
  proof cases
    case (1 s)
    with n q have "nlookup n s = Some (FileN m b)" by (simp add: nlookup_append)
    then show ?thesis using move_lookup(1) [OF par dir, of n s] by auto
  next
    case 2
    have "\<not> prefix qb q"
    proof
      assume "prefix qb q"
      then obtain s where "q = qb @ s" by (auto simp: prefix_def)
      with free q show False by (simp add: nlookup_append)
    qed
    moreover have "\<not> strict_prefix q qb"
    proof
      assume "strict_prefix q qb"
      then obtain x s where "qb = q @ x # s"
        by (metis append_Nil2 neq_Nil_conv prefixE strict_prefix_def)
      with dir have "dir_at (k_root k) (q @ butlast (x # s))" by (simp add: butlast_append)
      with no_dir dir_at_parent show False by blast
    qed
    ultimately have "q \<parallel> qb" using prefix_cases [of qb q] by (metis parallel_commute)
    then show ?thesis using move_lookup(3) [OF par dir 2, of n] q by auto
  qed
qed



subsection \<open>Exchanging\<close>

lemma plain_walk_dir:
  assumes "\<forall>n \<in> set ns. plain_name n" and "ns = [] \<or> dir_at t (butlast ns)"
  shows "plain_walk t False [] ns"
  unfolding plain_walk_def
proof (intro conjI allI impI assms(1))
  fix i assume "i < length ns"
  then have "take i ns = take i (butlast ns)" by (simp add: take_butlast)
  then have "butlast ns = take i ns @ drop i (butlast ns)" by simp
  with assms(2) \<open>i < length ns\<close> show "dir_at t ([] @ take i ns)"
    using dir_at_parent [of t "take i ns" "drop i (butlast ns)"] by auto
qed simp

lemma sys_resolve_plain:
  assumes "\<forall>n \<in> set ns. plain_name n" and "ns = [] \<or> dir_at (k_root k) (butlast ns)"
  shows "sys_resolve False k ns = Inr ns"
  using walk_plain [OF plain_walk_dir [OF assms]] by (simp add: sys_resolve_def)

lemma plain_names_end:
  assumes "\<forall>n \<in> set ns. plain_name n" and "ns \<noteq> []"
  shows "strip_slashes ns = ns" and "\<not> dot_end ns"
  using assms by (cases ns rule: rev_cases; auto simp: strip_slashes_def dot_end_def plain_name_def)+

text \<open>Between plain paths that do not contain each other, onto a free name.\<close>

lemma sys_rename_plain:
  assumes "\<forall>n \<in> set as. plain_name n" and "\<forall>n \<in> set bs. plain_name n"
    and "as \<parallel> bs" and "nlookup (k_root k) as = Some n" and "nlookup (k_root k) bs = None"
    and "bs = [] \<or> dir_at (k_root k) (butlast bs)"
  shows "sys_rename k as bs = Inr (k_put bs n (k_del as k))"
proof -
  have ne: "as \<noteq> []" "bs \<noteq> []" using assms(3) by auto
  have "as = [] \<or> dir_at (k_root k) (butlast as)"
    using nlookup_parent_dir [of "k_root k" "butlast as" "last as" n] assms(4) ne by simp
  with assms ne have "sys_resolve False k as = Inr as" "sys_resolve False k bs = Inr bs"
    by (auto intro: sys_resolve_plain)
  then show ?thesis
    using assms ne plain_names_end [of as] plain_names_end [of bs]
    by (auto simp: sys_rename_def Let_def strict_prefix_def parallel_def)
qed

text \<open>The temporary name of an exchange: \<open>a\<close> with its extension replaced.\<close>

lemma swap_tmp_plain:
  assumes "\<forall>n \<in> set (ds @ [x]). plain_name n"
  shows "os_with_extension (ds @ [x]) ''.swap_tmp'' = ds @ [file_stem x @ ''..swap_tmp'']"
    and "plain_name (file_stem x @ ''..swap_tmp'')"
proof -
  have x: "real_seg x" "seg_comp x = Normal x" "slash \<notin> set x"
    using assms by (simp_all add: real_seg_plain seg_comp_plain) (simp add: plain_name_def)
  then show "os_with_extension (ds @ [x]) ''.swap_tmp'' = ds @ [file_stem x @ ''..swap_tmp'']"
    by (simp add: os_with_extension_def os_file_name_def os_components_def path_file_name_def
        os_rtrim_def)
  have "set (file_stem x) \<subseteq> set x"
    unfolding file_stem_def Let_def
    by (auto dest!: list.set_sel(2) [rotated] set_dropWhileD)
  with x(3) have "slash \<notin> set (file_stem x)" by blast
  then show "plain_name (file_stem x @ ''..swap_tmp'')"
    by (auto simp: plain_name_def append_eq_Cons_conv)
qed

lemma move_plain:
  assumes "\<forall>n \<in> set as. plain_name n" and "\<forall>n \<in> set bs. plain_name n"
    and par: "as \<parallel> bs" and "nlookup (k_root k) as = Some n" and "nlookup (k_root k) bs = None"
    and db: "bs = [] \<or> dir_at (k_root k) (butlast bs)"
  obtains k' where "sys_rename k as bs = Inr k'"
    "\<And>s. nlookup (k_root k') (bs @ s) = nlookup n s" "\<And>s. nlookup (k_root k') (as @ s) = None"
    "\<And>q. q \<parallel> as \<Longrightarrow> q \<parallel> bs \<Longrightarrow> nlookup (k_root k') q = nlookup (k_root k) q"
    "as = [] \<or> dir_at (k_root k') (butlast as)"
    "\<And>q. q \<parallel> as \<Longrightarrow> q \<parallel> bs \<Longrightarrow> q = [] \<or> dir_at (k_root k) (butlast q) \<Longrightarrow>
       q = [] \<or> dir_at (k_root k') (butlast q)"
proof (rule that [of "k_put bs n (k_del as k)"])
  show "sys_rename k as bs = Inr (k_put bs n (k_del as k))"
    using assms by (rule sys_rename_plain)
  obtain ds d where as: "as = ds @ [d]" using par by (cases as rule: rev_cases) auto
  with assms(4) obtain m es where "nlookup (k_root k) ds = Some (DirN m es)"
    by (auto dest!: nlookup_parent_dir simp: dir_at_def is_dir_iff split: option.splits)
  moreover have "strict_prefix ds as" by (simp add: as strict_prefix_def)
  ultimately have "dir_at (ndel (k_root k) as) (butlast as)"
    using nlookup_ndel_above as by (fastforce simp: dir_at_def)
  with dir_at_keep(2) [of bs as] par
  show "as = [] \<or> dir_at (k_root (k_put bs n (k_del as k))) (butlast as)"
    by (auto simp: parallel_def)
  fix q
  assume "q \<parallel> as" "q \<parallel> bs" "q = [] \<or> dir_at (k_root k) (butlast q)"
  then show "q = [] \<or> dir_at (k_root (k_put bs n (k_del as k))) (butlast q)"
    using dir_at_keep(2) [OF _ dir_at_keep(1), of bs q as] by (auto simp: parallel_def)
qed (use move_lookup [OF par db] in auto)

lemma exchange_moves:
  assumes plain: "\<forall>n \<in> set as. plain_name n" "\<forall>n \<in> set bs. plain_name n"
      "\<forall>n \<in> set ts. plain_name n"
    and par: "as \<parallel> bs" "as \<parallel> ts" "bs \<parallel> ts"
    and na: "nlookup (k_root k) as = Some na" and nb: "nlookup (k_root k) bs = Some nb"
    and nt: "nlookup (k_root k) ts = None" and dt: "ts = [] \<or> dir_at (k_root k) (butlast ts)"
  obtains k1 k2 k3 where "sys_rename k as ts = Inr k1" "sys_rename k1 bs as = Inr k2"
    "sys_rename k2 ts bs = Inr k3"
    "\<And>s. nlookup (k_root k3) (as @ s) = nlookup nb s" "\<And>s. nlookup (k_root k3) (bs @ s) = nlookup na s"
    "nlookup (k_root k3) ts = None"
    "\<And>q. q \<parallel> as \<Longrightarrow> q \<parallel> bs \<Longrightarrow> q \<parallel> ts \<Longrightarrow> nlookup (k_root k3) q = nlookup (k_root k) q"
proof -
  note sym = par [unfolded parallel_commute [of as bs] parallel_commute [of as ts]
      parallel_commute [of bs ts]]
  obtain k1 where 1: "sys_rename k as ts = Inr k1"
    "\<And>s. nlookup (k_root k1) (ts @ s) = nlookup na s" "\<And>s. nlookup (k_root k1) (as @ s) = None"
    "\<And>q. q \<parallel> as \<Longrightarrow> q \<parallel> ts \<Longrightarrow> nlookup (k_root k1) q = nlookup (k_root k) q"
    "as = [] \<or> dir_at (k_root k1) (butlast as)"
    using move_plain [OF plain(1,3) par(2) na nt dt] by metis
  have b1: "nlookup (k_root k1) bs = Some nb" using 1(4) par(3) sym(1) nb by simp
  have a1: "nlookup (k_root k1) as = None" using 1(3) [of "[]"] by simp
  obtain k2 where 2: "sys_rename k1 bs as = Inr k2"
    "\<And>s. nlookup (k_root k2) (as @ s) = nlookup nb s" "\<And>s. nlookup (k_root k2) (bs @ s) = None"
    "\<And>q. q \<parallel> bs \<Longrightarrow> q \<parallel> as \<Longrightarrow> nlookup (k_root k2) q = nlookup (k_root k1) q"
    "bs = [] \<or> dir_at (k_root k2) (butlast bs)"
    using move_plain [OF plain(2,1) sym(1) b1 a1 1(5)] by metis
  have t2: "nlookup (k_root k2) ts = Some na"
    using 2(4) [OF sym(3,2)] 1(2) [of "[]"] by simp
  have b2: "nlookup (k_root k2) bs = None" using 2(3) [of "[]"] by simp
  obtain k3 where 3: "sys_rename k2 ts bs = Inr k3"
    "\<And>s. nlookup (k_root k3) (bs @ s) = nlookup na s" "\<And>s. nlookup (k_root k3) (ts @ s) = None"
    "\<And>q. q \<parallel> ts \<Longrightarrow> q \<parallel> bs \<Longrightarrow> nlookup (k_root k3) q = nlookup (k_root k2) q"
    using move_plain [OF plain(3,2) sym(3) t2 b2 2(5)] by metis
  have a3: "nlookup (k_root k3) (as @ s) = nlookup nb s" for s
    using 3(4) [of "as @ s"] parallel_append [OF par(2), of s "[]"] parallel_append [OF par(1), of s "[]"]
      2(2) by simp
  show thesis
  proof (rule that [OF 1(1) 2(1) 3(1) a3 3(2)])
    show "nlookup (k_root k3) ts = None" using 3(3) [of "[]"] by simp
    show "nlookup (k_root k3) q = nlookup (k_root k) q" if "q \<parallel> as" "q \<parallel> bs" "q \<parallel> ts" for q
      using 1(4) 2(4) 3(4) that by simp
  qed
qed

text \<open>
  C21. An exchange swaps: with the temporary name free, what was at and below each of the two
  paths is at and below the other one, the temporary name is free again and everything else is
  where it was.
\<close>

theorem rename_exchange_swaps:
  assumes "make_real_path r old = as" and "make_real_path r new = bs"
    and plain: "\<forall>n \<in> set as. plain_name n" "\<forall>n \<in> set bs. plain_name n"
    and "flags_contains flags EXCHANGE" and ab: "as \<parallel> bs"
    and na: "nlookup (k_root k) as = Some na" and nb: "nlookup (k_root k) bs = Some nb"
    and tmp: "nlookup (k_root k) (os_with_extension as ''.swap_tmp'') = None"
  shows "\<exists>k'. st_rename r old new flags k = (Inr (), k')
    \<and> (\<forall>s. nlookup (k_root k') (as @ s) = nlookup nb s \<and> nlookup (k_root k') (bs @ s) = nlookup na s)
    \<and> nlookup (k_root k') (os_with_extension as ''.swap_tmp'') = None
    \<and> (\<forall>q. q \<parallel> as \<longrightarrow> q \<parallel> bs \<longrightarrow> q \<parallel> os_with_extension as ''.swap_tmp'' \<longrightarrow>
         nlookup (k_root k') q = nlookup (k_root k) q)"
proof -
  obtain ds x where as: "as = ds @ [x]" using ab by (cases as rule: rev_cases) auto
  define ts where "ts = os_with_extension as ''.swap_tmp''"
  have ts: "ts = ds @ [file_stem x @ ''..swap_tmp'']" and pt: "\<forall>n \<in> set ts. plain_name n"
    using swap_tmp_plain [of ds x] plain(1) by (auto simp: ts_def as)
  have none: "nlookup (k_root k) ts = None" using tmp by (simp add: ts_def)
  then have at': "as \<parallel> ts"
    using na by (cases "x = file_stem x @ ''..swap_tmp''") (auto simp: ts as parallel_def)
  have bt: "bs \<parallel> ts"
  proof -
    have "\<not> prefix bs ts"
    proof
      assume "prefix bs ts"
      then have "prefix bs ds \<or> bs = ts" by (auto simp: ts)
      with ab nb none show False by (auto simp: as parallel_def)
    qed
    moreover have "\<not> prefix ts bs" using nb none by (auto simp: prefix_def nlookup_append)
    ultimately show ?thesis by auto
  qed
  have dt: "ts = [] \<or> dir_at (k_root k) (butlast ts)"
    using nlookup_parent_dir na by (auto simp: as ts)
  show ?thesis
    by (rule exchange_moves [OF plain pt ab at' bt na nb none dt])
       (use assms(1,2,5) in \<open>simp add: st_rename_def rename_exchange_def ts_def\<close>)
qed

lemma rename_exchange_swaps_witness:
  "\<exists>k'. st_rename [''s''] ''/a'' ''/d/f'' 2 witness_kernel = (Inr (), k')
     \<and> nlookup (k_root k') [''s'', ''a''] = Some (FileN (witness_meta 0x180 7 8) [9])"
proof -
  have p: "plain_name ''s''" "plain_name ''a''" "plain_name ''d''" "plain_name ''f''"
    by (simp_all add: plain_name_def)
  have t: "os_with_extension [''s'', ''a''] ''.swap_tmp'' = [''s'', ''a..swap_tmp'']" by code_simp
  have "\<exists>k'. st_rename [''s''] ''/a'' ''/d/f'' 2 witness_kernel = (Inr (), k')
    \<and> (\<forall>s. nlookup (k_root k') ([''s'', ''a''] @ s) = nlookup (FileN (witness_meta 0x180 7 8) [9]) s
          \<and> nlookup (k_root k') ([''s'', ''d'', ''f''] @ s)
              = nlookup (FileN (witness_meta 0x1A4 7 8) [1, 2, 3]) s)
    \<and> nlookup (k_root k') (os_with_extension [''s'', ''a''] ''.swap_tmp'') = None
    \<and> (\<forall>q. q \<parallel> [''s'', ''a''] \<longrightarrow> q \<parallel> [''s'', ''d'', ''f''] \<longrightarrow>
         q \<parallel> os_with_extension [''s'', ''a''] ''.swap_tmp'' \<longrightarrow>
         nlookup (k_root k') q = nlookup (k_root witness_kernel) q)"
    by (rule rename_exchange_swaps)
       (simp_all add: p t flags_contains_def EXCHANGE_def parallel_def witness_kernel_def)
  then obtain k' where "st_rename [''s''] ''/a'' ''/d/f'' 2 witness_kernel = (Inr (), k')"
    and "\<forall>s. nlookup (k_root k') ([''s'', ''a''] @ s) = nlookup (FileN (witness_meta 0x180 7 8) [9]) s"
    by blast
  then show ?thesis by (metis append_Nil2 nlookup.simps(1))
qed

text \<open>
  The temporary name of an exchange is not checked: when a file of that name exists, the
  exchange succeeds and the file is lost.
\<close>

lemma rename_exchange_clobbers:
  assumes "k = k_put [''s'', ''a..swap_tmp''] (FileN m b) witness_kernel"
  shows "nlookup (k_root k) [''s'', ''a..swap_tmp''] = Some (FileN m b)
    \<and> fst (st_rename [''s''] ''/a'' ''/d/f'' 2 k) = Inr ()
    \<and> nlookup (k_root (snd (st_rename [''s''] ''/a'' ''/d/f'' 2 k))) [''s'', ''a..swap_tmp''] = None"
proof -
  have t: "os_with_extension [''s'', ''a''] ''.swap_tmp'' = [''s'', ''a..swap_tmp'']" by code_simp
  show ?thesis
    by (simp add: assms t witness_eval flags_contains_def EXCHANGE_def strip_slashes_def dot_end_def
        strict_prefix_def)
qed

lemma rename_exchange_clobbers_witness:
  "nlookup (k_root (snd (st_rename [''s''] ''/a'' ''/d/f'' 2
     (k_put [''s'', ''a..swap_tmp''] (FileN (witness_meta 0 0 0) [5]) witness_kernel)))) [''s'', ''a..swap_tmp''] = None"
  using rename_exchange_clobbers [OF refl] by blast

subsection \<open>Listing\<close>

lemma find_child_name: "find_child k real name = Some c \<Longrightarrow> item_name c = name"
  by (auto simp: find_child_def split: sum.splits if_splits)

lemma components_plain: "plain_name n \<Longrightarrow> components n = [Normal n]"
  using path_join_plain [of n "[]"] by (auto simp: path_join_def split: list.splits component.splits)

lemma find_children_get:
  assumes "\<forall>n \<in> set names. plain_name n" and "plain_name x"
    and "root = FS_Directory d cs a"
  shows "(\<exists>cs'. find_children k real names root = FS_Directory d cs' a)
    \<and> item_get_child (find_children k real names root) x =
       (if x \<in> set names \<and> find_child k real x \<noteq> None then find_child k real x
        else item_get_child root x)"
  using assms
proof (induction names arbitrary: root cs)
  case (Cons n names)
  show ?case
  proof (cases "find_child k real n")
    case None
    with Cons.IH [of root cs] Cons.prems show ?thesis by auto
  next
    case (Some c)
    let ?r = "FS_Directory d (AList.update (components (item_name c)) c cs) a"
    have r: "item_add root c = Ret ?r" using Cons.prems(3) by simp
    have get: "item_get_child ?r x = (if x = n then Some c else item_get_child root x)"
      using item_get_child_add [OF r, of x] find_child_name [OF Some] Cons.prems
      by (auto simp: components_plain)
    show ?thesis
      using Cons.IH [of ?r, OF _ Cons.prems(2) refl] Cons.prems Some r get by auto
  qed
qed simp

text \<open>
  Listing a directory: the item found has exactly the entries of the directory as children,
  each with the attributes of its own node (links are not followed), special files left out.
\<close>

lemma find_lists_directory:
  assumes "sys_lstat k (make_real_path r p) = Inr (DirN m es)"
    and "os_file_name (make_real_path r p) = Some name"
    and "sys_read_dir k (make_real_path r p) = Inr names"
    and "\<forall>n \<in> set names. plain_name n" and "plain_name x"
  shows "\<exists>d. find_item r k p = Some d \<and> item_name d = name
    \<and> item_get_child d x = (if x \<in> set names then find_child k (make_real_path r p) x else None)"
proof -
  let ?p = "make_real_path r p"
  let ?d = "find_children k ?p names (FS_Directory name [] (file_attr_of_node (DirN m es)))"
  have "find_item r k p = Some ?d"
    using assms(1-3) by (simp add: find_item_def Let_def get_attributes_by_path_def)
  moreover from find_children_get [OF assms(4,5) refl, of k ?p name "[]"] obtain cs' where
    d: "?d = FS_Directory name cs' (file_attr_of_node (DirN m es))" by blast
  moreover have "item_get_child ?d x = (if x \<in> set names then find_child k ?p x else None)"
    using find_children_get [OF assms(4,5) refl, of k ?p name "[]" "file_attr_of_node (DirN m es)"]
    by auto
  ultimately show ?thesis by auto
qed

lemma find_lists_directory_witness:
  "\<exists>d. find_item [''s''] witness_kernel ''/d'' = Some d
     \<and> item_get_child d ''f'' = Some (FS_File ''f'' (file_attr_of_node (FileN (witness_meta 0x180 7 8) [9])))"
proof -
  let ?m = "witness_meta 0x1FF 7 8" and ?es = "[(''f'', FileN (witness_meta 0x180 7 8) [9])]"
  have f: "os_file_name (make_real_path [''s''] ''/d'') = Some ''d''"
    by (simp add: os_file_name_def os_components_def real_seg_def seg_comp_def path_file_name_def)
  have j: "os_join [''s'', ''d''] ''f'' = [''s'', ''d'', ''f'']" by code_simp
  have c: "find_child witness_kernel [''s'', ''d''] ''f'' =
      Some (FS_File ''f'' (file_attr_of_node (FileN (witness_meta 0x180 7 8) [9])))"
    by (simp add: find_child_def j get_attributes_by_path_def witness_eval)
  have "sys_lstat witness_kernel (make_real_path [''s''] ''/d'') = Inr (DirN ?m ?es)"
    "sys_read_dir witness_kernel (make_real_path [''s''] ''/d'') = Inr [''f'']"
    by (simp_all add: witness_eval)
  from find_lists_directory [OF this(1) f this(2), of "''f''"] c show ?thesis
    by (simp add: plain_name_def) blast
qed

end
