(* ===== verification/Access_Laws.thy ===== *)
theory Access_Laws
  imports Storage_Laws
begin

text \<open>
  Who may do what through the storage layer, and where paths lead: \<open>is_allowed\<close> against the
  permission classes of a Unix file, the ownership rules of \<open>set_attributes\<close>, new directories
  and links, confinement of paths to the served directory.
\<close>

subsection \<open>Permission classes\<close>

text \<open>The check a Unix file asks for: the first class that fits decides, by its bit.\<close>

definition posix_allows ::
  "u32 \<Rightarrow> u32 \<Rightarrow> u32 \<Rightarrow> u32 \<Rightarrow> u32 \<Rightarrow> operation \<Rightarrow> bool" where
  "posix_allows mode uid gid user_id group_id op =
     (let base = (if user_id = uid then 6 else if group_id = gid then 3 else 0)
      in case op of
           Op_Read \<Rightarrow> bit mode (base + 2)
         | Op_Write \<Rightarrow> bit mode (base + 1)
         | Op_Execute \<Rightarrow> bit mode base
         | Op_OwnerOnly \<Rightarrow> user_id = uid)"

text \<open>The node the check looks at: the path's own, else that of its parent.\<close>

definition check_path :: "kernel \<Rightarrow> ospath \<Rightarrow> ospath option" where
  "check_path k p = (if is_ok (sys_lstat k p) then Some p else os_parent p)"

lemma bit_mode_cast:
  "i < 9 \<Longrightarrow> bit (ucast (ucast (m :: u32) :: u16) :: i32) i = bit m i"
  by (simp add: bit_simps)

lemma permission_try_from_eq:
  "permission_try_from (ucast (m :: u32)) = Inr \<lparr>
     p_user = \<lparr>p_read = bit m 8, p_write = bit m 7, p_execute = bit m 6\<rparr>,
     p_group = \<lparr>p_read = bit m 5, p_write = bit m 4, p_execute = bit m 3\<rparr>,
     p_other = \<lparr>p_read = bit m 2, p_write = bit m 1, p_execute = bit m 0\<rparr>\<rparr>"
  by (simp add: permission_try_from_def permission_of_code_eq bit_mode_cast)

lemma file_attr_of_node_sel [simp]:
  "fa_perm (file_attr_of_node n) = node_mode n" "fa_uid (file_attr_of_node n) = m_uid (node_meta n)"
  "fa_gid (file_attr_of_node n) = m_gid (node_meta n)"
  by (simp_all add: file_attr_of_node_def Let_def split: prod.split if_splits)

lemma is_allowed_eq:
  assumes "check_path k (make_real_path r p) = Some c" and "sys_lstat k c = Inr n"
  shows "is_allowed r k u g p op = Inr (os_components c = os_components (make_real_path r ''/'')
     \<or> posix_allows (node_mode n) (m_uid (node_meta n)) (m_gid (node_meta n)) u g op)"
proof -
  have a: "get_attributes_by_path k c = Inr (file_attr_of_node n)"
    using assms(2) by (simp add: get_attributes_by_path_def)
  have "(if is_ok (sys_lstat k (make_real_path r p)) then Some (make_real_path r p)
      else os_parent (make_real_path r p)) = Some c"
    using assms(1) by (simp add: check_path_def)
  then show ?thesis
    by (simp add: is_allowed_def Let_def a permission_try_from_eq posix_allows_def
        numeral_2_eq_2 split: operation.split)
qed



subsection \<open>Changing attributes\<close>

lemma is_allowed_owner:
  assumes "sys_lstat k (make_real_path r p) = Inr n"
    and "os_components (make_real_path r p) \<noteq> os_components (make_real_path r ''/'')"
  shows "is_allowed r k u g p Op_OwnerOnly = Inr (u = m_uid (node_meta n))"
  using assms by (simp add: is_allowed_def Let_def get_attributes_by_path_def permission_try_from_eq)

lemma chmod_keeps_owner:
  assumes "wf_kernel k" and "sys_chmod k p mode = Inr k'" and "sys_lstat k p' = Inr n"
  obtains n' where "sys_lstat k' p' = Inr n'" "m_uid (node_meta n') = m_uid (node_meta n)"
    "m_gid (node_meta n') = m_gid (node_meta n)"
proof -
  let ?f = "\<lambda>m. touch_meta k (m\<lparr>m_perm := mode AND 0xFFF\<rparr>)"
  from assms(2) obtain q c where qc: "sys_node True k p = Inr (q, c)"
    and k': "k' = k_put q (node_with_meta ?f c) k"
    by (auto simp: sys_chmod_def split: sum.splits prod.splits)
  from assms(3) obtain x where x: "sys_resolve False k p' = Inr x" "nlookup (k_root k) x = Some n"
    by (auto simp: sys_lstat_def sys_node_def split: sum.splits option.splits)
  note l = sys_node_lookup [OF qc]
  have par: "q = [] \<or> dir_at (k_root k) (butlast q)"
    using l assms(1) by (auto simp: wf_kernel_def dest: sys_resolve_parent_dir)
  have "sys_resolve False k' p' = Inr x"
    using x(1) nset_meta_ext [OF par] l by (auto simp: k' intro: sys_resolve_ext)
  moreover from nset_meta_lookup [OF par _ x(2), of c ?f] l obtain n' where
    "nlookup (k_root k') x = Some n'"
    "node_meta n' = (if x = q then ?f (node_meta c) else node_meta n)" by (auto simp: k')
  ultimately show thesis
    using x(2) l by (intro that [of n']) (auto simp: sys_lstat_def sys_node_def touch_meta_def)
qed

lemma set_attributes_parts:
  assumes "st_set_attributes E r p u g new k = (Ret (Inr a), k')"
  obtains k1 k2 k3 where "set_mode_part r p u g (sa_mode new) k = (Inr (), k1)"
    "set_owner_part E r p u g (sa_uid new) (sa_gid new) k1 = (Inr (), k2)"
    "set_size_part r p u g (sa_size new) k2 = (Inr (), k3)"
    "set_times_part E r p u g (sa_atime new) (sa_mtime new) k3 = (Ret (Inr a), k')"
  using assms by (auto simp: st_set_attributes_def split: prod.splits sum.splits)

lemma set_mode_part_ok:
  assumes "wf_kernel k" and "set_mode_part r p u g mode k = (Inr (), k1)"
    and "sys_lstat k (make_real_path r p) = Inr n"
    and "os_components (make_real_path r p) \<noteq> os_components (make_real_path r ''/'')"
  obtains n1 where "sys_lstat k1 (make_real_path r p) = Inr n1"
    "m_uid (node_meta n1) = m_uid (node_meta n)" "m_gid (node_meta n1) = m_gid (node_meta n)"
    "mode \<noteq> None \<Longrightarrow> u = m_uid (node_meta n)"
proof (cases mode)
  case None
  with assms show thesis by (intro that [of n]) (auto simp: set_mode_part_def)
next
  case (Some md)
  note allowed = is_allowed_owner [OF assms(3,4), of u g]
  with assms(2) Some have u: "u = m_uid (node_meta n)"
    and "sys_chmod k (make_real_path r p) md = Inr k1"
    by (auto simp: set_mode_part_def io_result_def split: if_splits sum.splits)
  from chmod_keeps_owner [OF assms(1) this(2) assms(3)] u that show thesis by blast
qed

lemma set_owner_part_ok:
  assumes "set_owner_part E r p u g uid gid k = (Inr (), k')"
    and "sys_lstat k (make_real_path r p) = Inr n"
    and "os_components (make_real_path r p) \<noteq> os_components (make_real_path r ''/'')"
    and "uid \<noteq> None \<or> gid \<noteq> None"
  shows "u = m_uid (node_meta n)
    \<and> (\<forall>x. uid = Some x \<longrightarrow> x = m_uid (node_meta n) \<or> u = 0)
    \<and> (\<forall>y. gid = Some y \<longrightarrow> y = m_gid (node_meta n) \<or> u = 0 \<or> y = g)"
proof -
  note allowed = is_allowed_owner [OF assms(2,3), of u g]
  have attr: "get_attributes_by_path k (make_real_path r p) = Inr (file_attr_of_node n)"
    using assms(2) by (simp add: get_attributes_by_path_def)
  show ?thesis
    using assms(1,4) allowed attr
    by (auto simp: set_owner_part_def resolve_id_def Let_def
        split: if_splits sum.splits option.splits)
qed


definition no_attr :: set_attr where
  "no_attr = \<lparr>sa_mode = None, sa_uid = None, sa_gid = None, sa_size = None, sa_atime = None,
     sa_mtime = None, sa_ctime = None, sa_crtime = None, sa_chgtime = None, sa_bkuptime = None,
     sa_flags = None\<rparr>"


text \<open>
  A request that only sets the access time is subject to no permission check, and a time the
  conversion cannot represent (seconds read as unsigned from \<open>2 ^ 63\<close> on, so every negative
  time) unwinds the handler.
\<close>

lemma set_atime_panics:
  assumes "sys_lstat k (make_real_path r p) = Inr n" and "2 ^ 63 \<le> unat (ts_sec t)"
  shows "st_set_attributes E r p u g (no_attr\<lparr>sa_atime := Some t\<rparr>) k = (Panic, k)"
proof -
  have "systime_from_timestamp t = None"
    using assms(2) by (simp add: systime_from_timestamp_panics)
  then show ?thesis
    using assms(1) by (simp add: st_set_attributes_def no_attr_def set_mode_part_def
        set_owner_part_def set_size_part_def set_times_part_def time_or_def)
qed

lemma set_atime_panics_witness:
  "st_set_attributes witness_externs [''s''] ''/a'' 99 99
     (no_attr\<lparr>sa_atime := Some \<lparr>ts_sec = - 1, ts_nsec = 0\<rparr>\<rparr>) witness_kernel = (Panic, witness_kernel)"
  by (rule set_atime_panics [where n = "FileN (witness_meta 0x1A4 7 8) [1, 2, 3]"])
     (simp_all add: witness_eval unsigned_minus_1_eq_mask mask_eq_exp_minus_1)

subsection \<open>New directories and links\<close>

lemma same_beside_put_iff [simp]: "same_beside q k (k_put q n k') = same_beside q k k'"
  by (auto simp: same_beside_def nlookup_nset_parallel parallel_def)

text \<open>
  A new directory is empty, belongs to the caller and has every access bit the umask leaves;
  nothing was at its place and nothing beside it changes. An existing name is refused, untouched.
\<close>

lemma make_dir_spec:
  assumes "wf_kernel k" and "unix_externs E"
    and "make_dir E r u g p name k = (res, k')"
  defines "target \<equiv> os_join (make_real_path r p) name"
  shows "(is_ok (sys_lstat k target) \<longrightarrow> res = Inl St_AlreadyExists \<and> k' = k)
    \<and> (res = Inr () \<longrightarrow> (\<exists>q m. nlookup (k_root k) q = None \<and> nlookup (k_root k') q = Some (DirN m [])
        \<and> sys_resolve True k' target = Inr q
        \<and> m_uid m = u \<and> m_gid m = g \<and> m_perm m AND 0x1FF = 0x1FF AND NOT (k_umask k)
        \<and> same_beside q k k'))"
proof -
  have "\<exists>q m. nlookup (k_root k) q = None \<and> nlookup (k_root k') q = Some (DirN m [])
        \<and> sys_resolve True k' target = Inr q
        \<and> m_uid m = u \<and> m_gid m = g \<and> m_perm m AND 0x1FF = 0x1FF AND NOT (k_umask k)
        \<and> same_beside q k k'" if ok: "res = Inr ()"
  proof -
    from assms(3) ok obtain k1 where k1: "sys_mkdir k target = Inr k1"
      and own: "set_owner E u g target k1 = (Inr (), k')"
      by (auto simp: make_dir_def Let_def target_def split: if_splits sum.splits)
    let ?d = "DirN (new_meta k 0x1FF 4096) []"
    from k1 obtain q where r: "sys_resolve False k (strip_slashes target) = Inr q"
      and free: "nlookup (k_root k) q = None" and k1': "k1 = k_put q ?d k"
      by (auto simp: sys_mkdir_def exists_at_def split: sum.splits if_splits)
    have par: "q = [] \<or> dir_at (k_root k) (butlast q)"
      using r assms(1) by (auto simp: wf_kernel_def dest: sys_resolve_parent_dir)
    have l1: "nlookup (k_root k1) q = Some ?d"
      using sys_resolve_put [OF assms(1) r] by (simp add: k1')
    have "sys_resolve False k1 (strip_slashes target) = Inr q"
      using r nset_new_dir_ext [OF par free] by (auto simp: k1' intro: sys_resolve_ext)
    then have "sys_resolve False k1 target = Inr q"
      by (rule sys_resolve_strip) (simp add: dir_at_def l1)
    then have "sys_resolve True k1 target = Inr q" by (rule sys_resolve_follow) (simp add: l1)
    then have n1: "sys_node True k1 target = Inr (q, ?d)" by (simp add: sys_node_def l1)
    have w1: "wf_kernel k1" using assms(1) by (simp add: k1' wf_kernel_put)
    from unix_externs.chown_ok [OF assms(2) n1, of "Some u" "Some g"] obtain m where
      "ext_chown E k1 target (Some u) (Some g) = Inr (k_put q (node_with_meta (\<lambda>_. m) ?d) k1)"
      and m: "chown_meta_ok (Some u) (Some g) (new_meta k 0x1FF 4096) m" by auto
    with own have k': "k' = k_put q (node_with_meta (\<lambda>_. m) ?d) k1" by (simp add: set_owner_def)
    from sys_node_put_meta [OF w1 n1, of "\<lambda>_. m"]
    have "sys_node True k' target = Inr (q, DirN m [])" by (simp add: k')
    then have "nlookup (k_root k') q = Some (DirN m [])" "sys_resolve True k' target = Inr q"
      by (auto dest: sys_node_lookup)
    moreover have "same_beside q k k'" by (simp add: k' k1')
    moreover have "m_perm m AND 0x1FF = 0x1FF AND NOT (k_umask k)"
      using m by (simp add: chown_meta_ok_def new_meta_def ac_simps)
    ultimately show ?thesis using free m by (auto simp: chown_meta_ok_def)
  qed
  moreover have "is_ok (sys_lstat k target) \<longrightarrow> res = Inl St_AlreadyExists \<and> k' = k"
    using assms(3) by (auto simp: make_dir_def Let_def target_def)
  ultimately show ?thesis by blast
qed

lemma make_dir_spec_witness:
  "\<exists>q m. nlookup (k_root (snd (make_dir witness_externs [''s''] 7 8 ''/'' ''b'' witness_kernel))) q
      = Some (DirN m []) \<and> m_uid m = 7 \<and> m_gid m = 8"
proof -
  have j: "os_join [''s'', ''''] ''b'' = [''s'', ''b'']" by code_simp
  have "make_dir witness_externs [''s''] 7 8 ''/'' ''b'' witness_kernel
     = (Inr (), snd (make_dir witness_externs [''s''] 7 8 ''/'' ''b'' witness_kernel))"
    by (simp add: witness_eval j strip_slashes_def exists_at_def set_owner_def witness_externs_def
        sys_externs_def sys_chown_def)
  from make_dir_spec [OF witness_wf witness_unix_externs this] show ?thesis by blast
qed

text \<open>
  A link that was created reads back its target. It belongs to user 0, whoever asked for it:
  unlike files and directories it is never given to the caller.
\<close>

lemma create_symlink_reads_back:
  assumes "wf_kernel k" and "st_create_symlink r p target k = (Inr a, k')"
  shows "st_read_symlink r p k' = Inr target \<and> fa_uid a = 0 \<and> fa_kind a = Symlink_T"
proof -
  let ?p = "make_real_path r p"
  have created: "sys_symlink k target ?p = Inr k' \<and> get_attributes_by_path k' ?p = Inr a"
    using assms(2) unfolding st_create_symlink_def Let_def
    by (cases "is_ok (sys_lstat k ?p)"; cases "sys_symlink k target ?p") simp_all
  then have a: "get_attributes_by_path k' ?p = Inr a" by blast
  let ?l = "LinkN ((new_meta k 0 0)\<lparr>m_perm := 0x1FF\<rparr>) target"
  from created obtain q where q: "sys_resolve False k ?p = Inr q" "nlookup (k_root k) q = None"
    and k': "k' = k_put q ?l k"
    by (auto simp: sys_symlink_def exists_at_def split: if_splits sum.splits)
  have "sys_resolve False k' ?p = Inr q"
    unfolding k' using q assms(1) by (intro sys_resolve_ext_at) (auto simp: wf_kernel_def)
  moreover have "nlookup (k_root k') q = Some ?l"
    using sys_resolve_put [OF assms(1) q(1)] by (simp add: k')
  ultimately have "sys_node False k' ?p = Inr (q, ?l)" by (simp add: sys_node_def)
  then show ?thesis
    using a by (auto simp: st_read_symlink_def sys_readlink_def get_attributes_by_path_def
        sys_lstat_def file_attr_of_node_def new_meta_def Let_def)
qed

lemma create_symlink_reads_back_witness:
  "st_read_symlink [''s''] ''/b'' (snd (st_create_symlink [''s''] ''/b'' ''d/f'' witness_kernel))
     = Inr ''d/f''"
proof -
  have "\<exists>a. st_create_symlink [''s''] ''/b'' ''d/f'' witness_kernel
     = (Inr a, snd (st_create_symlink [''s''] ''/b'' ''d/f'' witness_kernel))"
    by (simp add: witness_eval exists_at_def get_attributes_by_path_def)
  then show ?thesis using create_symlink_reads_back [OF witness_wf] by blast
qed

subsection \<open>Where paths lead\<close>

lemma walk_suffix_below:
  assumes "walk t n fl base segs = Inr q" and "''..'' \<notin> set segs" and "link_free t base"
  shows "prefix base q"
  using walk_below [OF assms] by simp

text \<open>The served directory: plain names that lead through directories from the root.\<close>

definition served :: "kernel \<Rightarrow> string list \<Rightarrow> bool" where
  "served k r \<longleftrightarrow> (\<forall>n \<in> set r. plain_name n) \<and> dir_at (k_root k) r"

lemma served_dirs:
  assumes "served k r" and "i \<le> length r"
  shows "dir_at (k_root k) ([] @ take i r)"
  using assms dir_at_parent [of "k_root k" "take i r" "drop i r"] by (simp add: served_def)



text \<open>
  \<open>..\<close> is not removed from request paths: a read of \<open>/../x\<close> in the served directory \<open>/s\<close>
  returns the bytes of the file \<open>/x\<close> beside it.
\<close>

lemma parent_dir_escapes:
  "served witness_kernel [''s''] \<and> sys_resolve True witness_kernel (make_real_path [''s''] ''/../x'') = Inr [''x'']
   \<and> st_read_file [''s''] ''/../x'' 0 10 witness_kernel = Inr [4]"
  by (simp add: served_def dir_at_def plain_name_def witness_eval read_at_def)

text \<open>
  \<open>is_allowed\<close> looks at a symbolic link itself, whose mode is open to everybody, while reads
  follow it: a user without any right on the file \<open>/d/f\<close> may read it through a link.
\<close>

lemma link_bypasses_permissions:
  fixes k
  assumes "sys_symlink witness_kernel ''d/f'' [''s'', ''b''] = Inr k"
  shows "is_allowed [''s''] k 99 99 ''/d/f'' Op_Read = Inr False
    \<and> is_allowed [''s''] k 99 99 ''/b'' Op_Read = Inr True
    \<and> st_read_file [''s''] ''/b'' 0 10 k = Inr [9]"
proof -
  let ?l = "LinkN ((new_meta witness_kernel 0 0)\<lparr>m_perm := 0x1FF\<rparr>) ''d/f''"
  have k: "k = k_put [''s'', ''b''] ?l witness_kernel"
    using assms by (simp add: witness_eval exists_at_def)
  have sp: "split_on slash ''d/f'' = [''d'', ''f'']" by code_simp
  have f: "sys_lstat k [''s'', ''d'', ''f''] = Inr (FileN (witness_meta 0x180 7 8) [9])"
    and l: "sys_lstat k [''s'', ''b''] = Inr ?l"
    unfolding k by (simp_all add: witness_eval)
  have "os_components [''s'', ''d'', ''f''] \<noteq> os_components [''s'', '''']"
    "os_components [''s'', ''b''] \<noteq> os_components [''s'', '''']"
    by (simp_all add: os_components_def real_seg_def seg_comp_def)
  moreover have "posix_allows (node_mode (FileN (witness_meta 0x180 7 8) [9])) 7 8 99 99 Op_Read = False"
    "posix_allows (node_mode ?l) 0 0 99 99 Op_Read = True"
    by (simp_all add: posix_allows_def node_mode_def witness_meta_def bit_or_iff)
  moreover have "st_read_file [''s''] ''/b'' 0 10 k = Inr [9]"
    unfolding k by (simp add: witness_eval sp read_at_def)
  ultimately show ?thesis
    using f l by (simp add: is_allowed_def get_attributes_by_path_def permission_try_from_eq
        posix_allows_def witness_meta_def new_meta_def Let_def numeral_2_eq_2 split: if_splits)
qed

lemma link_bypasses_permissions_witness:
  "\<exists>k. is_allowed [''s''] k 99 99 ''/d/f'' Op_Read = Inr False \<and> st_read_file [''s''] ''/b'' 0 10 k = Inr [9]"
proof -
  have "\<exists>k. sys_symlink witness_kernel ''d/f'' [''s'', ''b''] = Inr k"
    by (simp add: witness_eval exists_at_def)
  then show ?thesis using link_bypasses_permissions by blast
qed

end
