(* ===== verification/Sql.thy ===== *)
theory Sql
  imports Prelude
begin

text \<open>
  SQLite as \<open>server/src/db.rs\<close> uses it: the tables and keys of
  \<open>server/migrations\<close>, the statement forms of the queries with their \<open>?\<close> parameters in order,
  and \<open>sql_sem\<close>, what a statement does on the tables. The engine itself is a parameter of the
  model; the locale \<open>sqlite\<close> says what the code relies on: a statement has its effect as a whole
  or fails without any (a constraint, a lock, the disk).
\<close>

datatype sqlval = VInt int | VText string | VBlob bytes

datatype table = T_users | T_revoked_tokens | T_xattributes

datatype column =
  C_user_id | C_group_id | C_username | C_password | C_token_id | C_expiration_time
| C_path | C_name | C_xattributes

fun columns_of :: "table \<Rightarrow> column list" where
  "columns_of T_users = [C_user_id, C_group_id, C_username, C_password]"
| "columns_of T_revoked_tokens = [C_user_id, C_token_id, C_expiration_time]"
| "columns_of T_xattributes = [C_path, C_name, C_xattributes]"

text \<open>\<open>PRIMARY KEY\<close> and \<open>UNIQUE\<close>\<close>

fun keys_of :: "table \<Rightarrow> column list list" where
  "keys_of T_users = [[C_user_id], [C_username]]"
| "keys_of T_revoked_tokens = [[C_user_id, C_token_id]]"
| "keys_of T_xattributes = [[C_path, C_name]]"

text \<open>The values come from the parameters: those of a \<open>SET\<close> first, then those of the \<open>WHERE\<close>.\<close>

datatype sql =
  SQL_Insert table
| SQL_Delete table "column list"
| SQL_Update table column "column list"
| SQL_Select "column list" table "column list"
| SQL_Count table "column list"
| SQL_Max column table
| SQL_Malformed string

datatype sql_error = Sql_Constraint | Sql_Other

type_synonym row = "sqlval list"
type_synonym database = "table \<Rightarrow> row list"
type_synonym engine = "database \<Rightarrow> sql \<Rightarrow> sqlval list \<Rightarrow> database \<times> (sql_error + row list)"

definition row_get :: "table \<Rightarrow> row \<Rightarrow> column \<Rightarrow> sqlval option" where
  "row_get T r c = map_of (zip (columns_of T) r) c"

definition row_set :: "table \<Rightarrow> column \<Rightarrow> sqlval \<Rightarrow> row \<Rightarrow> row" where
  "row_set T c v r = map (\<lambda>(c', w). if c' = c then v else w) (zip (columns_of T) r)"

definition row_match :: "table \<Rightarrow> column list \<Rightarrow> sqlval list \<Rightarrow> row \<Rightarrow> bool" where
  "row_match T cs vs r \<longleftrightarrow> list_all2 (\<lambda>c v. row_get T r c = Some v) cs vs"

definition keys_ok :: "table \<Rightarrow> row list \<Rightarrow> bool" where
  "keys_ok T rs \<longleftrightarrow> list_all (\<lambda>ks. distinct (map (\<lambda>r. map (row_get T r) ks) rs)) (keys_of T)"

definition shape_ok :: "table \<Rightarrow> row list \<Rightarrow> bool" where
  "shape_ok T rs \<longleftrightarrow> list_all (\<lambda>r. length r = length (columns_of T)) rs"

definition db_ok :: "database \<Rightarrow> bool" where
  "db_ok d \<longleftrightarrow> (\<forall>T. keys_ok T (d T) \<and> shape_ok T (d T))"

fun max_int :: "sqlval option list \<Rightarrow> int option" where
  "max_int [] = None"
| "max_int (Some (VInt i) # vs) =
     (case max_int vs of None \<Rightarrow> Some i | Some j \<Rightarrow> Some (max i j))"
| "max_int (_ # vs) = max_int vs"

text \<open>A statement on the tables: the tables afterwards, and the error or the rows it yields.\<close>

fun sql_sem :: engine where
  "sql_sem d (SQL_Insert T) vs =
     (if length vs = length (columns_of T) \<and> keys_ok T (d T @ [vs])
      then (d(T := d T @ [vs]), Inr []) else (d, Inl Sql_Constraint))"
| "sql_sem d (SQL_Delete T cs) vs = (d(T := filter (\<lambda>r. \<not> row_match T cs vs r) (d T)), Inr [])"
| "sql_sem d (SQL_Update T c cs) vs =
     (case vs of
        [] \<Rightarrow> (d, Inl Sql_Other)
      | v # ws \<Rightarrow>
          let rs = map (\<lambda>r. if row_match T cs ws r then row_set T c v r else r) (d T)
          in if keys_ok T rs then (d(T := rs), Inr []) else (d, Inl Sql_Constraint))"
| "sql_sem d (SQL_Select ps T cs) vs =
     (d, Inr (map (\<lambda>r. map (\<lambda>c. the (row_get T r c)) ps) (filter (row_match T cs vs) (d T))))"
| "sql_sem d (SQL_Count T cs) vs =
     (d, Inr [[VInt (int (length (filter (row_match T cs vs) (d T))))]])"
| "sql_sem d (SQL_Max c T) vs =
     (d, Inr [case max_int (map (\<lambda>r. row_get T r c) (d T)) of None \<Rightarrow> [] | Some i \<Rightarrow> [VInt i]])"
| "sql_sem d (SQL_Malformed s) vs = (d, Inl Sql_Other)"

lemma keys_ok_filter: "keys_ok T rs \<Longrightarrow> keys_ok T (filter P rs)"
  by (auto simp: keys_ok_def list_all_iff intro: distinct_map_filter)

lemma shape_ok_simps [simp]:
  "shape_ok T (rs @ rs') \<longleftrightarrow> shape_ok T rs \<and> shape_ok T rs'" "shape_ok T []"
  "shape_ok T (r # rs) \<longleftrightarrow> length r = length (columns_of T) \<and> shape_ok T rs"
  "shape_ok T rs \<Longrightarrow> shape_ok T (filter P rs)"
  by (auto simp: shape_ok_def list_all_iff)

lemma length_row_set [simp]: "length (row_set T c v r) = min (length (columns_of T)) (length r)"
  by (simp add: row_set_def)

lemma sql_sem_db_ok: "db_ok d \<Longrightarrow> db_ok (fst (sql_sem d s vs))"
  by (cases "(d, s, vs)" rule: sql_sem.cases)
     (auto simp: db_ok_def keys_ok_filter Let_def shape_ok_def list_all_iff split: list.splits)

text \<open>A row found by the columns of a key is the only one.\<close>

lemma key_unique:
  assumes "keys_ok T rs" and "ks \<in> set (keys_of T)" and "r \<in> set rs" and "row_match T ks vs r"
  shows "filter (row_match T ks vs) rs = [r]"
proof -
  let ?f = "\<lambda>r. map (row_get T r) ks"
  from assms(1,2) have d: "distinct (map ?f rs)" by (auto simp: keys_ok_def list_all_iff)
  have m: "row_match T ks vs x \<longleftrightarrow> ?f x = map Some vs" for x
    by (auto simp: row_match_def list_all2_conv_all_nth list_eq_iff_nth_eq)
  have "filter (row_match T ks vs) rs = filter (\<lambda>x. ?f x = ?f r) rs"
    using m assms(4) by (intro filter_cong) auto
  also have "\<dots> = [r]"
    using d assms(3)
  proof (induction rs)
    case (Cons x xs)
    then show ?case
      by (cases "x = r") (simp_all add: filter_empty_conv image_iff del: map_eq_conv, metis+)
  qed simp
  finally show ?thesis .
qed

text \<open>
  What the code relies on. A statement that only reads leaves the tables alone either way.
\<close>

locale sqlite =
  fixes eng :: engine
  assumes exec: "eng d s vs = sql_sem d s vs \<or> (\<exists>e. eng d s vs = (d, Inl e))"
begin

lemma eng_db_ok: "db_ok d \<Longrightarrow> db_ok (fst (eng d s vs))"
  using exec [of d s vs] sql_sem_db_ok by auto

lemma eng_ok: "eng d s vs = (d', Inr rs) \<Longrightarrow> sql_sem d s vs = (d', Inr rs)"
  using exec [of d s vs] by auto

lemma eng_fail: "eng d s vs = (d', Inl e) \<Longrightarrow> d' = d"
  using exec [of d s vs] by (cases "(d, s, vs)" rule: sql_sem.cases)
    (auto simp: Let_def split: if_splits list.splits)

lemma eng_read:
  "fst (eng d (SQL_Select ps T cs) vs) = d" "fst (eng d (SQL_Count T cs) vs) = d"
  "fst (eng d (SQL_Max c T) vs) = d"
  using exec [of d "SQL_Select ps T cs" vs] exec [of d "SQL_Count T cs" vs]
    exec [of d "SQL_Max c T" vs] by auto

end

text \<open>The statement semantics is itself such an engine, and so is one that never gets its lock.\<close>

interpretation ref_db: sqlite sql_sem
  by unfold_locales simp

interpretation locked_db: sqlite "\<lambda>d s vs. (d, Inl Sql_Other)"
  by unfold_locales simp

end
