(* ===== verification/Database.thy ===== *)
theory Database
  imports Sql Server_Attributes
begin

text \<open>
  \<open>server/src/db.rs\<close>: users, tokens and extended attributes over the SQL engine. An operation is
  a function of the tables and returns the result with the tables it leaves. Password hashing
  (\<open>argon2\<close>), the token codec (\<open>jsonwebtoken\<close>) and the engine (\<open>sqlx\<close>) are parameters; salts,
  fresh token ids and the clock are arguments.
\<close>

subsection \<open>Parameters and rows\<close>

record claims =
  cl_user_id :: u32
  cl_group_id :: u32
  cl_token_id :: string
  cl_exp :: u64

record authenticated_user =
  au_user_id :: u32
  au_group_id :: u32
  au_token_id :: string
  au_expiration_time :: i64

record user =
  us_user_id :: u32
  us_group_id :: u32
  us_username :: string
  us_password :: string

record auth_env =
  ae_hash :: "nat \<Rightarrow> string \<Rightarrow> string option" \<comment> \<open>salt, password\<close>
  ae_verify :: "string \<Rightarrow> string \<Rightarrow> bool" \<comment> \<open>password, stored hash\<close>
  ae_encode :: "bytes \<Rightarrow> claims \<Rightarrow> string option"
  ae_decode :: "bytes \<Rightarrow> u64 \<Rightarrow> string \<Rightarrow> claims option" \<comment> \<open>key, time, token\<close>

type_synonym 'a dbm = "database \<Rightarrow> (database_error + 'a) \<times> database"

definition db_return :: "'a \<Rightarrow> 'a dbm" where
  "db_return x d = (Inr x, d)"

definition db_fail :: "database_error \<Rightarrow> 'a dbm" where
  "db_fail e d = (Inl e, d)"

definition db_bind :: "'a dbm \<Rightarrow> ('a \<Rightarrow> 'b dbm) \<Rightarrow> 'b dbm" where
  "db_bind m f d = (case m d of (Inl e, d') \<Rightarrow> (Inl e, d') | (Inr x, d') \<Rightarrow> f x d')"

lemmas db_monad = db_return_def db_fail_def db_bind_def

text \<open>Values as the code binds and reads them; a value of the wrong type or range is an error.\<close>

definition v_u32 :: "u32 \<Rightarrow> sqlval" where "v_u32 n = VInt (uint n)"

definition v_i64 :: "i64 \<Rightarrow> sqlval" where "v_i64 n = VInt (sint n)"

fun get_u32 :: "sqlval list \<Rightarrow> u32 option" where
  "get_u32 [VInt i] = (if 0 \<le> i \<and> i < 2 ^ 32 then Some (of_int i) else None)"
| "get_u32 _ = None"

fun get_u8 :: "sqlval list \<Rightarrow> u8 option" where
  "get_u8 [VInt i] = (if 0 \<le> i \<and> i < 2 ^ 8 then Some (of_int i) else None)"
| "get_u8 _ = None"

fun get_user_row :: "sqlval list \<Rightarrow> user option" where
  "get_user_row [u, g, VText n, VText p] =
     (case (get_u32 [u], get_u32 [g]) of
        (Some uid, Some gid) \<Rightarrow>
          Some \<lparr>us_user_id = uid, us_group_id = gid, us_username = n, us_password = p\<rparr>
      | _ \<Rightarrow> None)"
| "get_user_row _ = None"

fun get_text :: "sqlval list \<Rightarrow> string option" where
  "get_text [VText s] = Some s" | "get_text _ = None"

fun get_blob :: "sqlval list \<Rightarrow> bytes option" where
  "get_blob [VBlob b] = Some b" | "get_blob _ = None"

text \<open>\<open>execute\<close>, \<open>fetch_all\<close>, \<open>fetch_one\<close> and \<open>fetch_optional\<close>, errors as \<open>QueryError\<close>.\<close>

definition db_rows :: "engine \<Rightarrow> sql \<Rightarrow> sqlval list \<Rightarrow> row list dbm" where
  "db_rows eng s vs d =
     (case eng d s vs of
        (d', Inl e) \<Rightarrow> (Inl Db_QueryError, d')
      | (d', Inr rs) \<Rightarrow> (Inr rs, d'))"

definition db_execute :: "engine \<Rightarrow> sql \<Rightarrow> sqlval list \<Rightarrow> unit dbm" where
  "db_execute eng s vs = db_bind (db_rows eng s vs) (\<lambda>_. db_return ())"

fun decode_rows :: "(row \<Rightarrow> 'a option) \<Rightarrow> row list \<Rightarrow> 'a list option" where
  "decode_rows f [] = Some []"
| "decode_rows f (r # rs) =
     (case f r of None \<Rightarrow> None | Some x \<Rightarrow> map_option ((#) x) (decode_rows f rs))"

definition fetch_all :: "engine \<Rightarrow> (row \<Rightarrow> 'a option) \<Rightarrow> sql \<Rightarrow> sqlval list \<Rightarrow> 'a list dbm" where
  "fetch_all eng f s vs =
     db_bind (db_rows eng s vs) (\<lambda>rs. case decode_rows f rs of
       None \<Rightarrow> db_fail Db_QueryError | Some xs \<Rightarrow> db_return xs)"

definition fetch_optional :: "engine \<Rightarrow> (row \<Rightarrow> 'a option) \<Rightarrow> sql \<Rightarrow> sqlval list \<Rightarrow> 'a option dbm" where
  "fetch_optional eng f s vs =
     db_bind (db_rows eng s vs) (\<lambda>rs. case rs of
       [] \<Rightarrow> db_return None
     | r # _ \<Rightarrow> (case f r of None \<Rightarrow> db_fail Db_QueryError | Some x \<Rightarrow> db_return (Some x)))"

definition fetch_one :: "engine \<Rightarrow> (row \<Rightarrow> 'a option) \<Rightarrow> sql \<Rightarrow> sqlval list \<Rightarrow> 'a dbm" where
  "fetch_one eng f s vs =
     db_bind (fetch_optional eng f s vs) (\<lambda>x. case x of
       None \<Rightarrow> db_fail Db_QueryError | Some y \<Rightarrow> db_return y)"

subsection \<open>Passwords and tokens\<close>

definition hash_password :: "auth_env \<Rightarrow> nat \<Rightarrow> string \<Rightarrow> string option" where
  "hash_password env salt password = ae_hash env salt password"

definition verify_password :: "auth_env \<Rightarrow> string \<Rightarrow> string \<Rightarrow> bool" where
  "verify_password env password hash = ae_verify env password hash"

text \<open>24 hours; \<open>checked_add\<close> that overflows makes the expiration time 0.\<close>

definition token_expiration :: "u64 \<Rightarrow> u64" where
  "token_expiration now = (if unat now + 86400 < 2 ^ 64 then now + 86400 else 0)"

definition generate_token ::
  "auth_env \<Rightarrow> bytes \<Rightarrow> u64 \<Rightarrow> string \<Rightarrow> u32 \<Rightarrow> u32 \<Rightarrow> string option" where
  "generate_token env jwt_key now uuid user_id group_id =
     ae_encode env jwt_key \<lparr>cl_user_id = user_id, cl_group_id = group_id, cl_token_id = uuid,
       cl_exp = token_expiration now\<rparr>"

definition insert_revoked_token :: "engine \<Rightarrow> authenticated_user \<Rightarrow> unit dbm" where
  "insert_revoked_token eng u =
     db_execute eng (SQL_Insert T_revoked_tokens)
       [v_u32 (au_user_id u), VText (au_token_id u), v_i64 (au_expiration_time u)]"

text \<open>The condition is an equality: only rows that expire at this very second are removed.\<close>

definition clean_revoked_token :: "engine \<Rightarrow> u64 \<Rightarrow> unit dbm" where
  "clean_revoked_token eng now =
     db_execute eng (SQL_Delete T_revoked_tokens [C_expiration_time]) [v_i64 now]"

definition is_token_revoked :: "engine \<Rightarrow> u32 \<Rightarrow> string \<Rightarrow> bool dbm" where
  "is_token_revoked eng user_id token_id =
     db_bind (fetch_one eng get_u32 (SQL_Count T_revoked_tokens [C_user_id, C_token_id])
         [v_u32 user_id, VText token_id])
       (\<lambda>result. db_return (result = 1))"

definition verify_token ::
  "auth_env \<Rightarrow> engine \<Rightarrow> bytes \<Rightarrow> u64 \<Rightarrow> string \<Rightarrow> authenticated_user dbm" where
  "verify_token env eng jwt_key now token d =
     (case ae_decode env jwt_key now token of
        None \<Rightarrow> (Inl Db_Other, d)
      | Some c \<Rightarrow>
          if sint (cl_exp c) \<le> sint now then (Inl Db_Other, d)
          else (case is_token_revoked eng (cl_user_id c) (cl_token_id c) d of
              (Inl e, d') \<Rightarrow> (Inl Db_Other, d')
            | (Inr revoked, d') \<Rightarrow>
                if revoked then (Inl Db_Other, d')
                else (Inr \<lparr>au_user_id = cl_user_id c, au_group_id = cl_group_id c,
                  au_token_id = cl_token_id c, au_expiration_time = cl_exp c\<rparr>, d')))"

subsection \<open>Users\<close>

definition authenticate_user ::
  "auth_env \<Rightarrow> engine \<Rightarrow> bytes \<Rightarrow> u64 \<Rightarrow> string \<Rightarrow> string \<Rightarrow> string \<Rightarrow> string option dbm" where
  "authenticate_user env eng jwt_key now uuid username password =
     db_bind (fetch_optional eng get_user_row
         (SQL_Select [C_user_id, C_group_id, C_username, C_password] T_users [C_username])
         [VText username])
       (\<lambda>result. case result of
          None \<Rightarrow> db_return None
        | Some u \<Rightarrow>
            if verify_password env password (us_password u)
            then (case generate_token env jwt_key now uuid (us_user_id u) (us_group_id u) of
                    None \<Rightarrow> db_fail Db_Other
                  | Some token \<Rightarrow>
                      db_bind (clean_revoked_token eng now) (\<lambda>_. db_return (Some token)))
            else db_return None)"

definition count_users :: "engine \<Rightarrow> column list \<Rightarrow> sqlval list \<Rightarrow> u8 dbm" where
  "count_users eng cs vs = fetch_one eng get_u8 (SQL_Count T_users cs) vs"

definition user_exists :: "engine \<Rightarrow> u32 option \<Rightarrow> string option \<Rightarrow> bool dbm" where
  "user_exists eng user_id username =
     db_bind (case user_id of None \<Rightarrow> db_return 0 | Some uid \<Rightarrow> count_users eng [C_user_id] [v_u32 uid])
       (\<lambda>count. db_bind (case username of None \<Rightarrow> db_return 0
                         | Some n \<Rightarrow> count_users eng [C_username] [VText n])
       (\<lambda>count'. db_return (count + count' > 0)))"

text \<open>\<open>max_uid + 1\<close> wraps in a release build.\<close>

definition get_new_uid :: "engine \<Rightarrow> u32 dbm" where
  "get_new_uid eng =
     db_bind (count_users eng [] [])
       (\<lambda>num_users.
          if num_users \<noteq> 0
          then db_bind (fetch_one eng get_u32 (SQL_Max C_user_id T_users) [])
                 (\<lambda>max_uid. db_return (max_uid + 1))
          else db_return 1001)"

definition create_user ::
  "auth_env \<Rightarrow> engine \<Rightarrow> nat \<Rightarrow> string \<Rightarrow> string \<Rightarrow> u32 option \<Rightarrow> u32 option \<Rightarrow> (u32 \<times> u32) dbm" where
  "create_user env eng salt username password user_id group_id =
     db_bind (user_exists eng user_id (Some username))
       (\<lambda>exists. if exists then db_fail Db_QueryError
          else db_bind (case user_id of Some uid \<Rightarrow> db_return uid | None \<Rightarrow> get_new_uid eng)
       (\<lambda>uid. let gid = (case group_id of Some gid \<Rightarrow> gid | None \<Rightarrow> uid)
          in case hash_password env salt password of
               None \<Rightarrow> db_fail Db_Other
             | Some pass \<Rightarrow>
                 db_bind (db_execute eng (SQL_Insert T_users)
                     [v_u32 uid, v_u32 gid, VText username, VText pass])
                   (\<lambda>_. db_return (uid, gid))))"

definition get_user :: "engine \<Rightarrow> string \<Rightarrow> user option dbm" where
  "get_user eng username =
     fetch_optional eng get_user_row
       (SQL_Select [C_user_id, C_group_id, C_username, C_password] T_users [C_username])
       [VText username]"

text \<open>The existence checks of the next three are the wrong way round: they refuse a user that
  is there.\<close>

definition delete_user :: "engine \<Rightarrow> u32 \<Rightarrow> unit dbm" where
  "delete_user eng user_id =
     db_bind (user_exists eng (Some user_id) None)
       (\<lambda>is_present. if is_present then db_fail Db_QueryError
          else db_execute eng (SQL_Delete T_users [C_user_id]) [v_u32 user_id])"

definition set_username_checked :: "engine \<Rightarrow> u32 \<Rightarrow> string \<Rightarrow> unit dbm" where
  "set_username_checked eng user_id username =
     db_bind (get_user eng username)
       (\<lambda>existing_user. if existing_user \<noteq> None then db_fail Db_QueryError
          else db_execute eng (SQL_Update T_users C_username [C_user_id])
                 [VText username, v_u32 user_id])"

definition edit_username :: "engine \<Rightarrow> u32 \<Rightarrow> string \<Rightarrow> unit dbm" where
  "edit_username eng user_id username =
     db_bind (user_exists eng (Some user_id) (Some username))
       (\<lambda>is_present. if is_present then db_fail Db_QueryError
          else db_bind (set_username_checked eng user_id username)
                 (\<lambda>_. set_username_checked eng user_id username))"

definition edit_password :: "auth_env \<Rightarrow> engine \<Rightarrow> nat \<Rightarrow> u32 \<Rightarrow> string \<Rightarrow> unit dbm" where
  "edit_password env eng salt user_id password =
     db_bind (user_exists eng (Some user_id) None)
       (\<lambda>is_present. if is_present then db_fail Db_QueryError
          else (case hash_password env salt password of
                  None \<Rightarrow> db_fail Db_Other
                | Some pass \<Rightarrow>
                    db_execute eng (SQL_Update T_users C_password [C_user_id])
                      [VText pass, v_u32 user_id]))"

definition edit_group_id :: "engine \<Rightarrow> u32 \<Rightarrow> u32 \<Rightarrow> unit dbm" where
  "edit_group_id eng user_id group_id =
     db_bind (user_exists eng (Some user_id) None)
       (\<lambda>is_present. if is_present
          then db_execute eng (SQL_Malformed ''UPDATE users WHERE user_id = ? SET group_id = ?'')
                 [v_u32 user_id, v_u32 group_id]
          else db_return ())"

subsection \<open>Extended attributes\<close>

text \<open>The \<open>UPDATE\<close> binds the name to \<open>path = ?\<close> and the path to \<open>name = ?\<close>.\<close>

definition set_x_attributes :: "engine \<Rightarrow> string \<Rightarrow> string \<Rightarrow> bytes \<Rightarrow> unit dbm" where
  "set_x_attributes eng path name xattributes =
     db_bind (fetch_one eng get_u8 (SQL_Count T_xattributes [C_path, C_name]) [VText path, VText name])
       (\<lambda>result. if result = 0
          then db_execute eng (SQL_Insert T_xattributes) [VText path, VText name, VBlob xattributes]
          else db_execute eng (SQL_Update T_xattributes C_xattributes [C_path, C_name])
                 [VBlob xattributes, VText name, VText path])"

definition remove_all_x_attributes :: "engine \<Rightarrow> string \<Rightarrow> unit dbm" where
  "remove_all_x_attributes eng path =
     db_execute eng (SQL_Delete T_xattributes [C_path]) [VText path]"

definition remove_x_attributes :: "engine \<Rightarrow> string \<Rightarrow> string \<Rightarrow> unit dbm" where
  "remove_x_attributes eng path name =
     db_execute eng (SQL_Delete T_xattributes [C_path, C_name]) [VText path, VText name]"

definition list_x_attributes :: "engine \<Rightarrow> string \<Rightarrow> string list dbm" where
  "list_x_attributes eng path =
     fetch_all eng get_text (SQL_Select [C_name] T_xattributes [C_path]) [VText path]"

definition get_x_attributes :: "engine \<Rightarrow> string \<Rightarrow> string \<Rightarrow> bytes option dbm" where
  "get_x_attributes eng path name =
     fetch_optional eng get_blob (SQL_Select [C_xattributes] T_xattributes [C_path, C_name])
       [VText path, VText name]"

definition move_x_attributes :: "engine \<Rightarrow> string \<Rightarrow> string \<Rightarrow> unit dbm" where
  "move_x_attributes eng new_path old_path =
     db_execute eng (SQL_Update T_xattributes C_path [C_path]) [VText new_path, VText old_path]"

definition tmp_exchange :: string where "tmp_exchange = ''__tmp_exchange__''"

definition exchange_x_attributes :: "engine \<Rightarrow> string \<Rightarrow> string \<Rightarrow> unit dbm" where
  "exchange_x_attributes eng path1 path2 =
     db_bind (move_x_attributes eng tmp_exchange path1)
       (\<lambda>_. db_bind (move_x_attributes eng path1 path2)
       (\<lambda>_. move_x_attributes eng path2 tmp_exchange))"

definition rename_x_attributes :: "engine \<Rightarrow> string \<Rightarrow> string \<Rightarrow> unit dbm" where
  "rename_x_attributes eng old_path new_path = move_x_attributes eng new_path old_path"

lemmas db_fetch_defs = fetch_one_def fetch_all_def fetch_optional_def db_execute_def

lemmas db_ops = insert_revoked_token_def is_token_revoked_def
  authenticate_user_def count_users_def user_exists_def get_new_uid_def create_user_def get_user_def
  delete_user_def set_username_checked_def edit_username_def edit_password_def edit_group_id_def
  set_x_attributes_def remove_all_x_attributes_def remove_x_attributes_def list_x_attributes_def
  get_x_attributes_def move_x_attributes_def exchange_x_attributes_def rename_x_attributes_def

end
