(* ===== verification/Database_Laws.thy ===== *)
theory Database_Laws
  imports Database
begin

text \<open>
  What the database layer promises, for every engine of the locale \<open>sqlite\<close>: the table invariant,
  what reads return, users, extended attributes, and the life of a token from login to logout.
\<close>

subsection \<open>Statements through the engine\<close>

lemma db_bind_Inr:
  "db_bind m f d = (Inr y, d'') \<longleftrightarrow> (\<exists>x d'. m d = (Inr x, d') \<and> f x d' = (Inr y, d''))"
  by (auto simp: db_bind_def split: prod.splits sum.splits)

lemma db_return_Inr [simp]: "db_return x d = (Inr y, d') \<longleftrightarrow> x = y \<and> d = d'"
  by (auto simp: db_return_def)

lemma db_fail_Inr [simp]: "db_fail e d \<noteq> (Inr y, d')"
  by (simp add: db_fail_def)

text \<open>An operation keeps a property of the tables.\<close>

definition keeps :: "(database \<Rightarrow> bool) \<Rightarrow> 'a dbm \<Rightarrow> bool" where
  "keeps P m \<longleftrightarrow> (\<forall>d. P d \<longrightarrow> P (snd (m d)))"

named_theorems keeps_intros \<open>operations that keep a property of the tables\<close>

lemma keeps_return [keeps_intros]: "keeps P (db_return x)"
  by (simp add: keeps_def db_return_def)

lemma keeps_fail [keeps_intros]: "keeps P (db_fail e)"
  by (simp add: keeps_def db_fail_def)

lemma keeps_bind [keeps_intros]: "keeps P m \<Longrightarrow> (\<And>x. keeps P (f x)) \<Longrightarrow> keeps P (db_bind m f)"
  by (auto simp: keeps_def db_bind_def split: prod.splits sum.splits; metis snd_conv)

lemma keeps_if [keeps_intros]: "(b \<Longrightarrow> keeps P m) \<Longrightarrow> (\<not> b \<Longrightarrow> keeps P m') \<Longrightarrow> keeps P (if b then m else m')"
  by simp

lemma keeps_option [keeps_intros]:
  "keeps P m \<Longrightarrow> (\<And>x. keeps P (f x)) \<Longrightarrow> keeps P (case y of None \<Rightarrow> m | Some x \<Rightarrow> f x)"
  by (cases y) auto

lemma keeps_list [keeps_intros]:
  "keeps P m \<Longrightarrow> (\<And>x xs. keeps P (f x xs)) \<Longrightarrow> keeps P (case y of [] \<Rightarrow> m | x # xs \<Rightarrow> f x xs)"
  by (cases y) auto

lemma keeps_app: "P d \<Longrightarrow> keeps P m \<Longrightarrow> P (snd (m d))"
  by (simp add: keeps_def)

lemma keeps_rows:
  "(\<And>d. P d \<Longrightarrow> P (fst (eng d s vs))) \<Longrightarrow> keeps P (db_rows eng s vs)"
  by (auto simp: keeps_def db_rows_def split: prod.splits sum.splits; metis fst_conv)

text \<open>Reads.\<close>

lemma fetch_optional_Inr:
  "fetch_optional eng f s vs d = (Inr r, d') \<longleftrightarrow>
     (\<exists>rs. eng d s vs = (d', Inr rs) \<and>
       (case rs of [] \<Rightarrow> r = None | x # _ \<Rightarrow> r \<noteq> None \<and> f x = r))"
  by (cases "eng d s vs")
     (auto simp: fetch_optional_def db_bind_def db_rows_def db_return_def db_fail_def
       split: sum.splits list.splits option.splits)

lemma fetch_one_Inr:
  "fetch_one eng f s vs d = (Inr y, d') \<longleftrightarrow>
     (\<exists>r rs. eng d s vs = (d', Inr (r # rs)) \<and> f r = Some y)"
  by (cases "eng d s vs"; cases "snd (eng d s vs)")
     (auto simp: fetch_one_def fetch_optional_def db_bind_def db_rows_def db_return_def db_fail_def
       split: list.splits option.splits)

lemma db_execute_Inr:
  "db_execute eng s vs d = (Inr y, d') \<longleftrightarrow> (\<exists>rs. eng d s vs = (d', Inr rs))"
  by (cases "eng d s vs") (auto simp: db_execute_def db_bind_def db_rows_def db_return_def split: sum.splits)

lemma row_get_revoked [simp]:
  "row_get T_revoked_tokens [u, t, e] C_user_id = Some u"
  "row_get T_revoked_tokens [u, t, e] C_token_id = Some t"
  "row_get T_revoked_tokens [u, t, e] C_expiration_time = Some e"
  by (simp_all add: row_get_def)

context sqlite
begin

lemma count_Inr:
  assumes "fetch_one eng f (SQL_Count T cs) vs d = (Inr y, d')"
  shows "d' = d \<and> f [VInt (int (length (filter (row_match T cs vs) (d T))))] = Some y"
  using assms eng_ok by (auto simp: fetch_one_Inr dest!: eng_ok)

lemma is_token_revoked_sound:
  assumes "is_token_revoked eng u t d = (Inr b, d')"
  shows "d' = d"
    and "keys_ok T_revoked_tokens (d T_revoked_tokens) \<Longrightarrow>
      b \<longleftrightarrow> (\<exists>r \<in> set (d T_revoked_tokens). row_match T_revoked_tokens [C_user_id, C_token_id] [v_u32 u, VText t] r)"
proof -
  let ?m = "row_match T_revoked_tokens [C_user_id, C_token_id] [v_u32 u, VText t]"
  from assms obtain n where n: "fetch_one eng get_u32 (SQL_Count T_revoked_tokens [C_user_id, C_token_id])
      [v_u32 u, VText t] d = (Inr n, d')" and b: "b \<longleftrightarrow> n = 1"
    by (auto simp: is_token_revoked_def db_bind_Inr)
  from count_Inr [OF n] show "d' = d" by simp
  from count_Inr [OF n] have c: "get_u32 [VInt (int (length (filter ?m (d T_revoked_tokens))))] = Some n" by simp
  assume k: "keys_ok T_revoked_tokens (d T_revoked_tokens)"
  show "b \<longleftrightarrow> (\<exists>r \<in> set (d T_revoked_tokens). ?m r)"
  proof (cases "\<exists>r \<in> set (d T_revoked_tokens). ?m r")
    case True
    then obtain r where "r \<in> set (d T_revoked_tokens)" "?m r" by blast
    with key_unique [OF k, of "[C_user_id, C_token_id]" r] have "filter ?m (d T_revoked_tokens) = [r]"
      by simp
    with c b True show ?thesis by simp
  next
    case False
    then have "filter ?m (d T_revoked_tokens) = []" by (simp add: filter_empty_conv)
    with c b False show ?thesis by simp
  qed
qed

lemma verify_token_sound:
  assumes "verify_token env eng key now token d = (Inr au, d')"
    and "keys_ok T_revoked_tokens (d T_revoked_tokens)"
  obtains c where "d' = d" "ae_decode env key now token = Some c" "sint now < sint (cl_exp c)"
    "au = \<lparr>au_user_id = cl_user_id c, au_group_id = cl_group_id c,
       au_token_id = cl_token_id c, au_expiration_time = cl_exp c\<rparr>"
    "\<not> (\<exists>r \<in> set (d T_revoked_tokens). row_match T_revoked_tokens [C_user_id, C_token_id]
       [v_u32 (cl_user_id c), VText (cl_token_id c)] r)"
proof -
  from assms(1) obtain c where c: "ae_decode env key now token = Some c"
    and e: "sint now < sint (cl_exp c)"
    and r: "is_token_revoked eng (cl_user_id c) (cl_token_id c) d = (Inr False, d')"
    and au: "au = \<lparr>au_user_id = cl_user_id c, au_group_id = cl_group_id c,
       au_token_id = cl_token_id c, au_expiration_time = cl_exp c\<rparr>"
    by (auto simp: verify_token_def split: option.splits if_splits sum.splits prod.splits)
  from is_token_revoked_sound [OF r] assms(2) c e au show thesis by (intro that) auto
qed

lemma keeps_ok_rows: "keeps db_ok (db_rows eng s vs)"
  by (rule keeps_rows) (rule eng_db_ok)

lemma keeps_verify: "snd (verify_token env eng key now token d) = d"
proof -
  have "snd (is_token_revoked eng u t d) = d" for u t
    using eng_read(2) [of d T_revoked_tokens "[C_user_id, C_token_id]" "[v_u32 u, VText t]"]
    by (auto simp: is_token_revoked_def db_fetch_defs db_rows_def db_monad split: prod.splits sum.splits
        list.splits option.splits)
  then show ?thesis
    by (auto simp: verify_token_def split: option.splits prod.splits sum.splits)
       (metis snd_conv)+
qed

text \<open>A row of the revoked tokens stays through every statement that does not delete it.\<close>

lemma keeps_revoked_rows:
  assumes "\<And>cs. s = SQL_Delete T_revoked_tokens cs \<Longrightarrow> \<not> row_match T_revoked_tokens cs vs r"
    and "\<And>c cs. s \<noteq> SQL_Update T_revoked_tokens c cs"
  shows "keeps (\<lambda>d. r \<in> set (d T_revoked_tokens)) (db_rows eng s vs)"
proof (rule keeps_rows)
  fix d
  assume r: "r \<in> set (d T_revoked_tokens)"
  have "r \<in> set (fst (sql_sem d s vs) T_revoked_tokens)"
    using r assms by (cases "(d, s, vs)" rule: sql_sem.cases) (auto simp: Let_def split: list.split)
  with r exec [of d s vs] show "r \<in> set (fst (eng d s vs) T_revoked_tokens)" by auto
qed

end

subsection \<open>Runs of the database layer\<close>

text \<open>One call of the layer at a time, those of the handlers and those of the commands, and time that
  moves forward between calls.\<close>

inductive request_call :: "auth_env \<Rightarrow> engine \<Rightarrow> bytes \<Rightarrow> u64 \<Rightarrow> database \<Rightarrow> database \<Rightarrow> bool"
  for env eng key now where
  login: "request_call env eng key now d (snd (authenticate_user env eng key now uuid u p d))"
| verify: "request_call env eng key now d (snd (verify_token env eng key now token d))"
| logout: "request_call env eng key now d (snd (insert_revoked_token eng au d))"
| set_x: "request_call env eng key now d (snd (set_x_attributes eng path name x d))"
| remove_x: "request_call env eng key now d (snd (remove_x_attributes eng path name d))"
| remove_all_x: "request_call env eng key now d (snd (remove_all_x_attributes eng path d))"
| list_x: "request_call env eng key now d (snd (list_x_attributes eng path d))"
| get_x: "request_call env eng key now d (snd (get_x_attributes eng path name d))"
| rename_x: "request_call env eng key now d (snd (rename_x_attributes eng path path' d))"
| exchange_x: "request_call env eng key now d (snd (exchange_x_attributes eng path path' d))"

inductive db_call :: "auth_env \<Rightarrow> engine \<Rightarrow> bytes \<Rightarrow> u64 \<Rightarrow> database \<Rightarrow> database \<Rightarrow> bool"
  for env eng key now where
  request: "request_call env eng key now d d' \<Longrightarrow> db_call env eng key now d d'"
| clean: "db_call env eng key now d (snd (clean_revoked_token eng now d))"
| create: "db_call env eng key now d (snd (create_user env eng salt u p uid gid d))"
| lookup: "db_call env eng key now d (snd (get_user eng u d))"
| delete: "db_call env eng key now d (snd (delete_user eng uid' d))"
| edit_name: "db_call env eng key now d (snd (edit_username eng uid' u d))"
| edit_pass: "db_call env eng key now d (snd (edit_password env eng salt uid' p d))"
| edit_group: "db_call env eng key now d (snd (edit_group_id eng uid' gid' d))"

inductive db_run ::
  "auth_env \<Rightarrow> engine \<Rightarrow> bytes \<Rightarrow> database \<times> u64 \<Rightarrow> database \<times> u64 \<Rightarrow> bool" for env eng key where
  start: "db_run env eng key s s"
| tick: "db_run env eng key s (d, now) \<Longrightarrow> sint now \<le> sint now' \<Longrightarrow> db_run env eng key s (d, now')"
| call: "db_run env eng key s (d, now) \<Longrightarrow> db_call env eng key now d d' \<Longrightarrow>
    db_run env eng key s (d', now)"

inductive_cases db_callE: "db_call env eng key now d d'"

text \<open>A token that was revoked is dead: its row is there until the token has expired anyway.\<close>

definition token_dead :: "u32 \<Rightarrow> string \<Rightarrow> int \<Rightarrow> database \<times> u64 \<Rightarrow> bool" where
  "token_dead u t e s \<longleftrightarrow> db_ok (fst s)
     \<and> (e \<le> sint (snd s) \<or> [v_u32 u, VText t, VInt e] \<in> set (fst s T_revoked_tokens))"

context sqlite
begin

text \<open>All statements but those on the revoked tokens' rows, which only \<open>clean\<close> removes.\<close>

lemma keeps_request:
  assumes "\<And>s vs. (\<And>cs. s \<noteq> SQL_Delete T_revoked_tokens cs) \<Longrightarrow>
      (\<And>c cs. s \<noteq> SQL_Update T_revoked_tokens c cs) \<Longrightarrow> keeps P (db_rows eng s vs)"
    and clean: "keeps P (clean_revoked_token eng now)"
    and "request_call env eng key now d d'" and "P d"
  shows "P d'"
  using assms(3,4)
proof (induction rule: request_call.induct)
  case (verify d token)
  then show ?case by (simp add: keeps_verify)
qed (erule keeps_app; unfold db_ops db_fetch_defs Let_def; intro keeps_intros assms(1,2); simp)+

lemma keeps_call:
  assumes "\<And>s vs. (\<And>cs. s \<noteq> SQL_Delete T_revoked_tokens cs) \<Longrightarrow>
      (\<And>c cs. s \<noteq> SQL_Update T_revoked_tokens c cs) \<Longrightarrow> keeps P (db_rows eng s vs)"
    and clean: "keeps P (clean_revoked_token eng now)"
    and "db_call env eng key now d d'" and "P d"
  shows "P d'"
  using assms(3,4)
proof (induction rule: db_call.induct)
  case (request d d')
  then show ?case using keeps_request [where P = P, OF assms(1,2)] by blast
next
  case (clean d)
  then show ?case by (rule keeps_app) (rule assms(2))
qed (erule keeps_app; unfold db_ops db_fetch_defs Let_def; intro keeps_intros assms(1,2); simp)+

text \<open>No handler writes the table of users.\<close>

lemma keeps_users_rows:
  assumes "s \<noteq> SQL_Insert T_users" and "\<And>cs. s \<noteq> SQL_Delete T_users cs" and "\<And>c cs. s \<noteq> SQL_Update T_users c cs"
  shows "keeps (\<lambda>d. d T_users = rows) (db_rows eng s vs)"
proof (rule keeps_rows)
  fix d
  assume r: "d T_users = rows"
  have "fst (sql_sem d s vs) T_users = rows"
    using r assms by (cases "(d, s, vs)" rule: sql_sem.cases) (auto simp: Let_def split: list.split)
  with r exec [of d s vs] show "fst (eng d s vs) T_users = rows" by auto
qed

lemma request_keeps_users:
  "request_call env eng key now d d' \<Longrightarrow> d T_users = rows \<Longrightarrow> d' T_users = rows"
proof (induction rule: request_call.induct)
  case (verify d token)
  then show ?case by (simp add: keeps_verify)
qed (erule keeps_app [where P = "\<lambda>d. d T_users = rows"];
    unfold db_ops db_fetch_defs clean_revoked_token_def Let_def; intro keeps_intros keeps_users_rows; simp)+

lemma call_db_ok: "db_call env eng key now d d' \<Longrightarrow> db_ok d \<Longrightarrow> db_ok d'"
  by (rule keeps_call [where P = db_ok])
     (auto simp: clean_revoked_token_def db_execute_def intro!: keeps_intros keeps_ok_rows)

lemma call_token_dead:
  assumes "db_call env eng key now d d'" and "token_dead u t e (d, now)"
  shows "token_dead u t e (d', now)"
proof (cases "e \<le> sint now")
  case True
  with assms call_db_ok show ?thesis by (auto simp: token_dead_def)
next
  case False
  let ?r = "[v_u32 u, VText t, VInt e]"
  have "\<not> row_match T_revoked_tokens [C_expiration_time] [v_i64 now] ?r"
    using False by (simp add: row_match_def v_i64_def)
  then have "keeps (\<lambda>d. ?r \<in> set (d T_revoked_tokens)) (clean_revoked_token eng now)"
    unfolding clean_revoked_token_def db_execute_def
    by (intro keeps_intros keeps_revoked_rows) auto
  then have "?r \<in> set (d' T_revoked_tokens)"
    using keeps_call [where P = "\<lambda>d. ?r \<in> set (d T_revoked_tokens)", OF keeps_revoked_rows _ assms(1)]
      assms(2) False by (auto simp: token_dead_def)
  with assms call_db_ok show ?thesis by (auto simp: token_dead_def)
qed

lemma run_token_dead:
  "db_run env eng key s s' \<Longrightarrow> token_dead u t e s \<Longrightarrow> token_dead u t e s'"
proof (induction rule: db_run.induct)
  case (tick s d now now')
  then show ?case by (auto simp: token_dead_def)
next
  case (call s d now d')
  then show ?case using call_token_dead by blast
qed

lemma revoked_is_dead:
  assumes "db_ok d" and "insert_revoked_token eng au d = (Inr x, d')"
  shows "token_dead (au_user_id au) (au_token_id au) (sint (au_expiration_time au)) (d', now)"
proof -
  let ?r = "[v_u32 (au_user_id au), VText (au_token_id au), v_i64 (au_expiration_time au)]"
  from assms(2) obtain rs where e: "eng d (SQL_Insert T_revoked_tokens) ?r = (d', Inr rs)"
    by (auto simp: insert_revoked_token_def db_execute_Inr)
  from eng_ok [OF e] have "?r \<in> set (d' T_revoked_tokens)" by (auto split: if_splits)
  moreover from eng_db_ok [OF assms(1), of "SQL_Insert T_revoked_tokens" ?r] e have "db_ok d'" by simp
  ultimately show ?thesis by (simp add: token_dead_def v_i64_def)
qed

end

definition jwt_stable :: "auth_env \<Rightarrow> bytes \<Rightarrow> bool" where
  "jwt_stable env key \<longleftrightarrow> (\<forall>t now now' c c'.
     ae_decode env key now t = Some c \<longrightarrow> ae_decode env key now' t = Some c' \<longrightarrow> c = c')"

lemma revoked_stays_invalid:
  assumes "sqlite eng" and "db_ok d" and "jwt_stable env key"
    and "verify_token env eng key now t d = (Inr au, d)"
    and "insert_revoked_token eng au d = (Inr (), d1)"
    and "db_run env eng key (d1, now) (d2, now2)"
  shows "\<exists>e. verify_token env eng key now2 t d2 = (Inl e, d2)"
proof -
  note sq = assms(1)
  have ok: "keys_ok T_revoked_tokens (d T_revoked_tokens)" using assms(2) by (simp add: db_ok_def)
  from sqlite.verify_token_sound [OF sq assms(4) ok] obtain c where
    c: "ae_decode env key now t = Some c" and au: "au = \<lparr>au_user_id = cl_user_id c,
      au_group_id = cl_group_id c, au_token_id = cl_token_id c, au_expiration_time = cl_exp c\<rparr>"
    by metis
  from sqlite.run_token_dead [OF sq assms(6) sqlite.revoked_is_dead [OF sq assms(2,5)]]
  have dead: "token_dead (cl_user_id c) (cl_token_id c) (sint (cl_exp c)) (d2, now2)" by (simp add: au)
  then have ok2: "keys_ok T_revoked_tokens (d2 T_revoked_tokens)" by (simp add: token_dead_def db_ok_def)
  have no: "verify_token env eng key now2 t d2 \<noteq> (Inr au', d')" for au' d'
  proof
    assume v: "verify_token env eng key now2 t d2 = (Inr au', d')"
    from sqlite.verify_token_sound [OF sq v ok2] obtain c' where
      c': "ae_decode env key now2 t = Some c'" "sint now2 < sint (cl_exp c')"
      "\<not> (\<exists>r \<in> set (d2 T_revoked_tokens). row_match T_revoked_tokens [C_user_id, C_token_id]
          [v_u32 (cl_user_id c'), VText (cl_token_id c')] r)" by blast
    moreover have "c' = c" using assms(3) c c'(1) unfolding jwt_stable_def by blast
    ultimately show False using dead by (auto simp: token_dead_def row_match_def)
  qed
  show ?thesis
    using no sqlite.keeps_verify [OF sq, of env key now2 t d2]
    by (cases "verify_token env eng key now2 t d2"; cases "fst (verify_token env eng key now2 t d2)") auto
qed

text \<open>
  Logout is final. Once the token a user presented has been revoked, no later run of the
  database layer, however long and whatever is called in it, makes the token valid again: every
  verification of it fails, although rows of revoked tokens are deleted on the way. The clock must
  not run backwards and a token must always decode to the same claims.
\<close>

lemma logout_is_final:
  assumes "sqlite eng" and "db_ok d" and "jwt_stable env key"
    and "verify_token env eng key now t d = (Inr au, d)"
    and "insert_revoked_token eng au d = (Inr (), d1)"
    and "db_run env eng key (d1, now) (d2, now2)"
  shows "\<exists>e. verify_token env eng key now2 t d2 = (Inl e, d2)"
  using assms by (rule revoked_stays_invalid)

text \<open>Parameters for the witnesses: one user with one token.\<close>

definition witness_claims :: claims where
  "witness_claims = \<lparr>cl_user_id = 7, cl_group_id = 8, cl_token_id = ''id'', cl_exp = 86500\<rparr>"

definition witness_env :: auth_env where
  "witness_env = \<lparr>ae_hash = (\<lambda>salt p. Some (''h'' @ p)), ae_verify = (\<lambda>p h. h = ''h'' @ p),
     ae_encode = (\<lambda>key c. if c = witness_claims then Some ''tok'' else None),
     ae_decode = (\<lambda>key now t. if t = ''tok'' then Some witness_claims else None)\<rparr>"

definition witness_db :: database where
  "witness_db T = (case T of
     T_users \<Rightarrow> [[VInt 7, VInt 8, VText ''ann'', VText ''hpw'']]
   | T_revoked_tokens \<Rightarrow> []
   | T_xattributes \<Rightarrow> [[VText ''/a'', VText ''k'', VBlob [1]], [VText ''/d'', VText ''k'', VBlob [2]]])"

definition witness_user :: authenticated_user where
  "witness_user = \<lparr>au_user_id = 7, au_group_id = 8, au_token_id = ''id'', au_expiration_time = 86500\<rparr>"

lemma witness_db_ok: "db_ok witness_db"
proof -
  have "keys_ok T (witness_db T) \<and> shape_ok T (witness_db T)" for T
    by (cases T) (simp_all add: witness_db_def keys_ok_def shape_ok_def row_get_def)
  then show ?thesis by (simp add: db_ok_def)
qed

lemma witness_jwt_stable: "jwt_stable witness_env key"
  by (simp add: jwt_stable_def witness_env_def)

lemma logout_is_final_witness:
  "\<exists>d1 e. insert_revoked_token sql_sem witness_user witness_db = (Inr (), d1)
     \<and> verify_token witness_env sql_sem [] 200 ''tok'' (snd (clean_revoked_token sql_sem 200 d1))
        = (Inl e, snd (clean_revoked_token sql_sem 200 d1))"
proof -
  have v: "verify_token witness_env sql_sem [] 100 ''tok'' witness_db = (Inr witness_user, witness_db)"
    by (simp add: verify_token_def witness_env_def witness_claims_def is_token_revoked_def db_monad
        db_fetch_defs db_rows_def witness_db_def witness_user_def)
  have r: "insert_revoked_token sql_sem witness_user witness_db
      = (Inr (), snd (insert_revoked_token sql_sem witness_user witness_db))"
    by (simp add: insert_revoked_token_def db_monad db_fetch_defs db_rows_def witness_db_def
        witness_user_def keys_ok_def)
  let ?d1 = "snd (insert_revoked_token sql_sem witness_user witness_db)"
  have "db_run witness_env sql_sem [] (?d1, 100) (?d1, 200)"
    by (rule db_run.tick [OF db_run.start]) simp
  then have "db_run witness_env sql_sem [] (?d1, 100) (snd (clean_revoked_token sql_sem 200 ?d1), 200)"
    by (rule db_run.call) (rule db_call.clean)
  from logout_is_final [OF ref_db.sqlite_axioms witness_db_ok witness_jwt_stable v r this] r
  show ?thesis by blast
qed

text \<open>
  A token is accepted only if it decodes under the server's key, has not expired and is not
  among the revoked ones; the identity of the request is then that of its claims, and the check
  changes nothing.
\<close>

lemma verify_token_accepts:
  assumes "sqlite eng" and "db_ok d" and "verify_token env eng key now t d = (Inr au, d')"
  shows "d' = d \<and> (\<exists>c. ae_decode env key now t = Some c \<and> sint now < sint (cl_exp c)
    \<and> au_user_id au = cl_user_id c \<and> au_group_id au = cl_group_id c
    \<and> (\<forall>e. [v_u32 (cl_user_id c), VText (cl_token_id c), e] \<notin> set (d T_revoked_tokens)))"
proof -
  have ok: "keys_ok T_revoked_tokens (d T_revoked_tokens)" using assms(2) by (simp add: db_ok_def)
  show ?thesis
    by (rule sqlite.verify_token_sound [OF assms(1,3) ok]) (fastforce simp: row_match_def)
qed

lemma verify_token_accepts_witness:
  "\<exists>c. ae_decode witness_env [] 100 ''tok'' = Some c \<and> sint (100 :: u64) < sint (cl_exp c)"
proof -
  have "verify_token witness_env sql_sem [] 100 ''tok'' witness_db = (Inr witness_user, witness_db)"
    by (simp add: verify_token_def witness_env_def witness_claims_def is_token_revoked_def db_monad
        db_fetch_defs db_rows_def witness_db_def witness_user_def)
  from verify_token_accepts [OF ref_db.sqlite_axioms witness_db_ok this] show ?thesis by blast
qed

subsection \<open>Users\<close>

lemma row_get_users [simp]:
  "row_get T_users [u, g, n, p] C_user_id = Some u" "row_get T_users [u, g, n, p] C_group_id = Some g"
  "row_get T_users [u, g, n, p] C_username = Some n" "row_get T_users [u, g, n, p] C_password = Some p"
  by (simp_all add: row_get_def)

lemma row_match_one: "row_match T [c] [v] r \<longleftrightarrow> row_get T r c = Some v"
  by (simp add: row_match_def)

definition has_user :: "database \<Rightarrow> u32 \<Rightarrow> bool" where
  "has_user d u \<longleftrightarrow> (\<exists>r \<in> set (d T_users). row_get T_users r C_user_id = Some (v_u32 u))"

lemma key_count:
  assumes "keys_ok T rs" and "ks \<in> set (keys_of T)"
  shows "length (filter (row_match T ks vs) rs) = (if \<exists>r \<in> set rs. row_match T ks vs r then 1 else 0)"
  using key_unique [OF assms] by (auto simp: filter_empty_conv)

lemma get_u8_count: "get_u8 [VInt (int (if b then 1 else 0))] = Some n \<Longrightarrow> n = (if b then 1 else 0)"
  by (auto split: if_splits)

context sqlite
begin

lemma keeps_reads [keeps_intros]:
  "keeps (\<lambda>x. x = d) (db_rows eng (SQL_Select ps T cs) vs)"
  "keeps (\<lambda>x. x = d) (db_rows eng (SQL_Count T cs) vs)"
  "keeps (\<lambda>x. x = d) (db_rows eng (SQL_Max c T) vs)"
  by (rule keeps_rows; simp add: eng_read)+

lemma count_users_key:
  assumes "count_users eng [c] [v] d = (Inr n, d')" and "db_ok d" and "[c] \<in> set (keys_of T_users)"
  shows "d' = d \<and> n = (if \<exists>r \<in> set (d T_users). row_get T_users r c = Some v then 1 else 0)"
proof -
  have k: "keys_ok T_users (d T_users)" using assms(2) by (simp add: db_ok_def)
  from count_Inr [OF assms(1) [unfolded count_users_def]] key_count [OF k assms(3), of "[v]"]
  show ?thesis using get_u8_count by (auto simp: row_match_one split: if_splits)
qed

lemma user_exists_Inr:
  assumes "user_exists eng uid name d = (Inr b, d')" and "db_ok d"
  shows "d' = d" and "b \<longleftrightarrow> (\<exists>r \<in> set (d T_users).
    (\<exists>u. uid = Some u \<and> row_get T_users r C_user_id = Some (v_u32 u))
    \<or> (\<exists>n. name = Some n \<and> row_get T_users r C_username = Some (VText n)))"
proof -
  from assms(1) obtain c1 d1 c2 where
    1: "(case uid of None \<Rightarrow> db_return 0 | Some u \<Rightarrow> count_users eng [C_user_id] [v_u32 u]) d = (Inr c1, d1)"
    and 2: "(case name of None \<Rightarrow> db_return 0 | Some n \<Rightarrow> count_users eng [C_username] [VText n]) d1 = (Inr c2, d')"
    and b: "b \<longleftrightarrow> c1 + c2 > 0"
    by (auto simp: user_exists_def db_bind_Inr)
  have c1: "d1 = d \<and> c1 = (if \<exists>r \<in> set (d T_users). \<exists>u. uid = Some u \<and> row_get T_users r C_user_id = Some (v_u32 u)
      then 1 else 0)"
    using 1 count_users_key [OF _ assms(2)] by (cases uid) auto
  have c2: "d' = d \<and> c2 = (if \<exists>r \<in> set (d T_users). \<exists>n. name = Some n \<and> row_get T_users r C_username = Some (VText n)
      then 1 else 0)"
    using 2 c1 count_users_key [OF _ assms(2)] by (cases name) auto
  show "d' = d" using c2 by blast
  show "b \<longleftrightarrow> (\<exists>r \<in> set (d T_users).
    (\<exists>u. uid = Some u \<and> row_get T_users r C_user_id = Some (v_u32 u))
    \<or> (\<exists>n. name = Some n \<and> row_get T_users r C_username = Some (VText n)))"
    using c1 c2 b by (auto split: if_splits)
qed

lemma user_exists_state: "snd (user_exists eng uid name d) = d"
proof -
  have "keeps (\<lambda>x. x = d) (user_exists eng uid name)"
    unfolding user_exists_def count_users_def db_fetch_defs by (intro keeps_intros)
  then show ?thesis by (simp add: keeps_def)
qed

lemma get_user_state: "snd (get_user eng name d) = d"
proof -
  have "keeps (\<lambda>x. x = d) (get_user eng name)"
    unfolding get_user_def db_fetch_defs by (intro keeps_intros)
  then show ?thesis by (simp add: keeps_def)
qed

lemma absent_update:
  assumes "\<not> has_user d u"
  shows "snd (db_execute eng (SQL_Update T_users c [C_user_id]) [w, v_u32 u] d) = d"
proof -
  have m: "map (\<lambda>r. if row_match T_users [C_user_id] [v_u32 u] r then row_set T_users c w r else r) (d T_users)
      = d T_users"
    using assms by (intro map_idI) (auto simp: row_match_one has_user_def)
  show ?thesis
    using exec [of d "SQL_Update T_users c [C_user_id]" "[w, v_u32 u]"]
    by (auto simp: db_execute_def db_monad db_rows_def m Let_def split: if_splits)
qed

lemma absent_delete:
  assumes "\<not> has_user d u"
  shows "snd (db_execute eng (SQL_Delete T_users [C_user_id]) [v_u32 u] d) = d"
proof -
  have m: "filter (\<lambda>r. \<not> row_match T_users [C_user_id] [v_u32 u] r) (d T_users) = d T_users"
    using assms by (auto simp: filter_id_conv row_match_one has_user_def)
  show ?thesis
    using exec [of d "SQL_Delete T_users [C_user_id]" "[v_u32 u]"]
    by (auto simp: db_execute_def db_monad db_rows_def m)
qed

lemma if_absent:
  assumes "db_ok d"
    and "\<not> has_user d u \<Longrightarrow> snd (m d) = d"
  shows "snd (db_bind (user_exists eng (Some u) name) (\<lambda>b. if b then db_fail e else m) d) = d"
proof (cases "user_exists eng (Some u) name d")
  case (Pair r d')
  with user_exists_state [of "Some u" name d] have d': "d' = d" by simp
  show ?thesis
  proof (cases r)
    case (Inl e')
    with Pair d' show ?thesis by (simp add: db_bind_def)
  next
    case (Inr b)
    with Pair user_exists_Inr(2) [of "Some u" name d b d'] assms have "\<not> b \<Longrightarrow> snd (m d) = d"
      by (auto simp: has_user_def)
    with Inr Pair d' show ?thesis by (auto simp: db_bind_def db_fail_def)
  qed
qed

lemma set_username_absent:
  assumes "\<not> has_user d u"
  shows "snd (set_username_checked eng u n d) = d"
  using absent_update [OF assms, of C_username "VText n"] get_user_state [of n d]
  by (auto simp: set_username_checked_def db_bind_def [of "get_user eng n"] db_fail_def
      split: prod.splits sum.splits)

lemma eng_malformed: "fst (eng x (SQL_Malformed m) vs) = x"
  using exec [of x "SQL_Malformed m" vs] by auto

lemma edits_state:
  assumes "db_ok d"
  shows "snd (delete_user eng u d) = d" "snd (edit_username eng u n d) = d"
    "snd (edit_password env eng salt u p d) = d" "snd (edit_group_id eng u g d) = d"
proof -
  show "snd (delete_user eng u d) = d"
    unfolding delete_user_def by (intro if_absent absent_delete assms)
  show "snd (edit_username eng u n d) = d"
    unfolding edit_username_def
    by (intro if_absent assms)
       (auto simp: db_bind_def dest: set_username_absent [where n = n] split: prod.splits sum.splits)
  show "snd (edit_password env eng salt u p d) = d"
    unfolding edit_password_def
    by (intro if_absent assms) (auto simp: db_fail_def absent_update split: option.split)
  have "keeps (\<lambda>x. x = d) (edit_group_id eng u g)"
    unfolding edit_group_id_def user_exists_def count_users_def db_fetch_defs
    by (intro keeps_intros keeps_rows) (simp add: eng_malformed)
  then show "snd (edit_group_id eng u g d) = d" by (simp add: keeps_def)
qed

lemma edits_refuse:
  assumes "db_ok d" and "has_user d u"
  shows "fst (delete_user eng u d) = Inl Db_QueryError"
    "fst (edit_password env eng salt u p d) = Inl Db_QueryError"
proof -
  have "fst (user_exists eng (Some u) None d) = Inl Db_QueryError
      \<or> user_exists eng (Some u) None d = (Inr True, d)"
  proof (cases "user_exists eng (Some u) None d")
    case (Pair r d')
    show ?thesis
    proof (cases r)
      case (Inl e)
      have "e = Db_QueryError"
        using Pair Inl by (auto simp: user_exists_def count_users_def db_fetch_defs db_rows_def db_monad
            split: prod.splits sum.splits list.splits option.splits)
      with Pair Inl show ?thesis by simp
    next
      case (Inr b)
      with Pair user_exists_Inr [of "Some u" None d b d'] assms show ?thesis
        by (auto simp: has_user_def)
    qed
  qed
  then show "fst (delete_user eng u d) = Inl Db_QueryError"
    "fst (edit_password env eng salt u p d) = Inl Db_QueryError"
    by (auto simp: delete_user_def edit_password_def db_bind_def db_fail_def
        split: prod.splits sum.splits)
qed

end

text \<open>
  The existence checks of the user administration are inverted (and the group update is not
  SQL): deleting a user, renaming one, changing a password or a group never changes any table,
  and for a user that exists a deletion and a new password are refused.
\<close>

lemma user_edits_do_nothing:
  assumes "sqlite eng" and "db_ok d"
  shows "snd (delete_user eng u d) = d \<and> snd (edit_username eng u n d) = d
    \<and> snd (edit_password env eng salt u p d) = d \<and> snd (edit_group_id eng u g d) = d
    \<and> (has_user d u \<longrightarrow> fst (delete_user eng u d) = Inl Db_QueryError
        \<and> fst (edit_password env eng salt u p d) = Inl Db_QueryError)"
  using sqlite.edits_state [OF assms] sqlite.edits_refuse [OF assms] by simp

lemma user_edits_do_nothing_witness:
  "snd (delete_user sql_sem 7 witness_db) = witness_db
   \<and> fst (delete_user sql_sem 7 witness_db) = Inl Db_QueryError"
proof -
  have "has_user witness_db 7" by (simp add: has_user_def witness_db_def v_u32_def)
  with user_edits_do_nothing [OF ref_db.sqlite_axioms witness_db_ok] show ?thesis by blast
qed

context sqlite
begin

lemma create_user_Inr:
  assumes "db_ok d" and "create_user env eng salt name p uid gid d = (Inr (u, g), d')"
  obtains pass where "ae_hash env salt p = Some pass"
    "d' = d(T_users := d T_users @ [[v_u32 u, v_u32 g, VText name, VText pass]])"
    "keys_ok T_users (d T_users @ [[v_u32 u, v_u32 g, VText name, VText pass]])"
    "uid = None \<or> uid = Some u" "g = (case gid of Some g' \<Rightarrow> g' | None \<Rightarrow> u)"
proof -
  let ?fresh = "case uid of Some u \<Rightarrow> db_return u | None \<Rightarrow> get_new_uid eng"
  from assms(2) obtain d1 where 1: "user_exists eng uid (Some name) d = (Inr False, d1)"
    and rest: "db_bind ?fresh
       (\<lambda>uid. let gid = (case gid of Some gid \<Rightarrow> gid | None \<Rightarrow> uid)
          in case hash_password env salt p of
               None \<Rightarrow> db_fail Db_Other
             | Some pass \<Rightarrow> db_bind (db_execute eng (SQL_Insert T_users)
                     [v_u32 uid, v_u32 gid, VText name, VText pass]) (\<lambda>_. db_return (uid, gid))) d1
       = (Inr (u, g), d')"
    unfolding create_user_def db_bind_Inr [of "user_exists eng uid (Some name)"]
    by (auto split: if_splits)
  from user_exists_Inr(1) [OF 1 assms(1)] have d1: "d1 = d" .
  from rest obtain u' d2 where f: "?fresh d1 = (Inr u', d2)"
    and ins: "(let gid = (case gid of Some gid \<Rightarrow> gid | None \<Rightarrow> u')
          in case hash_password env salt p of
               None \<Rightarrow> db_fail Db_Other
             | Some pass \<Rightarrow> db_bind (db_execute eng (SQL_Insert T_users)
                     [v_u32 u', v_u32 gid, VText name, VText pass]) (\<lambda>_. db_return (u', gid))) d2
       = (Inr (u, g), d')"
    unfolding db_bind_Inr [of ?fresh] by blast
  have "keeps (\<lambda>x. x = d) (get_new_uid eng)"
    unfolding get_new_uid_def count_users_def db_fetch_defs by (intro keeps_intros)
  then have "snd (get_new_uid eng d) = d" by (simp add: keeps_def)
  with f d1 have d2: "d2 = d" and u': "uid = None \<or> uid = Some u'" by (auto split: option.splits)
  from ins obtain pass where pass: "ae_hash env salt p = Some pass"
    and ins': "db_bind (db_execute eng (SQL_Insert T_users)
        [v_u32 u', v_u32 (case gid of Some gid \<Rightarrow> gid | None \<Rightarrow> u'), VText name, VText pass])
        (\<lambda>_. db_return (u', case gid of Some gid \<Rightarrow> gid | None \<Rightarrow> u')) d = (Inr (u, g), d')"
    by (auto simp: hash_password_def Let_def d2 split: option.splits)
  then have g: "u' = u" "g = (case gid of Some g' \<Rightarrow> g' | None \<Rightarrow> u)" by (auto simp: db_bind_Inr)
  from ins' g obtain rs where "eng d (SQL_Insert T_users) [v_u32 u, v_u32 g, VText name, VText pass] = (d', Inr rs)"
    by (auto simp: db_bind_Inr db_execute_Inr)
  from eng_ok [OF this] pass g u' show thesis by (intro that) (auto split: if_splits)
qed

end

text \<open>
  A new user gets the requested id, or a fresh one, and the requested group, or its own id;
  no user had this id or name before; the password is stored hashed, all other users are as before.
\<close>

lemma create_user_adds_one:
  assumes "sqlite eng" and "db_ok d" and "create_user env eng salt name p uid gid d = (Inr (u, g), d')"
  shows "\<not> has_user d u \<and> (\<forall>r \<in> set (d T_users). row_get T_users r C_username \<noteq> Some (VText name))
    \<and> (uid = None \<or> uid = Some u) \<and> g = (case gid of Some g' \<Rightarrow> g' | None \<Rightarrow> u)
    \<and> (\<exists>pass. ae_hash env salt p = Some pass
        \<and> d' = d(T_users := d T_users @ [[v_u32 u, v_u32 g, VText name, VText pass]]))"
  by (rule sqlite.create_user_Inr [OF assms])
     (auto simp: keys_ok_def has_user_def image_iff)

lemma create_user_adds_one_witness:
  "\<exists>d'. create_user witness_env sql_sem 0 ''bob'' ''x'' None None witness_db = (Inr (8, 8), d')
     \<and> \<not> has_user witness_db 8"
proof -
  have "create_user witness_env sql_sem 0 ''bob'' ''x'' None None witness_db
     = (Inr (8, 8), snd (create_user witness_env sql_sem 0 ''bob'' ''x'' None None witness_db))"
    by (simp add: create_user_def user_exists_def count_users_def get_new_uid_def db_fetch_defs
        db_rows_def db_monad witness_db_def row_match_def hash_password_def witness_env_def v_u32_def
        keys_ok_def)
  from create_user_adds_one [OF ref_db.sqlite_axioms witness_db_ok this] this show ?thesis by blast
qed

subsection \<open>Login\<close>

definition jwt_roundtrip :: "auth_env \<Rightarrow> bytes \<Rightarrow> bool" where
  "jwt_roundtrip env key \<longleftrightarrow> (\<forall>c t now. ae_encode env key c = Some t \<longrightarrow>
     sint now < sint (cl_exp c) \<longrightarrow> ae_decode env key now t = Some c)"

lemma fresh_token_accepted:
  assumes "jwt_roundtrip env key" and "db_ok d" and "generate_token env key now uuid u g = Some t"
    and "sint now2 < sint (token_expiration now)"
    and "\<forall>u e. [v_u32 u, VText uuid, e] \<notin> set (d T_revoked_tokens)"
  shows "verify_token env sql_sem key now2 t d = (Inr \<lparr>au_user_id = u, au_group_id = g,
      au_token_id = uuid, au_expiration_time = token_expiration now\<rparr>, d)"
proof -
  have dec: "ae_decode env key now2 t = Some \<lparr>cl_user_id = u, cl_group_id = g, cl_token_id = uuid,
       cl_exp = token_expiration now\<rparr>"
    using assms(1,3,4) by (auto simp: jwt_roundtrip_def generate_token_def)
  let ?m = "row_match T_revoked_tokens [C_user_id, C_token_id] [v_u32 u, VText uuid]"
  have "filter ?m (d T_revoked_tokens) = []"
  proof (rule ccontr)
    assume "filter ?m (d T_revoked_tokens) \<noteq> []"
    then obtain r where r: "r \<in> set (d T_revoked_tokens)" "?m r" by (auto simp: filter_empty_conv)
    with assms(2) have "length r = 3" by (auto simp: db_ok_def shape_ok_def list_all_iff)
    then obtain a b c where "r = [a, b, c]" by (auto simp: numeral_3_eq_3 length_Suc_conv)
    with r assms(5) show False by (auto simp: row_match_def)
  qed
  then show ?thesis
    using assms(4) by (simp add: verify_token_def dec is_token_revoked_def db_fetch_defs db_rows_def db_monad)
qed

lemma authenticated_user:
  assumes "authenticate_user env eng key now uuid name p d = (Inr (Some t), d1)"
  shows "\<exists>us d'. get_user eng name d = (Inr (Some us), d') \<and> ae_verify env p (us_password us)
    \<and> generate_token env key now uuid (us_user_id us) (us_group_id us) = Some t"
proof -
  from assms obtain r d' where r: "get_user eng name d = (Inr r, d')"
    and rest: "(case r of None \<Rightarrow> db_return None
        | Some u \<Rightarrow> if verify_password env p (us_password u)
            then (case generate_token env key now uuid (us_user_id u) (us_group_id u) of
                    None \<Rightarrow> db_fail Db_Other
                  | Some token \<Rightarrow>
                      db_bind (clean_revoked_token eng now) (\<lambda>_. db_return (Some token)))
            else db_return None) d' = (Inr (Some t), d1)"
    unfolding authenticate_user_def get_user_def db_bind_Inr [of "fetch_optional _ _ _ _"] by blast
  then show ?thesis
    by (cases r) (auto simp: db_bind_Inr verify_password_def split: option.splits if_splits)
qed

text \<open>
  C23. A successful login proves the password of an existing user, and its token is good: until
  24 hours later the server accepts it as that user and group, as long as no token with this id
  is revoked.
\<close>

theorem login_token_verifies:
  assumes "jwt_roundtrip env key" and "db_ok d2"
    and "authenticate_user env sql_sem key now uuid name p d = (Inr (Some t), d1)"
    and "sint now2 < sint (token_expiration now)"
    and "\<forall>u e. [v_u32 u, VText uuid, e] \<notin> set (d2 T_revoked_tokens)"
  shows "\<exists>us au. get_user sql_sem name d = (Inr (Some us), d) \<and> ae_verify env p (us_password us)
    \<and> verify_token env sql_sem key now2 t d2 = (Inr au, d2)
    \<and> au_user_id au = us_user_id us \<and> au_group_id au = us_group_id us"
proof -
  obtain us d' where us: "get_user sql_sem name d = (Inr (Some us), d')"
    and v: "ae_verify env p (us_password us)"
    and g: "generate_token env key now uuid (us_user_id us) (us_group_id us) = Some t"
    using authenticated_user [OF assms(3)] by blast
  have d': "d' = d" using ref_db.get_user_state [of name d] us by simp
  with us v fresh_token_accepted [OF assms(1,2) g assms(4,5)] show ?thesis by auto
qed

lemma login_token_verifies_witness:
  "\<exists>au. verify_token witness_env sql_sem [] 200 ''tok'' witness_db = (Inr au, witness_db)
     \<and> au_user_id au = 7"
proof -
  have rt: "jwt_roundtrip witness_env []"
    by (auto simp: jwt_roundtrip_def witness_env_def split: if_splits)
  have us: "get_user sql_sem ''ann'' witness_db = (Inr (Some \<lparr>us_user_id = 7, us_group_id = 8,
      us_username = ''ann'', us_password = ''hpw''\<rparr>), witness_db)"
    by (simp add: get_user_def db_fetch_defs db_rows_def db_monad witness_db_def row_match_def)
  have "authenticate_user witness_env sql_sem [] 100 ''id'' ''ann'' ''pw'' witness_db
      = (Inr (Some ''tok''), snd (authenticate_user witness_env sql_sem [] 100 ''id'' ''ann'' ''pw'' witness_db))"
    by (simp add: authenticate_user_def db_fetch_defs db_rows_def db_monad witness_db_def row_match_def
        verify_password_def witness_env_def generate_token_def witness_claims_def token_expiration_def
        clean_revoked_token_def)
  from login_token_verifies [OF rt witness_db_ok this, of 200] us show ?thesis
    by (simp add: token_expiration_def witness_db_def) auto
qed

end
