(* ===== verification/Xattr_Laws.thy ===== *)
theory Xattr_Laws
  imports Database_Laws
begin

text \<open>
  Extended attributes: the table stands for a map from (path, name) to bytes, and the operations
  of \<open>Database\<close> are checked against the operations on that map, for every engine.
\<close>

fun xa_entry :: "row \<Rightarrow> (string \<times> string) \<times> bytes" where
  "xa_entry [VText p, VText n, VBlob b] = ((p, n), b)"
| "xa_entry _ = (([], []), [])"

definition xattr_of :: "database \<Rightarrow> string \<times> string \<Rightarrow> bytes option" where
  "xattr_of d = map_of (map xa_entry (d T_xattributes))"

definition xa_row :: "row \<Rightarrow> bool" where
  "xa_row r \<longleftrightarrow> (\<exists>p n b. r = [VText p, VText n, VBlob b])"

definition xa_ok :: "database \<Rightarrow> bool" where
  "xa_ok d \<longleftrightarrow> db_ok d \<and> (\<forall>r \<in> set (d T_xattributes). xa_row r)"

lemma row_get_xa [simp]:
  "row_get T_xattributes [p, n, b] C_path = Some p" "row_get T_xattributes [p, n, b] C_name = Some n"
  "row_get T_xattributes [p, n, b] C_xattributes = Some b"
  by (simp_all add: row_get_def)

lemma row_set_xa [simp]:
  "row_set T_xattributes C_path v [p, n, b] = [v, n, b]"
  "row_set T_xattributes C_xattributes v [p, n, b] = [p, n, v]"
  by (simp_all add: row_set_def)

lemma row_match_xa [simp]:
  "row_match T_xattributes [C_path, C_name] [v, w] [p, n, b] \<longleftrightarrow> p = v \<and> n = w"
  "row_match T_xattributes [C_path] [v] [p, n, b] \<longleftrightarrow> p = v"
  by (auto simp: row_match_def)

lemma xa_entry_iff: "xa_row r \<Longrightarrow> xa_entry r = ((p, n), b) \<longleftrightarrow> r = [VText p, VText n, VBlob b]"
  by (auto simp: xa_row_def)

lemma xattr_of_iff:
  assumes "xa_ok d"
  shows "xattr_of d (p, n) = Some b \<longleftrightarrow> [VText p, VText n, VBlob b] \<in> set (d T_xattributes)"
proof -
  let ?rs = "d T_xattributes" and ?k = "\<lambda>r. map (row_get T_xattributes r) [C_path, C_name]"
  from assms have "keys_ok T_xattributes ?rs" and rows: "\<forall>r \<in> set ?rs. xa_row r"
    by (auto simp: xa_ok_def db_ok_def)
  then have "distinct (map ?k ?rs)" by (simp add: keys_ok_def)
  then have "distinct ?rs" and inj: "inj_on ?k (set ?rs)" by (auto simp: distinct_map)
  moreover have "inj_on (fst \<circ> xa_entry) (set ?rs)"
  proof (rule inj_onI)
    fix r s assume "r \<in> set ?rs" "s \<in> set ?rs" "(fst \<circ> xa_entry) r = (fst \<circ> xa_entry) s"
    moreover from this rows have "xa_row r" "xa_row s" by auto
    ultimately have "?k r = ?k s" by (auto simp: xa_row_def)
    with inj \<open>r \<in> set ?rs\<close> \<open>s \<in> set ?rs\<close> show "r = s" by (simp add: inj_on_def)
  qed
  ultimately have "distinct (map fst (map xa_entry ?rs))" by (simp add: distinct_map comp_def)
  then have "xattr_of d (p, n) = Some b \<longleftrightarrow> ((p, n), b) \<in> set (map xa_entry ?rs)"
    unfolding xattr_of_def by simp
  also have "\<dots> \<longleftrightarrow> [VText p, VText n, VBlob b] \<in> set ?rs"
    using rows xa_entry_iff [of _ p n b] by (force simp: image_iff)
  finally show ?thesis .
qed

lemma xattr_of_None:
  assumes "xa_ok d"
  shows "xattr_of d (p, n) = None \<longleftrightarrow>
    \<not> (\<exists>r \<in> set (d T_xattributes). row_match T_xattributes [C_path, C_name] [VText p, VText n] r)"
proof -
  have "(\<exists>r \<in> set (d T_xattributes). row_match T_xattributes [C_path, C_name] [VText p, VText n] r)
      \<longleftrightarrow> (\<exists>b. [VText p, VText n, VBlob b] \<in> set (d T_xattributes))"
    using assms by (force simp: xa_ok_def xa_row_def)
  with xattr_of_iff [OF assms, of p n] show ?thesis by (metis not_None_eq)
qed

lemma option_eqI: "(\<And>b. x = Some b \<longleftrightarrow> y = Some b) \<Longrightarrow> x = y"
  by (cases x; cases y) auto

text \<open>The \<open>UPDATE\<close> of a path, row by row.\<close>

definition mv_row :: "string \<Rightarrow> string \<Rightarrow> row \<Rightarrow> row" where
  "mv_row old new r = (if row_match T_xattributes [C_path] [VText old] r
      then row_set T_xattributes C_path (VText new) r else r)"

lemma mv_row_eq [simp]:
  "mv_row old new [VText p, VText m, VBlob b] = [VText (if p = old then new else p), VText m, VBlob b]"
  by (simp add: mv_row_def)

subsection \<open>The operations on the table\<close>

context sqlite
begin

lemma get_x_refines:
  assumes "xa_ok d" and "get_x_attributes eng p n d = (Inr r, d')"
  shows "d' = d \<and> r = xattr_of d (p, n)"
proof -
  let ?m = "row_match T_xattributes [C_path, C_name] [VText p, VText n]"
  from assms(2) obtain rs where
    e: "eng d (SQL_Select [C_xattributes] T_xattributes [C_path, C_name]) [VText p, VText n] = (d', Inr rs)"
    and r: "case rs of [] \<Rightarrow> r = None | x # _ \<Rightarrow> r \<noteq> None \<and> get_blob x = r"
    by (auto simp: get_x_attributes_def fetch_optional_Inr)
  from eng_ok [OF e] have d': "d' = d" and rs: "rs = map (\<lambda>r. [the (row_get T_xattributes r C_xattributes)])
      (filter ?m (d T_xattributes))" by auto
  show ?thesis
  proof (cases "xattr_of d (p, n)")
    case None
    then have "filter ?m (d T_xattributes) = []"
      using xattr_of_None [OF assms(1)] by (auto simp: filter_empty_conv)
    with rs r d' None show ?thesis by simp
  next
    case (Some b)
    then have "[VText p, VText n, VBlob b] \<in> set (d T_xattributes)"
      using xattr_of_iff [OF assms(1)] by simp
    moreover have "keys_ok T_xattributes (d T_xattributes)"
      using assms(1) by (simp add: xa_ok_def db_ok_def)
    ultimately have "filter ?m (d T_xattributes) = [[VText p, VText n, VBlob b]]"
      by (intro key_unique) auto
    with rs r d' Some show ?thesis by simp
  qed
qed

lemma count_x:
  assumes "xa_ok d" and
    "fetch_one eng get_u8 (SQL_Count T_xattributes [C_path, C_name]) [VText p, VText n] d = (Inr c, d')"
  shows "d' = d \<and> (c = 0 \<longleftrightarrow> xattr_of d (p, n) = None)"
proof -
  have k: "keys_ok T_xattributes (d T_xattributes)" using assms(1) by (simp add: xa_ok_def db_ok_def)
  from count_Inr [OF assms(2)] key_count [OF k, of "[C_path, C_name]" "[VText p, VText n]"]
  have "d' = d \<and> c = (if \<exists>r \<in> set (d T_xattributes). row_match T_xattributes [C_path, C_name]
      [VText p, VText n] r then 1 else 0)" using get_u8_count by auto
  then show ?thesis using xattr_of_None [OF assms(1), of p n] by auto
qed

lemma set_x_new:
  assumes "xa_ok d" and "xattr_of d (p, n) = None" and "set_x_attributes eng p n b d = (Inr x, d')"
  shows "xattr_of d' = (xattr_of d)((p, n) \<mapsto> b)" and "xa_ok d'"
proof -
  from assms(3) obtain c d1 where
    "fetch_one eng get_u8 (SQL_Count T_xattributes [C_path, C_name]) [VText p, VText n] d = (Inr c, d1)"
    and rest: "(if c = 0 then db_execute eng (SQL_Insert T_xattributes) [VText p, VText n, VBlob b]
          else db_execute eng (SQL_Update T_xattributes C_xattributes [C_path, C_name])
                 [VBlob b, VText n, VText p]) d1 = (Inr x, d')"
    by (auto simp: set_x_attributes_def db_bind_Inr)
  with count_x [OF assms(1)] assms(2) have "d1 = d" "c = 0" by auto
  with rest obtain rs where e: "eng d (SQL_Insert T_xattributes) [VText p, VText n, VBlob b] = (d', Inr rs)"
    by (auto simp: db_execute_Inr)
  from eng_ok [OF e] have d': "d' = d(T_xattributes := d T_xattributes @ [[VText p, VText n, VBlob b]])"
    by (auto split: if_splits)
  have ok: "db_ok d'" using eng_db_ok [of d] e assms(1) by (metis fst_conv xa_ok_def)
  show ok': "xa_ok d'" using ok assms(1) by (auto simp: xa_ok_def d' xa_row_def)
  show "xattr_of d' = (xattr_of d)((p, n) \<mapsto> b)"
  proof
    fix k :: "string \<times> string"
    obtain q m where k: "k = (q, m)" by (cases k)
    show "xattr_of d' k = ((xattr_of d)((p, n) \<mapsto> b)) k"
      unfolding k using assms(2) xattr_of_iff [OF assms(1), of p n]
        xattr_of_iff [OF assms(1), of q m] xattr_of_iff [OF ok', of q m]
      by (intro option_eqI) (auto simp: d')
  qed
qed

lemma delete_x:
  assumes "xa_ok d" and "db_execute eng (SQL_Delete T_xattributes cs) vs d = (Inr x, d')"
    and m: "\<And>q m b. row_match T_xattributes cs vs [VText q, VText m, VBlob b] \<longleftrightarrow> gone (q, m)"
  shows "xattr_of d' = (\<lambda>k. if gone k then None else xattr_of d k)" and "xa_ok d'"
proof -
  from assms(2) obtain rs where e: "eng d (SQL_Delete T_xattributes cs) vs = (d', Inr rs)"
    by (auto simp: db_execute_Inr)
  from eng_ok [OF e] have d': "d' = d(T_xattributes := filter (\<lambda>r. \<not> row_match T_xattributes cs vs r)
      (d T_xattributes))" by auto
  have ok: "db_ok d'" using eng_db_ok [of d] e assms(1) by (metis fst_conv xa_ok_def)
  show ok': "xa_ok d'" using ok assms(1) by (auto simp: xa_ok_def d')
  show "xattr_of d' = (\<lambda>k. if gone k then None else xattr_of d k)"
  proof
    fix k :: "string \<times> string"
    obtain q n where k: "k = (q, n)" by (cases k)
    show "xattr_of d' k = (if gone k then None else xattr_of d k)"
      unfolding k using xattr_of_iff [OF assms(1)] xattr_of_iff [OF ok'] m
      by (intro option_eqI) (auto simp: d')
  qed
qed

lemma move_x_table:
  assumes "xa_ok d" and "move_x_attributes eng new old d = (Inr x, d')"
  shows "d' = d(T_xattributes := map (mv_row old new) (d T_xattributes))" and "xa_ok d'"
proof -
  from assms(2) obtain rs where e: "eng d (SQL_Update T_xattributes C_path [C_path]) [VText new, VText old] = (d', Inr rs)"
    by (auto simp: move_x_attributes_def db_execute_Inr)
  from eng_ok [OF e] show d': "d' = d(T_xattributes := map (mv_row old new) (d T_xattributes))"
    by (auto simp: Let_def mv_row_def [abs_def] split: if_splits)
  have "db_ok d'" using eng_db_ok [of d] e assms(1) by (metis fst_conv xa_ok_def)
  moreover have "xa_row r \<Longrightarrow> xa_row (mv_row old new r)" for r by (auto simp: xa_row_def)
  ultimately show "xa_ok d'" using assms(1) by (auto simp: xa_ok_def d')
qed

lemma move_x_entry:
  assumes "xa_ok d" and "move_x_attributes eng new old d = (Inr x, d')"
  shows "xattr_of d' (p, m) = Some b \<longleftrightarrow>
      (\<exists>p0. xattr_of d (p0, m) = Some b \<and> p = (if p0 = old then new else p0))"
proof -
  note t = move_x_table [OF assms]
  have "[VText p, VText m, VBlob b] \<in> set (d' T_xattributes)
      \<longleftrightarrow> (\<exists>r \<in> set (d T_xattributes). mv_row old new r = [VText p, VText m, VBlob b])"
    by (simp add: t(1) image_iff eq_commute [of "[VText p, VText m, VBlob b]"])
  also have "\<dots> \<longleftrightarrow> (\<exists>p0. [VText p0, VText m, VBlob b] \<in> set (d T_xattributes)
      \<and> p = (if p0 = old then new else p0))"
  proof
    assume "\<exists>r \<in> set (d T_xattributes). mv_row old new r = [VText p, VText m, VBlob b]"
    then obtain r where r: "r \<in> set (d T_xattributes)" "mv_row old new r = [VText p, VText m, VBlob b]"
      by blast
    from r(1) assms(1) have "xa_row r" by (simp add: xa_ok_def)
    then obtain p0 m0 b0 where r0: "r = [VText p0, VText m0, VBlob b0]" unfolding xa_row_def by blast
    from r(2) have "(if p0 = old then new else p0) = p" "m0 = m" "b0 = b"
      unfolding r0 mv_row_eq by simp_all
    with r(1) r0 show "\<exists>p0. [VText p0, VText m, VBlob b] \<in> set (d T_xattributes)
      \<and> p = (if p0 = old then new else p0)" by metis
  next
    assume "\<exists>p0. [VText p0, VText m, VBlob b] \<in> set (d T_xattributes)
      \<and> p = (if p0 = old then new else p0)"
    then obtain p0 where p0: "[VText p0, VText m, VBlob b] \<in> set (d T_xattributes)"
      and p: "p = (if p0 = old then new else p0)" by (elim exE conjE)
    show "\<exists>r \<in> set (d T_xattributes). mv_row old new r = [VText p, VText m, VBlob b]"
      using p0 by (rule bexI [rotated]) (simp only: p mv_row_eq)
  qed
  finally show ?thesis using xattr_of_iff [OF assms(1)] xattr_of_iff [OF t(2)] by simp
qed

lemma move_x_clash:
  assumes "xa_ok d" and "move_x_attributes eng new old d = (Inr x, d')" and "old \<noteq> new"
  shows "xattr_of d (old, n) = None \<or> xattr_of d (new, n) = None"
proof (rule ccontr)
  assume "\<not> (xattr_of d (old, n) = None \<or> xattr_of d (new, n) = None)"
  then obtain b c where "xattr_of d (old, n) = Some b" "xattr_of d (new, n) = Some c" by auto
  then have mem: "[VText old, VText n, VBlob b] \<in> set (d T_xattributes)"
    "[VText new, VText n, VBlob c] \<in> set (d T_xattributes)"
    using xattr_of_iff [OF assms(1)] by auto
  note t = move_x_table [OF assms(1,2)]
  let ?k = "\<lambda>r. map (row_get T_xattributes r) [C_path, C_name]"
  from t(2) have "keys_ok T_xattributes (d' T_xattributes)" by (simp add: xa_ok_def db_ok_def)
  then have "distinct (map ?k (d' T_xattributes))" by (simp add: keys_ok_def)
  then have "inj_on (?k \<circ> mv_row old new) (set (d T_xattributes))"
    unfolding t(1) by (simp add: distinct_map comp_def)
  from inj_onD [OF this _ mem] assms(3) show False by simp
qed

lemma move_x:
  assumes "xa_ok d" and "move_x_attributes eng new old d = (Inr x, d')" and "old \<noteq> new"
  shows "xattr_of d' (q, n) =
      (if q = old then None
       else if q = new \<and> xattr_of d (old, n) \<noteq> None then xattr_of d (old, n) else xattr_of d (q, n))"
  using move_x_entry [OF assms(1,2), of q n] move_x_clash [OF assms, of n] assms(3)
  by (intro option_eqI) auto

end

subsection \<open>Properties\<close>

lemma xattr_map_laws:
  assumes "sqlite eng" and "xa_ok d"
  shows "get_x_attributes eng p n d = (Inr r, d') \<Longrightarrow> d' = d \<and> r = xattr_of d (p, n)"
    and "set_x_attributes eng p n b d = (Inr (), d') \<Longrightarrow> xattr_of d (p, n) = None \<Longrightarrow>
      xa_ok d' \<and> xattr_of d' = (xattr_of d)((p, n) \<mapsto> b)"
    and "remove_x_attributes eng p n d = (Inr (), d') \<Longrightarrow>
      xa_ok d' \<and> xattr_of d' = (xattr_of d)((p, n) := None)"
    and "remove_all_x_attributes eng p d = (Inr (), d') \<Longrightarrow>
      xa_ok d' \<and> xattr_of d' = (\<lambda>k. if fst k = p then None else xattr_of d k)"
proof -
  show "d' = d \<and> r = xattr_of d (p, n)" if "get_x_attributes eng p n d = (Inr r, d')"
    using sqlite.get_x_refines [OF assms that] .
  show "xa_ok d' \<and> xattr_of d' = (xattr_of d)((p, n) \<mapsto> b)"
    if "set_x_attributes eng p n b d = (Inr (), d')" "xattr_of d (p, n) = None"
    using sqlite.set_x_new [OF assms that(2,1)] by blast
  show "xa_ok d' \<and> xattr_of d' = (xattr_of d)((p, n) := None)"
    if "remove_x_attributes eng p n d = (Inr (), d')"
    using sqlite.delete_x [OF assms that [unfolded remove_x_attributes_def], of "\<lambda>k. k = (p, n)"]
    by auto
  show "xa_ok d' \<and> xattr_of d' = (\<lambda>k. if fst k = p then None else xattr_of d k)"
    if "remove_all_x_attributes eng p d = (Inr (), d')"
    using sqlite.delete_x [OF assms that [unfolded remove_all_x_attributes_def], of "\<lambda>k. fst k = p"]
    by auto
qed


lemma witness_xa_ok: "xa_ok witness_db"
  using witness_db_ok by (simp add: xa_ok_def xa_row_def witness_db_def)


text \<open>
  An attribute that exists is not overwritten: the \<open>UPDATE\<close> looks for the path in the name
  column and the other way round, so a set that reports success leaves the old value in place.
\<close>

lemma set_x_attributes_keeps_old_value:
  assumes "sqlite eng" and "xa_ok d" and "xattr_of d (p, n) = Some old" and "p \<noteq> n"
    and "set_x_attributes eng p n new d = (Inr (), d')"
  shows "[VText p, VText n, VBlob old] \<in> set (d' T_xattributes)"
proof -
  note sq = assms(1)
  from assms(5) obtain c d1 where
    c: "fetch_one eng get_u8 (SQL_Count T_xattributes [C_path, C_name]) [VText p, VText n] d = (Inr c, d1)"
    and rest: "(if c = 0 then db_execute eng (SQL_Insert T_xattributes) [VText p, VText n, VBlob new]
          else db_execute eng (SQL_Update T_xattributes C_xattributes [C_path, C_name])
                 [VBlob new, VText n, VText p]) d1 = (Inr (), d')"
    by (auto simp: set_x_attributes_def db_bind_Inr)
  from sqlite.count_x [OF sq assms(2) c] assms(3) have "d1 = d" "c \<noteq> 0" by auto
  with rest obtain rs where
    e: "eng d (SQL_Update T_xattributes C_xattributes [C_path, C_name]) [VBlob new, VText n, VText p] = (d', Inr rs)"
    by (auto simp: db_execute_Inr)
  have old: "[VText p, VText n, VBlob old] \<in> set (d T_xattributes)"
    using assms(3) xattr_of_iff [OF assms(2)] by simp
  let ?f = "\<lambda>r. if row_match T_xattributes [C_path, C_name] [VText n, VText p] r
      then row_set T_xattributes C_xattributes (VBlob new) r else r"
  from sqlite.eng_ok [OF sq e] have d': "d' T_xattributes = map ?f (d T_xattributes)"
    by (auto simp: Let_def split: if_splits)
  have f: "?f [VText p, VText n, VBlob old] = [VText p, VText n, VBlob old]"
    using assms(4) by simp
  from old have "?f [VText p, VText n, VBlob old] \<in> set (map ?f (d T_xattributes))"
    unfolding set_map by (rule imageI)
  then show ?thesis unfolding f d' .
qed

lemma set_x_attributes_keeps_old_value_witness:
  "[VText ''/a'', VText ''k'', VBlob [1]] \<in> set (snd (set_x_attributes sql_sem ''/a'' ''k'' [5] witness_db) T_xattributes)"
proof -
  have "set_x_attributes sql_sem ''/a'' ''k'' [5] witness_db
      = (Inr (), snd (set_x_attributes sql_sem ''/a'' ''k'' [5] witness_db))"
    by (simp add: set_x_attributes_def db_fetch_defs db_rows_def db_monad witness_db_def keys_ok_def)
  from set_x_attributes_keeps_old_value [OF ref_db.sqlite_axioms witness_xa_ok _ _ this, of "[1]"]
  show ?thesis by (simp add: xattr_of_def witness_db_def)
qed

text \<open>
  An exchange swaps the attributes of two paths and touches no other path; the attributes of
  the internal temporary path must be free.
\<close>

lemma exchange_x_attributes_swaps:
  assumes "sqlite eng" and "xa_ok d" and "\<forall>n. xattr_of d (tmp_exchange, n) = None"
    and "p1 \<noteq> p2" and "p1 \<noteq> tmp_exchange" and "p2 \<noteq> tmp_exchange"
    and "exchange_x_attributes eng p1 p2 d = (Inr (), d')"
  shows "xattr_of d' (p, n) =
    (if p = p1 then xattr_of d (p2, n) else if p = p2 then xattr_of d (p1, n) else xattr_of d (p, n))"
proof -
  note sq = assms(1)
  from assms(7) obtain d1 d2 where m: "move_x_attributes eng tmp_exchange p1 d = (Inr (), d1)"
    "move_x_attributes eng p1 p2 d1 = (Inr (), d2)" "move_x_attributes eng p2 tmp_exchange d2 = (Inr (), d')"
    by (auto simp: exchange_x_attributes_def db_bind_Inr)
  note ok1 = sqlite.move_x_table(2) [OF sq assms(2) m(1)]
  note ok2 = sqlite.move_x_table(2) [OF sq ok1 m(2)]
  show ?thesis
    using sqlite.move_x [OF sq assms(2) m(1), of _ n] sqlite.move_x [OF sq ok1 m(2), of _ n]
      sqlite.move_x [OF sq ok2 m(3), of _ n] assms(3-6) by auto
qed

lemma exchange_x_attributes_swaps_witness:
  "xattr_of (snd (exchange_x_attributes sql_sem ''/a'' ''/d'' witness_db)) (''/a'', ''k'') = Some [2]"
proof -
  have "exchange_x_attributes sql_sem ''/a'' ''/d'' witness_db
      = (Inr (), snd (exchange_x_attributes sql_sem ''/a'' ''/d'' witness_db))"
    by (simp add: exchange_x_attributes_def move_x_attributes_def db_fetch_defs db_rows_def db_monad
        witness_db_def keys_ok_def tmp_exchange_def)
  from exchange_x_attributes_swaps [OF ref_db.sqlite_axioms witness_xa_ok _ _ _ _ this]
  show ?thesis by (simp add: xattr_of_def witness_db_def tmp_exchange_def)
qed

text \<open>
  A rename moves the attributes of exactly one path. It is refused, with nothing moved, when
  both paths have an attribute of the same name (as after a rename onto a file that exists), and
  the attributes of the files below a renamed directory stay under their old paths.
\<close>

lemma rename_x_attributes_moves_one_path:
  assumes "sqlite eng" and "xa_ok d" and "old \<noteq> new"
  shows "case rename_x_attributes eng old new d of
      (Inr _, d') \<Rightarrow> xa_ok d' \<and> (\<forall>p n. xattr_of d' (p, n) =
        (if p = old then None
         else if p = new \<and> xattr_of d (old, n) \<noteq> None then xattr_of d (old, n)
         else xattr_of d (p, n)))
        \<and> (\<forall>n. xattr_of d (old, n) = None \<or> xattr_of d (new, n) = None)
    | (Inl _, d') \<Rightarrow> d' = d"
proof (cases "rename_x_attributes eng old new d")
  case (Pair r d')
  show ?thesis
  proof (cases r)
    case (Inr x)
    with Pair have m: "move_x_attributes eng new old d = (Inr x, d')"
      by (simp add: rename_x_attributes_def)
    show ?thesis
      using Pair Inr sqlite.move_x [OF assms(1,2) m assms(3)] sqlite.move_x_table(2) [OF assms(1,2) m]
        sqlite.move_x_clash [OF assms(1,2) m assms(3)] by simp
  next
    case (Inl e)
    obtain d'' r' where e: "eng d (SQL_Update T_xattributes C_path [C_path]) [VText new, VText old] = (d'', r')"
      by fastforce
    with Pair Inl obtain e' where "r' = Inl e'" "d'' = d'"
      by (cases r') (auto simp: rename_x_attributes_def move_x_attributes_def db_execute_def db_monad db_rows_def)
    with sqlite.eng_fail [OF assms(1), of d _ _ d' e'] e Pair Inl show ?thesis by simp
  qed
qed

lemma rename_x_attributes_moves_one_path_witness:
  "xattr_of (snd (rename_x_attributes sql_sem ''/a'' ''/b'' witness_db)) (''/b'', ''k'') = Some [1]
   \<and> snd (rename_x_attributes sql_sem ''/a'' ''/d'' witness_db) = witness_db"
proof -
  have "rename_x_attributes sql_sem ''/a'' ''/b'' witness_db
      = (Inr (), snd (rename_x_attributes sql_sem ''/a'' ''/b'' witness_db))"
    "rename_x_attributes sql_sem ''/a'' ''/d'' witness_db
      = (Inl Db_QueryError, snd (rename_x_attributes sql_sem ''/a'' ''/d'' witness_db))"
    by (simp_all add: rename_x_attributes_def move_x_attributes_def db_fetch_defs db_rows_def db_monad
        witness_db_def keys_ok_def)
  then show ?thesis
    using rename_x_attributes_moves_one_path [OF ref_db.sqlite_axioms witness_xa_ok, of "''/a''" "''/b''"]
      rename_x_attributes_moves_one_path [OF ref_db.sqlite_axioms witness_xa_ok, of "''/a''" "''/d''"]
    by (auto simp: xattr_of_def witness_db_def split: prod.splits)
qed

end
