(* ===== verification/Routes.thy ===== *)
theory Routes
  imports Access_Laws Database
begin

text \<open>
  The HTTP layer of the server: \<open>auth_middleware\<close> (\<open>server/src/middleware.rs\<close>), the handlers of
  \<open>server/src/routes.rs\<close> and the response types of \<open>server/src/models.rs\<close>. A handler takes the
  state of the server and returns the response with the state it leaves; \<open>Panic\<close> is a handler
  that unwinds. Parsing of requests and JSON belongs to \<open>actix-web\<close> and \<open>serde\<close>: requests arrive
  as values.
\<close>

record server_conf =
  sc_root :: ospath
  sc_externs :: externs
  sc_engine :: engine
  sc_env :: auth_env
  sc_key :: bytes

record server_state =
  sv_kernel :: kernel
  sv_db :: database

datatype item_type = Item_File | Item_Directory | Item_SymLink

record serializable_item =
  si_name :: string
  si_type :: item_type
  si_attributes :: file_attr

definition serializable_item_new :: "fs_item \<Rightarrow> serializable_item" where
  "serializable_item_new item =
     \<lparr>si_name = item_name item,
      si_type = (case item of FS_File _ _ \<Rightarrow> Item_File | FS_SymLink _ _ \<Rightarrow> Item_SymLink
                 | FS_Directory _ _ _ \<Rightarrow> Item_Directory),
      si_attributes = item_attributes item\<rparr>"

datatype response =
  R_Items "serializable_item list"
| R_Bytes bytes
| R_Attr file_attr
| R_Stats stats
| R_Target string
| R_Token string
| R_Xattr bytes
| R_Names "string list"
| R_Body string
| R_Finish
| R_NoContent

datatype request =
  Req_List string
| Req_ReadFile string nat nat
| Req_WriteFile string nat bytes
| Req_MakeDir string
| Req_Delete string
| Req_GetAttr string
| Req_SetAttr string set_attr
| Req_GetPerm string string
| Req_Stats string
| Req_Rename string string u32
| Req_CreateSymlink string string
| Req_ReadSymlink string
| Req_SetX string string bytes
| Req_GetX string string
| Req_ListX string
| Req_DeleteX string string
| Req_Logout
| Req_Login string string
| Req_Health

type_synonym handler = "server_state \<Rightarrow> (api_error + response) outcome \<times> server_state"

text \<open>\<open>ResponseError::status_code\<close>\<close>

fun status_code :: "api_error \<Rightarrow> nat" where
  "status_code Api_Unauthorized = 401"
| "status_code Api_NotFound = 404"
| "status_code Api_AlreadyExists = 409"
| "status_code Api_NotADirectory = 400"
| "status_code Api_IsADirectory = 400"
| "status_code Api_DirectoryNotEmpty = 409"
| "status_code Api_PermissionDenied = 403"
| "status_code Api_OperationNotPermitted = 403"
| "status_code Api_StorageFull = 507"
| "status_code Api_OutOfMemory = 507"
| "status_code Api_InvalidInput = 400"
| "status_code Api_FileTooLarge = 413"
| "status_code Api_Unsupported = 501"
| "status_code Api_CrossDeviceLink = 501"
| "status_code Api_IoError = 500"
| "status_code Api_TextFileBusy = 500"
| "status_code Api_ResourceBusy = 503"
| "status_code Api_TryAgain = 503"
| "status_code Api_InternalError = 500"

subsection \<open>Building blocks of the handlers\<close>

definition h_fail :: "api_error \<Rightarrow> handler" where
  "h_fail e s = (Ret (Inl e), s)"

definition h_ok :: "response \<Rightarrow> handler" where
  "h_ok r s = (Ret (Inr r), s)"

text \<open>\<open>AuthenticatedUser::check_permission\<close>\<close>

definition check_permission ::
  "server_conf \<Rightarrow> authenticated_user \<Rightarrow> kernel \<Rightarrow> string \<Rightarrow> operation \<Rightarrow> api_error + unit" where
  "check_permission conf u k path op =
     (case is_allowed (sc_root conf) k (au_user_id u) (au_group_id u) path op of
        Inr True \<Rightarrow> Inr ()
      | Inr False \<Rightarrow> Inl Api_PermissionDenied
      | Inl e \<Rightarrow> Inl (api_error_of_storage e))"

definition with_permission ::
  "server_conf \<Rightarrow> authenticated_user \<Rightarrow> string \<Rightarrow> operation \<Rightarrow> handler \<Rightarrow> handler" where
  "with_permission conf u path op h s =
     (case check_permission conf u (sv_kernel s) path op of
        Inl e \<Rightarrow> h_fail e s | Inr _ \<Rightarrow> h s)"

text \<open>A read of the file system, an update of it, a call of the database, each with \<open>?\<close>.\<close>

definition storage_read :: "(kernel \<Rightarrow> storage_error + 'a) \<Rightarrow> ('a \<Rightarrow> handler) \<Rightarrow> handler" where
  "storage_read m f s =
     (case m (sv_kernel s) of Inl e \<Rightarrow> h_fail (api_error_of_storage e) s | Inr x \<Rightarrow> f x s)"

definition storage_do :: "(kernel \<Rightarrow> 'a storage_result) \<Rightarrow> ('a \<Rightarrow> handler) \<Rightarrow> handler" where
  "storage_do m f s =
     (case m (sv_kernel s) of
        (Inl e, k) \<Rightarrow> h_fail (api_error_of_storage e) (s\<lparr>sv_kernel := k\<rparr>)
      | (Inr x, k) \<Rightarrow> f x (s\<lparr>sv_kernel := k\<rparr>))"

definition database_do :: "'a dbm \<Rightarrow> ('a \<Rightarrow> handler) \<Rightarrow> handler" where
  "database_do m f s =
     (case m (sv_db s) of
        (Inl e, d) \<Rightarrow> h_fail (api_error_of_database e) (s\<lparr>sv_db := d\<rparr>)
      | (Inr x, d) \<Rightarrow> f x (s\<lparr>sv_db := d\<rparr>))"

subsection \<open>Handlers\<close>

definition list_path :: "server_conf \<Rightarrow> authenticated_user \<Rightarrow> string \<Rightarrow> handler" where
  "list_path conf u path =
     with_permission conf u path Op_Read (\<lambda>s.
       case find_item (sc_root conf) (sv_kernel s) path of
         None \<Rightarrow> h_fail Api_NotFound s
       | Some item \<Rightarrow> (case item_get_children item of
             None \<Rightarrow> h_fail Api_NotADirectory s
           | Some children \<Rightarrow> h_ok (R_Items (map serializable_item_new children)) s))"

definition get_file_content ::
  "server_conf \<Rightarrow> authenticated_user \<Rightarrow> string \<Rightarrow> nat \<Rightarrow> nat \<Rightarrow> handler" where
  "get_file_content conf u path offset sz =
     with_permission conf u path Op_Read
       (storage_read (st_read_file (sc_root conf) path offset sz) (\<lambda>data. h_ok (R_Bytes data)))"

definition write_file ::
  "server_conf \<Rightarrow> authenticated_user \<Rightarrow> string \<Rightarrow> nat \<Rightarrow> bytes \<Rightarrow> handler" where
  "write_file conf u path offset body =
     with_permission conf u path Op_Write
       (storage_do (st_write_file (sc_externs conf) (sc_root conf) (au_user_id u) (au_group_id u)
           path body offset)
         (\<lambda>_. storage_read (st_get_attributes (sc_root conf) path) (\<lambda>attr. h_ok (R_Attr attr))))"

text \<open>\<open>str::rsplit_once\<close>\<close>

definition rsplit_once :: "char \<Rightarrow> string \<Rightarrow> (string \<times> string) option" where
  "rsplit_once c s =
     (if c \<in> set s
      then Some (rev (tl (dropWhile (\<lambda>x. x \<noteq> c) (rev s))), rev (takeWhile (\<lambda>x. x \<noteq> c) (rev s)))
      else None)"

definition make_directory :: "server_conf \<Rightarrow> authenticated_user \<Rightarrow> string \<Rightarrow> handler" where
  "make_directory conf u path =
     (case rsplit_once slash path of
        None \<Rightarrow> h_fail Api_InvalidInput
      | Some (p, name) \<Rightarrow>
          let parent = (if p = [] then ''/'' else p)
          in with_permission conf u parent Op_Write
               (storage_do (make_dir (sc_externs conf) (sc_root conf) (au_user_id u) (au_group_id u)
                   parent name)
                 (\<lambda>_. storage_read (st_get_attributes (sc_root conf) path) (\<lambda>attr. h_ok (R_Attr attr)))))"

definition delete_item :: "server_conf \<Rightarrow> authenticated_user \<Rightarrow> string \<Rightarrow> handler" where
  "delete_item conf u path =
     with_permission conf u path Op_Write
       (storage_do (st_delete (sc_root conf) path)
         (\<lambda>_. database_do (remove_all_x_attributes (sc_engine conf) path)
         (\<lambda>_. h_ok (R_Body ''Successful deletion!''))))"

definition get_attributes :: "server_conf \<Rightarrow> authenticated_user \<Rightarrow> string \<Rightarrow> handler" where
  "get_attributes conf u path =
     storage_read (st_get_attributes (sc_root conf) path) (\<lambda>attr. h_ok (R_Attr attr))"

definition set_attributes ::
  "server_conf \<Rightarrow> authenticated_user \<Rightarrow> string \<Rightarrow> set_attr \<Rightarrow> handler" where
  "set_attributes conf u path new s =
     (case st_set_attributes (sc_externs conf) (sc_root conf) path (au_user_id u) (au_group_id u)
         new (sv_kernel s) of
        (Panic, k) \<Rightarrow> (Panic, s\<lparr>sv_kernel := k\<rparr>)
      | (Ret (Inl e), k) \<Rightarrow> h_fail (api_error_of_storage e) (s\<lparr>sv_kernel := k\<rparr>)
      | (Ret (Inr attr), k) \<Rightarrow> h_ok (R_Attr attr) (s\<lparr>sv_kernel := k\<rparr>))"

definition get_permissions :: "server_conf \<Rightarrow> authenticated_user \<Rightarrow> string \<Rightarrow> string \<Rightarrow> handler" where
  "get_permissions conf u path query =
     (case get_mask query of
        Inl e \<Rightarrow> h_fail e
      | Inr m \<Rightarrow>
          let when = (\<lambda>b op h. if b then with_permission conf u path op h else h)
          in when (m AND 4 \<noteq> 0) Op_Read
               (when (m AND 2 \<noteq> 0) Op_Write
                 (when (m AND 1 \<noteq> 0) Op_Execute (h_ok R_Finish))))"

definition get_stats :: "server_conf \<Rightarrow> authenticated_user \<Rightarrow> string \<Rightarrow> handler" where
  "get_stats conf u path =
     with_permission conf u path Op_Read
       (storage_read (st_get_fs_stats (sc_externs conf) (sc_root conf) path) (\<lambda>st. h_ok (R_Stats st)))"

definition rename_item ::
  "server_conf \<Rightarrow> authenticated_user \<Rightarrow> string \<Rightarrow> string \<Rightarrow> u32 \<Rightarrow> handler" where
  "rename_item conf u old_path new_path flag_bits =
     (let flags = flags_truncate flag_bits
      in with_permission conf u old_path Op_Write
           (with_permission conf u new_path Op_Write
             (storage_do (st_rename (sc_root conf) old_path new_path flags)
               (\<lambda>_. database_do
                 (if flags_contains flags EXCHANGE
                  then exchange_x_attributes (sc_engine conf) old_path new_path
                  else rename_x_attributes (sc_engine conf) old_path new_path)
                 (\<lambda>_. h_ok (R_Body ''Successful renaming!''))))))"

definition create_symlink ::
  "server_conf \<Rightarrow> authenticated_user \<Rightarrow> string \<Rightarrow> string \<Rightarrow> handler" where
  "create_symlink conf u path target =
     with_permission conf u path Op_Write
       (storage_do (st_create_symlink (sc_root conf) path target) (\<lambda>attr. h_ok (R_Attr attr)))"

definition read_symlink :: "server_conf \<Rightarrow> authenticated_user \<Rightarrow> string \<Rightarrow> handler" where
  "read_symlink conf u path =
     with_permission conf u path Op_Read
       (storage_read (st_read_symlink (sc_root conf) path) (\<lambda>target. h_ok (R_Target target)))"

definition login ::
  "server_conf \<Rightarrow> u64 \<Rightarrow> string \<Rightarrow> string \<Rightarrow> string \<Rightarrow> handler" where
  "login conf now uuid username password =
     database_do (authenticate_user (sc_env conf) (sc_engine conf) (sc_key conf) now uuid username password)
       (\<lambda>token. case token of Some t \<Rightarrow> h_ok (R_Token t) | None \<Rightarrow> h_fail Api_Unauthorized)"

definition logout :: "server_conf \<Rightarrow> authenticated_user \<Rightarrow> handler" where
  "logout conf u =
     database_do (insert_revoked_token (sc_engine conf) u) (\<lambda>_. h_ok (R_Body ''Logged out''))"

definition set_x_attributes_route ::
  "server_conf \<Rightarrow> authenticated_user \<Rightarrow> string \<Rightarrow> string \<Rightarrow> bytes \<Rightarrow> handler" where
  "set_x_attributes_route conf u path name value =
     with_permission conf u path Op_Write
       (database_do (set_x_attributes (sc_engine conf) path name value) (\<lambda>_. h_ok R_Finish))"

definition get_x_attributes_route ::
  "server_conf \<Rightarrow> authenticated_user \<Rightarrow> string \<Rightarrow> string \<Rightarrow> handler" where
  "get_x_attributes_route conf u path name =
     with_permission conf u path Op_Read
       (database_do (get_x_attributes (sc_engine conf) path name)
         (\<lambda>opt. case opt of Some attr \<Rightarrow> h_ok (R_Xattr attr) | None \<Rightarrow> h_ok R_NoContent))"

definition list_x_attributes_route ::
  "server_conf \<Rightarrow> authenticated_user \<Rightarrow> string \<Rightarrow> handler" where
  "list_x_attributes_route conf u path =
     with_permission conf u path Op_Read
       (database_do (list_x_attributes (sc_engine conf) path) (\<lambda>names. h_ok (R_Names names)))"

definition delete_x_attributes_route ::
  "server_conf \<Rightarrow> authenticated_user \<Rightarrow> string \<Rightarrow> string \<Rightarrow> handler" where
  "delete_x_attributes_route conf u path name =
     with_permission conf u path Op_Write
       (database_do (remove_x_attributes (sc_engine conf) path name) (\<lambda>_. h_ok R_Finish))"

subsection \<open>Authentication and dispatch\<close>

datatype auth_header = Hdr_Missing | Hdr_NotText | Hdr_Text string

definition bearer_prefix :: string where "bearer_prefix = ''Bearer ''"

definition auth_token :: "auth_header \<Rightarrow> api_error + string" where
  "auth_token hdr =
     (case hdr of
        Hdr_Missing \<Rightarrow> Inl Api_Unauthorized
      | Hdr_NotText \<Rightarrow> Inl Api_InvalidInput
      | Hdr_Text h \<Rightarrow>
          if take (length bearer_prefix) h = bearer_prefix then Inr (drop (length bearer_prefix) h)
          else Inl Api_Unauthorized)"

definition auth_middleware ::
  "server_conf \<Rightarrow> u64 \<Rightarrow> auth_header \<Rightarrow> (authenticated_user \<Rightarrow> handler) \<Rightarrow> handler" where
  "auth_middleware conf now hdr next_h s =
     (case auth_token hdr of
        Inl e \<Rightarrow> h_fail e s
      | Inr token \<Rightarrow>
          (case verify_token (sc_env conf) (sc_engine conf) (sc_key conf) now token (sv_db s) of
             (Inr u, d) \<Rightarrow> next_h u (s\<lparr>sv_db := d\<rparr>)
           | (Inl _, d) \<Rightarrow> h_fail Api_Unauthorized (s\<lparr>sv_db := d\<rparr>)))"

fun protected_handler :: "server_conf \<Rightarrow> request \<Rightarrow> authenticated_user \<Rightarrow> handler" where
  "protected_handler conf (Req_List path) u = list_path conf u path"
| "protected_handler conf (Req_ReadFile path off sz) u = get_file_content conf u path off sz"
| "protected_handler conf (Req_WriteFile path off body) u = write_file conf u path off body"
| "protected_handler conf (Req_MakeDir path) u = make_directory conf u path"
| "protected_handler conf (Req_Delete path) u = delete_item conf u path"
| "protected_handler conf (Req_GetAttr path) u = get_attributes conf u path"
| "protected_handler conf (Req_SetAttr path new) u = set_attributes conf u path new"
| "protected_handler conf (Req_GetPerm path q) u = get_permissions conf u path q"
| "protected_handler conf (Req_Stats path) u = get_stats conf u path"
| "protected_handler conf (Req_Rename old new flags) u = rename_item conf u old new flags"
| "protected_handler conf (Req_CreateSymlink path target) u = create_symlink conf u path target"
| "protected_handler conf (Req_ReadSymlink path) u = read_symlink conf u path"
| "protected_handler conf (Req_SetX path name v) u = set_x_attributes_route conf u path name v"
| "protected_handler conf (Req_GetX path name) u = get_x_attributes_route conf u path name"
| "protected_handler conf (Req_ListX path) u = list_x_attributes_route conf u path"
| "protected_handler conf (Req_DeleteX path name) u = delete_x_attributes_route conf u path name"
| "protected_handler conf Req_Logout u = logout conf u"
| "protected_handler conf (Req_Login n p) u = h_fail Api_InvalidInput"
| "protected_handler conf Req_Health u = h_fail Api_InvalidInput"

text \<open>\<open>configure\<close>: login and health are open, every other route is behind the middleware. (The
  last two equations above are never reached.)\<close>

definition handle_request ::
  "server_conf \<Rightarrow> u64 \<Rightarrow> string \<Rightarrow> auth_header \<Rightarrow> request \<Rightarrow> handler" where
  "handle_request conf now uuid hdr req =
     (case req of
        Req_Login n p \<Rightarrow> login conf now uuid n p
      | Req_Health \<Rightarrow> h_ok (R_Body ''RemoteFS Server is running'')
      | _ \<Rightarrow> auth_middleware conf now hdr (protected_handler conf req))"

definition needs_auth :: "request \<Rightarrow> bool" where
  "needs_auth req = (case req of Req_Login _ _ \<Rightarrow> False | Req_Health \<Rightarrow> False | _ \<Rightarrow> True)"

lemma handle_request_auth:
  "needs_auth req \<Longrightarrow> handle_request conf now uuid hdr req
     = auth_middleware conf now hdr (protected_handler conf req)"
  by (cases req) (simp_all add: needs_auth_def handle_request_def)

lemmas handler_blocks = with_permission_def storage_read_def storage_do_def database_do_def
  h_fail_def h_ok_def

lemmas handler_defs = list_path_def get_file_content_def write_file_def make_directory_def
  delete_item_def get_attributes_def set_attributes_def get_permissions_def get_stats_def
  rename_item_def create_symlink_def read_symlink_def login_def logout_def
  set_x_attributes_route_def get_x_attributes_route_def list_x_attributes_route_def
  delete_x_attributes_route_def

end
