(* ===== verification/Server_Laws.thy ===== *)
theory Server_Laws
  imports Routes Xattr_Laws
begin

text \<open>
  What a client of the server can rely on, over whole requests: no service without a valid token,
  none after logout in any later run, permission checks before every access, and files that read
  back what was written.
\<close>

subsection \<open>The middleware\<close>

lemma handler_sel [simp]:
  "h_fail e s = (Ret (Inl e), s)" "h_ok r s = (Ret (Inr r), s)"
  by (simp_all add: h_fail_def h_ok_def)

lemma auth_middleware_refuses:
  assumes "sqlite (sc_engine conf)"
    and "\<And>t u. auth_token hdr = Inr t \<Longrightarrow>
      fst (verify_token (sc_env conf) (sc_engine conf) (sc_key conf) now t (sv_db s)) \<noteq> Inr u"
  shows "auth_middleware conf now hdr h s = (Ret (Inl Api_Unauthorized), s)
    \<or> auth_middleware conf now hdr h s = (Ret (Inl Api_InvalidInput), s)"
proof (cases "auth_token hdr")
  case (Inl e)
  then have "e = Api_Unauthorized \<or> e = Api_InvalidInput"
    by (auto simp: auth_token_def split: auth_header.splits if_splits)
  with Inl show ?thesis by (auto simp: auth_middleware_def)
next
  case (Inr t)
  obtain r d where v: "verify_token (sc_env conf) (sc_engine conf) (sc_key conf) now t (sv_db s) = (r, d)"
    by fastforce
  with sqlite.keeps_verify [OF assms(1), of "sc_env conf" "sc_key conf" now t "sv_db s"]
  have "d = sv_db s" by simp
  moreover from assms(2) [OF Inr] v obtain e where "r = Inl e" by (cases r) auto
  ultimately show ?thesis using Inr v by (simp add: auth_middleware_def)
qed


definition witness_conf :: server_conf where
  "witness_conf = \<lparr>sc_root = [''s''], sc_externs = witness_externs, sc_engine = sql_sem,
     sc_env = witness_env, sc_key = []\<rparr>"

definition witness_state :: server_state where
  "witness_state = \<lparr>sv_kernel = witness_kernel, sv_db = witness_db\<rparr>"

lemma witness_conf_engine [simp]: "sc_engine witness_conf = sql_sem"
  by (simp add: witness_conf_def)

lemma witness_conf_sqlite: "sqlite (sc_engine witness_conf)"
  by (simp add: ref_db.sqlite_axioms)


subsection \<open>Runs of the server\<close>

inductive server_run :: "server_conf \<Rightarrow> server_state \<times> u64 \<Rightarrow> server_state \<times> u64 \<Rightarrow> bool" for conf where
  start: "server_run conf s s"
| tick: "server_run conf s (st, now) \<Longrightarrow> sint now \<le> sint now' \<Longrightarrow> server_run conf s (st, now')"
| request: "server_run conf s (st, now) \<Longrightarrow>
    server_run conf s (snd (handle_request conf now uuid hdr req st), now)"

abbreviation conf_run :: "server_conf \<Rightarrow> database \<times> u64 \<Rightarrow> database \<times> u64 \<Rightarrow> bool" where
  "conf_run conf \<equiv> db_run (sc_env conf) (sc_engine conf) (sc_key conf)"

abbreviation conf_calls :: "server_conf \<Rightarrow> u64 \<Rightarrow> database \<Rightarrow> database \<Rightarrow> bool" where
  "conf_calls conf \<equiv> request_call (sc_env conf) (sc_engine conf) (sc_key conf)"

text \<open>A handler's effect on the database is at most one call of the layer.\<close>

definition db_step :: "server_conf \<Rightarrow> u64 \<Rightarrow> handler \<Rightarrow> bool" where
  "db_step conf now h \<longleftrightarrow> (\<forall>s. sv_db (snd (h s)) = sv_db s
     \<or> request_call (sc_env conf) (sc_engine conf) (sc_key conf) now (sv_db s) (sv_db (snd (h s))))"

text \<open>A handler that leaves the database alone.\<close>

definition db_same :: "handler \<Rightarrow> bool" where
  "db_same h \<longleftrightarrow> (\<forall>s. sv_db (snd (h s)) = sv_db s)"

named_theorems db_step_intros \<open>handlers that call the database at most once\<close>

lemma db_step_base [db_step_intros]:
  "db_same (h_fail e)" "db_same (h_ok r)" "db_step conf now (h_fail e)" "db_step conf now (h_ok r)"
  by (simp_all add: db_step_def db_same_def)

lemma db_step_permission [db_step_intros]:
  "db_step conf now h \<Longrightarrow> db_step conf now (with_permission conf' u path op h)"
  by (auto simp: db_step_def with_permission_def split: sum.splits)

lemma db_step_storage [db_step_intros]:
  "(\<And>x. db_step conf now (f x)) \<Longrightarrow> db_step conf now (storage_read m f)"
  "(\<And>x. db_step conf now (f x)) \<Longrightarrow> db_step conf now (storage_do m' f)"
  unfolding db_step_def storage_read_def storage_do_def
  by (auto split: sum.splits prod.splits) (metis server_state.select_convs(2) server_state.surjective
      server_state.update_convs(1))+

lemma db_step_database [db_step_intros]:
  assumes "\<And>d. request_call (sc_env conf) (sc_engine conf) (sc_key conf) now d (snd (m d))"
    and "\<And>x. db_same (f x)"
  shows "db_step conf now (database_do m f)"
proof -
  have "sv_db (snd (database_do m f s)) = snd (m (sv_db s))" for s
    using assms(2) by (auto simp: database_do_def db_same_def split: sum.splits prod.splits)
  with assms(1) show ?thesis by (simp add: db_step_def)
qed

lemma db_step_if [db_step_intros]:
  "(b \<Longrightarrow> db_step conf now h) \<Longrightarrow> (\<not> b \<Longrightarrow> db_step conf now h') \<Longrightarrow> db_step conf now (if b then h else h')"
  by simp

lemma db_same_cases [db_step_intros]:
  "db_same h \<Longrightarrow> (\<And>x. db_same (f x)) \<Longrightarrow> db_same (case y of None \<Rightarrow> h | Some x \<Rightarrow> f x)"
  by (cases y) auto

lemma list_path_db [db_step_intros]: "db_step conf now (list_path conf' u path)"
  unfolding list_path_def by (auto simp: db_step_def with_permission_def split: sum.splits option.splits)

lemma set_attributes_db [db_step_intros]: "db_step conf now (set_attributes conf' u path new)"
  by (auto simp: db_step_def set_attributes_def split: prod.splits outcome.splits sum.splits)

lemma make_directory_db [db_step_intros]: "db_step conf now (make_directory conf' u path)"
  unfolding make_directory_def
  by (cases "rsplit_once slash path") (auto simp: Let_def intro!: db_step_intros)

lemma get_permissions_db [db_step_intros]: "db_step conf now (get_permissions conf' u path q)"
  unfolding get_permissions_def
  by (cases "get_mask q") (auto simp: Let_def intro!: db_step_intros)

lemma rename_item_db [db_step_intros]: "db_step conf now (rename_item conf u old new f)"
  unfolding rename_item_def Let_def
  by (cases "flags_contains (flags_truncate f) EXCHANGE"; simp only: if_True if_False;
      intro db_step_intros request_call.exchange_x request_call.rename_x)

lemma protected_db_step: "db_step conf now (protected_handler conf req u)"
  by (cases req; simp only: protected_handler.simps;
      (rule db_step_intros | (unfold get_file_content_def write_file_def delete_item_def
        get_attributes_def get_stats_def create_symlink_def read_symlink_def logout_def
        set_x_attributes_route_def get_x_attributes_route_def list_x_attributes_route_def
        delete_x_attributes_route_def)[1]; (intro db_step_intros request_call.intros)?))

lemma login_db: "db_step conf now (login conf now uuid n p)"
  unfolding login_def by (intro db_step_intros request_call.login)

lemma handle_request_calls:
  "(conf_calls conf now)\<^sup>*\<^sup>* (sv_db st) (sv_db (snd (handle_request conf now uuid hdr req st)))"
proof -
  have one: "(conf_calls conf now)\<^sup>*\<^sup>* (sv_db s) (sv_db (snd (h s)))" if "db_step conf now h" for h s
    using that by (metis db_step_def r_into_rtranclp rtranclp.rtrancl_refl)
  have auth: "(conf_calls conf now)\<^sup>*\<^sup>* (sv_db st) (sv_db (snd (auth_middleware conf now hdr h st)))"
    if h: "\<And>u. db_step conf now (h u)" for h
  proof (cases "auth_token hdr")
    case (Inr t)
    let ?v = "verify_token (sc_env conf) (sc_engine conf) (sc_key conf) now t (sv_db st)"
    let ?s = "st\<lparr>sv_db := snd ?v\<rparr>"
    have v: "conf_calls conf now (sv_db st) (snd ?v)" by (rule request_call.verify)
    have "(conf_calls conf now)\<^sup>*\<^sup>* (sv_db st) (sv_db (snd (h u ?s)))" for u
      by (rule converse_rtranclp_into_rtranclp [where r = "conf_calls conf now", OF v]) (use one [OF h [of u], of ?s] in simp)
    with v Inr show ?thesis
      by (cases ?v; cases "fst ?v") (auto simp: auth_middleware_def)
  qed (simp add: auth_middleware_def)
  show ?thesis
    using one [OF login_db] auth [OF protected_db_step]
    by (cases req) (simp_all add: handle_request_def)
qed

lemma handle_request_run:
  "conf_run conf (sv_db st, now) (sv_db (snd (handle_request conf now uuid hdr req st)), now)"
proof -
  have "(conf_calls conf now)\<^sup>*\<^sup>* d d' \<Longrightarrow> conf_run conf (d, now) (d', now)" for d d'
    by (induction rule: rtranclp_induct) (auto intro: db_run.start db_run.call db_call.request)
  then show ?thesis using handle_request_calls by blast
qed

lemma handle_request_users:
  assumes "sqlite (sc_engine conf)"
  shows "sv_db (snd (handle_request conf now uuid hdr req st)) T_users = sv_db st T_users"
proof -
  have "(conf_calls conf now)\<^sup>*\<^sup>* d d' \<Longrightarrow> d' T_users = d T_users" for d d'
    by (induction rule: rtranclp_induct) (auto dest: sqlite.request_keeps_users [OF assms])
  then show ?thesis using handle_request_calls by blast
qed

lemma db_run_trans:
  "db_run env eng key s' s'' \<Longrightarrow> db_run env eng key s s' \<Longrightarrow> db_run env eng key s s''"
  by (induction rule: db_run.induct) (auto intro: db_run.intros)

lemma server_run_db:
  "server_run conf s s' \<Longrightarrow> conf_run conf (sv_db (fst s), snd s) (sv_db (fst s'), snd s')"
proof (induction rule: server_run.induct)
  case (tick s st now now')
  then show ?case by (auto intro: db_run.tick)
next
  case (request s st now uuid hdr req)
  from db_run_trans [OF handle_request_run request.IH [unfolded fst_conv snd_conv], of uuid hdr req]
  show ?case by simp
qed (simp add: db_run.start)

text \<open>
  C2. Logout is final for the whole server: after a logout request with a token succeeded, and
  after any requests of any clients and any time, every protected request with that token gets
  401 and changes nothing.
\<close>

theorem no_service_after_logout:
  assumes "sqlite (sc_engine conf)" and "db_ok (sv_db st)" and "jwt_stable (sc_env conf) (sc_key conf)"
    and "handle_request conf now uuid (Hdr_Text (bearer_prefix @ t)) Req_Logout st = (Ret (Inr r), st1)"
    and "server_run conf (st1, now) (st2, now2)" and "needs_auth req"
  shows "handle_request conf now2 uuid2 (Hdr_Text (bearer_prefix @ t)) req st2
    = (Ret (Inl Api_Unauthorized), st2)"
proof -
  let ?v = "verify_token (sc_env conf) (sc_engine conf) (sc_key conf)"
  have tok: "auth_token (Hdr_Text (bearer_prefix @ t)) = Inr t" by (simp add: auth_token_def)
  have state: "snd (?v n t d) = d" for n d
    using sqlite.keeps_verify [OF assms(1)] by blast
  from assms(4) obtain au d where v: "?v now t (sv_db st) = (Inr au, d)"
    and l: "logout conf au (st\<lparr>sv_db := d\<rparr>) = (Ret (Inr r), st1)"
    by (auto simp: handle_request_def auth_middleware_def tok split: prod.splits sum.splits)
  have d: "d = sv_db st" using state [of now "sv_db st"] v by simp
  from l have "insert_revoked_token (sc_engine conf) au (sv_db st) = (Inr (), sv_db st1)"
    by (auto simp: logout_def database_do_def d split: prod.splits sum.splits)
  moreover have "conf_run conf (sv_db st1, now) (sv_db st2, now2)"
    using server_run_db [OF assms(5)] by simp
  ultimately obtain e where "?v now2 t (sv_db st2) = (Inl e, sv_db st2)"
    using v d revoked_stays_invalid [OF assms(1-3)] by blast
  then show ?thesis
    using assms(6) tok by (simp add: handle_request_auth auth_middleware_def)
qed

lemma no_service_after_logout_witness:
  "\<exists>st1. handle_request witness_conf 200 [] (Hdr_Text ''Bearer tok'') (Req_Delete ''/a'') st1
     = (Ret (Inl Api_Unauthorized), st1)
   \<and> handle_request witness_conf 100 [] (Hdr_Text ''Bearer tok'') Req_Logout witness_state
       = (Ret (Inr (R_Body ''Logged out'')), st1)"
proof -
  let ?st = "snd (handle_request witness_conf 100 [] (Hdr_Text (bearer_prefix @ ''tok'')) Req_Logout witness_state)"
  have b: "''Bearer tok'' = bearer_prefix @ ''tok''" by (simp add: bearer_prefix_def)
  have ok: "db_ok (sv_db witness_state)" by (simp add: witness_state_def witness_db_ok)
  have jwt: "jwt_stable (sc_env witness_conf) (sc_key witness_conf)"
    by (simp add: witness_conf_def witness_jwt_stable)
  have l: "handle_request witness_conf 100 [] (Hdr_Text (bearer_prefix @ ''tok'')) Req_Logout witness_state
      = (Ret (Inr (R_Body ''Logged out'')), ?st)"
    by (simp add: handle_request_def auth_middleware_def auth_token_def verify_token_def witness_conf_def
        witness_env_def witness_claims_def is_token_revoked_def db_monad db_fetch_defs db_rows_def
        witness_db_def witness_state_def logout_def database_do_def insert_revoked_token_def keys_ok_def)
  have "server_run witness_conf (?st, 100) (?st, 200)"
    by (rule server_run.tick [OF server_run.start]) simp
  from no_service_after_logout [OF witness_conf_sqlite ok jwt l this, of "Req_Delete ''/a''"] l
  show ?thesis unfolding b by (auto simp: needs_auth_def)
qed

subsection \<open>Permissions\<close>

text \<open>The paths a request must be allowed to write or to read.\<close>

fun written_paths :: "request \<Rightarrow> string list" where
  "written_paths (Req_WriteFile p off b) = [p]"
| "written_paths (Req_MakeDir p) =
     (case rsplit_once slash p of None \<Rightarrow> [] | Some (q, n) \<Rightarrow> [if q = [] then ''/'' else q])"
| "written_paths (Req_Delete p) = [p]"
| "written_paths (Req_Rename old new f) = [old, new]"
| "written_paths (Req_CreateSymlink p t) = [p]"
| "written_paths (Req_SetX p n v) = [p]"
| "written_paths (Req_DeleteX p n) = [p]"
| "written_paths _ = []"

fun read_paths :: "request \<Rightarrow> string list" where
  "read_paths (Req_List p) = [p]"
| "read_paths (Req_ReadFile p off n) = [p]"
| "read_paths (Req_Stats p) = [p]"
| "read_paths (Req_ReadSymlink p) = [p]"
| "read_paths (Req_GetX p n) = [p]"
| "read_paths (Req_ListX p) = [p]"
| "read_paths _ = []"

definition may :: "server_conf \<Rightarrow> authenticated_user \<Rightarrow> kernel \<Rightarrow> operation \<Rightarrow> string \<Rightarrow> bool" where
  "may conf u k op p \<longleftrightarrow> is_allowed (sc_root conf) k (au_user_id u) (au_group_id u) p op = Inr True"

lemma with_permission_cases:
  "with_permission conf u p op h s = h s \<and> may conf u (sv_kernel s) op p
   \<or> (\<exists>e. with_permission conf u p op h s = (Ret (Inl e), s))"
  by (auto simp: with_permission_def check_permission_def may_def split: sum.splits bool.splits)

lemma with_permission_eq:
  "with_permission conf u p op h s = (Ret (Inr r), s') \<Longrightarrow> may conf u (sv_kernel s) op p"
  "with_permission conf u p op h s = (Ret (Inr r), s') \<Longrightarrow> h s = (Ret (Inr r), s')"
  "with_permission conf u p op h s = (x, s') \<Longrightarrow> s' \<noteq> s \<Longrightarrow> may conf u (sv_kernel s) op p \<and> h s = (x, s')"
  using with_permission_cases [of conf u p op h s] by auto

text \<open>Handlers that change nothing.\<close>

named_theorems same_intros \<open>handlers that leave the state as it is\<close>

lemma same_permission [same_intros]:
  "(\<And>s. snd (h s) = s) \<Longrightarrow> snd (with_permission conf u p op h s) = s"
  using with_permission_cases [of conf u p op h s] by auto

lemma same_storage_read [same_intros]:
  "(\<And>x s. snd (f x s) = s) \<Longrightarrow> snd (storage_read m f s) = s"
  by (auto simp: storage_read_def split: sum.splits)

lemma same_database [same_intros]:
  "(\<And>d. snd (m d) = d) \<Longrightarrow> (\<And>x s. snd (f x s) = s) \<Longrightarrow> snd (database_do m f s) = s"
proof -
  assume m: "\<And>d. snd (m d) = d" and f: "\<And>x s. snd (f x s) = s"
  obtain r d where "m (sv_db s) = (r, d)" by fastforce
  with m [of "sv_db s"] f show "snd (database_do m f s) = s"
    by (cases r) (auto simp: database_do_def)
qed

lemma same_base [same_intros]: "snd (h_fail e s) = s" "snd (h_ok r s) = s"
  by simp_all

lemma same_option [same_intros]:
  "snd (h s) = s \<Longrightarrow> (\<And>x. snd (f x s) = s) \<Longrightarrow> snd ((case y of None \<Rightarrow> h | Some x \<Rightarrow> f x) s) = s"
  by (cases y) auto

lemma get_permissions_same [same_intros]: "snd (get_permissions conf u p q s) = s"
  unfolding get_permissions_def by (cases "get_mask q") (auto simp: Let_def intro!: same_permission)

lemma list_path_same [same_intros]: "snd (list_path conf u p s) = s"
  unfolding list_path_def by (rule same_permission) (auto split: option.split)

context sqlite
begin

lemma xattr_reads_same:
  "snd (get_x_attributes eng p n d) = d" "snd (list_x_attributes eng p d) = d"
proof -
  have "keeps (\<lambda>x. x = d) (get_x_attributes eng p n)" "keeps (\<lambda>x. x = d) (list_x_attributes eng p)"
    unfolding get_x_attributes_def list_x_attributes_def db_fetch_defs by (intro keeps_intros)+
  then show "snd (get_x_attributes eng p n d) = d" "snd (list_x_attributes eng p d) = d"
    by (simp_all add: keeps_def)
qed

end

lemma reads_change_nothing:
  assumes "sqlite (sc_engine conf)" and "written_paths req = []"
    and "\<And>p new. req \<noteq> Req_SetAttr p new" and "req \<noteq> Req_Logout"
  shows "snd (protected_handler conf req u s) = s"
proof (cases req)
  case (Req_MakeDir p)
  with assms(2) show ?thesis by (auto simp: make_directory_def split: option.splits)
qed (use assms sqlite.xattr_reads_same [OF assms(1)] in
  \<open>auto simp: get_file_content_def get_attributes_def get_stats_def read_symlink_def
     get_x_attributes_route_def list_x_attributes_route_def intro!: same_intros\<close>)

lemma writes_need_permission:
  assumes "written_paths req \<noteq> []" and "protected_handler conf req u s = (x, s')" and "s' \<noteq> s"
  shows "\<forall>p \<in> set (written_paths req). may conf u (sv_kernel s) Op_Write p"
  using assms
  by (cases req)
     (auto simp: write_file_def delete_item_def create_symlink_def rename_item_def Let_def
       set_x_attributes_route_def delete_x_attributes_route_def make_directory_def
       dest: with_permission_eq(3) split: option.splits prod.splits)

lemma permission_laws:
  assumes "sqlite (sc_engine conf)" and "protected_handler conf req u s = (x, s')"
  shows "s' \<noteq> s \<longrightarrow> written_paths req \<noteq> [] \<and> (\<forall>p \<in> set (written_paths req). may conf u (sv_kernel s) Op_Write p)
      \<or> (\<exists>p new. req = Req_SetAttr p new) \<or> req = Req_Logout"
    and "x = Ret (Inr r) \<longrightarrow> (\<forall>p \<in> set (read_paths req). may conf u (sv_kernel s) Op_Read p)"
proof -
  show "s' \<noteq> s \<longrightarrow> written_paths req \<noteq> [] \<and> (\<forall>p \<in> set (written_paths req). may conf u (sv_kernel s) Op_Write p)
      \<or> (\<exists>p new. req = Req_SetAttr p new) \<or> req = Req_Logout"
    using reads_change_nothing [OF assms(1), of req u s] writes_need_permission [OF _ assms(2)] assms(2)
    by (cases "written_paths req = []") auto
  show "x = Ret (Inr r) \<longrightarrow> (\<forall>p \<in> set (read_paths req). may conf u (sv_kernel s) Op_Read p)"
    using assms(2)
    by (cases req) (auto simp: list_path_def get_file_content_def get_stats_def read_symlink_def
        get_x_attributes_route_def list_x_attributes_route_def dest: with_permission_eq(1))
qed



text \<open>
  C8. A file reads back over HTTP what was written: a successful PUT of a body at an offset is
  followed by a GET of that range that answers exactly the body, for a user who may read the file.
\<close>

theorem put_then_get:
  assumes "unix_externs (sc_externs conf)" and "wf_kernel (sv_kernel s)"
    and "write_file conf u path off body s = (Ret (Inr r), s')"
    and "may conf u2 (sv_kernel s') Op_Read path"
  shows "get_file_content conf u2 path off (length body) s' = (Ret (Inr (R_Bytes body)), s')"
proof -
  let ?w = "st_write_file (sc_externs conf) (sc_root conf) (au_user_id u) (au_group_id u) path body off"
  from assms(3) have "storage_do ?w
      (\<lambda>_. storage_read (st_get_attributes (sc_root conf) path) (\<lambda>attr. h_ok (R_Attr attr))) s
      = (Ret (Inr r), s')"
    unfolding write_file_def by (rule with_permission_eq(2))
  then have "?w (sv_kernel s) = (Inr (), sv_kernel s')"
    by (auto simp: storage_do_def storage_read_def split: prod.splits sum.splits)
  from write_then_read [OF assms(2,1) this]
  have "st_read_file (sc_root conf) path off (length body) (sv_kernel s') = Inr body" by blast
  with assms(4) show ?thesis
    by (simp add: get_file_content_def with_permission_def check_permission_def may_def storage_read_def)
qed

lemma witness_write_allowed: "is_allowed [''s''] witness_kernel 7 8 ''/a'' Op_Write = Inr True"
proof -
  have n: "sys_lstat witness_kernel [''s'', ''a''] = Inr (FileN (witness_meta 0x1A4 7 8) [1, 2, 3])"
    by (simp add: witness_eval)
  then have "check_path witness_kernel (make_real_path [''s''] ''/a'') = Some [''s'', ''a'']"
    by (simp add: check_path_def)
  from is_allowed_eq [OF this n, of 7 8 Op_Write] show ?thesis
    by (simp add: posix_allows_def node_mode_def witness_meta_def bit_or_iff)
qed

lemma put_then_get_witness:
  "get_file_content witness_conf witness_user ''/a'' 4 2
     (snd (write_file witness_conf witness_user ''/a'' 4 [10, 11] witness_state))
   = (Ret (Inr (R_Bytes [10, 11])), snd (write_file witness_conf witness_user ''/a'' 4 [10, 11] witness_state))"
proof -
  let ?s = "snd (write_file witness_conf witness_user ''/a'' 4 [10, 11] witness_state)"
  let ?m = "touch_data witness_kernel (witness_meta 0x1A4 7 8)"
  let ?k = "k_put [''s'', ''a''] (FileN ?m (write_at [1, 2, 3] 4 [10, 11])) witness_kernel"
  have w: "st_write_file witness_externs [''s''] 7 8 ''/a'' [10, 11] 4 witness_kernel = (Inr (), ?k)"
    by (simp add: witness_eval)
  have l: "sys_lstat ?k [''s'', ''a''] = Inr (FileN ?m (write_at [1, 2, 3] 4 [10, 11]))"
    by (simp add: witness_eval)
  have r: "\<exists>a. write_file witness_conf witness_user ''/a'' 4 [10, 11] witness_state = (Ret (Inr (R_Attr a)), ?s)"
    and k: "sv_kernel ?s = ?k"
    by (simp_all add: write_file_def with_permission_def check_permission_def witness_conf_def
        witness_user_def witness_state_def witness_write_allowed storage_do_def storage_read_def w
        st_get_attributes_def get_attributes_by_path_def l)
  have "check_path ?k (make_real_path [''s''] ''/a'') = Some [''s'', ''a'']"
    using l by (simp add: check_path_def)
  from is_allowed_eq [OF this l, of 7 8 Op_Read] have "may witness_conf witness_user (sv_kernel ?s) Op_Read ''/a''"
    unfolding k by (simp add: may_def witness_conf_def witness_user_def posix_allows_def node_mode_def
        touch_data_def witness_meta_def bit_or_iff)
  with r put_then_get [of witness_conf witness_state witness_user "''/a''" 4 "[10, 11]" _ ?s witness_user]
  show ?thesis
    by (auto simp: witness_conf_def witness_unix_externs witness_state_def witness_wf numeral_2_eq_2)
qed

end
