(* ===== verification/Client_Errors.thy ===== *)
theory Client_Errors
  imports Server_Attributes
begin

text \<open>
  The error types of the client (\<open>client/src/error.rs\<close>) and their translation to the \<open>errno\<close>
  values the kernel sees (\<open>client/src/fuse/unix.rs\<close>), together with the way an error crosses the
  network: both enums are serialised by \<open>serde\<close> with \<open>tag = "type"\<close>, so the tag is the name of
  the variant. Message strings are dropped, as on the server side.
\<close>

subsection \<open>Error enums (\<open>error.rs\<close>)\<close>

datatype fuse_error =
  Fuse_Unauthorized
| Fuse_NotFound | Fuse_AlreadyExists | Fuse_NotADirectory | Fuse_IsADirectory
| Fuse_DirectoryNotEmpty
| Fuse_PermissionDenied | Fuse_OperationNotPermitted
| Fuse_StorageFull | Fuse_OutOfMemory
| Fuse_InvalidInput | Fuse_FileTooLarge
| Fuse_Unsupported | Fuse_CrossDeviceLink
| Fuse_IoError | Fuse_TextFileBusy
| Fuse_ResourceBusy | Fuse_TryAgain
| Fuse_InternalError
| Fuse_NotImplemented | Fuse_InvalidFileHandle u64

datatype network_error =
  Net_ConnectionFailed | Net_InvalidCredentials | Net_InvalidInput | Net_Request
| Net_ServerError fuse_error | Net_UnexpectedResponse | Net_Other

datatype fs_model_error =
  Fs_NotFound | Fs_PermissionDenied | Fs_InvalidInput | Fs_ConversionFailed | Fs_FileHandlerError
| Fs_WriterError | Fs_NoData | Fs_ServerError network_error | Fs_Other

subsection \<open>Errors on the wire\<close>

text \<open>The \<open>"type"\<close> field of a serialised \<open>ApiError\<close>.\<close>

fun api_error_tag :: "api_error \<Rightarrow> string" where
  "api_error_tag Api_Unauthorized = ''Unauthorized''"
| "api_error_tag Api_NotFound = ''NotFound''"
| "api_error_tag Api_AlreadyExists = ''AlreadyExists''"
| "api_error_tag Api_NotADirectory = ''NotADirectory''"
| "api_error_tag Api_IsADirectory = ''IsADirectory''"
| "api_error_tag Api_DirectoryNotEmpty = ''DirectoryNotEmpty''"
| "api_error_tag Api_PermissionDenied = ''PermissionDenied''"
| "api_error_tag Api_OperationNotPermitted = ''OperationNotPermitted''"
| "api_error_tag Api_StorageFull = ''StorageFull''"
| "api_error_tag Api_OutOfMemory = ''OutOfMemory''"
| "api_error_tag Api_InvalidInput = ''InvalidInput''"
| "api_error_tag Api_FileTooLarge = ''FileTooLarge''"
| "api_error_tag Api_Unsupported = ''Unsupported''"
| "api_error_tag Api_CrossDeviceLink = ''CrossDeviceLink''"
| "api_error_tag Api_IoError = ''IoError''"
| "api_error_tag Api_TextFileBusy = ''TextFileBusy''"
| "api_error_tag Api_ResourceBusy = ''ResourceBusy''"
| "api_error_tag Api_TryAgain = ''TryAgain''"
| "api_error_tag Api_InternalError = ''InternalError''"

text \<open>Deserialising a \<open>FuseError\<close> whose content is a message. (\<open>NotImplemented\<close> has no content and
  \<open>InvalidFileHandle\<close> a number: the server sends neither.)\<close>

definition message_variants :: "(string \<times> fuse_error) list" where
  "message_variants =
     [(''Unauthorized'', Fuse_Unauthorized), (''NotFound'', Fuse_NotFound),
      (''AlreadyExists'', Fuse_AlreadyExists), (''NotADirectory'', Fuse_NotADirectory),
      (''IsADirectory'', Fuse_IsADirectory), (''DirectoryNotEmpty'', Fuse_DirectoryNotEmpty),
      (''PermissionDenied'', Fuse_PermissionDenied),
      (''OperationNotPermitted'', Fuse_OperationNotPermitted),
      (''StorageFull'', Fuse_StorageFull), (''OutOfMemory'', Fuse_OutOfMemory),
      (''InvalidInput'', Fuse_InvalidInput), (''FileTooLarge'', Fuse_FileTooLarge),
      (''Unsupported'', Fuse_Unsupported), (''CrossDeviceLink'', Fuse_CrossDeviceLink),
      (''IoError'', Fuse_IoError), (''TextFileBusy'', Fuse_TextFileBusy),
      (''ResourceBusy'', Fuse_ResourceBusy), (''TryAgain'', Fuse_TryAgain),
      (''InternalError'', Fuse_InternalError)]"

definition fuse_error_of_tag :: "string \<Rightarrow> fuse_error option" where
  "fuse_error_of_tag = map_of message_variants"

subsection \<open>\<open>Errno\<close> (\<open>fuse/unix.rs\<close>)\<close>

text \<open>The constants of \<open>libc\<close> on Linux.\<close>

datatype errno =
  EPERM | ENOENT | EIO | EBADF | EAGAIN | ENOMEM | EACCES | EBUSY | EEXIST | EXDEV | ENOTDIR
| EISDIR | EINVAL | ETXTBSY | ENOSPC | ERANGE | ENOSYS | ENOTEMPTY | ENODATA | EOVERFLOW
| EOPNOTSUPP | ECONNREFUSED | ESTALE

fun errno_of_fuse :: "fuse_error \<Rightarrow> errno" where
  "errno_of_fuse Fuse_Unauthorized = EACCES"
| "errno_of_fuse Fuse_NotFound = ENOENT"
| "errno_of_fuse Fuse_AlreadyExists = EEXIST"
| "errno_of_fuse Fuse_NotADirectory = ENOTDIR"
| "errno_of_fuse Fuse_IsADirectory = EISDIR"
| "errno_of_fuse Fuse_DirectoryNotEmpty = ENOTEMPTY"
| "errno_of_fuse Fuse_PermissionDenied = EACCES"
| "errno_of_fuse Fuse_OperationNotPermitted = EPERM"
| "errno_of_fuse Fuse_StorageFull = ENOSPC"
| "errno_of_fuse Fuse_OutOfMemory = ENOMEM"
| "errno_of_fuse Fuse_InvalidInput = EINVAL"
| "errno_of_fuse Fuse_FileTooLarge = EOVERFLOW"
| "errno_of_fuse Fuse_Unsupported = EOPNOTSUPP"
| "errno_of_fuse Fuse_CrossDeviceLink = EXDEV"
| "errno_of_fuse Fuse_IoError = EIO"
| "errno_of_fuse Fuse_TextFileBusy = ETXTBSY"
| "errno_of_fuse Fuse_ResourceBusy = EBUSY"
| "errno_of_fuse Fuse_TryAgain = EAGAIN"
| "errno_of_fuse Fuse_InternalError = EIO"
| "errno_of_fuse Fuse_NotImplemented = ENOSYS"
| "errno_of_fuse (Fuse_InvalidFileHandle fh) = EBADF"

fun errno_of_network :: "network_error \<Rightarrow> errno" where
  "errno_of_network Net_ConnectionFailed = ECONNREFUSED"
| "errno_of_network Net_InvalidInput = EINVAL"
| "errno_of_network Net_Request = EIO"
| "errno_of_network (Net_ServerError e) = errno_of_fuse e"
| "errno_of_network Net_UnexpectedResponse = EIO"
| "errno_of_network Net_InvalidCredentials = EACCES"
| "errno_of_network Net_Other = EIO"

fun errno_of_fs :: "fs_model_error \<Rightarrow> errno" where
  "errno_of_fs Fs_NotFound = ENOENT"
| "errno_of_fs Fs_PermissionDenied = EACCES"
| "errno_of_fs Fs_InvalidInput = EINVAL"
| "errno_of_fs Fs_ConversionFailed = EINVAL"
| "errno_of_fs Fs_FileHandlerError = EIO"
| "errno_of_fs Fs_WriterError = EIO"
| "errno_of_fs Fs_NoData = ENODATA"
| "errno_of_fs (Fs_ServerError e) = errno_of_network e"
| "errno_of_fs Fs_Other = EIO"

subsection \<open>The two enums agree\<close>

text \<open>What a value of \<open>ApiError\<close> becomes on the client.\<close>

definition fuse_error_of_api :: "api_error \<Rightarrow> fuse_error" where
  "fuse_error_of_api e = the (fuse_error_of_tag (api_error_tag e))"

lemma fuse_error_of_tag_api: "fuse_error_of_tag (api_error_tag e) = Some (fuse_error_of_api e)"
  by (cases e) (simp_all add: fuse_error_of_api_def fuse_error_of_tag_def message_variants_def)

lemma fuse_error_of_api_simps [simp]:
  "fuse_error_of_api Api_NotFound = Fuse_NotFound"
  "fuse_error_of_api Api_PermissionDenied = Fuse_PermissionDenied"
  "fuse_error_of_api Api_InvalidInput = Fuse_InvalidInput"
  "fuse_error_of_api Api_Unauthorized = Fuse_Unauthorized"
  by (simp_all add: fuse_error_of_api_def fuse_error_of_tag_def message_variants_def)

end
