(* ===== verification/Client_Attributes.thy ===== *)
theory Client_Attributes
  imports Client_Errors
begin

unbundle bit_operations_syntax

text \<open>
  The data model of the client: \<open>client/src/fs_model/attributes.rs\<close> and the conversions of
  \<open>client/src/fuse/unix.rs\<close>. \<open>FileType\<close>, \<open>PermissionType\<close>, \<open>Permission\<close>, \<open>Timestamp\<close> and \<open>Stats\<close>
  have the fields of the server's types and share their HOL types; the codes are different: the
  client encodes with the constants of \<open>libc\<close> (Linux values). \<open>Attributes\<close> has a 16-bit mode.
\<close>

subsection \<open>Attributes\<close>

record c_attributes =
  at_size :: u64
  at_blocks :: u64
  at_atime :: timestamp
  at_mtime :: timestamp
  at_ctime :: timestamp
  at_kind :: file_type
  at_perm :: u16
  at_nlink :: u32
  at_uid :: u32
  at_gid :: u32
  at_rdev :: u32
  at_blksize :: u32

record c_set_attr =
  cs_mode :: "u32 option"
  cs_uid :: "u32 option"
  cs_gid :: "u32 option"
  cs_size :: "u64 option"
  cs_atime :: "timestamp option"
  cs_mtime :: "timestamp option"
  cs_ctime :: "timestamp option"

text \<open>\<open>SetAttr::default()\<close> with a size: what \<open>open\<close> and \<open>copy_file_range\<close> send.\<close>

definition c_set_size :: "u64 \<Rightarrow> c_set_attr" where
  "c_set_size n = \<lparr>cs_mode = None, cs_uid = None, cs_gid = None, cs_size = Some n,
     cs_atime = None, cs_mtime = None, cs_ctime = None\<rparr>"

text \<open>Attributes as the server sends them, read by \<open>serde\<close>: a mode that does not fit 16 bits does
  not parse. Fields the client does not have are ignored; a missing field of \<open>SetAttr\<close> is \<open>None\<close>
  on the server.\<close>

definition attributes_of_wire :: "file_attr \<Rightarrow> c_attributes option" where
  "attributes_of_wire a =
     (if uint (fa_perm a) < 65536
      then Some \<lparr>at_size = fa_size a, at_blocks = fa_blocks a, at_atime = fa_atime a,
        at_mtime = fa_mtime a, at_ctime = fa_ctime a, at_kind = fa_kind a,
        at_perm = ucast (fa_perm a), at_nlink = fa_nlink a, at_uid = fa_uid a, at_gid = fa_gid a,
        at_rdev = fa_rdev a, at_blksize = fa_blksize a\<rparr>
      else None)"

definition set_attr_on_wire :: "c_set_attr \<Rightarrow> set_attr" where
  "set_attr_on_wire s =
     \<lparr>sa_mode = cs_mode s, sa_uid = cs_uid s, sa_gid = cs_gid s, sa_size = cs_size s,
      sa_atime = cs_atime s, sa_mtime = cs_mtime s, sa_ctime = cs_ctime s,
      sa_crtime = None, sa_chgtime = None, sa_bkuptime = None, sa_flags = None\<rparr>"

subsection \<open>Timestamps\<close>

definition timestamp_is_zero :: "timestamp \<Rightarrow> bool" where
  "timestamp_is_zero t \<longleftrightarrow> ts_sec t = 0 \<and> ts_nsec t = 0"

definition c_timestamp_from_systime :: "systime \<Rightarrow> timestamp" where
  "c_timestamp_from_systime t =
     (let d = (if st_sec t < 0 then (0, 0) else (nat (st_sec t), st_nsec t))
      in \<lparr>ts_sec = (if fst d < 2 ^ 63 then of_nat (fst d) else 2 ^ 63 - 1),
          ts_nsec = of_nat (snd d)\<rparr>)"

definition c_systime_from_timestamp :: "timestamp \<Rightarrow> systime option" where
  "c_systime_from_timestamp t =
     (let secs = unat (ts_sec t) + unat (ts_nsec t) div 1000000000
      in if 2 ^ 64 \<le> secs then None
         else if 2 ^ 63 \<le> secs then None
         else Some \<lparr>st_sec = int secs, st_nsec = unat (ts_nsec t) mod 1000000000\<rparr>)"

lemma c_timestamp_agrees:
  "c_systime_from_timestamp t = systime_from_timestamp t"
  "c_timestamp_from_systime s = timestamp_from_systime s"
  by (auto simp: c_systime_from_timestamp_def systime_from_timestamp_def
      c_timestamp_from_systime_def timestamp_from_systime_def Let_def nat_less_iff)

subsection \<open>File types\<close>

fun c_file_type_code :: "file_type \<Rightarrow> u32" where
  "c_file_type_code NamedPipe = 4096"
| "c_file_type_code CharDevice = 8192"
| "c_file_type_code BlockDevice = 24576"
| "c_file_type_code Directory_T = 16384"
| "c_file_type_code RegularFile = 32768"
| "c_file_type_code Symlink_T = 40960"
| "c_file_type_code Socket = 49152"

definition c_file_type_of_code :: "u32 \<Rightarrow> fs_model_error + file_type" where
  "c_file_type_of_code v =
     (let t = v AND 61440
      in if t = 4096 then Inr NamedPipe else if t = 8192 then Inr CharDevice
         else if t = 24576 then Inr BlockDevice else if t = 16384 then Inr Directory_T
         else if t = 32768 then Inr RegularFile else if t = 40960 then Inr Symlink_T
         else if t = 49152 then Inr Socket else Inl Fs_ConversionFailed)"

text \<open>\<open>u16::from(FileType)\<close>, generated by \<open>impl_conversion!(FileType, u16, u32)\<close>.\<close>

definition c_file_type_code_u16 :: "file_type \<Rightarrow> u16" where
  "c_file_type_code_u16 t = ucast (c_file_type_code t)"

subsection \<open>Permissions\<close>

definition c_permission_type_code :: "permission_type \<Rightarrow> i32" where
  "c_permission_type_code p =
     (if p_read p then 4 else 0) OR (if p_write p then 2 else 0) OR (if p_execute p then 1 else 0)"

definition c_permission_type_of_code :: "i32 \<Rightarrow> fs_model_error + permission_type" where
  "c_permission_type_of_code v =
     Inr \<lparr>p_read = (v AND 4 \<noteq> 0), p_write = (v AND 2 \<noteq> 0), p_execute = (v AND 1 \<noteq> 0)\<rparr>"

definition c_permission_code :: "permission \<Rightarrow> i32" where
  "c_permission_code p =
     push_bit 6 (c_permission_type_code (p_user p)) OR push_bit 3 (c_permission_type_code (p_group p))
     OR c_permission_type_code (p_other p)"

definition c_permission_of_code :: "i32 \<Rightarrow> fs_model_error + permission" where
  "c_permission_of_code v =
     (case c_permission_type_of_code (signed_drop_bit 6 v) of Inl e \<Rightarrow> Inl e
      | Inr u \<Rightarrow> (case c_permission_type_of_code (signed_drop_bit 3 v) of Inl e \<Rightarrow> Inl e
      | Inr g \<Rightarrow> (case c_permission_type_of_code v of Inl e \<Rightarrow> Inl e
      | Inr p \<Rightarrow> Inr \<lparr>p_user = u, p_group = g, p_other = p\<rparr>)))"

subsection \<open>Open flags\<close>

record flags =
  fl_readonly :: bool
  fl_writeonly :: bool
  fl_readwrite :: bool
  fl_create :: bool
  fl_excl :: bool
  fl_trunc :: bool
  fl_append :: bool
  fl_nonblock :: bool
  fl_noctt :: bool
  fl_sync :: bool
  fl_dsync :: bool
  fl_directory :: bool
  fl_nofollow :: bool
  fl_cloexec :: bool
  fl_tmpfile :: bool
  fl_async_io :: bool
  fl_direct :: bool
  fl_noatime :: bool
  fl_path :: bool

definition flags_default :: flags where
  "flags_default = \<lparr>fl_readonly = False, fl_writeonly = False, fl_readwrite = True,
     fl_create = True, fl_excl = False, fl_trunc = False, fl_append = True, fl_nonblock = False,
     fl_noctt = False, fl_sync = False, fl_dsync = False, fl_directory = False,
     fl_nofollow = False, fl_cloexec = False, fl_tmpfile = False, fl_async_io = False,
     fl_direct = False, fl_noatime = False, fl_path = False\<rparr>"

definition flags_code :: "flags \<Rightarrow> i32" where
  "flags_code f =
     (if fl_readonly f then 0 else 0) OR (if fl_writeonly f then 1 else 0)
     OR (if fl_readwrite f then 2 else 0) OR (if fl_create f then 64 else 0)
     OR (if fl_excl f then 128 else 0) OR (if fl_trunc f then 512 else 0)
     OR (if fl_append f then 1024 else 0) OR (if fl_nonblock f then 2048 else 0)
     OR (if fl_noctt f then 256 else 0) OR (if fl_sync f then 1052672 else 0)
     OR (if fl_dsync f then 4096 else 0) OR (if fl_directory f then 65536 else 0)
     OR (if fl_nofollow f then 131072 else 0) OR (if fl_cloexec f then 524288 else 0)
     OR (if fl_tmpfile f then 4259840 else 0) OR (if fl_async_io f then 8192 else 0)
     OR (if fl_direct f then 16384 else 0) OR (if fl_noatime f then 262144 else 0)
     OR (if fl_path f then 2097152 else 0)"

definition flags_of_code :: "i32 \<Rightarrow> fs_model_error + flags" where
  "flags_of_code v =
     (let access_mode = v AND 3
      in Inr \<lparr>fl_readonly = (access_mode = 0), fl_writeonly = (access_mode = 1),
        fl_readwrite = (access_mode = 2), fl_create = (v AND 64 \<noteq> 0), fl_excl = (v AND 128 \<noteq> 0),
        fl_trunc = (v AND 512 \<noteq> 0), fl_append = (v AND 1024 \<noteq> 0), fl_nonblock = (v AND 2048 \<noteq> 0),
        fl_noctt = (v AND 256 \<noteq> 0), fl_sync = (v AND 1052672 \<noteq> 0), fl_dsync = (v AND 4096 \<noteq> 0),
        fl_directory = (v AND 65536 \<noteq> 0), fl_nofollow = (v AND 131072 \<noteq> 0),
        fl_cloexec = (v AND 524288 \<noteq> 0), fl_tmpfile = (v AND 4259840 \<noteq> 0),
        fl_async_io = (v AND 8192 \<noteq> 0), fl_direct = (v AND 16384 \<noteq> 0),
        fl_noatime = (v AND 262144 \<noteq> 0), fl_path = (v AND 2097152 \<noteq> 0)\<rparr>)"

text \<open>\<open>TryFrom<u32>\<close> and \<open>TryFrom<u64>\<close> for \<open>Flags\<close>: the cast to \<open>i32\<close> keeps the low bits.\<close>

definition flags_try_from :: "'a :: len word \<Rightarrow> fs_model_error + flags" where
  "flags_try_from v = flags_of_code (ucast v)"


subsection \<open>The conversions\<close>

lemma c_permission_codes_agree:
  "c_permission_type_code p = permission_type_code p"
  "c_permission_code q = permission_code q"
proof -
  show *: "c_permission_type_code p = permission_type_code p" for p
    by (rule bit_word_eqI)
       (auto simp: c_permission_type_code_def permission_type_code_def Let_def bit_or_iff)
  show "c_permission_code q = permission_code q"
    by (simp add: c_permission_code_def permission_code_def *)
qed

lemma c_permission_of_code_eq:
  "c_permission_of_code v = Inr \<lparr>
     p_user = \<lparr>p_read = bit v 8, p_write = bit v 7, p_execute = bit v 6\<rparr>,
     p_group = \<lparr>p_read = bit v 5, p_write = bit v 4, p_execute = bit v 3\<rparr>,
     p_other = \<lparr>p_read = bit v 2, p_write = bit v 1, p_execute = bit v 0\<rparr>\<rparr>"
  by (simp add: c_permission_of_code_def c_permission_type_of_code_def bit_mask_simps
      bit_signed_drop_bit_iff)

interpretation c_file_type_conv: conversion c_file_type_code c_file_type_of_code
proof
  fix x show "c_file_type_of_code (c_file_type_code x) = Inr x"
    by (cases x) (simp_all add: c_file_type_of_code_def Let_def)
qed

interpretation c_permission_type_conv: conversion c_permission_type_code c_permission_type_of_code
  by unfold_locales
     (simp add: c_permission_type_of_code_def c_permission_codes_agree bit_mask_simps
        bit_permission_type_code)

interpretation c_permission_conv: conversion c_permission_code c_permission_of_code
  by unfold_locales
     (simp add: c_permission_of_code_eq c_permission_codes_agree permission_code_def bit_or_iff
        bit_push_bit_iff bit_permission_type_code)

text \<open>A file type is read from the type bits of a mode alone, so a full mode decodes.\<close>

lemma c_file_type_of_mode:
  assumes "m AND 61440 = 0"
  shows "c_file_type_of_code (c_file_type_code t OR m) = Inr t"
proof -
  have "(c_file_type_code t OR m) AND 61440 = (c_file_type_code t AND 61440) OR (m AND 61440)"
    by (rule bit_word_eqI) (auto simp: bit_and_iff bit_or_iff)
  with assms have "(c_file_type_code t OR m) AND 61440 = c_file_type_code t AND 61440" by simp
  then have "c_file_type_of_code (c_file_type_code t OR m) = c_file_type_of_code (c_file_type_code t)"
    by (simp add: c_file_type_of_code_def)
  then show ?thesis by (simp add: c_file_type_conv.try_from_target)
qed

subsection \<open>Flags bit by bit\<close>

lemma and_pow: "((v :: i32) AND 2 ^ n \<noteq> 0) = bit v n"
  by (simp add: and_exp_eq_0_iff_not_bit)

lemma flag_masks:
  "((v :: i32) AND 64 \<noteq> 0) = bit v 6" "(v AND 128 \<noteq> 0) = bit v 7" "(v AND 256 \<noteq> 0) = bit v 8"
  "(v AND 512 \<noteq> 0) = bit v 9" "(v AND 1024 \<noteq> 0) = bit v 10" "(v AND 2048 \<noteq> 0) = bit v 11"
  "(v AND 4096 \<noteq> 0) = bit v 12" "(v AND 8192 \<noteq> 0) = bit v 13" "(v AND 16384 \<noteq> 0) = bit v 14"
  "(v AND 65536 \<noteq> 0) = bit v 16" "(v AND 131072 \<noteq> 0) = bit v 17"
  "(v AND 262144 \<noteq> 0) = bit v 18" "(v AND 524288 \<noteq> 0) = bit v 19"
  "(v AND 2097152 \<noteq> 0) = bit v 21"
  using and_pow [of v 6] and_pow [of v 7] and_pow [of v 8] and_pow [of v 9] and_pow [of v 10]
    and_pow [of v 11] and_pow [of v 12] and_pow [of v 13] and_pow [of v 14] and_pow [of v 16]
    and_pow [of v 17] and_pow [of v 18] and_pow [of v 19] and_pow [of v 21]
  by simp_all

lemma and_two_pow:
  assumes "m = 2 ^ i OR 2 ^ j" and "i < 32" and "j < 32"
  shows "((v :: i32) AND m \<noteq> 0) = (bit v i \<or> bit v j)"
proof -
  have "v AND m = (v AND 2 ^ i) OR (v AND 2 ^ j)"
    unfolding assms(1) by (rule bit_word_eqI) (auto simp: bit_and_iff bit_or_iff)
  then show ?thesis using and_pow [of v i] and_pow [of v j] by (simp add: or_eq_0_iff)
qed

lemma flag_masks2:
  "((v :: i32) AND 1052672 \<noteq> 0) = (bit v 12 \<or> bit v 20)"
  "(v AND 4259840 \<noteq> 0) = (bit v 16 \<or> bit v 22)"
  using and_two_pow [of 1052672 12 20 v] and_two_pow [of 4259840 16 22 v] by simp_all

lemma access_mode_bits:
  "((v :: i32) AND 3 = 0) = (\<not> bit v 0 \<and> \<not> bit v 1)"
  "(v AND 3 = 1) = (bit v 0 \<and> \<not> bit v 1)"
  "(v AND 3 = 2) = (\<not> bit v 0 \<and> bit v 1)"
proof -
  have three: "bit (3 :: i32) n = (n = 0 \<or> n = 1)" for n
  proof -
    have "(3 :: i32) = 2 ^ 0 OR 2 ^ 1" by simp
    then show ?thesis by (simp only: bit_or_iff bit_exp_iff) auto
  qed
  have two: "bit (2 :: i32) n = (n = 1)" for n
    using bit_exp_iff [where 'a = "32 word", of 1 n] by auto
  have b0: "bit (v AND 3) 0 = bit v 0" and b1: "bit (v AND 3) 1 = bit v 1"
    by (simp_all only: bit_and_iff three) simp_all
  have eqI: "v AND 3 = c" if "\<And>n. bit c n = ((n = 0 \<and> bit v 0) \<or> (n = 1 \<and> bit v 1))" for c
    by (rule bit_word_eqI, simp only: bit_and_iff three that) blast
  show "(v AND 3 = 0) = (\<not> bit v 0 \<and> \<not> bit v 1)"
    by (metis b0 b1 eqI [of 0] bit_0_eq bot_apply bot_bool_def)
  show "(v AND 3 = 1) = (bit v 0 \<and> \<not> bit v 1)"
    by (metis b0 b1 eqI [of 1] bit_1_iff zero_neq_one)
  show "(v AND 3 = 2) = (\<not> bit v 0 \<and> bit v 1)"
    by (metis b0 b1 eqI [of 2] two zero_neq_one)
qed

lemma flags_of_code_bits:
  "flags_of_code v = Inr \<lparr>fl_readonly = (\<not> bit v 0 \<and> \<not> bit v 1),
     fl_writeonly = (bit v 0 \<and> \<not> bit v 1), fl_readwrite = (\<not> bit v 0 \<and> bit v 1),
     fl_create = bit v 6, fl_excl = bit v 7, fl_trunc = bit v 9, fl_append = bit v 10,
     fl_nonblock = bit v 11, fl_noctt = bit v 8, fl_sync = (bit v 12 \<or> bit v 20),
     fl_dsync = bit v 12, fl_directory = bit v 16, fl_nofollow = bit v 17, fl_cloexec = bit v 19,
     fl_tmpfile = (bit v 16 \<or> bit v 22), fl_async_io = bit v 13, fl_direct = bit v 14,
     fl_noatime = bit v 18, fl_path = bit v 21\<rparr>"
  by (simp only: flags_of_code_def Let_def flag_masks flag_masks2 access_mode_bits)


lemma bit_flag: "k < 32 \<Longrightarrow> bit (if b then (2 :: i32) ^ k else 0) n = (b \<and> n = k)"
  by (auto simp: bit_exp_iff)

lemma flags_code_or:
  "flags_code f = 0 OR (if fl_writeonly f then 2 ^ 0 else 0) OR (if fl_readwrite f then 2 ^ 1 else 0)
     OR (if fl_create f then 2 ^ 6 else 0) OR (if fl_excl f then 2 ^ 7 else 0)
     OR (if fl_trunc f then 2 ^ 9 else 0) OR (if fl_append f then 2 ^ 10 else 0)
     OR (if fl_nonblock f then 2 ^ 11 else 0) OR (if fl_noctt f then 2 ^ 8 else 0)
     OR ((if fl_sync f then 2 ^ 12 else 0) OR (if fl_sync f then 2 ^ 20 else 0))
     OR (if fl_dsync f then 2 ^ 12 else 0) OR (if fl_directory f then 2 ^ 16 else 0)
     OR (if fl_nofollow f then 2 ^ 17 else 0) OR (if fl_cloexec f then 2 ^ 19 else 0)
     OR ((if fl_tmpfile f then 2 ^ 16 else 0) OR (if fl_tmpfile f then 2 ^ 22 else 0))
     OR (if fl_async_io f then 2 ^ 13 else 0) OR (if fl_direct f then 2 ^ 14 else 0)
     OR (if fl_noatime f then 2 ^ 18 else 0) OR (if fl_path f then 2 ^ 21 else 0)"
proof -
  have sync: "(if b then 1052672 else 0) = ((if b then (4096 :: i32) else 0) OR (if b then 1048576 else 0))"
    and tmp: "(if b then 4259840 else 0) = ((if b then (65536 :: i32) else 0) OR (if b then 4194304 else 0))"
    for b by simp_all
  have pows: "(2 :: i32) ^ 0 = 1" "(2 :: i32) ^ 1 = 2" "(2 :: i32) ^ 6 = 64" "(2 :: i32) ^ 7 = 128"
    "(2 :: i32) ^ 8 = 256" "(2 :: i32) ^ 9 = 512" "(2 :: i32) ^ 10 = 1024" "(2 :: i32) ^ 11 = 2048"
    "(2 :: i32) ^ 12 = 4096" "(2 :: i32) ^ 13 = 8192" "(2 :: i32) ^ 14 = 16384"
    "(2 :: i32) ^ 16 = 65536" "(2 :: i32) ^ 17 = 131072" "(2 :: i32) ^ 18 = 262144"
    "(2 :: i32) ^ 19 = 524288" "(2 :: i32) ^ 20 = 1048576" "(2 :: i32) ^ 21 = 2097152"
    "(2 :: i32) ^ 22 = 4194304"
    by simp_all
  show ?thesis unfolding flags_code_def pows sync tmp if_cancel by (rule refl)
qed

lemma bit_flags_code:
  "bit (flags_code f) n \<longleftrightarrow> n \<in> set (
     (if fl_writeonly f then [0] else []) @ (if fl_readwrite f then [1] else [])
     @ (if fl_create f then [6] else []) @ (if fl_excl f then [7] else [])
     @ (if fl_trunc f then [9] else []) @ (if fl_append f then [10] else [])
     @ (if fl_nonblock f then [11] else []) @ (if fl_noctt f then [8] else [])
     @ (if fl_sync f then [12, 20] else []) @ (if fl_dsync f then [12] else [])
     @ (if fl_directory f then [16] else []) @ (if fl_nofollow f then [17] else [])
     @ (if fl_cloexec f then [19] else []) @ (if fl_tmpfile f then [16, 22] else [])
     @ (if fl_async_io f then [13] else []) @ (if fl_direct f then [14] else [])
     @ (if fl_noatime f then [18] else []) @ (if fl_path f then [21] else []))"
proof -
  have if_in: "n \<in> set (if b then xs else []) \<longleftrightarrow> b \<and> n \<in> set xs" for b and xs :: "nat list"
    by simp
  show ?thesis
    unfolding flags_code_or set_append Un_iff if_in
    by (simp add: bit_or_iff bit_flag conj_disj_distribL disj_assoc)
qed

lemma flags_recode_bits:
  "flags_of_code (flags_code f) = Inr (f\<lparr>
     fl_readonly := (\<not> fl_writeonly f \<and> \<not> fl_readwrite f),
     fl_writeonly := (fl_writeonly f \<and> \<not> fl_readwrite f),
     fl_readwrite := (\<not> fl_writeonly f \<and> fl_readwrite f),
     fl_sync := (fl_sync f \<or> fl_dsync f), fl_dsync := (fl_sync f \<or> fl_dsync f),
     fl_directory := (fl_directory f \<or> fl_tmpfile f),
     fl_tmpfile := (fl_directory f \<or> fl_tmpfile f)\<rparr>)"
  by (rule sum.inject(2) [THEN iffD2, THEN trans [OF flags_of_code_bits]], cases f)
     (simp add: bit_flags_code disj_commute disj_left_commute)

text \<open>
  C33. What a round trip of open flags keeps. Every flag comes back except where two flags share
  bits: a \<open>dsync\<close> comes back as \<open>sync\<close> too, a \<open>directory\<close> as \<open>tmpfile\<close> too, and each the other
  way round; the access mode comes back when exactly one of its three flags is set. So the trip is
  the identity exactly on flags that respect those overlaps.
\<close>

theorem flags_roundtrip:
  "flags_of_code (flags_code f) = Inr f \<longleftrightarrow>
     (fl_readonly f \<longleftrightarrow> \<not> fl_writeonly f \<and> \<not> fl_readwrite f)
     \<and> \<not> (fl_writeonly f \<and> fl_readwrite f)
     \<and> fl_sync f = fl_dsync f \<and> fl_directory f = fl_tmpfile f"
  unfolding flags_recode_bits by (cases f) auto

lemma flags_try_from_bits:
  assumes "32 \<le> LENGTH('a :: len)"
  shows "\<exists>f. flags_try_from (v :: 'a word) = Inr f \<and> fl_trunc f = bit v 9 \<and> fl_create f = bit v 6
    \<and> fl_excl f = bit v 7 \<and> fl_noctt f = bit v 8"
  by (simp add: flags_try_from_def flags_of_code_bits bit_ucast_iff)

lemma flags_try_from_ok: "\<exists>f. flags_try_from v = Inr f"
  by (simp add: flags_try_from_def flags_of_code_bits)

end
