(* ===== verification/RW_Buffer.thy ===== *)
theory RW_Buffer
  imports Rust_Path
begin

text \<open>
  The read-ahead and write-behind buffers of the client: \<open>client/src/rw_buffer.rs\<close>. An \<open>Instant\<close>
  is a number of nanoseconds; the operations that read the clock take its value as an argument.
  Offsets and lengths are \<open>nat\<close>: file offsets are below \<open>2 ^ 63\<close> and the sums of an offset and a
  length that the code forms do not reach the width of \<open>usize\<close>.
\<close>

subsection \<open>\<open>ReadBuffer\<close>\<close>

record read_buffer =
  rb_path :: pathbuf
  rb_offset :: nat
  rb_valid_up_to :: nat
  rb_filled_at :: nat
  rb_buffer :: bytes
  rb_capacity :: nat
  rb_ttl :: nat

definition rb_new :: "nat \<Rightarrow> nat \<Rightarrow> read_buffer" where
  "rb_new now capacity =
     \<lparr>rb_path = [], rb_offset = 0, rb_valid_up_to = 0, rb_filled_at = now,
      rb_buffer = replicate capacity 0, rb_capacity = capacity, rb_ttl = 100000000\<rparr>"

definition rb_fill :: "nat \<Rightarrow> pathbuf \<Rightarrow> nat \<Rightarrow> bytes \<Rightarrow> read_buffer \<Rightarrow> read_buffer" where
  "rb_fill now path offset data b =
     (let to_copy = min (length data) (rb_capacity b)
      in b\<lparr>rb_path := path, rb_offset := offset, rb_filled_at := now,
           rb_buffer := copy_slice (rb_buffer b) 0 (take to_copy data),
           rb_valid_up_to := to_copy\<rparr>)"

definition rb_read :: "nat \<Rightarrow> read_buffer \<Rightarrow> pathbuf \<Rightarrow> nat \<Rightarrow> nat \<Rightarrow> bytes" where
  "rb_read now b path offset len =
     (if path \<noteq> rb_path b \<or> offset < rb_offset b \<or> rb_offset b + rb_valid_up_to b \<le> offset
         \<or> rb_filled_at b + rb_ttl b < now
      then []
      else (let real_offset = offset - rb_offset b;
                real_end = min (real_offset + len) (rb_valid_up_to b)
            in take (real_end - real_offset) (drop real_offset (rb_buffer b))))"

definition rb_wf :: "read_buffer \<Rightarrow> bool" where
  "rb_wf b \<longleftrightarrow> length (rb_buffer b) = rb_capacity b \<and> rb_valid_up_to b \<le> rb_capacity b"

definition rb_content :: "read_buffer \<Rightarrow> bytes" where
  "rb_content b = take (rb_valid_up_to b) (rb_buffer b)"

lemma rb_new_wf [simp]: "rb_wf (rb_new now cap)"
  by (simp add: rb_wf_def rb_new_def)

lemma rb_fill_wf [simp]: "rb_wf b \<Longrightarrow> rb_wf (rb_fill now p off d b)"
  by (auto simp: rb_wf_def rb_fill_def Let_def slice_simps)

lemma rb_fill_content:
  "rb_wf b \<Longrightarrow> rb_content (rb_fill now p off d b) = take (rb_capacity b) d"
  by (simp add: rb_content_def rb_fill_def Let_def copy_slice_def rb_wf_def min_def)

lemma rb_fill_fields [simp]:
  "rb_path (rb_fill now p off d b) = p" "rb_offset (rb_fill now p off d b) = off"
  "rb_filled_at (rb_fill now p off d b) = now" "rb_ttl (rb_fill now p off d b) = rb_ttl b"
  "rb_capacity (rb_fill now p off d b) = rb_capacity b"
  by (simp_all add: rb_fill_def Let_def)

lemma rb_read_content:
  assumes "rb_wf b"
  shows "rb_read now b p off len =
    (if p = rb_path b \<and> rb_offset b \<le> off \<and> now \<le> rb_filled_at b + rb_ttl b
     then read_at (rb_content b) (off - rb_offset b) len else [])"
proof (cases "p = rb_path b \<and> rb_offset b \<le> off \<and> now \<le> rb_filled_at b + rb_ttl b")
  case True
  show ?thesis
  proof (cases "rb_offset b + rb_valid_up_to b \<le> off")
    case late: True
    then show ?thesis using True by (simp add: rb_read_def read_at_def rb_content_def)
  next
    case False
    then have "min (off - rb_offset b + len) (rb_valid_up_to b) - (off - rb_offset b)
      = min len (rb_valid_up_to b - (off - rb_offset b))" by auto
    then show ?thesis
      using True False
      by (simp add: rb_read_def read_at_def rb_content_def Let_def drop_take)
  qed
qed (auto simp: rb_read_def)

subsection \<open>\<open>WriteBuffer\<close>\<close>

record write_buffer =
  wb_path :: pathbuf
  wb_offset :: nat
  wb_valid_up_to :: nat
  wb_buffer :: bytes
  wb_capacity :: nat

definition wb_new :: "nat \<Rightarrow> write_buffer" where
  "wb_new capacity =
     \<lparr>wb_path = [], wb_offset = 0, wb_valid_up_to = 0, wb_buffer = replicate capacity 0,
      wb_capacity = capacity\<rparr>"

definition wb_is_appending :: "write_buffer \<Rightarrow> pathbuf \<Rightarrow> nat \<Rightarrow> bool" where
  "wb_is_appending b path offset \<longleftrightarrow>
     wb_path b = path \<and> wb_offset b + wb_valid_up_to b = offset"

definition wb_write :: "pathbuf \<Rightarrow> nat \<Rightarrow> bytes \<Rightarrow> write_buffer \<Rightarrow> nat \<times> write_buffer" where
  "wb_write path offset data b =
     (if wb_is_appending b path offset
      then (let available = wb_capacity b - wb_valid_up_to b;
                to_copy = min (length data) available
            in (to_copy,
                b\<lparr>wb_buffer := copy_slice (wb_buffer b) (wb_valid_up_to b) (take to_copy data),
                  wb_valid_up_to := wb_valid_up_to b + to_copy\<rparr>))
      else (let to_copy = min (length data) (wb_capacity b)
            in (to_copy,
                b\<lparr>wb_path := path, wb_offset := offset,
                  wb_buffer := copy_slice (wb_buffer b) 0 (take to_copy data),
                  wb_valid_up_to := to_copy\<rparr>)))"

definition wb_is_full :: "write_buffer \<Rightarrow> bool" where
  "wb_is_full b \<longleftrightarrow> wb_capacity b \<le> wb_valid_up_to b"

definition wb_clean :: "write_buffer \<Rightarrow> write_buffer" where
  "wb_clean b = b\<lparr>wb_path := [], wb_offset := 0, wb_valid_up_to := 0\<rparr>"

definition wb_get_content :: "write_buffer \<Rightarrow> pathbuf \<times> nat \<times> bytes" where
  "wb_get_content b = (wb_path b, wb_offset b, take (wb_valid_up_to b) (wb_buffer b))"

definition wb_wf :: "write_buffer \<Rightarrow> bool" where
  "wb_wf b \<longleftrightarrow> length (wb_buffer b) = wb_capacity b \<and> wb_valid_up_to b \<le> wb_capacity b"

text \<open>The bytes not yet sent.\<close>

definition wb_pending :: "write_buffer \<Rightarrow> bytes" where
  "wb_pending b = take (wb_valid_up_to b) (wb_buffer b)"

lemma wb_get_content_eq: "wb_get_content b = (wb_path b, wb_offset b, wb_pending b)"
  by (simp add: wb_get_content_def wb_pending_def)

lemma length_wb_pending [simp]: "wb_wf b \<Longrightarrow> length (wb_pending b) = wb_valid_up_to b"
  by (simp add: wb_wf_def wb_pending_def)

lemma wb_new_simps [simp]:
  "wb_wf (wb_new cap)" "wb_pending (wb_new cap) = []" "wb_capacity (wb_new cap) = cap"
  by (simp_all add: wb_wf_def wb_new_def wb_pending_def)

lemma wb_clean_simps [simp]:
  "wb_wf b \<Longrightarrow> wb_wf (wb_clean b)" "wb_pending (wb_clean b) = []"
  "wb_capacity (wb_clean b) = wb_capacity b" "wb_path (wb_clean b) = []" "wb_offset (wb_clean b) = 0"
  "wb_valid_up_to (wb_clean b) = 0"
  by (simp_all add: wb_wf_def wb_clean_def wb_pending_def)

text \<open>A write as an operation on the bytes not yet sent: it appends, or starts again; what does
  not fit is refused by a short count.\<close>

lemma wb_write_appends:
  assumes "wb_wf b" and "wb_is_appending b p off" and "wb_write p off d b = (n, b')"
  shows "wb_wf b' \<and> n = min (length d) (wb_capacity b - length (wb_pending b))
    \<and> wb_pending b' = wb_pending b @ take n d \<and> wb_path b' = wb_path b
    \<and> wb_offset b' = wb_offset b \<and> wb_capacity b' = wb_capacity b"
  using assms
  by (auto simp: wb_write_def wb_wf_def wb_pending_def Let_def copy_slice_def min_def)

lemma wb_write_restarts:
  assumes "wb_wf b" and "\<not> wb_is_appending b p off" and "wb_write p off d b = (n, b')"
  shows "wb_wf b' \<and> n = min (length d) (wb_capacity b) \<and> wb_pending b' = take n d
    \<and> wb_path b' = p \<and> wb_offset b' = off \<and> wb_capacity b' = wb_capacity b"
  using assms
  by (auto simp: wb_write_def wb_wf_def wb_pending_def Let_def copy_slice_def min_def)

lemma wb_write_cases:
  assumes "wb_wf b" and "wb_write p off d b = (n, b')"
  shows "wb_wf b' \<and> wb_capacity b' = wb_capacity b \<and> n \<le> length d \<and> wb_path b' = p
    \<and> (if wb_is_appending b p off then wb_offset b' = wb_offset b \<and> wb_pending b' = wb_pending b @ take n d
       else wb_offset b' = off \<and> wb_pending b' = take n d)"
  using wb_write_appends [OF assms(1) _ assms(2)] wb_write_restarts [OF assms(1) _ assms(2)]
  by (auto simp: wb_is_appending_def)

subsection \<open>Properties\<close>

text \<open>
  C34. A read from the read buffer returns bytes of the last fill or nothing: of the same path, at
  most as old as the time to live, at most as many as asked for, and exactly the bytes the fill
  was given at those offsets.
\<close>

theorem read_buffer_serves_fill:
  assumes "rb_wf b"
  shows "rb_read now (rb_fill t p off data b) q off' len =
    (if q = p \<and> off \<le> off' \<and> now \<le> t + rb_ttl b
     then read_at (take (rb_capacity b) data) (off' - off) len else [])"
  using assms by (simp add: rb_read_content rb_fill_content)

lemma read_buffer_serves_fill_witness:
  "rb_read 5 (rb_fill 0 [RootDir] 10 [1, 2, 3, 4, 5] (rb_new 0 4)) [RootDir] 12 9 = [3, 4]"
  by (subst read_buffer_serves_fill [OF rb_new_wf]) (simp add: read_at_def rb_new_def)



end
