(* ===== verification/Client_Pages.thy ===== *)
theory Client_Pages
  imports Client_Attributes Rust_Path
begin

text \<open>
  What the client caches about a path: \<open>client/src/fs_model/file.rs\<close> (files, as pages),
  \<open>directory.rs\<close> and \<open>sym_link.rs\<close>. \<open>PAGE_SIZE\<close> and \<open>MAX_PAGES\<close>, set once by \<open>FileSystem::new\<close>,
  are fields of an environment. A \<open>HashMap\<close> is an association list with distinct keys; the order
  in which its keys are visited is unspecified, so it is a function of the environment
  (\<open>env_ok\<close> is what such a function guarantees).
\<close>

record page_env =
  pe_page_size :: nat
  pe_max_pages :: nat
  pe_page_order :: "nat list \<Rightarrow> nat list"
  pe_path_order :: "pathbuf list \<Rightarrow> pathbuf list"

definition env_ok :: "page_env \<Rightarrow> bool" where
  "env_ok env \<longleftrightarrow> 0 < pe_page_size env
     \<and> (\<forall>ks. set (pe_page_order env ks) = set ks) \<and> (\<forall>ks. set (pe_path_order env ks) = set ks)"

subsection \<open>Pages\<close>

record file_page =
  pg_content :: bytes
  pg_valid_up_to :: nat
  pg_valid_from :: nat

definition page_new :: "page_env \<Rightarrow> file_page" where
  "page_new env = \<lparr>pg_content = replicate (pe_page_size env) 0, pg_valid_up_to = 0,
     pg_valid_from = pe_page_size env\<rparr>"

text \<open>\<open>copy_from_slice\<close> panics when the lengths differ, the slice expression when it is out of
  range.\<close>

definition page_write :: "page_env \<Rightarrow> bytes \<Rightarrow> nat \<Rightarrow> file_page \<Rightarrow> file_page outcome" where
  "page_write env data offset p =
     (let end_pos = offset + length data;
          real_end = min end_pos (pe_page_size env)
      in if real_end < offset then Ret p
         else if length (pg_content p) < real_end \<or> real_end - offset \<noteq> length data then Panic
         else Ret (p\<lparr>pg_content := copy_slice (pg_content p) offset data,
                     pg_valid_up_to := max (pg_valid_up_to p) real_end,
                     pg_valid_from := min (pg_valid_from p) offset\<rparr>))"

definition page_read :: "page_env \<Rightarrow> file_page \<Rightarrow> nat \<Rightarrow> nat \<Rightarrow> bytes option" where
  "page_read env p offset sz =
     (let end_pos = min (offset + sz) (pe_page_size env);
          real_end = min end_pos (pg_valid_up_to p)
      in if offset < pg_valid_from p then None
         else if real_end < offset then None
         else Some (take (real_end - offset) (drop offset (pg_content p))))"

subsection \<open>Files\<close>

type_synonym pages = "(nat \<times> file_page) list"

record c_file =
  cf_name :: string
  cf_attributes :: "c_attributes option"
  cf_content :: pages

definition file_new :: "string \<Rightarrow> c_attributes option \<Rightarrow> c_file" where
  "file_new name attrs = \<lparr>cf_name = name, cf_attributes = attrs, cf_content = []\<rparr>"

text \<open>The loop of \<open>write_content\<close>. \<open>entry(..).or_default()\<close> inserts the page before it is written.
  A page size of zero would be a division by zero.\<close>

function write_pages :: "page_env \<Rightarrow> nat \<Rightarrow> bytes \<Rightarrow> pages \<Rightarrow> pages outcome" where
  "write_pages env curr_offset remaining content =
     (if remaining = [] then Ret content
      else if pe_max_pages env = 0 then Ret content
      else if pe_max_pages env \<le> length content then Ret content
      else if pe_page_size env = 0 then Panic
      else
        let page_index = curr_offset div pe_page_size env;
            page_offset = curr_offset mod pe_page_size env;
            page = (case map_of content page_index of Some p \<Rightarrow> p | None \<Rightarrow> page_new env);
            writable = pe_page_size env - page_offset;
            to_write = min (length remaining) writable
        in (case page_write env (take to_write remaining) page_offset page of
              Panic \<Rightarrow> Panic
            | Ret p \<Rightarrow> write_pages env (curr_offset + to_write) (drop to_write remaining)
                          (AList.update page_index p content)))"
  by pat_completeness auto

termination
proof (relation "measure (\<lambda>(env, off, rem, c). length rem)", goal_cases)
  case 1
  then show ?case by simp
next
  case (2 env curr_offset remaining content index offset page writable to_write p)
  then have "0 < to_write" by (simp add: mod_less_divisor)
  with 2 show ?case by (cases remaining) simp_all
qed

declare write_pages.simps [simp del]

definition file_write_content :: "page_env \<Rightarrow> nat \<Rightarrow> bytes \<Rightarrow> c_file \<Rightarrow> c_file outcome" where
  "file_write_content env offset data f =
     (case write_pages env offset data (cf_content f) of
        Panic \<Rightarrow> Panic | Ret c \<Rightarrow> Ret (f\<lparr>cf_content := c\<rparr>))"

function read_pages :: "page_env \<Rightarrow> pages \<Rightarrow> nat \<Rightarrow> nat \<Rightarrow> bytes outcome" where
  "read_pages env content curr_offset remaining =
     (if remaining = 0 then Ret []
      else if pe_page_size env = 0 then Panic
      else
        let page_index = curr_offset div pe_page_size env;
            page_offset = curr_offset mod pe_page_size env
        in (case map_of content page_index of
              None \<Rightarrow> Ret []
            | Some page \<Rightarrow>
                let max_read = min remaining (pe_page_size env - page_offset)
                in (case page_read env page page_offset max_read of
                      None \<Rightarrow> Ret []
                    | Some got \<Rightarrow>
                        if length got < max_read then Ret got
                        else (case read_pages env content (curr_offset + max_read) (remaining - max_read) of
                                Panic \<Rightarrow> Panic | Ret rest \<Rightarrow> Ret (got @ rest)))))"
  by pat_completeness auto

termination
proof (relation "measure (\<lambda>(env, c, off, rem). rem)", goal_cases)
  case 1
  then show ?case by simp
next
  case (2 env content curr_offset remaining index offset page max_read got)
  then have "0 < max_read" by (simp add: mod_less_divisor)
  with 2 show ?case by simp
qed

declare read_pages.simps [simp del]

definition file_read :: "page_env \<Rightarrow> c_file \<Rightarrow> nat \<Rightarrow> nat \<Rightarrow> bytes outcome" where
  "file_read env f offset sz = read_pages env (cf_content f) offset sz"

text \<open>\<open>File::merge\<close>: the attributes, then the valid part of each page, until the file is full.
  The slice of a page panics when its bounds are out of order.\<close>

fun merge_pages :: "page_env \<Rightarrow> nat list \<Rightarrow> pages \<Rightarrow> c_file \<Rightarrow> c_file outcome" where
  "merge_pages env [] other f = Ret f"
| "merge_pages env (key # keys) other f =
     (case map_of other key of
        None \<Rightarrow> merge_pages env keys other f
      | Some page \<Rightarrow>
          if pe_max_pages env = 0 then Ret f
          else if pe_max_pages env \<le> length (cf_content f) then Ret f
          else if pg_valid_up_to page < pg_valid_from page
                  \<or> length (pg_content page) < pg_valid_up_to page then Panic
          else (case file_write_content env (key * pe_page_size env + pg_valid_from page)
                       (take (pg_valid_up_to page - pg_valid_from page)
                          (drop (pg_valid_from page) (pg_content page))) f of
                  Panic \<Rightarrow> Panic
                | Ret f' \<Rightarrow> merge_pages env keys other f'))"

definition file_merge :: "page_env \<Rightarrow> c_file \<Rightarrow> c_file \<Rightarrow> c_file outcome" where
  "file_merge env f other =
     merge_pages env (pe_page_order env (map fst (cf_content other))) (cf_content other)
       (if cf_attributes other \<noteq> None then f\<lparr>cf_attributes := cf_attributes other\<rparr> else f)"

subsection \<open>Directories and links (\<open>directory.rs\<close>, \<open>sym_link.rs\<close>)\<close>

record c_directory =
  cd_name :: string
  cd_attributes :: "c_attributes option"
  cd_children :: "string list option"

definition directory_new ::
  "string \<Rightarrow> c_attributes option \<Rightarrow> string list option \<Rightarrow> c_directory" where
  "directory_new name attrs children =
     \<lparr>cd_name = name, cd_attributes = attrs, cd_children = children\<rparr>"

definition directory_merge :: "c_directory \<Rightarrow> c_directory \<Rightarrow> c_directory" where
  "directory_merge d other =
     (let d1 = (if cd_attributes other \<noteq> None then d\<lparr>cd_attributes := cd_attributes other\<rparr> else d)
      in if cd_children other \<noteq> None then d1\<lparr>cd_children := cd_children other\<rparr> else d1)"

record c_symlink =
  lk_name :: string
  lk_attributes :: "c_attributes option"
  lk_target :: "string option"

definition symlink_new :: "string \<Rightarrow> c_attributes option \<Rightarrow> string option \<Rightarrow> c_symlink" where
  "symlink_new name attrs target =
     \<lparr>lk_name = name, lk_attributes = attrs, lk_target = target\<rparr>"

definition symlink_merge :: "c_symlink \<Rightarrow> c_symlink \<Rightarrow> c_symlink" where
  "symlink_merge l other =
     (let l1 = (if lk_attributes other \<noteq> None then l\<lparr>lk_attributes := lk_attributes other\<rparr> else l)
      in if lk_target other \<noteq> None then l1\<lparr>lk_target := lk_target other\<rparr> else l1)"

end
