(* ===== verification/Client_Pages_Laws.thy ===== *)
theory Client_Pages_Laws
  imports Client_Pages
begin

text \<open>
  Laws of the page cache of a file. \<open>pages_ok\<close> is the invariant of the pages: under it no write,
  read or merge panics, and the number of pages stays bounded. \<open>valid_byte\<close> is the abstract view
  of the pages, a partial map from offsets to bytes: a read returns its longest run.
\<close>

definition page_ok :: "page_env \<Rightarrow> file_page \<Rightarrow> bool" where
  "page_ok env p \<longleftrightarrow> length (pg_content p) = pe_page_size env
     \<and> pg_valid_from p < pg_valid_up_to p \<and> pg_valid_up_to p \<le> pe_page_size env"

definition pages_ok :: "page_env \<Rightarrow> pages \<Rightarrow> bool" where
  "pages_ok env c \<longleftrightarrow> (\<forall>k p. map_of c k = Some p \<longrightarrow> page_ok env p) \<and> distinct (map fst c)"

definition valid_byte :: "page_env \<Rightarrow> pages \<Rightarrow> nat \<Rightarrow> 8 word option" where
  "valid_byte env c i =
     (case map_of c (i div pe_page_size env) of
        None \<Rightarrow> None
      | Some p \<Rightarrow>
          let j = i mod pe_page_size env
          in if pg_valid_from p \<le> j \<and> j < pg_valid_up_to p then Some (pg_content p ! j) else None)"

lemma pages_ok_Nil [simp]: "pages_ok env []"
  by (simp add: pages_ok_def)

lemma length_AList_update_le: "length (AList.update k v xs) \<le> length xs + 1"
  by (induction xs) auto

lemma pages_ok_update:
  "pages_ok env c \<Longrightarrow> page_ok env p \<Longrightarrow> pages_ok env (AList.update k p c)"
  by (auto simp: pages_ok_def map_of_alist_update distinct_update)

subsection \<open>Pages\<close>

text \<open>A page that may be written: a page of the file, or the default page.\<close>

definition page_open :: "page_env \<Rightarrow> file_page \<Rightarrow> bool" where
  "page_open env p \<longleftrightarrow> length (pg_content p) = pe_page_size env
     \<and> pg_valid_up_to p \<le> pe_page_size env"

lemma page_open_cases:
  "pages_ok env c \<Longrightarrow> page_open env (case map_of c k of Some p \<Rightarrow> p | None \<Rightarrow> page_new env)"
  by (auto simp: pages_ok_def page_ok_def page_open_def page_new_def split: option.splits)

lemma page_write_ok:
  assumes "page_open env p" and "d \<noteq> []" and "off + length d \<le> pe_page_size env"
  shows "page_write env d off p =
      Ret (p\<lparr>pg_content := copy_slice (pg_content p) off d,
             pg_valid_up_to := max (pg_valid_up_to p) (off + length d),
             pg_valid_from := min (pg_valid_from p) off\<rparr>)"
    and "page_ok env (p\<lparr>pg_content := copy_slice (pg_content p) off d,
             pg_valid_up_to := max (pg_valid_up_to p) (off + length d),
             pg_valid_from := min (pg_valid_from p) off\<rparr>)"
proof -
  have "0 < length d" using assms(2) by simp
  then have "min (pg_valid_from p) off < max (pg_valid_up_to p) (off + length d)" by linarith
  then show "page_ok env (p\<lparr>pg_content := copy_slice (pg_content p) off d,
             pg_valid_up_to := max (pg_valid_up_to p) (off + length d),
             pg_valid_from := min (pg_valid_from p) off\<rparr>)"
    using assms by (auto simp: page_ok_def page_open_def slice_simps)
  show "page_write env d off p =
      Ret (p\<lparr>pg_content := copy_slice (pg_content p) off d,
             pg_valid_up_to := max (pg_valid_up_to p) (off + length d),
             pg_valid_from := min (pg_valid_from p) off\<rparr>)"
    using assms by (simp add: page_write_def page_open_def Let_def min_def)
qed

subsection \<open>Writing never panics and respects the bound\<close>

lemma mod_room: "0 < ps \<Longrightarrow> (off :: nat) mod ps + min n (ps - off mod ps) \<le> ps"
  using mod_less_divisor [of ps off] by linarith

lemma write_pages_total:
  assumes "pages_ok env c" and "0 < pe_page_size env"
  shows "\<exists>c'. write_pages env off d c = Ret c' \<and> pages_ok env c'
    \<and> length c' \<le> max (length c) (pe_max_pages env)"
  using assms
proof (induction env off d c rule: write_pages.induct)
  case (1 env off d c)
  let ?ps = "pe_page_size env"
  show ?case
  proof (cases "d = [] \<or> pe_max_pages env = 0 \<or> pe_max_pages env \<le> length c")
    case True
    with "1.prems" show ?thesis by (auto simp: write_pages.simps [of env off d c])
  next
    case False
    let ?n = "min (length d) (?ps - off mod ?ps)"
    let ?p = "case map_of c (off div ?ps) of Some p \<Rightarrow> p | None \<Rightarrow> page_new env"
    have n: "0 < ?n" using False "1.prems"(2) by (simp add: mod_less_divisor)
    then have ne: "take ?n d \<noteq> []" by auto
    have room: "off mod ?ps + length (take ?n d) \<le> ?ps"
      using mod_room [OF "1.prems"(2), of off "length d"] by simp
    obtain q where q: "page_write env (take ?n d) (off mod ?ps) ?p = Ret q" "page_ok env q"
      using page_write_ok [OF page_open_cases [OF "1.prems"(1)] ne room] by blast
    have ok: "pages_ok env (AList.update (off div ?ps) q c)"
      using pages_ok_update [OF "1.prems"(1) q(2)] .
    have step: "write_pages env off d c
      = write_pages env (off + ?n) (drop ?n d) (AList.update (off div ?ps) q c)"
      using False "1.prems"(2) q(1) by (simp add: write_pages.simps [of env off d c] Let_def)
    have len: "length (AList.update (off div ?ps) q c) \<le> max (length c) (pe_max_pages env)"
      using length_AList_update_le [of "off div ?ps" q c] False by linarith
    have guards: "d \<noteq> []" "pe_max_pages env \<noteq> 0" "\<not> pe_max_pages env \<le> length c" "?ps \<noteq> 0"
      using False "1.prems"(2) by simp_all
    obtain c' where c': "write_pages env (off + ?n) (drop ?n d) (AList.update (off div ?ps) q c) = Ret c'"
        "pages_ok env c'" "length c' \<le> max (length (AList.update (off div ?ps) q c)) (pe_max_pages env)"
      using "1.IH" [OF guards refl refl refl refl refl q(1) ok "1.prems"(2)] by blast
    from c'(3) len have "length c' \<le> max (length c) (pe_max_pages env)" by linarith
    with step c' show ?thesis by simp
  qed
qed

lemma file_write_total:
  assumes "pages_ok env (cf_content f)" and "0 < pe_page_size env"
  shows "\<exists>c'. file_write_content env off d f = Ret (f\<lparr>cf_content := c'\<rparr>) \<and> pages_ok env c'
    \<and> length c' \<le> max (length (cf_content f)) (pe_max_pages env)"
  using write_pages_total [OF assms, of off d] by (auto simp: file_write_content_def)

lemma merge_pages_total:
  assumes "pages_ok env (cf_content f)" and "pages_ok env other" and "0 < pe_page_size env"
  shows "\<exists>c'. merge_pages env ks other f = Ret (f\<lparr>cf_content := c'\<rparr>) \<and> pages_ok env c'
    \<and> length c' \<le> max (length (cf_content f)) (pe_max_pages env)"
  using assms(1)
proof (induction ks arbitrary: f)
  case Nil
  then show ?case by (auto intro!: exI [of _ "cf_content f"])
next
  case (Cons k ks)
  show ?case
  proof (cases "map_of other k")
    case None
    with Cons show ?thesis by simp
  next
    case (Some p)
    then have p: "page_ok env p" using assms(2) by (simp add: pages_ok_def)
    show ?thesis
    proof (cases "pe_max_pages env = 0 \<or> pe_max_pages env \<le> length (cf_content f)")
      case True
      with Some Cons.prems show ?thesis by (auto intro!: exI [of _ "cf_content f"])
    next
      case False
      let ?off = "k * pe_page_size env + pg_valid_from p"
      let ?d = "take (pg_valid_up_to p - pg_valid_from p) (drop (pg_valid_from p) (pg_content p))"
      obtain c1 where c1: "file_write_content env ?off ?d f = Ret (f\<lparr>cf_content := c1\<rparr>)"
          "pages_ok env c1" "length c1 \<le> max (length (cf_content f)) (pe_max_pages env)"
        using file_write_total [OF Cons.prems assms(3)] by blast
      from Cons.IH [of "f\<lparr>cf_content := c1\<rparr>"] c1 obtain c' where
        "merge_pages env ks other (f\<lparr>cf_content := c1\<rparr>) = Ret (f\<lparr>cf_content := c'\<rparr>)"
        "pages_ok env c'" "length c' \<le> max (length c1) (pe_max_pages env)"
        by auto
      then show ?thesis
        using Some False p c1 by (auto simp: page_ok_def intro!: exI [of _ c'])
    qed
  qed
qed

lemma file_merge_total:
  assumes "pages_ok env (cf_content f)" and "pages_ok env (cf_content other)"
    and "0 < pe_page_size env"
  shows "\<exists>f'. file_merge env f other = Ret f' \<and> pages_ok env (cf_content f')
    \<and> length (cf_content f') \<le> max (length (cf_content f)) (pe_max_pages env)
    \<and> cf_attributes f' = (if cf_attributes other \<noteq> None then cf_attributes other else cf_attributes f)
    \<and> cf_name f' = cf_name f"
proof -
  let ?f = "if cf_attributes other \<noteq> None then f\<lparr>cf_attributes := cf_attributes other\<rparr> else f"
  have "pages_ok env (cf_content ?f)" and "cf_content ?f = cf_content f" using assms(1) by simp_all
  from merge_pages_total [OF this(1) assms(2,3)] this(2) show ?thesis
    by (fastforce simp: file_merge_def)
qed


subsection \<open>Reading returns the longest valid run\<close>

lemma within_page:
  assumes "(off :: nat) mod ps + i < ps"
  shows "(off + i) div ps = off div ps" and "(off + i) mod ps = off mod ps + i"
proof -
  have eq: "off + i = (off mod ps + i) + off div ps * ps" using div_mult_mod_eq [of off ps] by linarith
  have pos: "ps \<noteq> 0" using assms by simp
  show "(off + i) div ps = off div ps"
    unfolding eq using assms pos by (subst div_mult_self1) simp_all
  show "(off + i) mod ps = off mod ps + i"
    unfolding eq using assms by (subst mod_mult_self1) simp
qed

lemma valid_byte_within:
  assumes "map_of c (off div pe_page_size env) = Some p" and "off mod pe_page_size env + i < pe_page_size env"
  shows "valid_byte env c (off + i) =
    (if pg_valid_from p \<le> off mod pe_page_size env + i \<and> off mod pe_page_size env + i < pg_valid_up_to p
     then Some (pg_content p ! (off mod pe_page_size env + i)) else None)"
  using assms by (simp add: valid_byte_def within_page Let_def)

lemma read_pages_run:
  assumes "pages_ok env c" and "0 < pe_page_size env"
  shows "\<exists>d. read_pages env c off n = Ret d \<and> length d \<le> n
    \<and> (\<forall>i < length d. valid_byte env c (off + i) = Some (d ! i))
    \<and> (length d < n \<longrightarrow> valid_byte env c (off + length d) = None)"
  using assms
proof (induction env c off n rule: read_pages.induct)
  case (1 env c off n)
  let ?ps = "pe_page_size env" and ?po = "off mod pe_page_size env"
  show ?case
  proof (cases "n = 0")
    case True
    then show ?thesis by (simp add: read_pages.simps [of env c off 0])
  next
    case False
    note n = this
    show ?thesis
    proof (cases "map_of c (off div ?ps)")
      case None
      then show ?thesis
        using n "1.prems"(2) by (simp add: read_pages.simps [of env c off n] valid_byte_def)
    next
      case (Some p)
      then have p: "page_ok env p" using "1.prems"(1) by (simp add: pages_ok_def)
      let ?m = "min n (?ps - ?po)"
      have po: "?po < ?ps" using "1.prems"(2) by (simp add: mod_less_divisor)
      have m: "0 < ?m" "?po + ?m \<le> ?ps" using n po by auto
      note vb = valid_byte_within [OF Some]
      show ?thesis
      proof (cases "page_read env p ?po ?m")
        case None
        then have "valid_byte env c (off + 0) = None"
          using po m p by (subst vb) (auto simp: page_read_def Let_def page_ok_def split: if_splits)
        with None Some n "1.prems"(2) show ?thesis
          by (simp add: read_pages.simps [of env c off n] Let_def)
      next
        case (Some got)
        then have from_ok: "pg_valid_from p \<le> ?po"
          and got: "got = take (min (?po + ?m) (pg_valid_up_to p) - ?po) (drop ?po (pg_content p))"
          using m by (auto simp: page_read_def Let_def min_absorb1 split: if_splits)
        have len: "length got = min (?po + ?m) (pg_valid_up_to p) - ?po"
          using got p m by (simp add: page_ok_def)
        have vals: "valid_byte env c (off + i) = Some (got ! i)" if "i < length got" for i
        proof -
          have "?po + i < ?ps" "?po + i < pg_valid_up_to p" using that len m po by linarith+
          moreover have "got ! i = pg_content p ! (?po + i)"
            using that p unfolding got by (simp add: page_ok_def)
          moreover have "pg_valid_from p \<le> ?po + i" using from_ok by linarith
          ultimately show ?thesis by (simp only: vb if_True simp_thms)
        qed
        show ?thesis
        proof (cases "length got < ?m")
          case True
          then have "?po + length got < ?ps" "\<not> ?po + length got < pg_valid_up_to p"
            using len m po by linarith+
          then have "valid_byte env c (off + length got) = None"
            by (simp only: vb if_False simp_thms)
          with True Some \<open>map_of c (off div ?ps) = Some p\<close> n "1.prems"(2) vals show ?thesis
            by (auto simp: read_pages.simps [of env c off n] Let_def)
        next
          case False
          then have lg: "length got = ?m" using len by linarith
          have guards: "n \<noteq> 0" "?ps \<noteq> 0" using n "1.prems"(2) by auto
          obtain d where d: "read_pages env c (off + ?m) (n - ?m) = Ret d" "length d \<le> n - ?m"
            "\<forall>i < length d. valid_byte env c (off + ?m + i) = Some (d ! i)"
            "length d < n - ?m \<longrightarrow> valid_byte env c (off + ?m + length d) = None"
            using "1.IH" [OF guards refl refl \<open>map_of c (off div ?ps) = Some p\<close> refl Some False
                "1.prems"] by blast
          have "read_pages env c off n = Ret (got @ d)"
            using Some \<open>map_of c (off div ?ps) = Some p\<close> n "1.prems"(2) False d(1)
            by (simp add: read_pages.simps [of env c off n] Let_def) blast
          moreover have "valid_byte env c (off + i) = Some ((got @ d) ! i)" if "i < length (got @ d)" for i
          proof (cases "i < length got")
            case True
            then show ?thesis by (simp add: vals nth_append)
          next
            case False
            then obtain j where j: "i = length got + j" using le_Suc_ex not_less by blast
            have "j < length d" using that unfolding j length_append by linarith
            with d(3) have "valid_byte env c (off + ?m + j) = Some (d ! j)" by blast
            moreover have "(got @ d) ! i = d ! j" unfolding j by (rule nth_append_length_plus)
            ultimately show ?thesis by (simp only: j lg add.assoc)
          qed
          moreover have "length (got @ d) \<le> n" unfolding length_append using d(2) lg by linarith
          moreover have "length (got @ d) < n \<longrightarrow> valid_byte env c (off + length (got @ d)) = None"
          proof
            assume "length (got @ d) < n"
            then have "length d < n - ?m" unfolding length_append using lg by linarith
            with d(4) have "valid_byte env c (off + ?m + length d) = None" by blast
            then show "valid_byte env c (off + length (got @ d)) = None"
              unfolding length_append lg add.assoc .
          qed
          ultimately show ?thesis by blast
        qed
      qed
    qed
  qed
qed


subsection \<open>Writing into free pages\<close>

lemma page_range:
  assumes "(off :: nat) mod ps + n \<le> ps"
  shows "i div ps = off div ps \<and> off mod ps \<le> i mod ps \<and> i mod ps < off mod ps + n
    \<longleftrightarrow> off \<le> i \<and> i < off + n"
    and "off \<le> i \<Longrightarrow> i < off + n \<Longrightarrow> i mod ps - off mod ps = i - off"
proof -
  have fwd: "i div ps = off div ps" "i mod ps = off mod ps + (i - off)"
    if "off \<le> i" "i < off + n"
  proof -
    have "off mod ps + (i - off) < ps" using that assms by linarith
    from within_page [OF this] that
    show "i div ps = off div ps" and "i mod ps = off mod ps + (i - off)" by simp_all
  qed
  then show "off \<le> i \<Longrightarrow> i < off + n \<Longrightarrow> i mod ps - off mod ps = i - off" by simp
  have "off \<le> i \<and> i < off + n"
    if "i div ps = off div ps" "off mod ps \<le> i mod ps" "i mod ps < off mod ps + n"
  proof -
    have "i = off div ps * ps + i mod ps" "off = off div ps * ps + off mod ps"
      using div_mult_mod_eq [of i ps] div_mult_mod_eq [of off ps] that(1) by simp_all
    with that show ?thesis by linarith
  qed
  with fwd show "i div ps = off div ps \<and> off mod ps \<le> i mod ps \<and> i mod ps < off mod ps + n
    \<longleftrightarrow> off \<le> i \<and> i < off + n" by auto
qed

lemma valid_byte_new_page:
  assumes "d \<noteq> []" and "off mod pe_page_size env + length d \<le> pe_page_size env"
    and "map_of c (off div pe_page_size env) = None"
    and "page_write env d (off mod pe_page_size env) (page_new env) = Ret p"
  shows "valid_byte env (AList.update (off div pe_page_size env) p c) i =
    (if off \<le> i \<and> i < off + length d then Some (d ! (i - off)) else valid_byte env c i)"
proof -
  let ?ps = "pe_page_size env"
  have "page_open env (page_new env)" by (simp add: page_open_def page_new_def)
  from page_write_ok(1) [OF this assms(1,2)] assms(4)
  have p: "pg_content p = copy_slice (replicate ?ps 0) (off mod ?ps) d"
    "pg_valid_up_to p = off mod ?ps + length d" "pg_valid_from p = off mod ?ps"
    using assms(2) by (auto simp: page_new_def)
  note range = page_range [OF assms(2), of i]
  show ?thesis
  proof (cases "off \<le> i \<and> i < off + length d")
    case True
    then have at: "i div ?ps = off div ?ps" "off mod ?ps \<le> i mod ?ps"
      "i mod ?ps < off mod ?ps + length d" using range(1) by blast+
    then have "copy_slice (replicate ?ps 0) (off mod ?ps) d ! (i mod ?ps) = d ! (i - off)"
      using assms(2) True range(2) by (subst nth_copy_slice) auto
    with True at show ?thesis by (simp add: valid_byte_def map_of_alist_update p)
  next
    case False
    then have "\<not> (i div ?ps = off div ?ps \<and> off mod ?ps \<le> i mod ?ps
        \<and> i mod ?ps < off mod ?ps + length d)" using range(1) by blast
    with False show ?thesis
      by (auto simp: valid_byte_def map_of_alist_update p assms(3) Let_def)
  qed
qed

lemma write_pages_fresh:
  assumes "0 < pe_page_size env" and "\<forall>k \<ge> off div pe_page_size env. map_of c k = None"
    and "d = [] \<or> length c + ((off + length d - 1) div pe_page_size env - off div pe_page_size env)
      < pe_max_pages env"
  shows "\<exists>c'. write_pages env off d c = Ret c' \<and> (\<forall>i. valid_byte env c' i =
    (if off \<le> i \<and> i < off + length d then Some (d ! (i - off)) else valid_byte env c i))"
  using assms
proof (induction env off d c rule: write_pages.induct)
  case (1 env off d c)
  let ?ps = "pe_page_size env"
  let ?n = "min (length d) (?ps - off mod ?ps)"
  show ?case
  proof (cases "d = []")
    case True
    then show ?thesis by (auto simp: write_pages.simps [of env off "[]" c])
  next
    case False
    let ?E = "(off + length d - 1) div ?ps"
    have B: "length c + (?E - off div ?ps) < pe_max_pages env" using "1.prems"(3) False by blast
    have n: "0 < ?n" using False "1.prems"(1) by (simp add: mod_less_divisor)
    then have ne: "take ?n d \<noteq> []" by auto
    have room: "off mod ?ps + length (take ?n d) \<le> ?ps"
      using mod_room [OF "1.prems"(1), of off "length d"] by simp
    have none: "map_of c (off div ?ps) = None" using "1.prems"(2) by blast
    have "page_open env (page_new env)" by (simp add: page_open_def page_new_def)
    from page_write_ok(1) [OF this ne room] obtain q where
      q: "page_write env (take ?n d) (off mod ?ps) (page_new env) = Ret q" by blast
    let ?c = "AList.update (off div ?ps) q c"
    have vb: "valid_byte env ?c i =
      (if off \<le> i \<and> i < off + ?n then Some (d ! (i - off)) else valid_byte env c i)" for i
    proof (cases "off \<le> i \<and> i < off + ?n")
      case True
      then have "i - off < ?n" by linarith
      then have "take ?n d ! (i - off) = d ! (i - off)" by (rule nth_take)
      with True valid_byte_new_page [OF ne room none q, of i] show ?thesis by simp
    next
      case False
      with valid_byte_new_page [OF ne room none q, of i] show ?thesis by auto
    qed
    have guards: "d \<noteq> []" "pe_max_pages env \<noteq> 0" "\<not> pe_max_pages env \<le> length c" "?ps \<noteq> 0"
      using False "1.prems"(1) B by simp_all
    have step: "write_pages env off d c = write_pages env (off + ?n) (drop ?n d) ?c"
      using guards q none by (simp add: write_pages.simps [of env off d c] Let_def)
    have q': "page_write env (take ?n d) (off mod ?ps)
      (case map_of c (off div ?ps) of None \<Rightarrow> page_new env | Some p \<Rightarrow> p) = Ret q"
      using q none by simp
    show ?thesis
    proof (cases "?n = length d")
      case True
      then have "drop ?n d = []" by simp
      then have "write_pages env off d c = Ret ?c"
        using step by (simp only: write_pages.simps [of env _ "[]"] if_True simp_thms)
      with vb True show ?thesis by auto
    next
      case False
      then have n_eq: "?n = ?ps - off mod ?ps" "?n < length d" by linarith+
      have po: "off mod ?ps < ?ps" using "1.prems"(1) by (simp add: mod_less_divisor)
      have off': "off + ?n = (off div ?ps + 1) * ?ps"
      proof -
        have "off = off div ?ps * ?ps + off mod ?ps" by (simp add: div_mult_mod_eq)
        then have "off + (?ps - off mod ?ps) = off div ?ps * ?ps + ?ps" using po by linarith
        then show ?thesis unfolding n_eq(1) by simp
      qed
      have idx: "(off + ?n) div ?ps = off div ?ps + 1" unfolding off' by (rule nonzero_mult_div_cancel_right) (rule guards(4))
      have E: "off div ?ps + 1 \<le> ?E"
      proof -
        have "off + ?n \<le> off + length d - 1" using n_eq(2) by linarith
        then have "(off + ?n) div ?ps \<le> ?E" by (rule div_le_mono)
        then show ?thesis unfolding idx .
      qed
      have free: "\<forall>k \<ge> (off + ?n) div ?ps. map_of ?c k = None"
        using "1.prems"(2) unfolding idx by (auto simp: map_of_alist_update)
      have len: "length ?c \<le> length c + 1" by (rule length_AList_update_le)
      have end_eq: "off + ?n + length (drop ?n d) - 1 = off + length d - 1"
        using n_eq(2) unfolding length_drop by linarith
      have "drop ?n d = [] \<or> length ?c + ((off + ?n + length (drop ?n d) - 1) div ?ps - (off + ?n) div ?ps)
        < pe_max_pages env"
        unfolding end_eq idx using B E len by linarith
      from "1.IH" [OF guards refl refl refl refl refl q' "1.prems"(1) free this]
      obtain c' where c': "write_pages env (off + ?n) (drop ?n d) ?c = Ret c'"
        "\<forall>i. valid_byte env c' i = (if off + ?n \<le> i \<and> i < off + ?n + length (drop ?n d)
           then Some (drop ?n d ! (i - (off + ?n))) else valid_byte env ?c i)" by blast
      have "valid_byte env c' i =
        (if off \<le> i \<and> i < off + length d then Some (d ! (i - off)) else valid_byte env c i)" for i
      proof (cases "off + ?n \<le> i")
        case True
        then obtain j where j: "i = off + ?n + j" using le_Suc_ex by blast
        have "drop ?n d ! j = d ! (?n + j)" using n_eq(2) by (intro nth_drop) linarith
        moreover have "i < off + ?n + length (drop ?n d) \<longleftrightarrow> i < off + length d"
          using n_eq(2) unfolding length_drop by linarith
        moreover have "off \<le> i" "i - off = ?n + j" "i - (off + ?n) = j" "\<not> i < off + ?n"
          using j by linarith+
        ultimately show ?thesis using c'(2) vb True by simp
      next
        case False
        moreover have "i < off + ?n \<Longrightarrow> i < off + length d" using n_eq(2) by linarith
        ultimately show ?thesis using c'(2) vb by auto
      qed
      then show ?thesis using step c'(1) by auto
    qed
  qed
qed


subsection \<open>Properties\<close>

text \<open>
  C27. The invariant of a cached file: every page is full-sized with a non-empty valid range inside
  it. It is kept by writes and by merges of one file into another, neither of which panics, and
  neither of which lets the number of pages exceed the configured maximum (or what it was).
\<close>

theorem cached_pages_invariant:
  assumes "0 < pe_page_size env" and "pages_ok env (cf_content f)" and "pages_ok env (cf_content g)"
  shows "(\<exists>f'. file_write_content env off d f = Ret f' \<and> pages_ok env (cf_content f')
      \<and> length (cf_content f') \<le> max (length (cf_content f)) (pe_max_pages env))
    \<and> (\<exists>f'. file_merge env f g = Ret f' \<and> pages_ok env (cf_content f')
      \<and> length (cf_content f') \<le> max (length (cf_content f)) (pe_max_pages env))"
  using file_write_total [OF assms(2,1)] file_merge_total [OF assms(2,3,1)] by fastforce

definition small_env :: page_env where
  "small_env = \<lparr>pe_page_size = 4, pe_max_pages = 8, pe_page_order = id, pe_path_order = id\<rparr>"

lemma small_env_simps [simp]:
  "pe_page_size small_env = 4" "pe_max_pages small_env = 8" "pe_page_order small_env = id"
  "pe_path_order small_env = id"
  by (simp_all add: small_env_def)

lemma cached_pages_invariant_witness:
  "\<exists>f'. file_write_content small_env 2 [1, 2, 3] (file_new ''a'' None) = Ret f'
    \<and> pages_ok small_env (cf_content f')"
  using cached_pages_invariant [of small_env "file_new ''a'' None" "file_new ''a'' None" 2 "[1, 2, 3]"]
  by (auto simp: file_new_def)

text \<open>
  C29. Reading a cached file: the result is the longest run of valid bytes from the offset on, cut
  at the requested size. It never contains a byte of an invalid part of a page.
\<close>

theorem file_read_longest_run:
  assumes "pages_ok env (cf_content f)" and "0 < pe_page_size env"
  shows "\<exists>d. file_read env f off n = Ret d \<and> length d \<le> n
    \<and> (\<forall>i < length d. valid_byte env (cf_content f) (off + i) = Some (d ! i))
    \<and> (length d < n \<longrightarrow> valid_byte env (cf_content f) (off + length d) = None)"
  unfolding file_read_def by (rule read_pages_run [OF assms])

lemma file_read_longest_run_witness:
  "\<exists>d. file_read small_env (file_new ''a'' None) 3 5 = Ret d \<and> length d < 5"
proof -
  have "pages_ok small_env (cf_content (file_new ''a'' None))" by (simp add: file_new_def)
  from file_read_longest_run [OF this, of 3 5] obtain d where
    d: "file_read small_env (file_new ''a'' None) 3 5 = Ret d" "length d \<le> 5"
      "\<forall>i < length d. valid_byte small_env [] (3 + i) = Some (d ! i)"
    by (auto simp: file_new_def)
  have "d = []" using d(3) by (cases d) (auto simp: valid_byte_def)
  with d show ?thesis by simp
qed

lemma fresh_write_read:
  assumes "0 < pe_page_size env"
    and "d = [] \<or> (off + length d - 1) div pe_page_size env - off div pe_page_size env < pe_max_pages env"
  shows "\<exists>f. file_write_content env off d (file_new name a) = Ret f \<and> cf_attributes f = a
    \<and> pages_ok env (cf_content f)
    \<and> (\<forall>o' n. file_read env f o' n = Ret (if off \<le> o' then read_at d (o' - off) n else []))"
proof -
  obtain c where c: "write_pages env off d [] = Ret c" and
    vb: "\<And>i. valid_byte env c i = (if off \<le> i \<and> i < off + length d then Some (d ! (i - off)) else None)"
    using write_pages_fresh [OF assms(1), of off "[]" d] assms(2) by (auto simp: valid_byte_def)
  have ok: "pages_ok env c" using write_pages_total [OF pages_ok_Nil assms(1), of off d] c by auto
  have "read_pages env c o' n = Ret (if off \<le> o' then read_at d (o' - off) n else [])" for o' n
  proof -
    obtain e where e: "read_pages env c o' n = Ret e" "length e \<le> n"
      "\<And>i. i < length e \<Longrightarrow> valid_byte env c (o' + i) = Some (e ! i)"
      "length e < n \<Longrightarrow> valid_byte env c (o' + length e) = None"
      using read_pages_run [OF ok assms(1), of o' n] by blast
    have in_range: "off \<le> o' + i \<and> o' + i < off + length d \<and> e ! i = d ! (o' + i - off)"
      if "i < length e" for i using e(3) [OF that] vb [of "o' + i"] by (auto split: if_splits)
    have "e = (if off \<le> o' then read_at d (o' - off) n else [])"
    proof (cases "off \<le> o'")
      case True
      have "length e = min n (length d - (o' - off))"
      proof (cases "length e < n")
        case more: True
        from e(4) [OF more] vb [of "o' + length e"] True
        have "off + length d \<le> o' + length e" by (auto split: if_splits)
        moreover have "o' + length e \<le> max o' (off + length d)"
          using in_range [of "length e - 1"] by (cases "length e") auto
        ultimately show ?thesis using True more by (cases "length e") auto
      next
        case False
        then have "length e = n" using e(2) by simp
        moreover have "o' + length e \<le> max o' (off + length d)"
          using in_range [of "length e - 1"] by (cases "length e") auto
        ultimately show ?thesis using True by (cases "length e") auto
      qed
      then have "e = read_at d (o' - off) n"
        using in_range True by (intro nth_equalityI) (auto simp: slice_simps)
      with True show ?thesis by simp
    next
      case False
      then have "e = []" using in_range [of 0] by (cases e) auto
      with False show ?thesis by simp
    qed
    with e(1) show ?thesis by simp
  qed
  then show ?thesis using c ok
    by (auto simp: file_write_content_def file_new_def file_read_def)
qed

text \<open>
  What was written to a new cached file is read back: a write that fits the maximal number of
  pages, then a read at any offset, gives exactly the written bytes in the requested range, and
  nothing outside the written range.
\<close>

lemma cached_write_read_roundtrip:
  assumes "0 < pe_page_size env"
    and "d = [] \<or> (off + length d - 1) div pe_page_size env - off div pe_page_size env < pe_max_pages env"
  shows "\<exists>f. file_write_content env off d (file_new name a) = Ret f
    \<and> (\<forall>o' n. file_read env f o' n = Ret (if off \<le> o' then read_at d (o' - off) n else []))"
  using fresh_write_read [OF assms] by blast

lemma cached_write_read_roundtrip_witness:
  "\<exists>f. file_write_content small_env 2 [1, 2, 3, 4, 5] (file_new ''a'' None) = Ret f
    \<and> file_read small_env f 3 3 = Ret [2, 3, 4]"
  using cached_write_read_roundtrip [of small_env "[1, 2, 3, 4, 5]" 2 "''a''" None]
  by (fastforce simp: read_at_def)

text \<open>
  Two writes to one page with a gap between them make the gap valid: the page keeps a single
  valid range, so bytes that were never fetched are served as zeros.
\<close>

lemma page_gap_serves_zeros:
  "outcome_bind (file_write_content small_env 0 [7] (file_new ''a'' None)) (\<lambda>f1.
   outcome_bind (file_write_content small_env 3 [8] f1) (\<lambda>f2.
   file_read small_env f2 0 4)) = Ret [7, 0, 0, 8]"
  by code_simp

text \<open>
  A file that has reached the maximal number of pages takes no more bytes at all, not even for
  pages it has: after a write of new content the old content is still served.
\<close>

lemma full_file_keeps_old_content:
  assumes "pe_max_pages env \<le> length (cf_content f)"
  shows "file_write_content env off d f = Ret f"
  using assms by (simp add: file_write_content_def write_pages.simps [of env off d "cf_content f"])

lemma full_file_keeps_old_content_witness:
  "file_write_content (small_env\<lparr>pe_max_pages := 1\<rparr>) 0 [9]
     (file_new ''a'' None\<lparr>cf_content := [(0, \<lparr>pg_content = [1, 2, 3, 4], pg_valid_up_to = 4,
        pg_valid_from = 0\<rparr>)]\<rparr>)
   = Ret (file_new ''a'' None\<lparr>cf_content := [(0, \<lparr>pg_content = [1, 2, 3, 4], pg_valid_up_to = 4,
        pg_valid_from = 0\<rparr>)]\<rparr>)"
  by (rule full_file_keeps_old_content) simp

end
