(* ===== verification/Cache.thy ===== *)
theory Cache
  imports Client_Pages_Laws
begin

text \<open>
  The cache of the client: \<open>client/src/cache.rs\<close>, its configuration (\<open>client/src/config/cache.rs\<close>)
  and the directory items it is filled from (\<open>client/src/network/models.rs\<close>). Every operation
  holds the lock of the map while it runs and is one function on the state; the operations that
  read the clock take its value, in nanoseconds. \<open>None\<close> of an \<open>Option\<close> is \<open>None\<close>, an update
  that panics in the merge of two files is \<open>Panic\<close>.
\<close>

subsection \<open>Items\<close>

datatype cache_item =
  Cache_File c_file
| Cache_SymLink c_symlink
| Cache_Directory c_directory

fun cache_item_rename :: "string \<Rightarrow> cache_item \<Rightarrow> cache_item" where
  "cache_item_rename name (Cache_File f) = Cache_File (f\<lparr>cf_name := name\<rparr>)"
| "cache_item_rename name (Cache_SymLink l) = Cache_SymLink (l\<lparr>lk_name := name\<rparr>)"
| "cache_item_rename name (Cache_Directory d) = Cache_Directory (d\<lparr>cd_name := name\<rparr>)"

fun cache_item_attributes :: "cache_item \<Rightarrow> c_attributes option" where
  "cache_item_attributes (Cache_File f) = cf_attributes f"
| "cache_item_attributes (Cache_SymLink l) = lk_attributes l"
| "cache_item_attributes (Cache_Directory d) = cd_attributes d"

fun cache_item_invalidate :: "cache_item \<Rightarrow> cache_item" where
  "cache_item_invalidate (Cache_File f) = Cache_File (f\<lparr>cf_attributes := None\<rparr>)"
| "cache_item_invalidate (Cache_SymLink l) = Cache_SymLink (l\<lparr>lk_attributes := None\<rparr>)"
| "cache_item_invalidate (Cache_Directory d) = Cache_Directory (d\<lparr>cd_attributes := None\<rparr>)"

datatype c_item_type = CI_File | CI_SymLink | CI_Directory

record c_item =
  ci_name :: string
  ci_type :: c_item_type
  ci_attributes :: c_attributes

definition cache_item_of :: "c_item \<Rightarrow> cache_item" where
  "cache_item_of i =
     (case ci_type i of
        CI_Directory \<Rightarrow> Cache_Directory (directory_new (ci_name i) (Some (ci_attributes i)) None)
      | CI_SymLink \<Rightarrow> Cache_SymLink (symlink_new (ci_name i) (Some (ci_attributes i)) None)
      | CI_File \<Rightarrow> Cache_File (file_new (ci_name i) (Some (ci_attributes i))))"

text \<open>\<open>TryFrom<&CacheItem> for SerializableFSItem\<close> of \<open>models.rs\<close>.\<close>

fun c_item_try_from :: "cache_item \<Rightarrow> fs_model_error + c_item" where
  "c_item_try_from (Cache_Directory d) =
     (case cd_attributes d of
        None \<Rightarrow> Inl Fs_ConversionFailed
      | Some a \<Rightarrow> Inr \<lparr>ci_name = cd_name d, ci_type = CI_Directory, ci_attributes = a\<rparr>)"
| "c_item_try_from (Cache_SymLink l) =
     (case lk_attributes l of
        None \<Rightarrow> Inl Fs_ConversionFailed
      | Some a \<Rightarrow> Inr \<lparr>ci_name = lk_name l, ci_type = CI_SymLink, ci_attributes = a\<rparr>)"
| "c_item_try_from (Cache_File f) =
     (case cf_attributes f of
        None \<Rightarrow> Inl Fs_ConversionFailed
      | Some a \<Rightarrow> Inr \<lparr>ci_name = cf_name f, ci_type = CI_File, ci_attributes = a\<rparr>)"

subsection \<open>Entries\<close>

record cache_entry =
  ce_item :: cache_item
  ce_created_at :: nat
  ce_last_accessed :: nat
  ce_access_count :: nat

definition entry_new :: "nat \<Rightarrow> cache_item \<Rightarrow> cache_entry" where
  "entry_new now item =
     \<lparr>ce_item = item, ce_created_at = now, ce_last_accessed = now, ce_access_count = 0\<rparr>"

fun merge_items :: "page_env \<Rightarrow> cache_item \<Rightarrow> cache_item \<Rightarrow> cache_item outcome" where
  "merge_items env (Cache_File old) (Cache_File new) =
     outcome_bind (file_merge env old new) (\<lambda>f. Ret (Cache_File f))"
| "merge_items env (Cache_Directory old) (Cache_Directory new) =
     Ret (Cache_Directory (directory_merge old new))"
| "merge_items env (Cache_SymLink old) (Cache_SymLink new) = Ret (Cache_SymLink (symlink_merge old new))"
| "merge_items env _ replacer = Ret replacer"

definition entry_update :: "page_env \<Rightarrow> cache_item \<Rightarrow> cache_entry \<Rightarrow> cache_entry outcome" where
  "entry_update env new e = outcome_bind (merge_items env (ce_item e) new) (\<lambda>i. Ret (e\<lparr>ce_item := i\<rparr>))"

text \<open>\<open>entry.last_accessed = Instant::now(); entry.access_count += 1\<close>\<close>

definition entry_touch :: "nat \<Rightarrow> cache_entry \<Rightarrow> cache_entry" where
  "entry_touch now e = e\<lparr>ce_last_accessed := now, ce_access_count := ce_access_count e + 1\<rparr>"

subsection \<open>The cache\<close>

datatype cache_policy = Lru | Lfu

record cache_config =
  cc_enabled :: bool
  cc_use_ttl :: bool
  cc_ttl :: nat
  cc_policy :: cache_policy
  cc_max_size :: nat
  cc_capacity :: nat

definition cache_config_default :: cache_config where
  "cache_config_default = \<lparr>cc_enabled = True, cc_use_ttl = True, cc_ttl = 10, cc_policy = Lru,
     cc_max_size = 100 * 1024 * 1024, cc_capacity = 50\<rparr>"

type_synonym entries = "(pathbuf \<times> cache_entry) list"

record cache =
  ca_entries :: entries
  ca_capacity :: nat
  ca_ttl :: nat
  ca_use_ttl :: bool
  ca_policy :: cache_policy
  ca_max_size :: nat

definition cache_from_config :: "cache_config \<Rightarrow> cache option" where
  "cache_from_config cfg =
     (if \<not> cc_enabled cfg then None
      else Some \<lparr>ca_entries = [], ca_capacity = cc_capacity cfg,
        ca_ttl = cc_ttl cfg * 1000000000, ca_use_ttl = cc_use_ttl cfg, ca_policy = cc_policy cfg,
        ca_max_size = cc_max_size cfg\<rparr>)"

function parent_paths :: "pathbuf \<Rightarrow> pathbuf list" where
  "parent_paths p = (case path_parent p of None \<Rightarrow> [] | Some q \<Rightarrow> q # parent_paths q)"
  by pat_completeness auto

termination
  by (relation "measure length") (auto dest: path_parent_shorter)

declare parent_paths.simps [simp del]

definition remove_keys :: "pathbuf list \<Rightarrow> entries \<Rightarrow> entries" where
  "remove_keys ps es = foldl (\<lambda>m p. AList.delete p m) es ps"

definition cache_invalidate_parents :: "pathbuf \<Rightarrow> cache \<Rightarrow> cache" where
  "cache_invalidate_parents path c = c\<lparr>ca_entries := remove_keys (parent_paths path) (ca_entries c)\<rparr>"

definition expired :: "nat \<Rightarrow> cache \<Rightarrow> cache_entry \<Rightarrow> bool" where
  "expired now c e \<longleftrightarrow> ca_use_ttl c \<and> ce_created_at e + ca_ttl c < now"

definition cache_get :: "nat \<Rightarrow> pathbuf \<Rightarrow> cache \<Rightarrow> cache_item option \<times> cache" where
  "cache_get now path c =
     (case map_of (ca_entries c) path of
        None \<Rightarrow> (None, c)
      | Some e \<Rightarrow>
          if expired now c e then (None, c\<lparr>ca_entries := AList.delete path (ca_entries c)\<rparr>)
          else (Some (ce_item e), c\<lparr>ca_entries := AList.update path (entry_touch now e) (ca_entries c)\<rparr>))"

text \<open>\<open>Iterator::min_by_key\<close>: the first element of least key.\<close>

fun first_min :: "('a \<Rightarrow> nat) \<Rightarrow> 'a list \<Rightarrow> 'a option" where
  "first_min key [] = None"
| "first_min key (x # xs) =
     (case first_min key xs of
        None \<Rightarrow> Some x
      | Some y \<Rightarrow> if key y < key x then Some y else Some x)"

definition policy_key :: "cache_policy \<Rightarrow> cache_entry \<Rightarrow> nat" where
  "policy_key pol e = (case pol of Lru \<Rightarrow> ce_last_accessed e | Lfu \<Rightarrow> ce_access_count e)"

definition select_victim :: "page_env \<Rightarrow> cache \<Rightarrow> entries \<Rightarrow> pathbuf option" where
  "select_victim env c es =
     first_min (\<lambda>p. case map_of es p of None \<Rightarrow> 0 | Some e \<Rightarrow> policy_key (ca_policy c) e)
       (pe_path_order env (map fst es))"

text \<open>\<open>if map.len() >= self.capacity && let Some(victim) = .. { map.remove(&victim); }\<close>\<close>

definition make_room :: "page_env \<Rightarrow> cache \<Rightarrow> entries \<Rightarrow> entries" where
  "make_room env c es =
     (if ca_capacity c \<le> length es
      then (case select_victim env c es of None \<Rightarrow> es | Some v \<Rightarrow> AList.delete v es) else es)"

definition cache_put ::
  "page_env \<Rightarrow> nat \<Rightarrow> pathbuf \<Rightarrow> cache_item \<Rightarrow> bool \<Rightarrow> cache \<Rightarrow> cache outcome" where
  "cache_put env now path item invalidate_attributes c =
     (let insert_new = (\<lambda>es. Ret (c\<lparr>ca_entries :=
            AList.update path (entry_new now item) (make_room env c es)\<rparr>))
      in case map_of (ca_entries c) path of
           Some e \<Rightarrow>
             if \<not> ca_use_ttl c \<or> now \<le> ce_created_at e + ca_ttl c
             then outcome_bind (entry_update env item (entry_touch now e)) (\<lambda>e1.
                    let e2 = (if invalidate_attributes
                              then e1\<lparr>ce_item := cache_item_invalidate (ce_item e1)\<rparr> else e1)
                    in Ret (c\<lparr>ca_entries := AList.update path e2 (ca_entries c)\<rparr>))
             else insert_new (AList.delete path (ca_entries c))
         | None \<Rightarrow> insert_new (ca_entries c))"

definition cache_put_new :: "page_env \<Rightarrow> nat \<Rightarrow> pathbuf \<Rightarrow> cache_item \<Rightarrow> cache \<Rightarrow> cache" where
  "cache_put_new env now path item c =
     (let c1 = cache_invalidate_parents path c
      in c1\<lparr>ca_entries := AList.update path (entry_new now item) (make_room env c1 (ca_entries c1))\<rparr>)"

definition cache_remove :: "pathbuf \<Rightarrow> cache \<Rightarrow> cache_item option \<times> cache" where
  "cache_remove path c =
     (map_option ce_item (map_of (ca_entries c) path),
      cache_invalidate_parents path (c\<lparr>ca_entries := AList.delete path (ca_entries c)\<rparr>))"

definition cache_invalidate :: "pathbuf \<Rightarrow> cache \<Rightarrow> cache" where
  "cache_invalidate path c = c\<lparr>ca_entries := AList.delete path (ca_entries c)\<rparr>"

definition cache_write_file ::
  "page_env \<Rightarrow> nat \<Rightarrow> pathbuf \<Rightarrow> nat \<Rightarrow> bytes \<Rightarrow> bool \<Rightarrow> cache \<Rightarrow> cache outcome" where
  "cache_write_file env now path offset data invalidate_attributes c =
     (case path_file_name path of
        None \<Rightarrow> Ret c
      | Some name \<Rightarrow>
          outcome_bind (file_write_content env offset data (file_new name None)) (\<lambda>f.
            cache_put env now path (Cache_File f) invalidate_attributes c))"

definition cache_put_attr ::
  "page_env \<Rightarrow> nat \<Rightarrow> pathbuf \<Rightarrow> c_attributes \<Rightarrow> cache \<Rightarrow> cache outcome" where
  "cache_put_attr env now path attributes c =
     (case path_file_name path of
        None \<Rightarrow> Ret c
      | Some name \<Rightarrow>
          let item = (case at_kind attributes of
                Directory_T \<Rightarrow> Cache_Directory (directory_new name (Some attributes) None)
              | RegularFile \<Rightarrow> Cache_File (file_new name (Some attributes))
              | Symlink_T \<Rightarrow> Cache_SymLink (symlink_new name (Some attributes) None)
              | _ \<Rightarrow> Cache_File (file_new name (Some attributes)))
          in cache_put env now path item False c)"

end
