(* ===== verification/Cache_Laws.thy ===== *)
theory Cache_Laws
  imports Cache
begin

text \<open>
  Laws of the client's cache. \<open>cache_ok\<close> is its invariant: distinct keys, sound pages and a
  bounded number of entries. The interface the file system of the client relies on when it
  changes the directory structure is the locale \<open>path_cache\<close>, interpreted on the operations of
  \<open>Cache\<close>: what is removed stays away, and a change of a path drops every directory above it.
\<close>

named_theorems cache_simps \<open>what an operation leaves in the cache\<close>

abbreviation look :: "cache \<Rightarrow> pathbuf \<Rightarrow> cache_entry option" where
  "look c p \<equiv> map_of (ca_entries c) p"

subsection \<open>Ancestors\<close>

lemma map_of_remove_keys [cache_simps]:
  "map_of (remove_keys ps es) q = (if q \<in> set ps then None else map_of es q)"
  unfolding remove_keys_def
  by (induction ps arbitrary: es) (auto simp: map_of_alist_delete)

lemma parent_paths_snoc: "c \<noteq> RootDir \<Longrightarrow> parent_paths (p @ [c]) = p # parent_paths p"
  by (subst parent_paths.simps) (simp add: path_parent_snoc)

lemma parent_paths_root [simp]: "parent_paths [RootDir] = []" "parent_paths [] = []"
  by (simp_all add: parent_paths.simps path_parent_def)

lemma in_parent_paths_abs:
  "q \<in> set (parent_paths (abs_path ns)) \<longleftrightarrow> (\<exists>ks m ms. ns = ks @ m # ms \<and> q = abs_path ks)"
proof (induction ns rule: rev_induct)
  case Nil
  then show ?case by (simp add: abs_path_def)
next
  case (snoc x xs)
  have "parent_paths (abs_path (xs @ [x])) = abs_path xs # parent_paths (abs_path xs)"
    using parent_paths_snoc [of "Normal x" "abs_path xs"] by (simp add: abs_path_def)
  moreover have "(\<exists>ks m ms. xs @ [x] = ks @ m # ms \<and> q = abs_path ks)
    \<longleftrightarrow> q = abs_path xs \<or> (\<exists>ks m ms. xs = ks @ m # ms \<and> q = abs_path ks)" (is "?L \<longleftrightarrow> ?R")
  proof
    assume ?L
    then obtain ks m ms where *: "xs @ [x] = ks @ m # ms" "q = abs_path ks" by blast
    then show ?R by (cases ms rule: rev_cases) auto
  next
    assume ?R
    then show ?L by (metis append.assoc append_Cons append_Nil)
  qed
  ultimately show ?case using snoc by simp
qed

subsection \<open>Victims\<close>

lemma first_min_None [simp]: "first_min key xs = None \<longleftrightarrow> xs = []"
  by (cases xs) (auto split: option.splits)

lemma first_min_minimal:
  "first_min key xs = Some y \<Longrightarrow> y \<in> set xs \<and> (\<forall>x \<in> set xs. key y \<le> key x)"
proof (induction xs arbitrary: y)
  case (Cons x xs)
  show ?case
  proof (cases "first_min key xs")
    case None
    with Cons.prems show ?thesis by simp
  next
    case (Some z)
    from Cons.IH [OF Some] Cons.prems Some show ?thesis
      by (fastforce split: if_splits)
  qed
qed simp

lemma select_victim_spec:
  assumes "env_ok env" and "es \<noteq> []" and "distinct (map fst es)"
  shows "\<exists>v e. select_victim env c es = Some v \<and> map_of es v = Some e
    \<and> (\<forall>p e'. map_of es p = Some e' \<longrightarrow> policy_key (ca_policy c) e \<le> policy_key (ca_policy c) e')"
proof -
  let ?key = "\<lambda>p. case map_of es p of None \<Rightarrow> 0 | Some e \<Rightarrow> policy_key (ca_policy c) e"
  have set: "set (pe_path_order env (map fst es)) = fst ` set es"
    using assms(1) by (simp add: env_ok_def)
  then have "pe_path_order env (map fst es) \<noteq> []" using assms(2) by auto
  then obtain v where v: "first_min ?key (pe_path_order env (map fst es)) = Some v" by fastforce
  from first_min_minimal [OF this] set
  have in_es: "v \<in> fst ` set es" and least: "\<forall>p \<in> fst ` set es. ?key v \<le> ?key p" by auto
  from in_es obtain e where e: "map_of es v = Some e" by (metis domD dom_map_of_conv_image_fst)
  have "policy_key (ca_policy c) e \<le> policy_key (ca_policy c) e'" if "map_of es p = Some e'" for p e'
  proof -
    have "p \<in> fst ` set es" using that by (metis domI dom_map_of_conv_image_fst)
    with least e that show ?thesis by force
  qed
  with v e show ?thesis by (auto simp: select_victim_def)
qed

lemma length_AList_delete: "distinct (map fst es) \<Longrightarrow> map_of es v = Some e \<Longrightarrow>
  length (AList.delete v es) = length es - 1"
proof (induction es)
  case (Cons a es)
  show ?case
  proof (cases "fst a = v")
    case True
    with Cons.prems(1) have "AList.delete v es = es" by (auto intro: delete_id)
    with True show ?thesis by (cases a) simp
  next
    case False
    with Cons.prems(2) have "map_of es v = Some e" by (cases a) simp
    moreover from this have "es \<noteq> []" by auto
    ultimately show ?thesis using Cons.IH Cons.prems(1) False by (cases a; cases es) auto
  qed
qed simp

lemma make_room_spec:
  assumes "env_ok env" and "distinct (map fst es)"
  shows "distinct (map fst (make_room env c es))"
    and "map_of (make_room env c es) p = None \<or> map_of (make_room env c es) p = map_of es p"
    and "length es \<le> max 1 (ca_capacity c) \<Longrightarrow> length (make_room env c es) + 1 \<le> max 1 (ca_capacity c)"
proof -
  show "distinct (map fst (make_room env c es))"
    using assms(2) by (auto simp: make_room_def distinct_delete split: option.splits)
  show "map_of (make_room env c es) p = None \<or> map_of (make_room env c es) p = map_of es p"
    by (auto simp: make_room_def map_of_alist_delete split: option.splits)
  assume len: "length es \<le> max 1 (ca_capacity c)"
  show "length (make_room env c es) + 1 \<le> max 1 (ca_capacity c)"
  proof (cases "ca_capacity c \<le> length es \<and> es \<noteq> []")
    case True
    then obtain v e where "select_victim env c es = Some v" "map_of es v = Some e"
      using select_victim_spec [OF assms(1) _ assms(2)] by blast
    with True len length_AList_delete [OF assms(2)] show ?thesis
      by (cases es) (auto simp: make_room_def)
  next
    case False
    with len show ?thesis
      by (auto simp: make_room_def select_victim_def split: option.splits)
  qed
qed


subsection \<open>The invariant\<close>

fun item_ok :: "page_env \<Rightarrow> cache_item \<Rightarrow> bool" where
  "item_ok env (Cache_File f) = pages_ok env (cf_content f)"
| "item_ok env _ = True"

definition entries_ok :: "page_env \<Rightarrow> nat \<Rightarrow> entries \<Rightarrow> bool" where
  "entries_ok env cap es \<longleftrightarrow> distinct (map fst es) \<and> length es \<le> max 1 cap
     \<and> (\<forall>p e. map_of es p = Some e \<longrightarrow> item_ok env (ce_item e))"

definition cache_ok :: "page_env \<Rightarrow> cache \<Rightarrow> bool" where
  "cache_ok env c \<longleftrightarrow> entries_ok env (ca_capacity c) (ca_entries c)"

text \<open>An operation changes only the entries of the cache, and keeps the invariant.\<close>

definition cache_step :: "page_env \<Rightarrow> cache \<Rightarrow> cache \<Rightarrow> bool" where
  "cache_step env c c' \<longleftrightarrow> cache_ok env c' \<and> c' = c\<lparr>ca_entries := ca_entries c'\<rparr>"

lemma cache_step_trans: "cache_step env a b \<Longrightarrow> cache_step env b c \<Longrightarrow> cache_step env a c"
  unfolding cache_step_def by (metis cache.surjective cache.update_convs(1))

lemma cache_stepI: "entries_ok env (ca_capacity c) es \<Longrightarrow> cache_step env c (c\<lparr>ca_entries := es\<rparr>)"
  by (simp add: cache_step_def cache_ok_def)

lemma item_ok_simps [simp]:
  "item_ok env (cache_item_invalidate i) = item_ok env i" "item_ok env (cache_item_rename n i) = item_ok env i"
  "item_ok env (cache_item_of x)"
  by (cases i; simp add: cache_item_of_def file_new_def split: c_item_type.split)+

lemma entries_ok_update:
  assumes "entries_ok env cap es" and "map_of es p \<noteq> None" and "item_ok env (ce_item e)"
  shows "entries_ok env cap (AList.update p e es)"
proof -
  have "p \<in> fst ` set es" using assms(2) by (metis dom_map_of_conv_image_fst domIff)
  then have "length (AList.update p e es) = length es"
    by (induction es) auto
  with assms show ?thesis
    by (auto simp: entries_ok_def map_of_alist_update distinct_update)
qed

lemma entries_ok_insert:
  assumes "distinct (map fst es)" and "length es + 1 \<le> max 1 cap"
    and "\<forall>q e. map_of es q = Some e \<longrightarrow> item_ok env (ce_item e)" and "item_ok env (ce_item e)"
  shows "entries_ok env cap (AList.update p e es)"
  using assms length_AList_update_le [of p e es]
  by (auto simp: entries_ok_def map_of_alist_update distinct_update)

lemma entries_ok_delete: "entries_ok env cap es \<Longrightarrow> entries_ok env cap (AList.delete p es)"
  using length_delete_le [of p es]
  by (auto simp: entries_ok_def map_of_alist_delete distinct_delete)

lemma entries_ok_remove_keys: "entries_ok env cap es \<Longrightarrow> entries_ok env cap (remove_keys ps es)"
  unfolding remove_keys_def by (induction ps arbitrary: es) (auto simp: entries_ok_delete)

lemma entries_ok_insert_room:
  assumes "env_ok env" and "entries_ok env (ca_capacity c) es" and "item_ok env (ce_item e)"
  shows "entries_ok env (ca_capacity c) (AList.update p e (make_room env c es))"
proof (rule entries_ok_insert [OF _ _ _ assms(3)])
  have d: "distinct (map fst es)" using assms(2) by (simp add: entries_ok_def)
  show "distinct (map fst (make_room env c es))" using make_room_spec(1) [OF assms(1) d] .
  show "length (make_room env c es) + 1 \<le> max 1 (ca_capacity c)"
    using make_room_spec(3) [OF assms(1) d] assms(2) by (simp add: entries_ok_def)
  show "\<forall>q e. map_of (make_room env c es) q = Some e \<longrightarrow> item_ok env (ce_item e)"
    using make_room_spec(2) [OF assms(1) d, of c] assms(2) by (metis entries_ok_def option.discI)
qed

lemma merge_items_total:
  assumes "0 < pe_page_size env" and "item_ok env i" and "item_ok env j"
  shows "\<exists>k. merge_items env i j = Ret k \<and> item_ok env k"
proof -
  have "merge_items env i j = Ret j \<or> ?thesis"
    using file_merge_total [OF _ _ assms(1)] assms(2,3)
    by (cases "(env, i, j)" rule: merge_items.cases) (fastforce+)
  with assms(3) show ?thesis by blast
qed

subsection \<open>Operations\<close>

lemma env_ok_page: "env_ok env \<Longrightarrow> 0 < pe_page_size env"
  by (simp add: env_ok_def)

lemma cache_get_step:
  assumes "cache_ok env c"
  shows "cache_step env c (snd (cache_get now p c))"
proof (cases "look c p")
  case None
  then show ?thesis using assms by (simp add: cache_get_def cache_step_def)
next
  case (Some e)
  then have "item_ok env (ce_item (entry_touch now e))"
    using assms by (auto simp: cache_ok_def entries_ok_def entry_touch_def)
  with Some assms show ?thesis
    by (auto simp: cache_get_def cache_ok_def intro!: cache_stepI entries_ok_delete entries_ok_update)
qed

lemma cache_get_item_ok:
  "cache_ok env c \<Longrightarrow> fst (cache_get now p c) = Some i \<Longrightarrow> item_ok env i"
  by (auto simp: cache_get_def cache_ok_def entries_ok_def split: option.splits if_splits)

lemma look_cache_get [cache_simps]:
  "look (snd (cache_get now p c)) q =
    (if q = p then (case look c p of None \<Rightarrow> None
       | Some e \<Rightarrow> if expired now c e then None else Some (entry_touch now e))
     else look c q)"
  by (auto simp: cache_get_def map_of_alist_update map_of_alist_delete split: option.splits)

lemma cache_put_total:
  assumes "env_ok env" and "cache_ok env c" and "item_ok env i"
  shows "\<exists>c'. cache_put env now p i drop_attr c = Ret c' \<and> cache_step env c c'
    \<and> (\<forall>q. q \<noteq> p \<longrightarrow> look c' q = look c q \<or> look c' q = None) \<and> look c' p \<noteq> None"
proof -
  have ins: "\<exists>c'. Ret (c\<lparr>ca_entries := AList.update p (entry_new now i) (make_room env c es)\<rparr>) = Ret c'
      \<and> cache_step env c c'
      \<and> (\<forall>q. q \<noteq> p \<longrightarrow> look c' q = look c q \<or> look c' q = None) \<and> look c' p \<noteq> None"
    if es: "entries_ok env (ca_capacity c) es" "\<And>q. q \<noteq> p \<Longrightarrow> map_of es q = look c q" for es
  proof -
    have d: "distinct (map fst es)" using es(1) by (simp add: entries_ok_def)
    have "item_ok env (ce_item (entry_new now i))" using assms(3) by (simp add: entry_new_def)
    then have "cache_step env c (c\<lparr>ca_entries := AList.update p (entry_new now i) (make_room env c es)\<rparr>)"
      by (intro cache_stepI entries_ok_insert_room assms(1) es(1))
    moreover have "map_of (make_room env c es) q = look c q \<or> map_of (make_room env c es) q = None"
      if "q \<noteq> p" for q
      using make_room_spec(2) [OF assms(1) d, of c q] es(2) [OF that] by auto
    ultimately show ?thesis by (auto simp: map_of_alist_update)
  qed
  have ok: "entries_ok env (ca_capacity c) (ca_entries c)" using assms(2) by (simp add: cache_ok_def)
  show ?thesis
  proof (cases "look c p")
    case None
    with ins [OF ok] show ?thesis by (simp add: cache_put_def)
  next
    case (Some e)
    show ?thesis
    proof (cases "\<not> ca_use_ttl c \<or> now \<le> ce_created_at e + ca_ttl c")
      case True
      have "item_ok env (ce_item (entry_touch now e))"
        using Some ok by (auto simp: entries_ok_def entry_touch_def)
      from merge_items_total [OF env_ok_page [OF assms(1)] this assms(3)] obtain k where
        k: "merge_items env (ce_item (entry_touch now e)) i = Ret k" "item_ok env k" by blast
      let ?e = "(entry_touch now e)\<lparr>ce_item := if drop_attr then cache_item_invalidate k else k\<rparr>"
      have "cache_put env now p i drop_attr c = Ret (c\<lparr>ca_entries := AList.update p ?e (ca_entries c)\<rparr>)"
        using Some True k by (simp add: cache_put_def entry_update_def Let_def)
      moreover have "cache_step env c (c\<lparr>ca_entries := AList.update p ?e (ca_entries c)\<rparr>)"
        using k Some ok by (intro cache_stepI entries_ok_update) auto
      ultimately show ?thesis by (auto simp: map_of_alist_update)
    next
      case False
      then show ?thesis
        using Some ins [OF entries_ok_delete [OF ok, of p]]
        by (simp add: cache_put_def map_of_alist_delete Let_def)
    qed
  qed
qed

lemma cache_put_new_step:
  assumes "env_ok env" and "cache_ok env c" and "item_ok env i"
  shows "cache_step env c (cache_put_new env now p i c)"
proof -
  have "entries_ok env (ca_capacity c) (remove_keys (parent_paths p) (ca_entries c))"
    using assms(2) by (simp add: cache_ok_def entries_ok_remove_keys)
  then have "entries_ok env (ca_capacity c) (AList.update p (entry_new now i)
      (make_room env (cache_invalidate_parents p c) (remove_keys (parent_paths p) (ca_entries c))))"
    using entries_ok_insert_room [OF assms(1), of "cache_invalidate_parents p c"] assms(3)
    by (simp add: cache_invalidate_parents_def entry_new_def)
  then show ?thesis
    unfolding cache_put_new_def Let_def by (simp add: cache_invalidate_parents_def cache_stepI)
qed

lemma look_cache_put_new:
  assumes "env_ok env" and "cache_ok env c"
  shows "look (cache_put_new env now p i c) p = Some (entry_new now i)"
    and "q \<noteq> p \<Longrightarrow> look (cache_put_new env now p i c) q = None
      \<or> look (cache_put_new env now p i c) q = look c q \<and> q \<notin> set (parent_paths p)"
proof -
  let ?es = "remove_keys (parent_paths p) (ca_entries c)"
  have "distinct (map fst ?es)"
    using entries_ok_remove_keys [of env "ca_capacity c" "ca_entries c" "parent_paths p"] assms(2)
    by (simp add: cache_ok_def entries_ok_def)
  from make_room_spec(2) [OF assms(1) this, of "cache_invalidate_parents p c" q]
  show "q \<noteq> p \<Longrightarrow> look (cache_put_new env now p i c) q = None
      \<or> look (cache_put_new env now p i c) q = look c q \<and> q \<notin> set (parent_paths p)"
    by (auto simp: cache_put_new_def Let_def map_of_alist_update cache_invalidate_parents_def
        cache_simps split: if_splits)
qed (simp add: cache_put_new_def Let_def map_of_alist_update)

lemma cache_remove_step: "cache_ok env c \<Longrightarrow> cache_step env c (snd (cache_remove p c))"
  by (auto simp: cache_remove_def cache_invalidate_parents_def cache_ok_def
      intro!: cache_stepI entries_ok_remove_keys entries_ok_delete)

lemma look_cache_remove [cache_simps]:
  "look (snd (cache_remove p c)) q = (if q = p \<or> q \<in> set (parent_paths p) then None else look c q)"
  by (simp add: cache_remove_def cache_invalidate_parents_def cache_simps map_of_alist_delete)

lemma cache_invalidate_step: "cache_ok env c \<Longrightarrow> cache_step env c (cache_invalidate p c)"
  by (auto simp: cache_invalidate_def cache_ok_def intro!: cache_stepI entries_ok_delete)

lemma look_cache_invalidate [cache_simps]:
  "look (cache_invalidate p c) q = (if q = p then None else look c q)"
  by (simp add: cache_invalidate_def map_of_alist_delete)

lemma cache_write_file_total:
  assumes "env_ok env" and "cache_ok env c"
  shows "\<exists>c'. cache_write_file env now p off d drop_attr c = Ret c' \<and> cache_step env c c'
    \<and> (\<forall>q. q \<noteq> p \<longrightarrow> look c' q = look c q \<or> look c' q = None)"
proof (cases "path_file_name p")
  case None
  with assms(2) show ?thesis by (simp add: cache_write_file_def cache_step_def)
next
  case (Some name)
  have "pages_ok env (cf_content (file_new name None))" by (simp add: file_new_def)
  from file_write_total [OF this env_ok_page [OF assms(1)], of off d] obtain f where
    f: "file_write_content env off d (file_new name None) = Ret f" "item_ok env (Cache_File f)"
    by auto
  with cache_put_total [OF assms, of "Cache_File f" now p drop_attr] Some show ?thesis
    by (auto simp: cache_write_file_def)
qed

lemma cache_put_attr_total:
  assumes "env_ok env" and "cache_ok env c"
  shows "\<exists>c'. cache_put_attr env now p a c = Ret c' \<and> cache_step env c c'
    \<and> (\<forall>q. q \<noteq> p \<longrightarrow> look c' q = look c q \<or> look c' q = None)"
proof (cases "path_file_name p")
  case None
  with assms(2) show ?thesis by (simp add: cache_put_attr_def cache_step_def)
next
  case (Some name)
  let ?i = "case at_kind a of
      Directory_T \<Rightarrow> Cache_Directory (directory_new name (Some a) None)
    | RegularFile \<Rightarrow> Cache_File (file_new name (Some a))
    | Symlink_T \<Rightarrow> Cache_SymLink (symlink_new name (Some a) None)
    | _ \<Rightarrow> Cache_File (file_new name (Some a))"
  have "item_ok env ?i" by (cases "at_kind a") (simp_all add: file_new_def)
  with cache_put_total [OF assms this, of now p False] Some show ?thesis
    by (auto simp: cache_put_attr_def Let_def)
qed


subsection \<open>The interface\<close>

text \<open>
  What the client relies on when the directory structure changes. \<open>peek\<close> is the entry a path has,
  expired or not; \<open>above q p\<close> says that \<open>q\<close> is a directory above \<open>p\<close>.
\<close>

locale path_cache =
  fixes ok :: "'c \<Rightarrow> bool"
    and peek :: "'c \<Rightarrow> pathbuf \<Rightarrow> 'i option"
    and above :: "pathbuf \<Rightarrow> pathbuf \<Rightarrow> bool"
    and get :: "nat \<Rightarrow> pathbuf \<Rightarrow> 'c \<Rightarrow> 'i option \<times> 'c"
    and put_new :: "nat \<Rightarrow> pathbuf \<Rightarrow> 'i \<Rightarrow> 'c \<Rightarrow> 'c"
    and remove :: "pathbuf \<Rightarrow> 'c \<Rightarrow> 'i option \<times> 'c"
    and invalidate :: "pathbuf \<Rightarrow> 'c \<Rightarrow> 'c"
  assumes get_peek: "fst (get now p c) = None \<or> fst (get now p c) = peek c p"
    and get_state: "peek (snd (get now p c)) q = None \<or> peek (snd (get now p c)) q = peek c q"
    and put_new_peek: "ok c \<Longrightarrow> q \<noteq> p \<Longrightarrow> peek (put_new now p i c) q = None
      \<or> peek (put_new now p i c) q = peek c q \<and> \<not> above q p"
    and remove_peek: "peek (snd (remove p c)) q = (if q = p \<or> above q p then None else peek c q)"
    and invalidate_peek: "peek (invalidate p c) q = (if q = p then None else peek c q)"
begin

lemma get_absent: "peek c p = None \<Longrightarrow> fst (get now p c) = None"
  using get_peek [of now p c] by auto

lemma get_after_remove:
  "q = p \<or> above q p \<Longrightarrow> fst (get now q (snd (remove p c))) = None"
  by (rule get_absent) (auto simp: remove_peek)

lemma get_above_put_new:
  "ok c \<Longrightarrow> q \<noteq> p \<Longrightarrow> above q p \<Longrightarrow> fst (get now q (put_new t p i c)) = None"
  by (rule get_absent) (use put_new_peek in blast)

lemma get_after_invalidate: "fst (get now p (invalidate p c)) = None"
  by (rule get_absent) (simp add: invalidate_peek)

text \<open>What is absent stays absent under every operation that does not store at that path.\<close>

lemma absent_stays:
  assumes "peek c p = None"
  shows "peek (snd (get now q c)) p = None" and "peek (snd (remove q c)) p = None"
    and "peek (invalidate q c) p = None"
    and "ok c \<Longrightarrow> p \<noteq> q \<Longrightarrow> peek (put_new now q i c) p = None"
  using assms get_state [of now q c p] put_new_peek [of c p q now i]
  by (auto simp: remove_peek invalidate_peek)

end

definition cached_item :: "cache \<Rightarrow> pathbuf \<Rightarrow> cache_item option" where
  "cached_item c p = map_option ce_item (look c p)"

interpretation client_cache: path_cache
  "\<lambda>ec. env_ok (fst ec) \<and> cache_ok (fst ec) (snd ec)"
  "\<lambda>ec. cached_item (snd ec)"
  "\<lambda>q p. q \<in> set (parent_paths p)"
  "\<lambda>now p ec. (fst (cache_get now p (snd ec)), fst ec, snd (cache_get now p (snd ec)))"
  "\<lambda>now p i ec. (fst ec, cache_put_new (fst ec) now p i (snd ec))"
  "\<lambda>p ec. (fst (cache_remove p (snd ec)), fst ec, snd (cache_remove p (snd ec)))"
  "\<lambda>p ec. (fst ec, cache_invalidate p (snd ec))"
proof
  fix now p q :: _ and ec :: "page_env \<times> cache" and i
  show "fst (fst (cache_get now p (snd ec)), fst ec, snd (cache_get now p (snd ec))) = None
    \<or> fst (fst (cache_get now p (snd ec)), fst ec, snd (cache_get now p (snd ec))) = cached_item (snd ec) p"
    by (auto simp: cache_get_def cached_item_def split: option.splits)
  show "cached_item (snd (snd (fst (cache_get now p (snd ec)), fst ec, snd (cache_get now p (snd ec))))) q = None
    \<or> cached_item (snd (snd (fst (cache_get now p (snd ec)), fst ec, snd (cache_get now p (snd ec))))) q
      = cached_item (snd ec) q"
    by (auto simp: cached_item_def cache_simps entry_touch_def split: option.splits)
  show "cached_item (snd (fst ec, cache_put_new (fst ec) now p i (snd ec))) q = None
    \<or> cached_item (snd (fst ec, cache_put_new (fst ec) now p i (snd ec))) q = cached_item (snd ec) q
      \<and> q \<notin> set (parent_paths p)"
    if "env_ok (fst ec) \<and> cache_ok (fst ec) (snd ec)" "q \<noteq> p"
    using look_cache_put_new(2) [of "fst ec" "snd ec" q p now i] that by (auto simp: cached_item_def)
  show "cached_item (snd (snd (fst (cache_remove p (snd ec)), fst ec, snd (cache_remove p (snd ec))))) q
    = (if q = p \<or> q \<in> set (parent_paths p) then None else cached_item (snd ec) q)"
    by (simp add: cached_item_def cache_simps)
  show "cached_item (snd (fst ec, cache_invalidate p (snd ec))) q
    = (if q = p then None else cached_item (snd ec) q)"
    by (simp add: cached_item_def cache_simps)
qed

subsection \<open>Properties\<close>


definition small_cache :: cache where
  "small_cache = \<lparr>ca_entries = [], ca_capacity = 2, ca_ttl = 10, ca_use_ttl = True,
     ca_policy = Lru, ca_max_size = 32\<rparr>"

lemma small_env_ok [simp]: "env_ok small_env"
  by (simp add: env_ok_def)

lemma small_cache_ok [simp]: "cache_ok small_env small_cache"
  by (simp add: cache_ok_def entries_ok_def small_cache_def)


text \<open>
  C31. A hit of the cache is never older than the time to live: what \<open>get\<close> returns is the stored
  item of an entry whose creation lies at most \<open>ttl\<close> back, and a miss leaves no entry for the path.
  No other entry changes.
\<close>

theorem cache_get_fresh:
  "cache_get now p c = (r, c') \<Longrightarrow>
    (case r of
       Some i \<Rightarrow> \<exists>e. look c p = Some e \<and> ce_item e = i \<and> (ca_use_ttl c \<longrightarrow> now \<le> ce_created_at e + ca_ttl c)
         \<and> look c' p = Some (e\<lparr>ce_last_accessed := now, ce_access_count := ce_access_count e + 1\<rparr>)
     | None \<Rightarrow> look c' p = None)
    \<and> (\<forall>q. q \<noteq> p \<longrightarrow> look c' q = look c q)"
  by (auto simp: cache_get_def expired_def entry_touch_def map_of_alist_update map_of_alist_delete
      split: option.splits if_splits)

lemma cache_get_fresh_witness:
  "\<exists>c1 c'. cache_put small_env 3 [RootDir] (Cache_File (file_new ''a'' None)) False small_cache = Ret c1
    \<and> cache_get 14 [RootDir] c1 = (None, c') \<and> look c' [RootDir] = None"
proof -
  let ?c = "small_cache\<lparr>ca_entries := [([RootDir], entry_new 3 (Cache_File (file_new ''a'' None)))]\<rparr>"
  have put: "cache_put small_env 3 [RootDir] (Cache_File (file_new ''a'' None)) False small_cache = Ret ?c"
    by (simp add: cache_put_def small_cache_def make_room_def)
  have get: "cache_get 14 [RootDir] ?c = (None, ?c\<lparr>ca_entries := []\<rparr>)"
    by (simp add: cache_get_def expired_def entry_new_def small_cache_def)
  from cache_get_fresh [OF get] put get show ?thesis by auto
qed

text \<open>
  C32. A change of the directory structure drops the listings it makes stale: after an entry was
  created or removed at a path, no directory above the path is served from the cache, and after a
  removal the path itself is not.
\<close>

theorem structural_change_drops_ancestors:
  assumes "env_ok env" and "cache_ok env c" and "p = abs_path (ks @ m # ms)" and "q = abs_path ks"
  shows "fst (cache_get now q (cache_put_new env t p i c)) = None
    \<and> fst (cache_get now q (snd (cache_remove p c))) = None
    \<and> fst (cache_get now p (snd (cache_remove p c))) = None"
proof -
  have above: "q \<in> set (parent_paths p)" using assms(3,4) in_parent_paths_abs by blast
  have "q \<noteq> p" using assms(3,4) by (simp add: abs_path_def)
  then show ?thesis
    using client_cache.get_above_put_new [of "(env, c)" q p now t i]
      client_cache.get_after_remove [of q p now "(env, c)"]
      client_cache.get_after_remove [of p p now "(env, c)"] above assms(1,2)
    by simp
qed

lemma structural_change_drops_ancestors_witness:
  "fst (cache_get 5 (abs_path [''d'']) (cache_put_new small_env 4 (abs_path [''d'', ''f''])
     (Cache_File (file_new ''f'' None)) small_cache)) = None"
  using structural_change_drops_ancestors [OF small_env_ok small_cache_ok, of _ "[''d'']" "''f''" "[]"]
  by simp

text \<open>
  Eviction follows the policy: when the cache is full, the entry that makes room is one of
  least last access (\<open>Lru\<close>) or of least access count (\<open>Lfu\<close>), and every other entry stays.
\<close>

lemma eviction_takes_minimum:
  assumes "env_ok env" and "distinct (map fst es)" and "es \<noteq> []" and "ca_capacity c \<le> length es"
  shows "\<exists>v e. map_of es v = Some e
    \<and> (\<forall>p e'. map_of es p = Some e' \<longrightarrow> policy_key (ca_policy c) e \<le> policy_key (ca_policy c) e')
    \<and> map_of (make_room env c es) = (map_of es)(v := None)"
  using select_victim_spec [OF assms(1,3,2), of c] assms(4)
  by (auto simp: make_room_def map_of_alist_delete fun_eq_iff)

lemma eviction_takes_minimum_witness:
  "\<exists>v. map_of (make_room small_env (small_cache\<lparr>ca_capacity := 1\<rparr>)
      [([RootDir], entry_new 3 (Cache_File (file_new ''a'' None)))]) v = None"
  using eviction_takes_minimum [OF small_env_ok, of "[([RootDir], entry_new 3 (Cache_File (file_new ''a'' None)))]"
      "small_cache\<lparr>ca_capacity := 1\<rparr>"]
  by auto

end
