(* ===== verification/Client_FS.thy ===== *)
theory Client_FS
  imports RW_Buffer Cache_Laws
begin

text \<open>
  The file system of the client: \<open>client/src/fs_model.rs\<close>. The trait \<open>RemoteStorage\<close>
  (\<open>client/src/network.rs\<close>) is a record of functions on the state \<open>'w\<close> of the world behind it;
  \<open>Network\<close> has the implementation that talks to the server. A method of \<open>FileSystem\<close> is a
  function on the state of the client: it returns \<open>Panic\<close>, an \<open>FsModelError\<close> or a value, with the
  state it leaves, which keeps the effects of the steps before an error.

  \<^item> \<open>Instant::now()\<close> is \<open>rm_now\<close> of the world: time passes while the client waits for the world,
    a step between two calls takes none.
  \<^item> A path is the list of its components and its string is the canonical one: the paths the
    kernel hands to the client are absolute and have no empty or dot pieces.
  \<^item> Every method holds its locks only during one step of the model; the methods are sequential.
\<close>

subsection \<open>\<open>RemoteStorage\<close>\<close>

type_synonym ('w, 'a) net = "'w \<Rightarrow> (network_error + 'a) \<times> 'w"

record 'w remote =
  rm_now :: "'w \<Rightarrow> nat"
  rm_get_attributes :: "string \<Rightarrow> ('w, c_attributes) net"
  rm_set_attributes :: "string \<Rightarrow> c_set_attr \<Rightarrow> ('w, c_attributes) net"
  rm_get_x_attributes :: "string \<Rightarrow> string \<Rightarrow> ('w, bytes option) net"
  rm_set_x_attributes :: "string \<Rightarrow> string \<Rightarrow> bytes \<Rightarrow> ('w, unit) net"
  rm_list_x_attributes :: "string \<Rightarrow> ('w, string list) net"
  rm_remove_x_attributes :: "string \<Rightarrow> string \<Rightarrow> ('w, unit) net"
  rm_get_permissions :: "string \<Rightarrow> u32 \<Rightarrow> ('w, unit) net"
  rm_get_stats :: "string \<Rightarrow> ('w, stats) net"
  rm_list_path :: "string \<Rightarrow> ('w, c_item list) net"
  rm_read_file :: "string \<Rightarrow> nat \<Rightarrow> nat \<Rightarrow> ('w, bytes) net"
  rm_write_file :: "string \<Rightarrow> nat \<Rightarrow> bytes \<Rightarrow> ('w, c_attributes) net"
  rm_mkdir :: "string \<Rightarrow> ('w, c_attributes) net"
  rm_rename :: "string \<Rightarrow> string \<Rightarrow> u32 \<Rightarrow> ('w, unit) net"
  rm_remove :: "string \<Rightarrow> ('w, unit) net"
  rm_create_symlink :: "string \<Rightarrow> string \<Rightarrow> ('w, c_attributes) net"
  rm_read_symlink :: "string \<Rightarrow> ('w, string) net"

subsection \<open>State\<close>

record 'w client =
  cw_world :: 'w
  cw_next_fh :: u64
  cw_handlers :: "u64 \<Rightarrow> pathbuf option"
  cw_read_buffer :: read_buffer
  cw_write_buffer :: write_buffer
  cw_cache :: "cache option"

text \<open>What does not change after \<open>FileSystem::new\<close>.\<close>

record 'w fs_conf =
  fc_remote :: "'w remote"
  fc_env :: page_env
  fc_xattributes_enabled :: bool

record fs_config =
  fg_page_size :: nat
  fg_buffer_size :: nat
  fg_xattr_enable :: bool
  fg_cache :: cache_config

text \<open>\<open>FileSystem::new\<close>; a page size of zero panics in the division. The iteration orders of the
  hash maps are not the code's choice.\<close>

definition fs_new ::
  "'w remote \<Rightarrow> fs_config \<Rightarrow> (nat list \<Rightarrow> nat list) \<Rightarrow> (pathbuf list \<Rightarrow> pathbuf list)
   \<Rightarrow> u64 \<Rightarrow> 'w \<Rightarrow> ('w fs_conf \<times> 'w client) outcome" where
  "fs_new rc config page_order path_order fh w =
     (if fg_page_size config = 0 then Panic
      else Ret
        (\<lparr>fc_remote = rc,
          fc_env = \<lparr>pe_page_size = fg_page_size config,
                    pe_max_pages = cc_max_size (fg_cache config) div fg_page_size config,
                    pe_page_order = page_order, pe_path_order = path_order\<rparr>,
          fc_xattributes_enabled = fg_xattr_enable config\<rparr>,
         \<lparr>cw_world = w, cw_next_fh = fh, cw_handlers = (\<lambda>_. None),
          cw_read_buffer = rb_new (rm_now rc w) (fg_buffer_size config),
          cw_write_buffer = wb_new (fg_buffer_size config),
          cw_cache = cache_from_config (fg_cache config)\<rparr>))"

type_synonym ('w, 'a) cm = "'w client \<Rightarrow> (fs_model_error + 'a) outcome \<times> 'w client"

definition cm_return :: "'a \<Rightarrow> ('w, 'a) cm" where
  "cm_return x s = (Ret (Inr x), s)"

definition cm_fail :: "fs_model_error \<Rightarrow> ('w, 'a) cm" where
  "cm_fail e s = (Ret (Inl e), s)"

definition cm_bind :: "('w, 'a) cm \<Rightarrow> ('a \<Rightarrow> ('w, 'b) cm) \<Rightarrow> ('w, 'b) cm" where
  "cm_bind m f s =
     (case m s of
        (Panic, s') \<Rightarrow> (Panic, s')
      | (Ret (Inl e), s') \<Rightarrow> (Ret (Inl e), s')
      | (Ret (Inr x), s') \<Rightarrow> f x s')"

text \<open>A call whose result is inspected instead of propagated by \<open>?\<close>.\<close>

definition cm_try :: "('w, 'a) cm \<Rightarrow> ('w, fs_model_error + 'a) cm" where
  "cm_try m s = (case m s of (Panic, s') \<Rightarrow> (Panic, s') | (Ret r, s') \<Rightarrow> (Ret (Inr r), s'))"

definition cm_net :: "('w, 'a) net \<Rightarrow> ('w, 'a) cm" where
  "cm_net m s =
     (case m (cw_world s) of
        (Inl e, w) \<Rightarrow> (Ret (Inl (Fs_ServerError e)), s\<lparr>cw_world := w\<rparr>)
      | (Inr x, w) \<Rightarrow> (Ret (Inr x), s\<lparr>cw_world := w\<rparr>))"

definition cm_now :: "'w fs_conf \<Rightarrow> 'w client \<Rightarrow> nat" where
  "cm_now conf s = rm_now (fc_remote conf) (cw_world s)"

definition cm_outcome :: "'a outcome \<Rightarrow> ('w, 'a) cm" where
  "cm_outcome r s = (case r of Panic \<Rightarrow> (Panic, s) | Ret x \<Rightarrow> (Ret (Inr x), s))"

text \<open>\<open>if let Some(cache) = &self.cache\<close>: a lookup, and an update.\<close>

definition cm_cache_get :: "'w fs_conf \<Rightarrow> pathbuf \<Rightarrow> ('w, cache_item option) cm" where
  "cm_cache_get conf path s =
     (case cw_cache s of
        None \<Rightarrow> (Ret (Inr None), s)
      | Some c \<Rightarrow> let (r, c') = cache_get (cm_now conf s) path c in (Ret (Inr r), s\<lparr>cw_cache := Some c'\<rparr>))"

definition cm_cache :: "'w fs_conf \<Rightarrow> (nat \<Rightarrow> cache \<Rightarrow> cache outcome) \<Rightarrow> ('w, unit) cm" where
  "cm_cache conf f s =
     (case cw_cache s of
        None \<Rightarrow> (Ret (Inr ()), s)
      | Some c \<Rightarrow> (case f (cm_now conf s) c of
            Panic \<Rightarrow> (Panic, s) | Ret c' \<Rightarrow> (Ret (Inr ()), s\<lparr>cw_cache := Some c'\<rparr>)))"

lemmas cm_monad = cm_return_def cm_fail_def cm_bind_def

subsection \<open>Paths\<close>

text \<open>\<open>Path::to_str\<close>: valid UTF-8, as \<open>core::str::from_utf8\<close> checks it.\<close>

definition utf8_tail :: "nat \<Rightarrow> bool" where
  "utf8_tail b \<longleftrightarrow> 128 \<le> b \<and> b \<le> 191"

fun utf8_bytes :: "nat list \<Rightarrow> bool" where
  "utf8_bytes [] = True"
| "utf8_bytes (a # as) =
     (if a < 128 then utf8_bytes as
      else if 194 \<le> a \<and> a \<le> 223 then
        (case as of b # bs \<Rightarrow> utf8_tail b \<and> utf8_bytes bs | _ \<Rightarrow> False)
      else if 224 \<le> a \<and> a \<le> 239 then
        (case as of b # c # cs \<Rightarrow> utf8_tail b \<and> utf8_tail c \<and> (a = 224 \<longrightarrow> 160 \<le> b)
             \<and> (a = 237 \<longrightarrow> b \<le> 159) \<and> utf8_bytes cs | _ \<Rightarrow> False)
      else if 240 \<le> a \<and> a \<le> 244 then
        (case as of b # c # d # ds \<Rightarrow> utf8_tail b \<and> utf8_tail c \<and> utf8_tail d
             \<and> (a = 240 \<longrightarrow> 144 \<le> b) \<and> (a = 244 \<longrightarrow> b \<le> 143) \<and> utf8_bytes ds | _ \<Rightarrow> False)
      else False)"

definition utf8 :: "string \<Rightarrow> bool" where
  "utf8 s \<longleftrightarrow> utf8_bytes (map of_char s)"

definition path_to_string :: "pathbuf \<Rightarrow> fs_model_error + string" where
  "path_to_string path =
     (let s = path_render path in if utf8 s then Inr s else Inl Fs_InvalidInput)"

definition cm_path :: "pathbuf \<Rightarrow> ('w, string) cm" where
  "cm_path path s = (Ret (path_to_string path), s)"

definition get_parent_path :: "pathbuf \<Rightarrow> pathbuf" where
  "get_parent_path path =
     (if path = [RootDir] then [RootDir]
      else if path = [] then [RootDir]
      else (case path_parent path of
              Some parent \<Rightarrow> if parent = [] \<or> parent = [CurDir] then [RootDir] else parent
            | None \<Rightarrow> [RootDir]))"

subsection \<open>Handles\<close>

definition fs_get_path_from_fh :: "u64 \<Rightarrow> ('w, pathbuf option) cm" where
  "fs_get_path_from_fh fh s = (Ret (Inr (cw_handlers s fh)), s)"

definition fs_open :: "pathbuf \<Rightarrow> flags \<Rightarrow> ('w, u64) cm" where
  "fs_open path flg s =
     (let fh = cw_next_fh s
      in (Ret (Inr fh), s\<lparr>cw_next_fh := fh + 1, cw_handlers := (cw_handlers s)(fh \<mapsto> path)\<rparr>))"

definition fs_release :: "pathbuf \<Rightarrow> flags \<Rightarrow> u64 \<Rightarrow> ('w, unit) cm" where
  "fs_release path flg fh s =
     (Ret (Inr ()), s\<lparr>cw_handlers := (cw_handlers s)(fh := None)\<rparr>)"

subsection \<open>Attributes\<close>

definition fs_get_attributes :: "'w fs_conf \<Rightarrow> pathbuf \<Rightarrow> ('w, c_attributes) cm" where
  "fs_get_attributes conf path =
     cm_bind (cm_cache_get conf path) (\<lambda>item.
       case Option.bind item cache_item_attributes of
         Some attr \<Rightarrow> cm_return attr
       | None \<Rightarrow>
           cm_bind (cm_path path) (\<lambda>path_str.
           cm_bind (cm_net (rm_get_attributes (fc_remote conf) path_str)) (\<lambda>attributes.
           cm_bind (cm_cache conf (\<lambda>now. cache_put_attr (fc_env conf) now path attributes)) (\<lambda>_.
           cm_return attributes))))"

definition fs_set_attributes ::
  "'w fs_conf \<Rightarrow> u32 \<Rightarrow> u32 \<Rightarrow> pathbuf \<Rightarrow> c_set_attr \<Rightarrow> ('w, c_attributes) cm" where
  "fs_set_attributes conf uid gid path new_attributes =
     cm_bind (cm_path path) (\<lambda>path_str.
     cm_bind (cm_net (rm_set_attributes (fc_remote conf) path_str new_attributes)) (\<lambda>attributes.
     cm_bind (cm_cache conf (\<lambda>now. cache_put_attr (fc_env conf) now path attributes)) (\<lambda>_.
     cm_return attributes)))"

definition fs_get_permissions :: "'w fs_conf \<Rightarrow> pathbuf \<Rightarrow> u32 \<Rightarrow> ('w, unit) cm" where
  "fs_get_permissions conf path m =
     cm_bind (cm_path path) (\<lambda>path_str. cm_net (rm_get_permissions (fc_remote conf) path_str m))"

definition fs_get_fs_stats :: "'w fs_conf \<Rightarrow> pathbuf \<Rightarrow> ('w, stats) cm" where
  "fs_get_fs_stats conf path =
     cm_bind (cm_path path) (\<lambda>path_str. cm_net (rm_get_stats (fc_remote conf) path_str))"

definition fs_get_x_attributes :: "'w fs_conf \<Rightarrow> pathbuf \<Rightarrow> string \<Rightarrow> ('w, bytes) cm" where
  "fs_get_x_attributes conf path name =
     cm_bind (cm_path path) (\<lambda>path_str.
     cm_bind (cm_net (rm_get_x_attributes (fc_remote conf) path_str name)) (\<lambda>xattributes.
     case xattributes of Some xattr \<Rightarrow> cm_return xattr | None \<Rightarrow> cm_fail Fs_NoData))"

definition fs_set_x_attributes ::
  "'w fs_conf \<Rightarrow> pathbuf \<Rightarrow> string \<Rightarrow> bytes \<Rightarrow> u32 \<Rightarrow> u32 \<Rightarrow> ('w, unit) cm" where
  "fs_set_x_attributes conf path name xattributes flg position =
     cm_bind (cm_path path) (\<lambda>path_str.
       cm_net (rm_set_x_attributes (fc_remote conf) path_str name xattributes))"

definition fs_list_x_attribute :: "'w fs_conf \<Rightarrow> pathbuf \<Rightarrow> ('w, string list) cm" where
  "fs_list_x_attribute conf path =
     cm_bind (cm_path path) (\<lambda>path_str. cm_net (rm_list_x_attributes (fc_remote conf) path_str))"

definition fs_remove_x_attributes :: "'w fs_conf \<Rightarrow> pathbuf \<Rightarrow> string \<Rightarrow> ('w, unit) cm" where
  "fs_remove_x_attributes conf path name =
     cm_bind (cm_path path) (\<lambda>path_str. cm_net (rm_remove_x_attributes (fc_remote conf) path_str name))"


subsection \<open>Directories\<close>

definition fs_list_path :: "'w fs_conf \<Rightarrow> pathbuf \<Rightarrow> ('w, c_item list) cm" where
  "fs_list_path conf path =
     cm_bind (cm_path path) (\<lambda>path_str. cm_net (rm_list_path (fc_remote conf) path_str))"

text \<open>The loop over the cached children; \<open>None\<close> when one of them is missing.\<close>

fun fs_cached_children :: "'w fs_conf \<Rightarrow> pathbuf \<Rightarrow> string list \<Rightarrow> ('w, c_item list option) cm" where
  "fs_cached_children conf path [] = cm_return (Some [])"
| "fs_cached_children conf path (child # children) =
     cm_bind (cm_cache_get conf (path_join path child)) (\<lambda>item.
       case item of
         None \<Rightarrow> cm_return None
       | Some i \<Rightarrow> (case c_item_try_from i of
             Inl _ \<Rightarrow> cm_return None
           | Inr x \<Rightarrow> cm_bind (fs_cached_children conf path children)
                        (\<lambda>rest. cm_return (map_option (Cons x) rest))))"

fun fs_put_children :: "'w fs_conf \<Rightarrow> pathbuf \<Rightarrow> c_item list \<Rightarrow> ('w, unit) cm" where
  "fs_put_children conf path [] = cm_return ()"
| "fs_put_children conf path (e # es) =
     cm_bind (cm_cache conf (\<lambda>now.
         cache_put (fc_env conf) now (path_join path (ci_name e)) (cache_item_of e) False))
       (\<lambda>_. fs_put_children conf path es)"

text \<open>The entries \<open>.\<close> and \<open>..\<close> in front of the children.\<close>

definition fs_with_dots :: "'w fs_conf \<Rightarrow> pathbuf \<Rightarrow> c_item list \<Rightarrow> ('w, c_item list) cm" where
  "fs_with_dots conf path children =
     cm_bind (fs_get_attributes conf path) (\<lambda>a.
     cm_bind (fs_get_attributes conf (get_parent_path path)) (\<lambda>b.
     cm_return (\<lparr>ci_name = ''.'', ci_type = CI_Directory, ci_attributes = a\<rparr>
       # \<lparr>ci_name = ''..'', ci_type = CI_Directory, ci_attributes = b\<rparr> # children)))"

definition fs_readdir :: "'w fs_conf \<Rightarrow> pathbuf \<Rightarrow> ('w, c_item list) cm" where
  "fs_readdir conf path =
     cm_bind (cm_cache_get conf path) (\<lambda>item.
     cm_bind (case item of
         Some (Cache_Directory dir) \<Rightarrow>
           (case cd_children dir of
              Some children \<Rightarrow> fs_cached_children conf path children
            | None \<Rightarrow> cm_return None)
       | _ \<Rightarrow> cm_return None) (\<lambda>hit.
     case hit of
       Some children \<Rightarrow> fs_with_dots conf path children
     | None \<Rightarrow>
         cm_bind (fs_list_path conf path) (\<lambda>elements.
         cm_bind (fs_get_attributes conf path) (\<lambda>attr.
         let dir = directory_new (case path_file_name path of Some n \<Rightarrow> n | None \<Rightarrow> '''')
               (Some attr) (Some (map ci_name elements))
         in cm_bind (cm_cache conf (\<lambda>now. cache_put (fc_env conf) now path (Cache_Directory dir) False))
              (\<lambda>_.
            cm_bind (fs_put_children conf path elements) (\<lambda>_.
            fs_with_dots conf path elements))))))"

definition fs_mkdir :: "'w fs_conf \<Rightarrow> pathbuf \<Rightarrow> ('w, c_attributes) cm" where
  "fs_mkdir conf path =
     cm_bind (cm_path path) (\<lambda>path_str.
     cm_bind (cm_net (rm_mkdir (fc_remote conf) path_str)) (\<lambda>attr.
     cm_bind (case path_file_name path of
         Some name \<Rightarrow> cm_cache conf (\<lambda>now c. Ret (cache_put_new (fc_env conf) now path
             (Cache_Directory (directory_new name (Some attr) (Some []))) c))
       | None \<Rightarrow> cm_return ()) (\<lambda>_.
     cm_return attr)))"

definition C_NOREPLACE :: u32 where "C_NOREPLACE = 1"
definition C_EXCHANGE :: u32 where "C_EXCHANGE = 2"
definition C_WHITEOUT :: u32 where "C_WHITEOUT = 4"

definition c_flags_truncate :: "u32 \<Rightarrow> u32" where
  "c_flags_truncate bits = Bit_Operations.and bits
     (Bit_Operations.or C_NOREPLACE (Bit_Operations.or C_EXCHANGE C_WHITEOUT))"

definition c_flags_contains :: "u32 \<Rightarrow> u32 \<Rightarrow> bool" where
  "c_flags_contains f g \<longleftrightarrow> Bit_Operations.and f g = g"

definition fs_rename :: "'w fs_conf \<Rightarrow> pathbuf \<Rightarrow> pathbuf \<Rightarrow> u32 \<Rightarrow> ('w, unit) cm" where
  "fs_rename conf old_path new_path flg =
     cm_bind (cm_path old_path) (\<lambda>old_path_str.
     cm_bind (cm_path new_path) (\<lambda>new_path_str.
     cm_bind (cm_net (rm_rename (fc_remote conf) old_path_str new_path_str flg)) (\<lambda>_.
     cm_cache conf (\<lambda>now c.
       if c_flags_contains flg C_EXCHANGE
       then Ret (snd (cache_remove new_path (snd (cache_remove old_path c))))
       else (let (old_item, c1) = cache_remove old_path c
             in case (path_file_name new_path, old_item) of
                  (Some name, Some item) \<Rightarrow>
                    Ret (cache_put_new (fc_env conf) now new_path (cache_item_rename name item) c1)
                | _ \<Rightarrow> Ret c1)))))"

definition fs_remove :: "'w fs_conf \<Rightarrow> pathbuf \<Rightarrow> ('w, unit) cm" where
  "fs_remove conf path =
     cm_bind (cm_path path) (\<lambda>path_str.
     cm_bind (cm_net (rm_remove (fc_remote conf) path_str)) (\<lambda>_.
     cm_cache conf (\<lambda>now c. Ret (snd (cache_remove path c)))))"

definition fs_cache_invalidate :: "'w fs_conf \<Rightarrow> pathbuf \<Rightarrow> ('w, unit) cm" where
  "fs_cache_invalidate conf path = cm_cache conf (\<lambda>now c. Ret (cache_invalidate path c))"

subsection \<open>Links\<close>

definition fs_create_symlink :: "'w fs_conf \<Rightarrow> pathbuf \<Rightarrow> string \<Rightarrow> ('w, c_attributes) cm" where
  "fs_create_symlink conf path target =
     cm_bind (cm_path path) (\<lambda>path_str.
     cm_bind (cm_net (rm_create_symlink (fc_remote conf) path_str target)) (\<lambda>attributes.
     cm_bind (case path_file_name path of
         Some name \<Rightarrow> cm_cache conf (\<lambda>now c. Ret (cache_put_new (fc_env conf) now path
             (Cache_SymLink (symlink_new name (Some attributes) (Some target))) c))
       | None \<Rightarrow> cm_return ()) (\<lambda>_.
     cm_return attributes)))"

definition fs_read_symlink :: "'w fs_conf \<Rightarrow> pathbuf \<Rightarrow> ('w, string) cm" where
  "fs_read_symlink conf path =
     cm_bind (cm_cache_get conf path) (\<lambda>item.
       case (case item of Some (Cache_SymLink l) \<Rightarrow> lk_target l | _ \<Rightarrow> None) of
         Some target \<Rightarrow> cm_return target
       | None \<Rightarrow>
           cm_bind (cm_path path) (\<lambda>path_str.
           cm_bind (cm_net (rm_read_symlink (fc_remote conf) path_str)) (\<lambda>target.
           cm_bind (case path_file_name path of
               Some name \<Rightarrow> cm_cache conf (\<lambda>now. cache_put (fc_env conf) now path
                   (Cache_SymLink (symlink_new name None (Some target))) False)
             | None \<Rightarrow> cm_return ()) (\<lambda>_.
           cm_return target))))"

subsection \<open>File contents\<close>

definition fs_create_file ::
  "'w fs_conf \<Rightarrow> pathbuf \<Rightarrow> file_type \<Rightarrow> nat \<Rightarrow> bytes \<Rightarrow> ('w, c_attributes) cm" where
  "fs_create_file conf path kind offset data =
     cm_bind (cm_path path) (\<lambda>path_str.
     cm_bind (cm_net (rm_write_file (fc_remote conf) path_str offset data)) (\<lambda>attr.
     cm_bind (case path_file_name path of
         Some name \<Rightarrow> cm_cache conf (\<lambda>now c. Ret (cache_put_new (fc_env conf) now path
             (Cache_File (file_new name (Some attr))) c))
       | None \<Rightarrow> cm_return ()) (\<lambda>_.
     cm_return attr)))"

text \<open>Bytes of the read buffer, and of the cached file.\<close>

definition cm_buffer_read :: "'w fs_conf \<Rightarrow> pathbuf \<Rightarrow> nat \<Rightarrow> nat \<Rightarrow> ('w, bytes) cm" where
  "cm_buffer_read conf path offset sz s =
     (Ret (Inr (rb_read (cm_now conf s) (cw_read_buffer s) path offset sz)), s)"

definition cm_buffer_fill :: "'w fs_conf \<Rightarrow> pathbuf \<Rightarrow> nat \<Rightarrow> bytes \<Rightarrow> ('w, unit) cm" where
  "cm_buffer_fill conf path offset data s =
     (Ret (Inr ()), s\<lparr>cw_read_buffer := rb_fill (cm_now conf s) path offset data (cw_read_buffer s)\<rparr>)"

definition cm_cached_bytes :: "'w fs_conf \<Rightarrow> pathbuf \<Rightarrow> nat \<Rightarrow> nat \<Rightarrow> ('w, bytes) cm" where
  "cm_cached_bytes conf path offset sz =
     cm_bind (cm_cache_get conf path) (\<lambda>item.
       case item of
         Some (Cache_File f) \<Rightarrow> cm_outcome (file_read (fc_env conf) f offset sz)
       | _ \<Rightarrow> cm_return [])"

definition fs_read_remote :: "'w fs_conf \<Rightarrow> pathbuf \<Rightarrow> nat \<Rightarrow> nat \<Rightarrow> ('w, bytes) cm" where
  "fs_read_remote conf path offset sz =
     cm_bind (cm_path path) (\<lambda>path_str.
     cm_bind (\<lambda>s. cm_net (rm_read_file (fc_remote conf) path_str offset (rb_capacity (cw_read_buffer s))) s)
       (\<lambda>data.
     cm_bind (cm_buffer_fill conf path offset data) (\<lambda>_.
     cm_bind (cm_cache conf (\<lambda>now. cache_write_file (fc_env conf) now path offset data False)) (\<lambda>_.
     cm_return (take (min (length data) sz) data)))))"

definition fs_read_file :: "'w fs_conf \<Rightarrow> pathbuf \<Rightarrow> nat \<Rightarrow> nat \<Rightarrow> ('w, bytes) cm" where
  "fs_read_file conf path offset sz =
     cm_bind (cm_try (fs_get_attributes conf path)) (\<lambda>r.
       if (case r of Inr attr \<Rightarrow> unat (at_size attr) \<le> offset | Inl _ \<Rightarrow> False)
       then cm_return []
       else cm_bind (cm_cached_bytes conf path offset sz) (\<lambda>data.
         if data \<noteq> [] then cm_return data
         else cm_bind (cm_buffer_read conf path offset sz) (\<lambda>data.
           if data \<noteq> []
           then cm_bind (cm_cache conf (\<lambda>now. cache_write_file (fc_env conf) now path offset data False))
                  (\<lambda>_. cm_return data)
           else fs_read_remote conf path offset sz)))"

text \<open>The part of \<open>write_file\<close> that runs under the lock of the write buffer: the bytes it took,
  what has to be sent, and the buffer it leaves.\<close>

type_synonym upload = "pathbuf \<times> nat \<times> bytes"

definition write_stage ::
  "pathbuf \<Rightarrow> nat \<Rightarrow> bytes \<Rightarrow> write_buffer \<Rightarrow> nat \<times> upload list \<times> write_buffer" where
  "write_stage path offset data b =
     (let (first_up, b1) =
            (if \<not> wb_is_appending b path offset
             then (let (p, off, d) = wb_get_content b
                   in (if d \<noteq> [] then [(p, off, d)] else [], wb_clean b))
             else ([], b));
          (n, b2) = wb_write path offset data b1;
          (second, b3) =
            (if wb_is_full b2 then ([wb_get_content b2], wb_clean b2) else ([], b2))
      in (n, first_up @ second, b3))"

definition fs_upload :: "'w fs_conf \<Rightarrow> upload \<Rightarrow> ('w, unit) cm" where
  "fs_upload conf u =
     (case u of (path, offset, data) \<Rightarrow>
       cm_bind (cm_path path) (\<lambda>path_str.
       cm_bind (cm_net (rm_write_file (fc_remote conf) path_str offset data)) (\<lambda>_.
       cm_cache conf (\<lambda>now. cache_write_file (fc_env conf) now path offset data True))))"

fun fs_upload_all :: "'w fs_conf \<Rightarrow> upload list \<Rightarrow> ('w, unit) cm" where
  "fs_upload_all conf [] = cm_return ()"
| "fs_upload_all conf (u # us) = cm_bind (fs_upload conf u) (\<lambda>_. fs_upload_all conf us)"

definition fs_write_file ::
  "'w fs_conf \<Rightarrow> pathbuf \<Rightarrow> flags \<Rightarrow> nat \<Rightarrow> bytes \<Rightarrow> ('w, nat) cm" where
  "fs_write_file conf path flg offset data s =
     (let (n, uploads, b) = write_stage path offset data (cw_write_buffer s)
      in cm_bind (fs_upload_all conf uploads) (\<lambda>_. cm_return n) (s\<lparr>cw_write_buffer := b\<rparr>))"

definition fs_flush_write_buffer :: "'w fs_conf \<Rightarrow> ('w, unit) cm" where
  "fs_flush_write_buffer conf s =
     (let (path, offset, data) = wb_get_content (cw_write_buffer s)
      in if data = [] then (Ret (Inr ()), s)
         else fs_upload conf (path, offset, data)
                (s\<lparr>cw_write_buffer := wb_clean (cw_write_buffer s)\<rparr>))"

end
