(* ===== verification/Client_FS_Laws.thy ===== *)
theory Client_FS_Laws
  imports Client_FS
begin

text \<open>
  What the file system of the client guarantees. The contract it has with the storage behind it
  is the locale \<open>remote_file\<close>: one file of the remote, seen through the path string of its
  requests. Under it, buffered writes refine writes at an offset (\<open>upload_step\<close>,
  \<open>write_step\<close>, \<open>flush_step\<close>) and reads without a cache return bytes of the file
  (\<open>read_step\<close>). The locale is interpreted on the server in \<open>Client_Server\<close>.
\<close>

subsection \<open>Byte sequences\<close>

lemma write_at_Nil [simp]: "write_at c off [] = c"
  by (simp add: write_at_def)

lemma write_at_append: "write_at (write_at c off a) (off + length a) b = write_at c off (a @ b)"
proof (cases "a = [] \<or> b = []")
  case True
  then show ?thesis by auto
next
  case False
  show ?thesis
  proof (rule nth_equalityI)
    show len: "length (write_at (write_at c off a) (off + length a) b) = length (write_at c off (a @ b))"
      using False by (simp add: slice_simps)
    fix i assume i: "i < length (write_at (write_at c off a) (off + length a) b)"
    then have i2: "i < length (write_at c off (a @ b))" using len by simp
    show "write_at (write_at c off a) (off + length a) b ! i = write_at c off (a @ b) ! i"
    proof (cases "off + length a \<le> i \<and> i < off + length a + length b")
      case True
      then have "\<not> i - off < length a" by linarith
      with True show ?thesis using nth_write_at [OF i] nth_write_at [OF i2]
        by (simp add: nth_append add.commute)
    next
      case no_b: False
      show ?thesis
      proof (cases "i < length (write_at c off a)")
        case True
        then show ?thesis
          using no_b nth_write_at [OF i] nth_write_at [OF i2] nth_write_at [OF True]
          by (auto simp: nth_append)
      next
        case no_a: False
        then have "off + length a \<le> i" using False by (simp add: slice_simps)
        with no_b i no_a have False by (auto simp: slice_simps split: if_splits)
        then show ?thesis ..
      qed
    qed
  qed
qed

lemma read_at_read_at: "read_at (read_at c off n) k m = read_at c (off + k) (min m (n - k))"
  by (simp add: read_at_def drop_take take_take min.commute add.commute)

lemma read_at_append_step:
  "read_at c off k @ read_at c (off + k) (n - k) = read_at c off n" if "k \<le> n" "off + k \<le> length c"
proof -
  have "length (read_at c off k) = k" using that by (simp add: slice_simps)
  have "read_at c off n = read_at c off (k + (n - k))" using that by simp
  then show ?thesis by (simp add: read_at_def take_add drop_drop add.commute)
qed

subsection \<open>Sound states\<close>

definition client_ok :: "'w fs_conf \<Rightarrow> 'w client \<Rightarrow> bool" where
  "client_ok conf s \<longleftrightarrow> env_ok (fc_env conf) \<and> wb_wf (cw_write_buffer s) \<and> rb_wf (cw_read_buffer s)
     \<and> (\<forall>c. cw_cache s = Some c \<longrightarrow> cache_ok (fc_env conf) c)"

lemma fs_new_ok:
  assumes "fs_new rc config po ho fh w = Ret (conf, s)"
    and "\<forall>ks. set (po ks) = set ks" and "\<forall>ks. set (ho ks) = set ks"
  shows "client_ok conf s"
proof -
  have "cache_ok env c" if "cache_from_config cfg = Some c" for env c cfg
    using that by (auto simp: cache_from_config_def cache_ok_def entries_ok_def split: if_splits)
  with assms show ?thesis
    by (auto simp: fs_new_def client_ok_def env_ok_def split: if_splits)
qed

lemma cm_cache_put_attr:
  assumes "client_ok conf s"
  shows "\<exists>c. cm_cache conf (\<lambda>now. cache_put_attr (fc_env conf) now p a) s = (Ret (Inr ()), s\<lparr>cw_cache := c\<rparr>)
    \<and> client_ok conf (s\<lparr>cw_cache := c\<rparr>) \<and> (cw_cache s = None \<longrightarrow> c = None)"
proof (cases "cw_cache s")
  case None
  then have "s\<lparr>cw_cache := None\<rparr> = s" by simp
  with None assms show ?thesis by (metis cm_cache_def option.simps(4))
next
  case (Some c)
  with assms obtain c' where
    "cache_put_attr (fc_env conf) (cm_now conf s) p a c = Ret c'" "cache_step (fc_env conf) c c'"
    using cache_put_attr_total [of "fc_env conf" c "cm_now conf s" p a] by (auto simp: client_ok_def)
  with Some assms show ?thesis
    by (auto simp: cm_cache_def client_ok_def cache_step_def intro!: exI [of _ "Some c'"])
qed

lemma cm_cache_write_file:
  assumes "client_ok conf s"
  shows "\<exists>c. cm_cache conf (\<lambda>now. cache_write_file (fc_env conf) now p off d drop_attr) s
      = (Ret (Inr ()), s\<lparr>cw_cache := c\<rparr>)
    \<and> client_ok conf (s\<lparr>cw_cache := c\<rparr>) \<and> (cw_cache s = None \<longrightarrow> c = None)"
proof (cases "cw_cache s")
  case None
  then have "s\<lparr>cw_cache := None\<rparr> = s" by simp
  with None assms show ?thesis by (metis cm_cache_def option.simps(4))
next
  case (Some c)
  with assms obtain c' where
    "cache_write_file (fc_env conf) (cm_now conf s) p off d drop_attr c = Ret c'"
    "cache_step (fc_env conf) c c'"
    using cache_write_file_total [of "fc_env conf" c "cm_now conf s" p off d drop_attr]
    by (auto simp: client_ok_def)
  with Some assms show ?thesis
    by (auto simp: cm_cache_def client_ok_def cache_step_def intro!: exI [of _ "Some c'"])
qed

subsection \<open>Staging a write\<close>

text \<open>The content of a file after a list of uploads to it.\<close>

definition uploaded :: "bytes \<Rightarrow> upload list \<Rightarrow> bytes" where
  "uploaded c us = foldl (\<lambda>c (p, off, d). write_at c off d) c us"

lemma uploaded_simps [simp]:
  "uploaded c [] = c" "uploaded c ((p, off, d) # us) = uploaded (write_at c off d) us"
  "uploaded c (us @ vs) = uploaded (uploaded c us) vs"
  by (simp_all add: uploaded_def)

text \<open>The bytes not yet sent belong to the path, if there are any.\<close>

definition buffer_for :: "pathbuf \<Rightarrow> write_buffer \<Rightarrow> bool" where
  "buffer_for p b \<longleftrightarrow> wb_pending b = [] \<or> wb_path b = p"

lemma write_stage_spec:
  assumes "wb_wf b" and "buffer_for p b" and "write_stage p off d b = (n, us, b')"
  shows "wb_wf b' \<and> buffer_for p b' \<and> (\<forall>u \<in> set us. fst u = p) \<and> n \<le> length d
    \<and> wb_capacity b' = wb_capacity b
    \<and> write_at (uploaded c us) (wb_offset b') (wb_pending b')
      = write_at (write_at c (wb_offset b) (wb_pending b)) off (take n d)"
proof -
  define b1 where "b1 = (if wb_is_appending b p off then b else wb_clean b)"
  define first_up where "first_up = (if wb_is_appending b p off \<or> wb_pending b = [] then []
    else [(wb_path b, wb_offset b, wb_pending b)])"
  obtain b2 where w: "wb_write p off d b1 = (n, b2)"
    and us: "us = first_up @ (if wb_is_full b2 then [wb_get_content b2] else [])"
    and b': "b' = (if wb_is_full b2 then wb_clean b2 else b2)"
    using assms(3) by (auto simp: write_stage_def b1_def first_up_def wb_get_content_eq
        split: if_splits prod.splits)
  have wf1: "wb_wf b1" using assms(1) by (simp add: b1_def)
  note wc = wb_write_cases [OF wf1 w]
  have cap: "wb_capacity b1 = wb_capacity b" by (simp add: b1_def)
  have sent: "write_at (uploaded c us) (wb_offset b') (wb_pending b')
    = write_at (uploaded c first_up) (wb_offset b2) (wb_pending b2)"
    by (simp add: us b' wb_get_content_eq)
  have len: "wb_is_appending b p off \<Longrightarrow> off = wb_offset b + length (wb_pending b)"
    using assms(1) by (simp add: wb_is_appending_def)
  have "write_at (uploaded c first_up) (wb_offset b2) (wb_pending b2)
      = write_at (write_at c (wb_offset b) (wb_pending b)) off (take n d)"
  proof (cases "wb_is_appending b p off")
    case True
    with wc have "wb_offset b2 = wb_offset b" "wb_pending b2 = wb_pending b @ take n d"
      by (simp_all add: b1_def)
    with True len show ?thesis by (simp add: first_up_def write_at_append)
  next
    case False
    then have b1: "b1 = wb_clean b" by (simp add: b1_def)
    have up: "uploaded c first_up = write_at c (wb_offset b) (wb_pending b)"
      using False by (simp add: first_up_def)
    show ?thesis
    proof (cases "wb_is_appending b1 p off")
      case True
      then have "off = 0" using b1 by (simp add: wb_is_appending_def)
      with True wc b1 up show ?thesis by simp
    next
      case False
      with wc up show ?thesis by simp
    qed
  qed
  moreover have "\<forall>u \<in> set us. fst u = p"
    using wc assms(2) by (auto simp: us first_up_def wb_get_content_eq buffer_for_def)
  ultimately show ?thesis
    using sent wc cap b' by (auto simp: buffer_for_def)
qed

subsection \<open>The contract with the remote\<close>

locale remote_file =
  fixes R :: "'w remote" and path_str :: string and good :: "'w \<Rightarrow> bool" and content :: "'w \<Rightarrow> bytes"
  assumes write_law: "good w \<Longrightarrow> rm_write_file R path_str off d w = (Inr a, w') \<Longrightarrow>
      good w' \<and> content w' = write_at (content w) off d"
    and read_law: "good w \<Longrightarrow> rm_read_file R path_str off n w = (r, w') \<Longrightarrow>
      good w' \<and> content w' = content w \<and> (\<forall>d. r = Inr d \<longrightarrow> d = read_at (content w) off n)"
    and attributes_law: "good w \<Longrightarrow> rm_get_attributes R path_str w = (r', w') \<Longrightarrow>
      good w' \<and> content w' = content w \<and> (\<forall>a. r' = Inr a \<longrightarrow> length (content w) < 2 ^ 64 \<longrightarrow> unat (at_size a) = length (content w))"
begin

lemma upload_step:
  assumes "fc_remote conf = R" and "path_to_string p = Inr path_str" and "client_ok conf s"
    and "good (cw_world s)"
  shows "\<exists>w c. snd (fs_upload conf (p, off, d) s) = s\<lparr>cw_world := w, cw_cache := c\<rparr>
    \<and> client_ok conf (s\<lparr>cw_world := w, cw_cache := c\<rparr>)
    \<and> fst (fs_upload conf (p, off, d) s) \<noteq> Panic
    \<and> (fst (fs_upload conf (p, off, d) s) = Ret (Inr ()) \<longrightarrow>
        good w \<and> content w = write_at (content (cw_world s)) off d)"
proof (cases "rm_write_file R path_str off d (cw_world s)")
  case (Pair r w)
  have frame: "s\<lparr>cw_world := w\<rparr> = s\<lparr>cw_world := w, cw_cache := cw_cache s\<rparr>" by simp
  have ok: "client_ok conf (s\<lparr>cw_world := w\<rparr>)" using assms(3) by (simp add: client_ok_def)
  show ?thesis
  proof (cases r)
    case (Inl e)
    then show ?thesis
      using Pair assms(1,2) ok frame
      by (auto simp: fs_upload_def cm_bind_def cm_path_def cm_net_def intro!: exI [of _ w] exI [of _ "cw_cache s"])
  next
    case (Inr a)
    obtain c where c: "cm_cache conf (\<lambda>now. cache_write_file (fc_env conf) now p off d True)
        (s\<lparr>cw_world := w\<rparr>) = (Ret (Inr ()), s\<lparr>cw_world := w, cw_cache := c\<rparr>)"
      "client_ok conf (s\<lparr>cw_world := w, cw_cache := c\<rparr>)"
      using cm_cache_write_file [OF ok, of p off d True] by auto
    have "fs_upload conf (p, off, d) s = (Ret (Inr ()), s\<lparr>cw_world := w, cw_cache := c\<rparr>)"
      using Pair Inr assms(1,2) c(1) by (simp add: fs_upload_def cm_bind_def cm_path_def cm_net_def)
    moreover have "good w \<and> content w = write_at (content (cw_world s)) off d"
      using write_law [OF assms(4)] Pair Inr by blast
    ultimately show ?thesis using c(2) by (intro exI [of _ w] exI [of _ c]) simp
  qed
qed

lemma upload_all_step:
  assumes "fc_remote conf = R" and "path_to_string p = Inr path_str" and "client_ok conf s"
    and "good (cw_world s)" and "\<forall>u \<in> set us. fst u = p"
  shows "\<exists>w c. snd (fs_upload_all conf us s) = s\<lparr>cw_world := w, cw_cache := c\<rparr>
    \<and> client_ok conf (s\<lparr>cw_world := w, cw_cache := c\<rparr>)
    \<and> fst (fs_upload_all conf us s) \<noteq> Panic
    \<and> (fst (fs_upload_all conf us s) = Ret (Inr ()) \<longrightarrow>
        good w \<and> content w = uploaded (content (cw_world s)) us)"
  using assms(3-5)
proof (induction us arbitrary: s)
  case Nil
  then show ?case
    by (auto simp: cm_return_def intro!: exI [of _ "cw_world s"] exI [of _ "cw_cache s"])
next
  case (Cons u us)
  obtain off d where u: "u = (p, off, d)" using Cons.prems(3) by (cases u) auto
  obtain w c where up: "snd (fs_upload conf u s) = s\<lparr>cw_world := w, cw_cache := c\<rparr>"
    "client_ok conf (s\<lparr>cw_world := w, cw_cache := c\<rparr>)" "fst (fs_upload conf u s) \<noteq> Panic"
    "fst (fs_upload conf u s) = Ret (Inr ()) \<longrightarrow> good w \<and> content w = write_at (content (cw_world s)) off d"
    using upload_step [OF assms(1,2) Cons.prems(1,2), of off d] u by auto
  show ?case
  proof (cases "fst (fs_upload conf u s) = Ret (Inr ())")
    case True
    have step: "fs_upload_all conf (u # us) s = fs_upload_all conf us (s\<lparr>cw_world := w, cw_cache := c\<rparr>)"
      using True up(1) by (cases "fs_upload conf u s") (simp add: cm_bind_def)
    from Cons.IH [OF up(2)] True up(4) Cons.prems(3) obtain w' c' where
      "snd (fs_upload_all conf us (s\<lparr>cw_world := w, cw_cache := c\<rparr>)) = s\<lparr>cw_world := w', cw_cache := c'\<rparr>"
      "client_ok conf (s\<lparr>cw_world := w', cw_cache := c'\<rparr>)"
      "fst (fs_upload_all conf us (s\<lparr>cw_world := w, cw_cache := c\<rparr>)) \<noteq> Panic"
      "fst (fs_upload_all conf us (s\<lparr>cw_world := w, cw_cache := c\<rparr>)) = Ret (Inr ()) \<longrightarrow>
        good w' \<and> content w' = uploaded (content w) us"
      by auto
    with step True up(4) u show ?thesis by auto
  next
    case False
    then obtain e where e: "fst (fs_upload conf u s) = Ret (Inl e)"
      using up(3) by (cases "fst (fs_upload conf u s)") (auto split: sum.splits, metis old.sum.exhaust old.unit.exhaust)
    then have "fs_upload_all conf (u # us) s = (Ret (Inl e), s\<lparr>cw_world := w, cw_cache := c\<rparr>)"
      using up(1) by (cases "fs_upload conf u s") (simp add: cm_bind_def)
    with up(2) show ?thesis by auto
  qed
qed

end


subsection \<open>Buffered writes refine writes\<close>

text \<open>The content of the file once the write buffer is sent: what the application has written.\<close>

definition intended :: "('w \<Rightarrow> bytes) \<Rightarrow> 'w client \<Rightarrow> bytes" where
  "intended content s =
     write_at (content (cw_world s)) (wb_offset (cw_write_buffer s)) (wb_pending (cw_write_buffer s))"

text \<open>A session: writes in a row, each with the number of bytes it took, then a flush.\<close>

fun fs_write_all ::
  "'w fs_conf \<Rightarrow> pathbuf \<Rightarrow> flags \<Rightarrow> (nat \<times> bytes) list \<Rightarrow> ('w, nat list) cm" where
  "fs_write_all conf p flg [] = cm_return []"
| "fs_write_all conf p flg ((off, d) # ws) =
     cm_bind (fs_write_file conf p flg off d) (\<lambda>n.
     cm_bind (fs_write_all conf p flg ws) (\<lambda>ns. cm_return (n # ns)))"

definition fs_write_session ::
  "'w fs_conf \<Rightarrow> pathbuf \<Rightarrow> flags \<Rightarrow> (nat \<times> bytes) list \<Rightarrow> ('w, nat list) cm" where
  "fs_write_session conf p flg ws =
     cm_bind (fs_write_all conf p flg ws) (\<lambda>ns.
     cm_bind (fs_flush_write_buffer conf) (\<lambda>_. cm_return ns))"

fun apply_writes :: "bytes \<Rightarrow> (nat \<times> bytes) list \<Rightarrow> nat list \<Rightarrow> bytes" where
  "apply_writes c ((off, d) # ws) (n # ns) = apply_writes (write_at c off (take n d)) ws ns"
| "apply_writes c _ _ = c"

lemma cm_bind_ok:
  "cm_bind m f s = (Ret (Inr y), s') \<longleftrightarrow> (\<exists>x t. m s = (Ret (Inr x), t) \<and> f x t = (Ret (Inr y), s'))"
  by (auto simp: cm_bind_def split: prod.splits outcome.splits sum.splits)

lemma cm_bind_panic:
  "fst (cm_bind m f s) = Panic \<longleftrightarrow>
     fst (m s) = Panic \<or> (\<exists>x t. m s = (Ret (Inr x), t) \<and> fst (f x t) = Panic)"
  by (auto simp: cm_bind_def split: prod.splits outcome.splits sum.splits)

context remote_file
begin

lemma write_step:
  assumes "fc_remote conf = R" and "path_to_string p = Inr path_str" and "client_ok conf s"
    and "good (cw_world s)" and "buffer_for p (cw_write_buffer s)"
    and "fs_write_file conf p flg off d s = (r, s')"
  shows "r \<noteq> Panic \<and> client_ok conf s'
    \<and> (\<forall>n. r = Ret (Inr n) \<longrightarrow> good (cw_world s') \<and> buffer_for p (cw_write_buffer s') \<and> n \<le> length d
        \<and> intended content s' = write_at (intended content s) off (take n d))"
proof -
  obtain n us b where st: "write_stage p off d (cw_write_buffer s) = (n, us, b)"
    by (cases "write_stage p off d (cw_write_buffer s)") auto
  let ?s = "s\<lparr>cw_write_buffer := b\<rparr>"
  have wf: "wb_wf (cw_write_buffer s)" using assms(3) by (simp add: client_ok_def)
  note spec = write_stage_spec [OF wf assms(5) st, of "content (cw_world s)"]
  have ok: "client_ok conf ?s" using assms(3) spec by (simp add: client_ok_def)
  obtain w c where up: "snd (fs_upload_all conf us ?s) = ?s\<lparr>cw_world := w, cw_cache := c\<rparr>"
    "client_ok conf (?s\<lparr>cw_world := w, cw_cache := c\<rparr>)" "fst (fs_upload_all conf us ?s) \<noteq> Panic"
    "fst (fs_upload_all conf us ?s) = Ret (Inr ()) \<longrightarrow>
       good w \<and> content w = uploaded (content (cw_world s)) us"
    using upload_all_step [OF assms(1,2) ok, of us] assms(4) spec by auto
  have eq: "(r, s') = cm_bind (fs_upload_all conf us) (\<lambda>_. cm_return n) ?s"
    using assms(6) st by (simp add: fs_write_file_def)
  have s': "s' = ?s\<lparr>cw_world := w, cw_cache := c\<rparr>"
    using eq up(1) by (auto simp: cm_bind_def cm_return_def split: prod.splits outcome.splits sum.splits)
  have "r \<noteq> Panic" using eq up(3)
    by (auto simp: cm_bind_def cm_return_def split: prod.splits outcome.splits sum.splits)
  moreover have "m = n \<and> fst (fs_upload_all conf us ?s) = Ret (Inr ())" if "r = Ret (Inr m)" for m
    using eq that by (auto simp: cm_bind_def cm_return_def split: prod.splits outcome.splits sum.splits)
  ultimately show ?thesis
    using up(2,4) spec unfolding s' by (auto simp: intended_def)
qed

lemma flush_step:
  assumes "fc_remote conf = R" and "path_to_string p = Inr path_str" and "client_ok conf s"
    and "good (cw_world s)" and "buffer_for p (cw_write_buffer s)"
    and "fs_flush_write_buffer conf s = (r, s')"
  shows "r \<noteq> Panic \<and> client_ok conf s'
    \<and> (r = Ret (Inr ()) \<longrightarrow> good (cw_world s') \<and> content (cw_world s') = intended content s
        \<and> wb_pending (cw_write_buffer s') = [])"
proof (cases "wb_pending (cw_write_buffer s) = []")
  case True
  then show ?thesis
    using assms(3,4,6) by (auto simp: fs_flush_write_buffer_def wb_get_content_eq intended_def)
next
  case False
  let ?b = "cw_write_buffer s"
  let ?s = "s\<lparr>cw_write_buffer := wb_clean ?b\<rparr>"
  have path: "wb_path ?b = p" using False assms(5) by (simp add: buffer_for_def)
  have ok: "client_ok conf ?s" using assms(3) by (simp add: client_ok_def)
  obtain w c where up: "snd (fs_upload conf (p, wb_offset ?b, wb_pending ?b) ?s)
      = ?s\<lparr>cw_world := w, cw_cache := c\<rparr>"
    "client_ok conf (?s\<lparr>cw_world := w, cw_cache := c\<rparr>)"
    "fst (fs_upload conf (p, wb_offset ?b, wb_pending ?b) ?s) \<noteq> Panic"
    "fst (fs_upload conf (p, wb_offset ?b, wb_pending ?b) ?s) = Ret (Inr ()) \<longrightarrow>
       good w \<and> content w = write_at (content (cw_world s)) (wb_offset ?b) (wb_pending ?b)"
    using upload_step [OF assms(1,2) ok, of "wb_offset ?b" "wb_pending ?b"] assms(4) by auto
  have "(r, s') = fs_upload conf (p, wb_offset ?b, wb_pending ?b) ?s"
    using assms(6) False path by (simp add: fs_flush_write_buffer_def wb_get_content_eq)
  then have "r = fst (fs_upload conf (p, wb_offset ?b, wb_pending ?b) ?s)"
    and s': "s' = ?s\<lparr>cw_world := w, cw_cache := c\<rparr>"
    using up(1) by (metis fst_conv, metis snd_conv)
  with up(2-4) show ?thesis by (simp add: intended_def)
qed

lemma write_all_step:
  assumes "fc_remote conf = R" and "path_to_string p = Inr path_str" and "client_ok conf s"
    and "good (cw_world s)" and "buffer_for p (cw_write_buffer s)"
    and "fs_write_all conf p flg ws s = (r, s')"
  shows "r \<noteq> Panic \<and> (\<forall>ns. r = Ret (Inr ns) \<longrightarrow> client_ok conf s' \<and> good (cw_world s')
    \<and> buffer_for p (cw_write_buffer s') \<and> intended content s' = apply_writes (intended content s) ws ns)"
  using assms(3-6)
proof (induction ws arbitrary: s r s')
  case Nil
  then show ?case by (auto simp: cm_return_def)
next
  case (Cons x ws)
  obtain off d where x: "x = (off, d)" by (cases x)
  obtain r1 s1 where w: "fs_write_file conf p flg off d s = (r1, s1)"
    by (cases "fs_write_file conf p flg off d s")
  note step = write_step [OF assms(1,2) Cons.prems(1-3) w]
  obtain r2 s2 where rest: "fs_write_all conf p flg ws s1 = (r2, s2)"
    by (cases "fs_write_all conf p flg ws s1")
  have eq: "(r, s') = cm_bind (fs_write_file conf p flg off d) (\<lambda>n.
     cm_bind (fs_write_all conf p flg ws) (\<lambda>ns. cm_return (n # ns))) s"
    using Cons.prems(4) x by simp
  show ?case
  proof (cases "\<exists>n. r1 = Ret (Inr n)")
    case True
    then obtain n where n: "r1 = Ret (Inr n)" ..
    with step have s1: "client_ok conf s1" "good (cw_world s1)" "buffer_for p (cw_write_buffer s1)"
      "intended content s1 = write_at (intended content s) off (take n d)" by auto
    note IH = Cons.IH [OF s1(1-3) rest]
    have "(r, s') = cm_bind (fs_write_all conf p flg ws) (\<lambda>ns. cm_return (n # ns)) s1"
      using eq w n by (simp add: cm_bind_def)
    with IH rest s1(4) x show ?thesis
      by (cases r2) (auto simp: cm_bind_def cm_return_def split: sum.splits)
  next
    case False
    with eq w step show ?thesis
      by (auto simp: cm_bind_def split: outcome.splits sum.splits)
  qed
qed

lemma write_session_refines:
  assumes "fc_remote conf = R" and "path_to_string p = Inr path_str" and "client_ok conf s"
    and "good (cw_world s)" and "buffer_for p (cw_write_buffer s)"
    and "fs_write_session conf p flg ws s = (r, s')"
  shows "r \<noteq> Panic \<and> (\<forall>ns. r = Ret (Inr ns) \<longrightarrow> good (cw_world s')
    \<and> content (cw_world s') = apply_writes (intended content s) ws ns)"
proof -
  obtain r1 s1 where w: "fs_write_all conf p flg ws s = (r1, s1)"
    by (cases "fs_write_all conf p flg ws s")
  obtain r2 s2 where f: "fs_flush_write_buffer conf s1 = (r2, s2)"
    by (cases "fs_flush_write_buffer conf s1")
  note step = write_all_step [OF assms(1-5) w]
  have eq: "(r, s') = cm_bind (fs_write_all conf p flg ws) (\<lambda>ns.
     cm_bind (fs_flush_write_buffer conf) (\<lambda>_. cm_return ns)) s"
    using assms(6) by (simp add: fs_write_session_def)
  show ?thesis
  proof (cases "\<exists>ns. r1 = Ret (Inr ns)")
    case True
    then obtain ns where ns: "r1 = Ret (Inr ns)" ..
    with step have s1: "client_ok conf s1" "good (cw_world s1)" "buffer_for p (cw_write_buffer s1)"
      "intended content s1 = apply_writes (intended content s) ws ns" by auto
    have "(r, s') = cm_bind (fs_flush_write_buffer conf) (\<lambda>_. cm_return ns) s1"
      using eq w ns by (simp add: cm_bind_def)
    with flush_step [OF assms(1,2) s1(1-3) f] f s1(4) show ?thesis
      by (cases r2) (auto simp: cm_bind_def cm_return_def split: sum.splits)
  next
    case False
    with eq w step show ?thesis
      by (auto simp: cm_bind_def split: outcome.splits sum.splits)
  qed
qed

end


subsection \<open>Reads without a cache\<close>

text \<open>The read buffer holds bytes the file has.\<close>

definition rb_agrees :: "pathbuf \<Rightarrow> bytes \<Rightarrow> read_buffer \<Rightarrow> bool" where
  "rb_agrees p c b \<longleftrightarrow>
     (rb_path b = p \<longrightarrow> rb_content b = read_at c (rb_offset b) (length (rb_content b)))"

text \<open>A part of the file from an offset on: not empty unless nothing can be read.\<close>

definition part_of :: "bytes \<Rightarrow> nat \<Rightarrow> nat \<Rightarrow> nat \<Rightarrow> bytes \<Rightarrow> bool" where
  "part_of c off n cap d \<longleftrightarrow> length d \<le> n \<and> d = read_at c off (length d)
     \<and> (d = [] \<longrightarrow> n = 0 \<or> cap = 0 \<or> length c \<le> off)"

lemma read_at_length: "read_at c off (length (read_at c off n)) = read_at c off n"
  by (simp add: read_at_def min_def)

lemma take_read_at: "take k (read_at c off n) = read_at c off (min k n)"
  by (simp add: read_at_def take_take)

lemma rb_read_agrees:
  assumes "rb_wf b" and "rb_agrees p c b" and "rb_read now b p off n = d" and "d \<noteq> []"
  shows "length d \<le> n \<and> d = read_at c off (length d)"
proof -
  from assms have d: "d = read_at (rb_content b) (off - rb_offset b) n"
    and at: "rb_path b = p" "rb_offset b \<le> off"
    by (auto simp: rb_read_content split: if_splits)
  have "rb_content b = read_at c (rb_offset b) (length (rb_content b))"
    using assms(2) at by (simp add: rb_agrees_def)
  then have "d = read_at c off (min n (length (rb_content b) - (off - rb_offset b)))"
    using d at by (metis read_at_read_at le_add_diff_inverse)
  then show ?thesis by (metis read_at_length length_read_at min.bounded_iff min.cobounded1)
qed

lemma rb_fill_agrees:
  assumes "rb_wf b" and "d = read_at c off (rb_capacity b)"
  shows "rb_agrees p c (rb_fill now q off d b)"
  using assms by (simp add: rb_agrees_def rb_fill_content take_read_at read_at_length)

context remote_file
begin

lemma attributes_step:
  assumes "fc_remote conf = R" and "path_to_string p = Inr path_str" and "cw_cache s = None"
    and "good (cw_world s)" and "length (content (cw_world s)) < 2 ^ 64"
  shows "\<exists>w r. fs_get_attributes conf p s = (Ret r, s\<lparr>cw_world := w\<rparr>) \<and> good w
    \<and> content w = content (cw_world s) \<and> (\<forall>a. r = Inr a \<longrightarrow> unat (at_size a) = length (content w))"
proof (cases "rm_get_attributes R path_str (cw_world s)")
  case (Pair r w)
  note law = attributes_law [OF assms(4) Pair]
  have "fs_get_attributes conf p s = (Ret (map_err Fs_ServerError r), s\<lparr>cw_world := w\<rparr>)"
    using assms(1-3) Pair
    by (cases r) (simp_all add: fs_get_attributes_def cm_bind_def cm_cache_get_def cm_path_def
        cm_net_def cm_cache_def cm_return_def)
  with law assms(5) show ?thesis by (cases r) auto
qed

lemma read_remote_step:
  assumes "fc_remote conf = R" and "path_to_string p = Inr path_str" and "cw_cache s = None"
    and "good (cw_world s)" and "rb_wf (cw_read_buffer s)"
    and "fs_read_remote conf p off n s = (r, s')"
  shows "r \<noteq> Panic \<and> (\<exists>w b. s' = s\<lparr>cw_world := w, cw_read_buffer := b\<rparr> \<and> good w
      \<and> content w = content (cw_world s) \<and> rb_wf b \<and> rb_capacity b = rb_capacity (cw_read_buffer s)
      \<and> (b = cw_read_buffer s \<or> rb_agrees p (content w) b))
    \<and> (\<forall>d. r = Ret (Inr d) \<longrightarrow>
        part_of (content (cw_world s)) off n (rb_capacity (cw_read_buffer s)) d)"
proof (cases "rm_read_file R path_str off (rb_capacity (cw_read_buffer s)) (cw_world s)")
  case (Pair q w)
  note law = read_law [OF assms(4) Pair]
  let ?cap = "rb_capacity (cw_read_buffer s)"
  show ?thesis
  proof (cases q)
    case (Inl e)
    then have "(r, s') = (Ret (Inl (Fs_ServerError e)), s\<lparr>cw_world := w\<rparr>)"
      using assms(1,2,6) Pair by (simp add: fs_read_remote_def cm_bind_def cm_path_def cm_net_def)
    then show ?thesis using law assms(5)
      by (auto intro!: exI [of _ w] exI [of _ "cw_read_buffer s"])
  next
    case (Inr d)
    let ?b = "rb_fill (rm_now R w) p off d (cw_read_buffer s)"
    have d: "d = read_at (content (cw_world s)) off ?cap" using law Inr by simp
    have "(r, s') = (Ret (Inr (take (min (length d) n) d)), s\<lparr>cw_world := w, cw_read_buffer := ?b\<rparr>)"
      using assms(1-3,6) Pair Inr
      by (simp add: fs_read_remote_def cm_bind_def cm_path_def cm_net_def cm_buffer_fill_def
          cm_now_def cm_cache_def cm_return_def)
    moreover have "rb_agrees p (content w) ?b"
      using rb_fill_agrees [OF assms(5) d] law by simp
    moreover have "part_of (content (cw_world s)) off n ?cap (take (min (length d) n) d)"
    proof -
      have "take (min (length d) n) d = take n d" by (simp add: min_def)
      moreover have "take n d = read_at (content (cw_world s)) off (min n ?cap)"
        unfolding d by (simp add: take_read_at)
      ultimately show ?thesis
        by (auto simp: part_of_def read_at_length) (auto simp: read_at_def)
    qed
    ultimately show ?thesis using law assms(5) by (auto intro!: exI [of _ w] exI [of _ ?b])
  qed
qed

lemma read_step:
  assumes "fc_remote conf = R" and "path_to_string p = Inr path_str" and "cw_cache s = None"
    and "good (cw_world s)" and "rb_wf (cw_read_buffer s)"
    and "rb_agrees p (content (cw_world s)) (cw_read_buffer s)"
    and "fs_read_file conf p off n s = (r, s')" and "length (content (cw_world s)) < 2 ^ 64"
  shows "r \<noteq> Panic \<and> (\<exists>w b. s' = s\<lparr>cw_world := w, cw_read_buffer := b\<rparr> \<and> good w
      \<and> content w = content (cw_world s) \<and> rb_wf b \<and> rb_capacity b = rb_capacity (cw_read_buffer s)
      \<and> rb_agrees p (content w) b)
    \<and> (\<forall>d. r = Ret (Inr d) \<longrightarrow>
        part_of (content (cw_world s)) off n (rb_capacity (cw_read_buffer s)) d)"
proof -
  let ?c = "content (cw_world s)"
  obtain w1 q where at: "fs_get_attributes conf p s = (Ret q, s\<lparr>cw_world := w1\<rparr>)" "good w1"
    "content w1 = ?c" "\<forall>a. q = Inr a \<longrightarrow> unat (at_size a) = length (content w1)"
    using attributes_step [OF assms(1-4,8)] by blast
  let ?s1 = "s\<lparr>cw_world := w1\<rparr>"
  show ?thesis
  proof (cases "case q of Inr attr \<Rightarrow> unat (at_size attr) \<le> off | Inl _ \<Rightarrow> False")
    case True
    then have "length ?c \<le> off" using at(3,4) by (auto split: sum.splits)
    moreover have "(r, s') = (Ret (Inr []), ?s1)"
      using assms(7) at(1) True by (simp add: fs_read_file_def cm_bind_def cm_try_def cm_return_def)
    ultimately show ?thesis
      using at assms(5,6)
      by (auto simp: part_of_def read_at_def intro!: exI [of _ w1] exI [of _ "cw_read_buffer s"])
  next
    case False
    let ?d = "rb_read (rm_now R w1) (cw_read_buffer s) p off n"
    have red: "(r, s') = (if ?d \<noteq> [] then (Ret (Inr ?d), ?s1) else fs_read_remote conf p off n ?s1)"
      using assms(1,3,7) at(1) False
      by (cases "?d = []") (simp_all add: fs_read_file_def cm_bind_def cm_try_def cm_return_def
          cm_cached_bytes_def cm_cache_get_def cm_buffer_read_def cm_now_def cm_cache_def)
    show ?thesis
    proof (cases "?d = []")
      case True
      then have "fs_read_remote conf p off n ?s1 = (r, s')" using red by simp
      from read_remote_step [OF assms(1,2) _ _ _ this] assms(3,5) at(2,3)
      obtain w b where rest: "r \<noteq> Panic" "s' = s\<lparr>cw_world := w, cw_read_buffer := b\<rparr>" "good w"
        "content w = ?c" "rb_wf b" "rb_capacity b = rb_capacity (cw_read_buffer s)"
        "b = cw_read_buffer s \<or> rb_agrees p (content w) b"
        "\<forall>d. r = Ret (Inr d) \<longrightarrow> part_of ?c off n (rb_capacity (cw_read_buffer s)) d"
        by auto
      then have "rb_agrees p (content w) b" using assms(6) by auto
      with rest show ?thesis by (intro conjI exI [of _ w] exI [of _ b]) auto
    next
      case False
      with red have "(r, s') = (Ret (Inr ?d), ?s1)" by simp
      moreover have "part_of ?c off n (rb_capacity (cw_read_buffer s)) ?d"
        using rb_read_agrees [OF assms(5,6) refl False] False by (simp add: part_of_def)
      ultimately show ?thesis
        using at assms(5,6) by (auto intro!: exI [of _ w1] exI [of _ "cw_read_buffer s"])
    qed
  qed
qed

end

end
