(* ===== verification/Network.thy ===== *)
theory Network
  imports Client_FS Routes
begin

text \<open>
  The client's side of the wire: \<open>client/src/network/client.rs\<close>, \<open>models.rs\<close> and
  \<open>middleware.rs\<close>. A method of \<open>RemoteClient\<close> builds a request, attaches the token, sends it and
  reads the response.

  The HTTP stack is third-party code and a parameter (\<open>net_env\<close>): \<open>ne_send\<close> sends a request
  (with the retries of \<open>reqwest_retry\<close>) to the world \<open>'h\<close> and returns a response or fails,
  \<open>ne_encode\<close> is \<open>urlencoding::encode\<close>, \<open>ne_header_ok\<close> is the check of
  \<open>HeaderValue::from_str\<close>. Bodies are the values that \<open>serde_json\<close> writes and reads.
\<close>

subsection \<open>Requests and responses\<close>

datatype http_method = GET | POST | PUT | DELETE

datatype http_body =
  B_Empty
| B_Octets bytes
| B_ReadFile nat nat
| B_SetAttr c_set_attr
| B_Xattr bytes
| B_Rename string string u32
| B_Symlink string
| B_Login string string

record http_request =
  hq_method :: http_method
  hq_url :: string
  hq_query :: "(string \<times> nat) list"
  hq_body :: http_body
  hq_authorization :: "string option"

text \<open>The body of a response: a value of the server, the tag of a serialised error, or text that is
  not JSON.\<close>

datatype resp_body = RB_Value response | RB_Error string | RB_Text

record http_response =
  hr_status :: nat
  hr_body :: resp_body

record 'h net_env =
  ne_send :: "http_request \<Rightarrow> 'h \<Rightarrow> http_response option \<times> 'h"
  ne_encode :: "string \<Rightarrow> string"
  ne_header_ok :: "string \<Rightarrow> bool"
  ne_now :: "'h \<Rightarrow> nat"

text \<open>\<open>TokenStore\<close>, shared by the client and its middleware, and the world behind the stack.\<close>

record 'h net_world =
  nw_token :: "string option"
  nw_http :: 'h

definition token_set :: "string \<Rightarrow> 'h net_world \<Rightarrow> 'h net_world" where
  "token_set t w = w\<lparr>nw_token := Some t\<rparr>"

definition token_clear :: "'h net_world \<Rightarrow> 'h net_world" where
  "token_clear w = w\<lparr>nw_token := None\<rparr>"

definition token_read :: "'h net_world \<Rightarrow> string option" where
  "token_read w = (case nw_token w of None \<Rightarrow> None | Some t \<Rightarrow> Some t)"

text \<open>\<open>AuthMiddleware::handle\<close>: \<open>None\<close> is an error of the middleware or of the transport.\<close>

definition auth_handle ::
  "'h net_env \<Rightarrow> http_request \<Rightarrow> 'h net_world \<Rightarrow> http_response option \<times> 'h net_world" where
  "auth_handle ne req w =
     (case token_read w of
        Some token \<Rightarrow>
          let v = ''Bearer '' @ token
          in if \<not> ne_header_ok ne v then (None, w)
             else (let (r, h) = ne_send ne (req\<lparr>hq_authorization := Some v\<rparr>) (nw_http w)
                   in (r, w\<lparr>nw_http := h\<rparr>))
      | None \<Rightarrow> (let (r, h) = ne_send ne req (nw_http w) in (r, w\<lparr>nw_http := h\<rparr>)))"

subsection \<open>URLs\<close>

definition trim_end_slashes :: "string \<Rightarrow> string" where
  "trim_end_slashes s = rev (dropWhile (\<lambda>c. c = slash) (rev s))"

definition client_base_url :: "string \<Rightarrow> string" where
  "client_base_url base = trim_end_slashes base @ ''/'' @ ''api/v1''"

definition set_url :: "'h net_env \<Rightarrow> string \<Rightarrow> string \<Rightarrow> string \<Rightarrow> string" where
  "set_url ne base api path = base @ ''/'' @ api @ ''/'' @ ne_encode ne path"

definition set_short_url :: "string \<Rightarrow> string \<Rightarrow> string" where
  "set_short_url base api = base @ ''/'' @ api"

definition set_long_url ::
  "'h net_env \<Rightarrow> string \<Rightarrow> string \<Rightarrow> string \<Rightarrow> string \<Rightarrow> string option \<Rightarrow> string" where
  "set_long_url ne base api path grp obj =
     (case obj of
        Some ob_2 \<Rightarrow> base @ ''/'' @ api @ ''/'' @ ne_encode ne path @ ''/'' @ grp @ ''/'' @ ob_2
      | None \<Rightarrow> base @ ''/'' @ api @ ''/'' @ ne_encode ne path @ ''/'' @ grp)"

subsection \<open>Responses\<close>

text \<open>\<open>handle_response\<close>: an error body is read as a \<open>FuseError\<close>, a success by the extractor.\<close>

definition handle_response :: "http_response \<Rightarrow> (http_response \<Rightarrow> 'a option) \<Rightarrow> network_error + 'a" where
  "handle_response resp extractor =
     (if \<not> (200 \<le> hr_status resp \<and> hr_status resp \<le> 299)
      then (case hr_body resp of
              RB_Error tag \<Rightarrow> (case fuse_error_of_tag tag of
                  Some e \<Rightarrow> Inl (Net_ServerError e) | None \<Rightarrow> Inl Net_UnexpectedResponse)
            | _ \<Rightarrow> Inl Net_UnexpectedResponse)
      else (case extractor resp of
              Some x \<Rightarrow> Inr x | None \<Rightarrow> Inl Net_UnexpectedResponse))"

text \<open>\<open>r.json()\<close> at the types the client reads. Missing attributes, or attributes that do not fit,
  make the whole value unreadable.\<close>

definition json_attributes :: "http_response \<Rightarrow> c_attributes option" where
  "json_attributes r = (case hr_body r of RB_Value (R_Attr a) \<Rightarrow> attributes_of_wire a | _ \<Rightarrow> None)"

definition c_item_of_wire :: "serializable_item \<Rightarrow> c_item option" where
  "c_item_of_wire i =
     (case attributes_of_wire (si_attributes i) of
        None \<Rightarrow> None
      | Some a \<Rightarrow> Some \<lparr>ci_name = si_name i,
          ci_type = (case si_type i of Item_File \<Rightarrow> CI_File | Item_Directory \<Rightarrow> CI_Directory
                     | Item_SymLink \<Rightarrow> CI_SymLink),
          ci_attributes = a\<rparr>)"

fun map_all :: "('a \<Rightarrow> 'b option) \<Rightarrow> 'a list \<Rightarrow> 'b list option" where
  "map_all f [] = Some []"
| "map_all f (x # xs) =
     (case f x of None \<Rightarrow> None
      | Some y \<Rightarrow> (case map_all f xs of None \<Rightarrow> None | Some ys \<Rightarrow> Some (y # ys)))"

definition json_items :: "http_response \<Rightarrow> c_item list option" where
  "json_items r = (case hr_body r of RB_Value (R_Items is) \<Rightarrow> map_all c_item_of_wire is | _ \<Rightarrow> None)"

definition json_stats :: "http_response \<Rightarrow> stats option" where
  "json_stats r = (case hr_body r of RB_Value (R_Stats st) \<Rightarrow> Some st | _ \<Rightarrow> None)"

definition json_target :: "http_response \<Rightarrow> string option" where
  "json_target r = (case hr_body r of RB_Value (R_Target t) \<Rightarrow> Some t | _ \<Rightarrow> None)"

definition json_names :: "http_response \<Rightarrow> string list option" where
  "json_names r = (case hr_body r of RB_Value (R_Names ns) \<Rightarrow> Some ns | _ \<Rightarrow> None)"

definition json_token :: "http_response \<Rightarrow> string option" where
  "json_token r = (case hr_body r of RB_Value (R_Token t) \<Rightarrow> Some t | _ \<Rightarrow> None)"

definition json_xattr :: "http_response \<Rightarrow> bytes option option" where
  "json_xattr r =
     (if hr_status r = 204 then Some None
      else (case hr_body r of RB_Value (R_Xattr b) \<Rightarrow> Some (Some b) | _ \<Rightarrow> None))"

definition body_bytes :: "http_response \<Rightarrow> bytes option" where
  "body_bytes r = (case hr_body r of RB_Value (R_Bytes b) \<Rightarrow> Some b | _ \<Rightarrow> None)"

definition no_body :: "http_response \<Rightarrow> unit option" where
  "no_body r = Some ()"

subsection \<open>\<open>RemoteClient\<close>\<close>

text \<open>\<open>self.http_client.<method>(url)...send().await?\<close>, then \<open>handle_response\<close>.\<close>

definition rc_call ::
  "'h net_env \<Rightarrow> http_method \<Rightarrow> string \<Rightarrow> (string \<times> nat) list \<Rightarrow> http_body \<Rightarrow>
   (http_response \<Rightarrow> 'a option) \<Rightarrow> ('h net_world, 'a) net" where
  "rc_call ne meth url query body extractor w =
     (case auth_handle ne \<lparr>hq_method = meth, hq_url = url, hq_query = query, hq_body = body,
             hq_authorization = None\<rparr> w of
        (None, w') \<Rightarrow> (Inl Net_Request, w')
      | (Some resp, w') \<Rightarrow> (handle_response resp extractor, w'))"

definition rc_health_check :: "'h net_env \<Rightarrow> string \<Rightarrow> ('h net_world, unit) net" where
  "rc_health_check ne base = rc_call ne GET (set_short_url base ''health'') [] B_Empty no_body"

definition rc_login :: "'h net_env \<Rightarrow> string \<Rightarrow> string \<Rightarrow> string \<Rightarrow> ('h net_world, string) net" where
  "rc_login ne base username password w =
     (case rc_call ne POST (set_short_url base ''auth/login'') [] (B_Login username password) json_token w of
        (Inl e, w') \<Rightarrow> (Inl e, w')
      | (Inr token, w') \<Rightarrow> (Inr token, token_set token w'))"

definition rc_logout :: "'h net_env \<Rightarrow> string \<Rightarrow> ('h net_world, unit) net" where
  "rc_logout ne base w =
     (case rc_call ne POST (set_short_url base ''auth/logout'') [] B_Empty no_body w of
        (Inl e, w') \<Rightarrow> (Inl e, w')
      | (Inr _, w') \<Rightarrow> (Inr (), token_clear w'))"

definition rc_get_attributes :: "'h net_env \<Rightarrow> string \<Rightarrow> string \<Rightarrow> ('h net_world, c_attributes) net" where
  "rc_get_attributes ne base path =
     rc_call ne GET (set_url ne base ''attributes'' path) [] B_Empty json_attributes"

definition rc_set_attributes ::
  "'h net_env \<Rightarrow> string \<Rightarrow> string \<Rightarrow> c_set_attr \<Rightarrow> ('h net_world, c_attributes) net" where
  "rc_set_attributes ne base path new_attributes =
     rc_call ne PUT (set_url ne base ''attributes'' path) [] (B_SetAttr new_attributes) json_attributes"

definition rc_get_x_attributes ::
  "'h net_env \<Rightarrow> string \<Rightarrow> string \<Rightarrow> string \<Rightarrow> ('h net_world, bytes option) net" where
  "rc_get_x_attributes ne base path name =
     rc_call ne GET (set_long_url ne base ''xattributes'' path ''names'' (Some name)) [] B_Empty json_xattr"

definition rc_set_x_attributes ::
  "'h net_env \<Rightarrow> string \<Rightarrow> string \<Rightarrow> string \<Rightarrow> bytes \<Rightarrow> ('h net_world, unit) net" where
  "rc_set_x_attributes ne base path name xattributes =
     rc_call ne PUT (set_long_url ne base ''xattributes'' path ''names'' (Some name)) []
       (B_Xattr xattributes) no_body"

definition rc_list_x_attributes :: "'h net_env \<Rightarrow> string \<Rightarrow> string \<Rightarrow> ('h net_world, string list) net" where
  "rc_list_x_attributes ne base path =
     rc_call ne GET (set_long_url ne base ''xattributes'' path ''names'' None) [] B_Empty json_names"

definition rc_remove_x_attributes ::
  "'h net_env \<Rightarrow> string \<Rightarrow> string \<Rightarrow> string \<Rightarrow> ('h net_world, unit) net" where
  "rc_remove_x_attributes ne base path name =
     rc_call ne DELETE (set_long_url ne base ''xattributes'' path ''names'' (Some name)) [] B_Empty no_body"

definition rc_get_permissions :: "'h net_env \<Rightarrow> string \<Rightarrow> string \<Rightarrow> u32 \<Rightarrow> ('h net_world, unit) net" where
  "rc_get_permissions ne base path m =
     rc_call ne GET (set_url ne base ''permissions'' path) [(''mask'', unat m)] B_Empty no_body"

definition rc_get_stats :: "'h net_env \<Rightarrow> string \<Rightarrow> string \<Rightarrow> ('h net_world, stats) net" where
  "rc_get_stats ne base path = rc_call ne GET (set_url ne base ''stats'' path) [] B_Empty json_stats"

definition rc_list_path :: "'h net_env \<Rightarrow> string \<Rightarrow> string \<Rightarrow> ('h net_world, c_item list) net" where
  "rc_list_path ne base path = rc_call ne GET (set_url ne base ''list'' path) [] B_Empty json_items"

definition rc_read_file ::
  "'h net_env \<Rightarrow> string \<Rightarrow> string \<Rightarrow> nat \<Rightarrow> nat \<Rightarrow> ('h net_world, bytes) net" where
  "rc_read_file ne base path offset sz =
     rc_call ne GET (set_url ne base ''files'' path) [] (B_ReadFile offset sz) body_bytes"

definition rc_write_file ::
  "'h net_env \<Rightarrow> string \<Rightarrow> string \<Rightarrow> nat \<Rightarrow> bytes \<Rightarrow> ('h net_world, c_attributes) net" where
  "rc_write_file ne base path offset data =
     rc_call ne PUT (set_url ne base ''files'' path) [(''offset'', offset)] (B_Octets data) json_attributes"

definition rc_mkdir :: "'h net_env \<Rightarrow> string \<Rightarrow> string \<Rightarrow> ('h net_world, c_attributes) net" where
  "rc_mkdir ne base path = rc_call ne POST (set_url ne base ''mkdir'' path) [] B_Empty json_attributes"

definition rc_rename ::
  "'h net_env \<Rightarrow> string \<Rightarrow> string \<Rightarrow> string \<Rightarrow> u32 \<Rightarrow> ('h net_world, unit) net" where
  "rc_rename ne base old_path new_path flg =
     rc_call ne PUT (set_short_url base ''rename'') [] (B_Rename old_path new_path flg) no_body"

definition rc_remove :: "'h net_env \<Rightarrow> string \<Rightarrow> string \<Rightarrow> ('h net_world, unit) net" where
  "rc_remove ne base path = rc_call ne DELETE (set_url ne base ''files'' path) [] B_Empty no_body"

definition rc_create_symlink ::
  "'h net_env \<Rightarrow> string \<Rightarrow> string \<Rightarrow> string \<Rightarrow> ('h net_world, c_attributes) net" where
  "rc_create_symlink ne base path target =
     rc_call ne POST (set_url ne base ''symlink'' path) [] (B_Symlink target) json_attributes"

definition rc_read_symlink :: "'h net_env \<Rightarrow> string \<Rightarrow> string \<Rightarrow> ('h net_world, string) net" where
  "rc_read_symlink ne base path = rc_call ne GET (set_url ne base ''symlink'' path) [] B_Empty json_target"

text \<open>\<open>impl RemoteStorage for RemoteClient\<close>, on a client made by \<open>RemoteClient::new\<close>.\<close>

definition remote_client :: "'h net_env \<Rightarrow> string \<Rightarrow> 'h net_world remote" where
  "remote_client ne base_url =
     (let base = client_base_url base_url
      in \<lparr>rm_now = (\<lambda>w. ne_now ne (nw_http w)),
          rm_get_attributes = rc_get_attributes ne base,
          rm_set_attributes = rc_set_attributes ne base,
          rm_get_x_attributes = rc_get_x_attributes ne base,
          rm_set_x_attributes = rc_set_x_attributes ne base,
          rm_list_x_attributes = rc_list_x_attributes ne base,
          rm_remove_x_attributes = rc_remove_x_attributes ne base,
          rm_get_permissions = rc_get_permissions ne base,
          rm_get_stats = rc_get_stats ne base,
          rm_list_path = rc_list_path ne base,
          rm_read_file = rc_read_file ne base,
          rm_write_file = rc_write_file ne base,
          rm_mkdir = rc_mkdir ne base,
          rm_rename = rc_rename ne base,
          rm_remove = rc_remove ne base,
          rm_create_symlink = rc_create_symlink ne base,
          rm_read_symlink = rc_read_symlink ne base\<rparr>)"

lemmas rc_defs = rc_get_attributes_def rc_set_attributes_def rc_get_x_attributes_def
  rc_set_x_attributes_def rc_list_x_attributes_def rc_remove_x_attributes_def
  rc_get_permissions_def rc_get_stats_def rc_list_path_def rc_read_file_def rc_write_file_def
  rc_mkdir_def rc_rename_def rc_remove_def rc_create_symlink_def rc_read_symlink_def

end
