(* ===== verification/Client_FS_Safety.thy ===== *)
theory Client_FS_Safety
  imports Client_FS_Laws
begin

text \<open>
  No method of \<open>FileSystem\<close> panics, and each leaves the buffers and the cache sound, whatever the
  server answers: rules for the steps the methods are made of (\<open>safe_rules\<close>), one lemma per method
  (\<open>safe_methods\<close>), and the methods together as a transition system whose reachable states are
  all sound. Then two facts on the buffers that the methods keep: a failed flush loses the bytes of
  the buffer, and a read does not look at bytes that are still in the write buffer.
\<close>

named_theorems safe_rules \<open>steps that do not panic and keep the state sound\<close>
named_theorems safe_methods \<open>methods that do not panic and keep the state sound\<close>

subsection \<open>Safe computations\<close>

definition safe :: "'w fs_conf \<Rightarrow> ('a \<Rightarrow> bool) \<Rightarrow> ('w, 'a) cm \<Rightarrow> bool" where
  "safe conf Q m \<longleftrightarrow> (\<forall>s. client_ok conf s \<longrightarrow>
     fst (m s) \<noteq> Panic \<and> client_ok conf (snd (m s)) \<and> (\<forall>x. fst (m s) = Ret (Inr x) \<longrightarrow> Q x))"

lemma safeI:
  assumes "\<And>s r s'. client_ok conf s \<Longrightarrow> m s = (r, s') \<Longrightarrow>
      r \<noteq> Panic \<and> client_ok conf s' \<and> (\<forall>x. r = Ret (Inr x) \<longrightarrow> Q x)"
  shows "safe conf Q m"
  unfolding safe_def
proof (intro allI impI)
  fix s assume "client_ok conf s"
  from assms [OF this, of "fst (m s)" "snd (m s)"]
  show "fst (m s) \<noteq> Panic \<and> client_ok conf (snd (m s)) \<and> (\<forall>x. fst (m s) = Ret (Inr x) \<longrightarrow> Q x)"
    by simp
qed

lemma safeD:
  "safe conf Q m \<Longrightarrow> client_ok conf s \<Longrightarrow> m s = (r, s') \<Longrightarrow>
    r \<noteq> Panic \<and> client_ok conf s' \<and> (\<forall>x. r = Ret (Inr x) \<longrightarrow> Q x)"
  unfolding safe_def by (drule spec [of _ s]) simp

lemma safe_weaken: "safe conf P m \<Longrightarrow> (\<And>x. P x \<Longrightarrow> Q x) \<Longrightarrow> safe conf Q m"
  by (simp add: safe_def)

lemma safe_env: "(env_ok (fc_env conf) \<Longrightarrow> safe conf Q m) \<Longrightarrow> safe conf Q m"
  by (auto simp: safe_def client_ok_def)

lemma safe_bind:
  assumes m: "safe conf P m" and f: "\<And>x. P x \<Longrightarrow> safe conf Q (f x)"
  shows "safe conf Q (cm_bind m f)"
proof (rule safeI)
  fix s r s' assume ok: "client_ok conf s" and run: "cm_bind m f s = (r, s')"
  obtain q s1 where one: "m s = (q, s1)" by (cases "m s")
  note first = safeD [OF m ok one]
  show "r \<noteq> Panic \<and> client_ok conf s' \<and> (\<forall>x. r = Ret (Inr x) \<longrightarrow> Q x)"
  proof (cases "\<exists>x. q = Ret (Inr x)")
    case True
    then obtain x where x: "q = Ret (Inr x)" by blast
    with run one have "f x s1 = (r, s')" by (simp add: cm_bind_def)
    with safeD [OF f] first x show ?thesis by blast
  next
    case False
    with first obtain e where "q = Ret (Inl e)"
      by (cases q) (auto, metis sumE)
    with run one first show ?thesis by (auto simp: cm_bind_def)
  qed
qed

lemma safe_bind_any [safe_rules]:
  "safe conf (\<lambda>_. True) m \<Longrightarrow> (\<And>x. safe conf Q (f x)) \<Longrightarrow> safe conf Q (cm_bind m f)"
  by (rule safe_bind)

lemma safe_return [safe_rules]: "Q x \<Longrightarrow> safe conf Q (cm_return x)"
  by (simp add: safe_def cm_return_def)

lemma safe_fail [safe_rules]: "safe conf Q (cm_fail e)"
  by (simp add: safe_def cm_fail_def)

lemma safe_try [safe_rules]: "safe conf P m \<Longrightarrow> safe conf (\<lambda>_. True) (cm_try m)"
  by (auto simp: safe_def cm_try_def split: prod.splits outcome.splits)

lemma client_ok_world [simp]: "client_ok conf (s\<lparr>cw_world := w\<rparr>) = client_ok conf s"
  by (simp add: client_ok_def)

lemma safe_net [safe_rules]: "safe conf (\<lambda>_. True) (cm_net m)"
  by (simp add: safe_def cm_net_def split: prod.splits sum.splits)

lemma safe_net_state [safe_rules]: "safe conf (\<lambda>_. True) (\<lambda>s. cm_net (m s) s)"
  by (simp add: safe_def cm_net_def split: prod.splits sum.splits)

lemma safe_path [safe_rules]: "safe conf (\<lambda>_. True) (cm_path p)"
  by (simp add: safe_def cm_path_def)

lemma safe_cache_get:
  "safe conf (\<lambda>r. \<forall>i. r = Some i \<longrightarrow> item_ok (fc_env conf) i) (cm_cache_get conf p)"
proof (rule safeI)
  fix s r s' assume ok: "client_ok conf s" and run: "cm_cache_get conf p s = (r, s')"
  show "r \<noteq> Panic \<and> client_ok conf s'
    \<and> (\<forall>x. r = Ret (Inr x) \<longrightarrow> (\<forall>i. x = Some i \<longrightarrow> item_ok (fc_env conf) i))"
  proof (cases "cw_cache s")
    case None
    with run ok show ?thesis by (auto simp: cm_cache_get_def)
  next
    case (Some c)
    obtain x c' where get: "cache_get (cm_now conf s) p c = (x, c')" by (cases "cache_get (cm_now conf s) p c")
    have c: "cache_ok (fc_env conf) c" using ok Some by (simp add: client_ok_def)
    have "cache_ok (fc_env conf) c'"
      using cache_get_step [OF c, of "cm_now conf s" p] get by (simp add: cache_step_def)
    moreover have "item_ok (fc_env conf) i" if "x = Some i" for i
      using cache_get_item_ok [OF c, of "cm_now conf s" p i] get that by simp
    ultimately show ?thesis using run ok Some get by (auto simp: cm_cache_get_def client_ok_def)
  qed
qed

lemma safe_cache_get_any [safe_rules]: "safe conf (\<lambda>_. True) (cm_cache_get conf p)"
  by (rule safe_weaken [OF safe_cache_get]) simp

lemma safe_cache:
  assumes "\<And>now c. env_ok (fc_env conf) \<Longrightarrow> cache_ok (fc_env conf) c \<Longrightarrow>
      \<exists>c'. f now c = Ret c' \<and> cache_step (fc_env conf) c c'"
  shows "safe conf (\<lambda>_. True) (cm_cache conf f)"
proof (rule safeI)
  fix s r s' assume ok: "client_ok conf s" and run: "cm_cache conf f s = (r, s')"
  show "r \<noteq> Panic \<and> client_ok conf s' \<and> (\<forall>x. r = Ret (Inr x) \<longrightarrow> True)"
  proof (cases "cw_cache s")
    case None
    with run ok show ?thesis by (auto simp: cm_cache_def)
  next
    case (Some c)
    then obtain c' where "f (cm_now conf s) c = Ret c'" "cache_step (fc_env conf) c c'"
      using assms ok by (fastforce simp: client_ok_def)
    with run ok Some show ?thesis by (auto simp: cm_cache_def client_ok_def cache_step_def)
  qed
qed


subsection \<open>The methods\<close>

lemma safe_put_attr [safe_rules]:
  "safe conf (\<lambda>_. True) (cm_cache conf (\<lambda>now. cache_put_attr (fc_env conf) now p a))"
  by (rule safe_cache) (blast dest: cache_put_attr_total)

lemma safe_cache_write [safe_rules]:
  "safe conf (\<lambda>_. True) (cm_cache conf (\<lambda>now. cache_write_file (fc_env conf) now p off d drop_attr))"
  by (rule safe_cache) (blast dest: cache_write_file_total)

lemma safe_put [safe_rules]:
  "(\<And>env. item_ok env i) \<Longrightarrow>
    safe conf (\<lambda>_. True) (cm_cache conf (\<lambda>now. cache_put (fc_env conf) now p i drop_attr))"
  by (rule safe_cache) (blast dest: cache_put_total)

lemma safe_put_new [safe_rules]:
  "(\<And>env. item_ok env i) \<Longrightarrow>
    safe conf (\<lambda>_. True) (cm_cache conf (\<lambda>now c. Ret (cache_put_new (fc_env conf) now p i c)))"
  by (rule safe_cache) (simp add: cache_put_new_step)

lemma safe_remove [safe_rules]:
  "safe conf (\<lambda>_. True) (cm_cache conf (\<lambda>now c. Ret (snd (cache_remove p c))))"
  by (rule safe_cache) (simp add: cache_remove_step)

lemma safe_invalidate [safe_rules]:
  "safe conf (\<lambda>_. True) (cm_cache conf (\<lambda>now c. Ret (cache_invalidate p c)))"
  by (rule safe_cache) (simp add: cache_invalidate_step)

lemma item_ok_fresh [simp]:
  "pages_ok env (cf_content (file_new name a))" "item_ok env (cache_item_of e)"
  by (simp_all add: file_new_def cache_item_of_def split: c_item_type.split)

lemma safe_get_attributes [safe_methods]: "safe conf (\<lambda>_. True) (fs_get_attributes conf p)"
  unfolding fs_get_attributes_def
  by (intro safe_rules) (auto split: option.split intro!: safe_rules)

lemma safe_set_attributes [safe_methods]: "safe conf (\<lambda>_. True) (fs_set_attributes conf u g p a)"
  unfolding fs_set_attributes_def by (intro safe_rules) simp

lemma safe_permissions [safe_methods]:
  "safe conf (\<lambda>_. True) (fs_get_permissions conf p m)" "safe conf (\<lambda>_. True) (fs_get_fs_stats conf p)"
  unfolding fs_get_permissions_def fs_get_fs_stats_def by (intro safe_rules)+

lemma safe_xattributes [safe_methods]:
  "safe conf (\<lambda>_. True) (fs_get_x_attributes conf p name)"
  "safe conf (\<lambda>_. True) (fs_set_x_attributes conf p name v flg pos)"
  "safe conf (\<lambda>_. True) (fs_list_x_attribute conf p)"
  "safe conf (\<lambda>_. True) (fs_remove_x_attributes conf p name)"
  unfolding fs_get_x_attributes_def fs_set_x_attributes_def fs_list_x_attribute_def
    fs_remove_x_attributes_def
  by ((intro safe_rules; auto split: option.split intro!: safe_rules)+)

lemma safe_open [safe_methods]:
  "safe conf (\<lambda>_. True) (fs_open p flg)" "safe conf (\<lambda>_. True) (fs_release p flg fh)"
  "safe conf (\<lambda>_. True) (fs_get_path_from_fh fh)"
  by (simp_all add: safe_def fs_open_def fs_release_def fs_get_path_from_fh_def client_ok_def Let_def)

lemma safe_cached_children [safe_methods]: "safe conf (\<lambda>_. True) (fs_cached_children conf p cs)"
  by (induction cs) (auto split: option.split sum.split intro!: safe_rules)

lemma safe_put_children [safe_methods]: "safe conf (\<lambda>_. True) (fs_put_children conf p es)"
  by (induction es) (auto intro!: safe_rules)

lemma safe_with_dots [safe_methods]: "safe conf (\<lambda>_. True) (fs_with_dots conf p cs)"
  unfolding fs_with_dots_def by (intro safe_rules safe_methods) simp

lemma safe_readdir [safe_methods]: "safe conf (\<lambda>_. True) (fs_readdir conf p)"
  unfolding fs_readdir_def fs_list_path_def
  by (auto simp: Let_def split: option.split cache_item.split intro!: safe_rules safe_methods)

lemma safe_mkdir [safe_methods]: "safe conf (\<lambda>_. True) (fs_mkdir conf p)"
  unfolding fs_mkdir_def by (auto split: option.split intro!: safe_rules)

lemma safe_links [safe_methods]:
  "safe conf (\<lambda>_. True) (fs_create_symlink conf p t)" "safe conf (\<lambda>_. True) (fs_read_symlink conf p)"
  unfolding fs_create_symlink_def fs_read_symlink_def
  by (auto split: option.split cache_item.split intro!: safe_rules)

lemma safe_create_file [safe_methods]: "safe conf (\<lambda>_. True) (fs_create_file conf p k off d)"
  unfolding fs_create_file_def by (auto split: option.split intro!: safe_rules)

lemma safe_delete [safe_methods]:
  "safe conf (\<lambda>_. True) (fs_remove conf p)" "safe conf (\<lambda>_. True) (fs_cache_invalidate conf p)"
  unfolding fs_remove_def fs_cache_invalidate_def by (intro safe_rules)+

lemma safe_fs_rename [safe_methods]: "safe conf (\<lambda>_. True) (fs_rename conf p q flg)"
proof -
  have item: "item_ok env i"
    if "cache_ok env c" "fst (cache_remove p c) = Some i" for env c i
    using that by (auto simp: cache_remove_def cache_ok_def entries_ok_def split: option.splits)
  have "safe conf (\<lambda>_. True) (cm_cache conf (\<lambda>now c.
       if c_flags_contains flg C_EXCHANGE
       then Ret (snd (cache_remove q (snd (cache_remove p c))))
       else (let (old_item, c1) = cache_remove p c
             in case (path_file_name q, old_item) of
                  (Some name, Some item) \<Rightarrow>
                    Ret (cache_put_new (fc_env conf) now q (cache_item_rename name item) c1)
                | _ \<Rightarrow> Ret c1)))"
  proof (rule safe_cache)
    fix now c assume env: "env_ok (fc_env conf)" and c: "cache_ok (fc_env conf) c"
    have removed: "cache_step (fc_env conf) c (snd (cache_remove p c))" by (rule cache_remove_step [OF c])
    then have ok: "cache_ok (fc_env conf) (snd (cache_remove p c))" by (simp add: cache_step_def)
    have ren: "item_ok (fc_env conf) (cache_item_rename name i)" if "item_ok (fc_env conf) i" for name i
      using that by (cases i) simp_all
    show "\<exists>c'. (if c_flags_contains flg C_EXCHANGE
       then Ret (snd (cache_remove q (snd (cache_remove p c))))
       else (let (old_item, c1) = cache_remove p c
             in case (path_file_name q, old_item) of
                  (Some name, Some item) \<Rightarrow>
                    Ret (cache_put_new (fc_env conf) now q (cache_item_rename name item) c1)
                | _ \<Rightarrow> Ret c1)) = Ret c' \<and> cache_step (fc_env conf) c c'"
      using removed cache_remove_step [OF ok, of q] item [OF c] ren cache_put_new_step [OF env ok]
      by (auto split: prod.splits option.splits intro: cache_step_trans)
  qed
  then show ?thesis unfolding fs_rename_def by (intro safe_rules)
qed

subsection \<open>Reads and writes\<close>

lemma safe_buffer [safe_rules]:
  "safe conf (\<lambda>_. True) (cm_buffer_fill conf p off d)"
  by (simp add: safe_def cm_buffer_fill_def client_ok_def)

lemma safe_buffer_length: "safe conf (\<lambda>d. length d \<le> n) (cm_buffer_read conf p off n)"
  by (auto simp: safe_def cm_buffer_read_def rb_read_def Let_def)

lemma safe_cached_length: "safe conf (\<lambda>d. length d \<le> n) (cm_cached_bytes conf p off n)"
  unfolding cm_cached_bytes_def
proof (rule safe_env, rule safe_bind [OF safe_cache_get])
  fix item assume env: "env_ok (fc_env conf)" and ok: "\<forall>i. item = Some i \<longrightarrow> item_ok (fc_env conf) i"
  have "safe conf (\<lambda>d. length d \<le> n) (cm_outcome (file_read (fc_env conf) f off n))"
    if "item = Some (Cache_File f)" for f
  proof -
    have "pages_ok (fc_env conf) (cf_content f)" using ok that by simp
    then obtain d where "file_read (fc_env conf) f off n = Ret d" "length d \<le> n"
      using read_pages_run [of "fc_env conf" _ off n] env_ok_page [OF env] by (auto simp: file_read_def)
    then show ?thesis by (simp add: safe_def cm_outcome_def)
  qed
  then show "safe conf (\<lambda>d. length d \<le> n) (case item of
         Some (Cache_File f) \<Rightarrow> cm_outcome (file_read (fc_env conf) f off n) | _ \<Rightarrow> cm_return [])"
    by (auto split: option.split cache_item.split intro!: safe_rules)
qed

text \<open>A read never returns more than it was asked for.\<close>

lemma safe_read_length: "safe conf (\<lambda>d. length d \<le> n) (fs_read_file conf p off n)"
proof -
  have remote: "safe conf (\<lambda>d. length d \<le> n) (fs_read_remote conf p off n)"
    unfolding fs_read_remote_def by (intro safe_rules) simp
  have buffered: "safe conf (\<lambda>d. length d \<le> n) (cm_bind (cm_buffer_read conf p off n) (\<lambda>data.
         if data \<noteq> []
         then cm_bind (cm_cache conf (\<lambda>now. cache_write_file (fc_env conf) now p off data False))
                (\<lambda>_. cm_return data)
         else fs_read_remote conf p off n))"
    by (rule safe_bind [OF safe_buffer_length]) (auto intro!: safe_rules remote)
  have cached: "safe conf (\<lambda>d. length d \<le> n) (cm_bind (cm_cached_bytes conf p off n) (\<lambda>data.
         if data \<noteq> [] then cm_return data else cm_bind (cm_buffer_read conf p off n) (\<lambda>data.
         if data \<noteq> []
         then cm_bind (cm_cache conf (\<lambda>now. cache_write_file (fc_env conf) now p off data False))
                (\<lambda>_. cm_return data)
         else fs_read_remote conf p off n)))"
    by (rule safe_bind [OF safe_cached_length]) (auto intro!: safe_return buffered)
  have size_known: "safe conf (\<lambda>_. True) (cm_try (fs_get_attributes conf p))"
    by (rule safe_try [OF safe_get_attributes])
  show ?thesis unfolding fs_read_file_def
    by (rule safe_bind [OF size_known]) (auto split: sum.split intro!: safe_rules cached)
qed

lemma safe_fs_read [safe_methods]: "safe conf (\<lambda>_. True) (fs_read_file conf p off n)"
  by (rule safe_weaken [OF safe_read_length]) simp

lemma write_stage_wf:
  assumes "wb_wf b" and "write_stage p off d b = (n, us, b')"
  shows "wb_wf b'"
proof -
  define b1 where "b1 = (if wb_is_appending b p off then b else wb_clean b)"
  obtain k b2 where w: "wb_write p off d b1 = (k, b2)" by (cases "wb_write p off d b1")
  have "wb_wf b1" using assms(1) by (simp add: b1_def)
  with wb_write_cases [OF _ w] have "wb_wf b2" by blast
  moreover have "b' = b2 \<or> b' = wb_clean b2"
    using assms(2) w by (auto simp: write_stage_def b1_def split: if_splits prod.splits)
  ultimately show ?thesis by auto
qed

lemma safe_upload [safe_methods]:
  "safe conf (\<lambda>_. True) (fs_upload conf u)" "safe conf (\<lambda>_. True) (fs_upload_all conf us)"
proof -
  show one: "safe conf (\<lambda>_. True) (fs_upload conf u)" for u
    unfolding fs_upload_def by (auto split: prod.split intro!: safe_rules)
  show "safe conf (\<lambda>_. True) (fs_upload_all conf us)"
    by (induction us) (auto intro!: safe_rules one)
qed

lemma safe_fs_write [safe_methods]:
  "safe conf (\<lambda>_. True) (fs_write_file conf p flg off d)" "safe conf (\<lambda>_. True) (fs_flush_write_buffer conf)"
proof -
  show "safe conf (\<lambda>_. True) (fs_write_file conf p flg off d)"
  proof (rule safeI)
    fix s r s' assume ok: "client_ok conf s" and run: "fs_write_file conf p flg off d s = (r, s')"
    obtain n us b where stage: "write_stage p off d (cw_write_buffer s) = (n, us, b)"
      by (cases "write_stage p off d (cw_write_buffer s)")
    then have "client_ok conf (s\<lparr>cw_write_buffer := b\<rparr>)"
      using ok write_stage_wf by (auto simp: client_ok_def)
    moreover have "safe conf (\<lambda>_. True) (cm_bind (fs_upload_all conf us) (\<lambda>_. cm_return n))"
      by (intro safe_rules safe_upload) simp
    ultimately show "r \<noteq> Panic \<and> client_ok conf s' \<and> (\<forall>x. r = Ret (Inr x) \<longrightarrow> True)"
      using run stage safeD by (fastforce simp: fs_write_file_def)
  qed
  show "safe conf (\<lambda>_. True) (fs_flush_write_buffer conf)"
  proof (rule safeI)
    fix s r s' assume ok: "client_ok conf s" and run: "fs_flush_write_buffer conf s = (r, s')"
    then have "client_ok conf (s\<lparr>cw_write_buffer := wb_clean (cw_write_buffer s)\<rparr>)"
      by (simp add: client_ok_def)
    with ok run safeD [OF safe_upload(1)]
    show "r \<noteq> Panic \<and> client_ok conf s' \<and> (\<forall>x. r = Ret (Inr x) \<longrightarrow> True)"
      by (fastforce simp: fs_flush_write_buffer_def split: prod.splits if_splits)
  qed
qed


subsection \<open>The client as a transition system\<close>

text \<open>The calls of the FUSE layer, and one step of the client for each.\<close>

datatype fs_call =
    Call_Open pathbuf flags
  | Call_Release pathbuf flags u64
  | Call_GetAttributes pathbuf
  | Call_SetAttributes u32 u32 pathbuf c_set_attr
  | Call_GetPermissions pathbuf u32
  | Call_GetStats pathbuf
  | Call_GetX pathbuf string
  | Call_SetX pathbuf string bytes u32 u32
  | Call_ListX pathbuf
  | Call_RemoveX pathbuf string
  | Call_Readdir pathbuf
  | Call_Mkdir pathbuf
  | Call_Rename pathbuf pathbuf u32
  | Call_Remove pathbuf
  | Call_Invalidate pathbuf
  | Call_CreateSymlink pathbuf string
  | Call_ReadSymlink pathbuf
  | Call_CreateFile pathbuf file_type nat bytes
  | Call_Read pathbuf nat nat
  | Call_Write pathbuf flags nat bytes
  | Call_Flush

definition cm_void :: "('w, 'a) cm \<Rightarrow> ('w, unit) cm" where
  "cm_void m = cm_bind m (\<lambda>_. cm_return ())"

fun fs_exec :: "'w fs_conf \<Rightarrow> fs_call \<Rightarrow> ('w, unit) cm" where
  "fs_exec conf (Call_Open p flg) = cm_void (fs_open p flg)"
| "fs_exec conf (Call_Release p flg fh) = fs_release p flg fh"
| "fs_exec conf (Call_GetAttributes p) = cm_void (fs_get_attributes conf p)"
| "fs_exec conf (Call_SetAttributes u g p a) = cm_void (fs_set_attributes conf u g p a)"
| "fs_exec conf (Call_GetPermissions p m) = fs_get_permissions conf p m"
| "fs_exec conf (Call_GetStats p) = cm_void (fs_get_fs_stats conf p)"
| "fs_exec conf (Call_GetX p n) = cm_void (fs_get_x_attributes conf p n)"
| "fs_exec conf (Call_SetX p n v flg pos) = fs_set_x_attributes conf p n v flg pos"
| "fs_exec conf (Call_ListX p) = cm_void (fs_list_x_attribute conf p)"
| "fs_exec conf (Call_RemoveX p n) = fs_remove_x_attributes conf p n"
| "fs_exec conf (Call_Readdir p) = cm_void (fs_readdir conf p)"
| "fs_exec conf (Call_Mkdir p) = cm_void (fs_mkdir conf p)"
| "fs_exec conf (Call_Rename p q flg) = fs_rename conf p q flg"
| "fs_exec conf (Call_Remove p) = fs_remove conf p"
| "fs_exec conf (Call_Invalidate p) = fs_cache_invalidate conf p"
| "fs_exec conf (Call_CreateSymlink p t) = cm_void (fs_create_symlink conf p t)"
| "fs_exec conf (Call_ReadSymlink p) = cm_void (fs_read_symlink conf p)"
| "fs_exec conf (Call_CreateFile p k off d) = cm_void (fs_create_file conf p k off d)"
| "fs_exec conf (Call_Read p off n) = cm_void (fs_read_file conf p off n)"
| "fs_exec conf (Call_Write p flg off d) = cm_void (fs_write_file conf p flg off d)"
| "fs_exec conf Call_Flush = fs_flush_write_buffer conf"

text \<open>The states that calls lead to; the world may change between two calls.\<close>

inductive fs_reach :: "'w fs_conf \<Rightarrow> 'w client \<Rightarrow> 'w client \<Rightarrow> bool" for conf s0 where
  Start: "fs_reach conf s0 s0"
| Call: "fs_reach conf s0 s \<Longrightarrow> fs_exec conf call s = (r, s') \<Longrightarrow> fs_reach conf s0 s'"
| World: "fs_reach conf s0 s \<Longrightarrow> fs_reach conf s0 (s\<lparr>cw_world := w\<rparr>)"

lemma safe_void: "safe conf (\<lambda>_. True) m \<Longrightarrow> safe conf (\<lambda>_. True) (cm_void m)"
  unfolding cm_void_def by (intro safe_rules) simp_all

lemma safe_exec: "safe conf (\<lambda>_. True) (fs_exec conf call)"
  by (cases call) (simp_all add: safe_methods safe_void)

lemma fs_reach_ok: "fs_reach conf s0 s \<Longrightarrow> client_ok conf s0 \<Longrightarrow> client_ok conf s"
  by (induction rule: fs_reach.induct) (auto dest: safeD [OF safe_exec])



text \<open>A server out of reach.\<close>

definition no_answer :: "(unit, 'a) net" where
  "no_answer w = (Inl Net_Request, w)"

definition offline :: "unit remote" where
  "offline = \<lparr>rm_now = (\<lambda>_. 0), rm_get_attributes = (\<lambda>_. no_answer), rm_set_attributes = (\<lambda>_ _. no_answer),
     rm_get_x_attributes = (\<lambda>_ _. no_answer), rm_set_x_attributes = (\<lambda>_ _ _. no_answer),
     rm_list_x_attributes = (\<lambda>_. no_answer), rm_remove_x_attributes = (\<lambda>_ _. no_answer),
     rm_get_permissions = (\<lambda>_ _. no_answer), rm_get_stats = (\<lambda>_. no_answer), rm_list_path = (\<lambda>_. no_answer),
     rm_read_file = (\<lambda>_ _ _. no_answer), rm_write_file = (\<lambda>_ _ _. no_answer), rm_mkdir = (\<lambda>_. no_answer),
     rm_rename = (\<lambda>_ _ _. no_answer), rm_remove = (\<lambda>_. no_answer), rm_create_symlink = (\<lambda>_ _. no_answer),
     rm_read_symlink = (\<lambda>_. no_answer)\<rparr>"

definition offline_config :: fs_config where
  "offline_config = \<lparr>fg_page_size = 4, fg_buffer_size = 2, fg_xattr_enable = True,
     fg_cache = cache_config_default\<rparr>"

definition offline_client :: "unit fs_conf \<times> unit client" where
  "offline_client = (case fs_new offline offline_config id id 1 () of Ret x \<Rightarrow> x)"

lemma offline_new: "fs_new offline offline_config id id 1 () = Ret offline_client"
  by (simp add: offline_client_def fs_new_def offline_config_def)


subsection \<open>What the buffers do not promise\<close>

text \<open>
  C36. A flush that fails loses the bytes: the buffer is emptied before the upload, so after an error
  nothing is pending and the next flush reports success without sending anything.
\<close>

theorem failed_flush_loses_bytes:
  assumes "fs_flush_write_buffer conf s = (Ret (Inl e), s')"
  shows "wb_pending (cw_write_buffer s) \<noteq> [] \<and> wb_pending (cw_write_buffer s') = []
    \<and> fs_flush_write_buffer conf s' = (Ret (Inr ()), s')"
proof -
  have keep: "cw_write_buffer t' = cw_write_buffer t" if "fs_upload conf u t = (r, t')" for u t r t'
    using that
    by (auto simp: fs_upload_def cm_bind_def cm_path_def cm_net_def cm_cache_def
        split: prod.splits outcome.splits sum.splits option.splits)
  from assms have "wb_pending (cw_write_buffer s) \<noteq> []"
    and "cw_write_buffer s' = wb_clean (cw_write_buffer s)"
    by (auto simp: fs_flush_write_buffer_def wb_get_content_eq dest: keep split: if_splits)
  then show ?thesis by (simp add: fs_flush_write_buffer_def wb_get_content_eq)
qed

lemma failed_flush_loses_bytes_witness:
  "\<exists>s e s'. fs_write_file (fst offline_client) [RootDir, Normal ''a''] flags_default 0 [1] (snd offline_client)
      = (Ret (Inr 1), s)
    \<and> fs_flush_write_buffer (fst offline_client) s = (Ret (Inl e), s')
    \<and> fs_flush_write_buffer (fst offline_client) s' = (Ret (Inr ()), s')"
proof -
  let ?p = "[RootDir, Normal ''a'']"
  let ?b = "(wb_new 2)\<lparr>wb_path := ?p, wb_buffer := [1, 0], wb_valid_up_to := 1\<rparr>"
  let ?s = "(snd offline_client)\<lparr>cw_write_buffer := ?b\<rparr>"
  have start: "cw_write_buffer (snd offline_client) = wb_new 2" "fc_remote (fst offline_client) = offline"
    "cw_world (snd offline_client) = ()"
    by (simp_all add: offline_client_def fs_new_def offline_config_def)
  have stage: "write_stage ?p 0 [1] (wb_new 2) = (1, [], ?b)"
    by (simp add: write_stage_def wb_new_def wb_is_appending_def wb_get_content_def wb_clean_def wb_write_def
        wb_is_full_def copy_slice_def numeral_2_eq_2)
  have wrote: "fs_write_file (fst offline_client) ?p flags_default 0 [1] (snd offline_client) = (Ret (Inr 1), ?s)"
    by (simp add: fs_write_file_def start stage cm_bind_def cm_return_def)
  have str: "path_to_string ?p = Inr ''/a''" by code_simp
  obtain s' where flush: "fs_flush_write_buffer (fst offline_client) ?s
      = (Ret (Inl (Fs_ServerError Net_Request)), s')"
    by (simp add: fs_flush_write_buffer_def wb_get_content_def fs_upload_def cm_bind_def cm_path_def str
        cm_net_def start offline_def no_answer_def)
  from failed_flush_loses_bytes [OF flush] wrote flush show ?thesis by blast
qed


text \<open>A computation that neither looks at the write buffer nor changes it.\<close>

definition blind :: "('w, 'a) cm \<Rightarrow> bool" where
  "blind m \<longleftrightarrow> (\<forall>s b. m (s\<lparr>cw_write_buffer := b\<rparr>) = (fst (m s), (snd (m s))\<lparr>cw_write_buffer := b\<rparr>))"

named_theorems blind_rules \<open>computations that do not touch the write buffer\<close>

lemma blindD: "blind m \<Longrightarrow> m s = (r, s') \<Longrightarrow> m (s\<lparr>cw_write_buffer := b\<rparr>) = (r, s'\<lparr>cw_write_buffer := b\<rparr>)"
  by (simp add: blind_def)

lemma blind_bind [blind_rules]:
  assumes "blind m" and "\<And>x. blind (f x)"
  shows "blind (cm_bind m f)"
  unfolding blind_def
proof (intro allI)
  fix s b
  obtain r s' where m: "m s = (r, s')" by (cases "m s")
  show "cm_bind m f (s\<lparr>cw_write_buffer := b\<rparr>)
    = (fst (cm_bind m f s), (snd (cm_bind m f s))\<lparr>cw_write_buffer := b\<rparr>)"
    using assms(2) by (simp add: cm_bind_def m blindD [OF assms(1) m] blind_def split: outcome.split sum.split)
qed

lemma blind_steps [blind_rules]:
  "blind (cm_return x)" "blind (cm_path p)" "blind (cm_net g)" "blind (cm_cache_get conf p)"
  "blind (cm_cache conf h)" "blind (cm_outcome q)" "blind (cm_buffer_read conf p off n)"
  "blind (cm_buffer_fill conf p off d)"
  "blind (\<lambda>s. cm_net (rm_read_file R ps off (rb_capacity (cw_read_buffer s))) s)"
  by (simp_all add: blind_def cm_return_def cm_path_def cm_net_def cm_cache_get_def cm_cache_def
      cm_outcome_def cm_buffer_read_def cm_buffer_fill_def cm_now_def
      split: prod.splits sum.splits option.splits outcome.splits)

lemma blind_try [blind_rules]: "blind m \<Longrightarrow> blind (cm_try m)"
  by (simp add: blind_def cm_try_def split: prod.splits outcome.splits)

text \<open>
  C38. A read does not see a write that is still in the write buffer: the read and the state it
  leaves are the same for every content of the write buffer, which it does not change. Bytes a
  program wrote and has not flushed are therefore missing from what it reads back.
\<close>

theorem reads_ignore_write_buffer:
  "fs_read_file conf p off n (s\<lparr>cw_write_buffer := b\<rparr>)
    = (fst (fs_read_file conf p off n s), (snd (fs_read_file conf p off n s))\<lparr>cw_write_buffer := b\<rparr>)"
proof -
  have "blind (fs_read_file conf p off n)"
    unfolding fs_read_file_def fs_get_attributes_def cm_cached_bytes_def fs_read_remote_def
    by (auto intro!: blind_rules split: option.split cache_item.split)
  then show ?thesis by (simp add: blind_def)
qed

end
