(* ===== verification/Fuse_Unix.thy ===== *)
theory Fuse_Unix
  imports Client_FS
begin

text \<open>
  The FUSE callbacks of the client on Unix: \<open>client/src/fuse/unix.rs\<close>, the implementation of
  \<open>PathFilesystem\<close> (crate \<open>fuse3\<close>) on top of \<open>FileSystem\<close>. A callback returns \<open>Panic\<close>, an
  \<open>errno\<close> or its reply.

  \<^item> \<open>OsStr\<close> arguments are strings of bytes; \<open>PathBuf::from\<close> is \<open>components\<close>.
  \<^item> Of \<open>Request\<close> the code reads the user and the group.
  \<^item> Offsets and sizes keep their width; the sum of an offset and the number of bytes read so far
    is a natural number: the kernel's offsets are below \<open>2 ^ 63\<close>.
  \<^item> The reply types are those of \<open>fuse3::path\<close>: times are \<open>SystemTime\<close>.
\<close>

unbundle bit_operations_syntax

subsection \<open>Replies\<close>

record fuse_attr =
  ua_size :: u64
  ua_blocks :: u64
  ua_atime :: systime
  ua_mtime :: systime
  ua_ctime :: systime
  ua_kind :: file_type
  ua_perm :: u16
  ua_nlink :: u32
  ua_uid :: u32
  ua_gid :: u32
  ua_rdev :: u32
  ua_blksize :: u32

text \<open>\<open>ReplyEntry\<close> and \<open>ReplyAttr\<close>; the time to live is in seconds.\<close>

record reply_attr =
  ra_ttl :: nat
  ra_attr :: fuse_attr

record reply_created = reply_attr +
  cr_generation :: u64
  cr_fh :: u64
  cr_flags :: u32

record reply_open =
  ro_fh :: u64
  ro_flags :: u32

datatype reply_xattr = Xattr_Size u32 | Xattr_Data bytes

record directory_entry =
  de_offset :: i64
  de_name :: string
  de_kind :: file_type

record directory_entry_plus = directory_entry +
  dp_attr :: fuse_attr
  dp_entry_ttl :: nat
  dp_attr_ttl :: nat

text \<open>\<open>fuse3::SetAttr\<close> and the part of \<open>Request\<close> that is used.\<close>

record fuse_set_attr =
  us_mode :: "u32 option"
  us_uid :: "u32 option"
  us_gid :: "u32 option"
  us_size :: "u64 option"
  us_lock_owner :: "u64 option"
  us_atime :: "timestamp option"
  us_mtime :: "timestamp option"
  us_ctime :: "timestamp option"

record fuse_req =
  rq_uid :: u32
  rq_gid :: u32

subsection \<open>Conversions\<close>

text \<open>\<open>From<fs_model::FileType> for FileType\<close>: both enums have the same variants.\<close>

fun fuse_file_type :: "file_type \<Rightarrow> file_type" where
  "fuse_file_type NamedPipe = NamedPipe"
| "fuse_file_type CharDevice = CharDevice"
| "fuse_file_type BlockDevice = BlockDevice"
| "fuse_file_type Directory_T = Directory_T"
| "fuse_file_type RegularFile = RegularFile"
| "fuse_file_type Symlink_T = Symlink_T"
| "fuse_file_type Socket = Socket"

definition systime_into :: "timestamp \<Rightarrow> systime outcome" where
  "systime_into t = (case c_systime_from_timestamp t of None \<Rightarrow> Panic | Some s \<Rightarrow> Ret s)"

definition fuse_attr_from :: "c_attributes \<Rightarrow> fuse_attr outcome" where
  "fuse_attr_from v =
     outcome_bind (systime_into (at_atime v)) (\<lambda>atime.
     outcome_bind (systime_into (at_mtime v)) (\<lambda>mtime.
     outcome_bind (systime_into (at_ctime v)) (\<lambda>ctime.
     Ret \<lparr>ua_size = at_size v, ua_blocks = at_blocks v, ua_atime = atime, ua_mtime = mtime,
       ua_ctime = ctime, ua_kind = fuse_file_type (at_kind v),
       ua_perm = c_file_type_code_u16 (at_kind v) OR at_perm v, ua_nlink = at_nlink v,
       ua_uid = at_uid v, ua_gid = at_gid v, ua_rdev = at_rdev v, ua_blksize = at_blksize v\<rparr>)))"

text \<open>\<open>From<fuse3::Timestamp> for fs_model::Timestamp\<close> and \<open>From<SetAttr> for fs_model::SetAttr\<close>\<close>

definition timestamp_from_fuse :: "timestamp \<Rightarrow> timestamp" where
  "timestamp_from_fuse t = \<lparr>ts_sec = ts_sec t, ts_nsec = ts_nsec t\<rparr>"

definition set_attr_from_fuse :: "fuse_set_attr \<Rightarrow> c_set_attr" where
  "set_attr_from_fuse v =
     \<lparr>cs_mode = us_mode v, cs_uid = us_uid v, cs_gid = us_gid v, cs_size = us_size v,
      cs_atime = map_option timestamp_from_fuse (us_atime v),
      cs_mtime = map_option timestamp_from_fuse (us_mtime v),
      cs_ctime = map_option timestamp_from_fuse (us_ctime v)\<rparr>"

subsection \<open>Callbacks\<close>

type_synonym ('w, 'a) fu = "'w client \<Rightarrow> (errno + 'a) outcome \<times> 'w client"

definition fu_return :: "'a \<Rightarrow> ('w, 'a) fu" where
  "fu_return x s = (Ret (Inr x), s)"

definition fu_fail :: "errno \<Rightarrow> ('w, 'a) fu" where
  "fu_fail e s = (Ret (Inl e), s)"

definition fu_bind :: "('w, 'a) fu \<Rightarrow> ('a \<Rightarrow> ('w, 'b) fu) \<Rightarrow> ('w, 'b) fu" where
  "fu_bind m f s =
     (case m s of
        (Panic, s') \<Rightarrow> (Panic, s')
      | (Ret (Inl e), s') \<Rightarrow> (Ret (Inl e), s')
      | (Ret (Inr x), s') \<Rightarrow> f x s')"

text \<open>A call of \<open>FileSystem\<close> with \<open>?\<close>: its error becomes an \<open>errno\<close>.\<close>

definition fu_fs :: "('w, 'a) cm \<Rightarrow> ('w, 'a) fu" where
  "fu_fs m s =
     (case m s of
        (Panic, s') \<Rightarrow> (Panic, s')
      | (Ret (Inl e), s') \<Rightarrow> (Ret (Inl (errno_of_fs e)), s')
      | (Ret (Inr x), s') \<Rightarrow> (Ret (Inr x), s'))"

definition fu_try :: "fs_model_error + 'a \<Rightarrow> ('w, 'a) fu" where
  "fu_try r = (case r of Inl e \<Rightarrow> fu_fail (errno_of_fs e) | Inr x \<Rightarrow> fu_return x)"

definition fu_outcome :: "'a outcome \<Rightarrow> ('w, 'a) fu" where
  "fu_outcome r s = (case r of Panic \<Rightarrow> (Panic, s) | Ret x \<Rightarrow> (Ret (Inr x), s))"

lemmas fu_monad = fu_return_def fu_fail_def fu_bind_def fu_fs_def fu_try_def fu_outcome_def

text \<open>The path of a callback: given, or that of a handle (\<open>bad\<close> is the error for an unknown one).\<close>

definition fu_path :: "errno \<Rightarrow> string option \<Rightarrow> u64 \<Rightarrow> ('w, pathbuf) fu" where
  "fu_path bad path fh =
     (case path of
        Some p \<Rightarrow> fu_return (components p)
      | None \<Rightarrow> fu_bind (fu_fs (fs_get_path_from_fh fh)) (\<lambda>r.
          case r of Some p \<Rightarrow> fu_return p | None \<Rightarrow> fu_fail bad))"

definition fu_path_or_fh :: "string option \<Rightarrow> u64 option \<Rightarrow> ('w, pathbuf) fu" where
  "fu_path_or_fh path fh =
     (case path of
        Some p \<Rightarrow> fu_return (components p)
      | None \<Rightarrow> (case fh of
          None \<Rightarrow> fu_fail ESTALE
        | Some h \<Rightarrow> fu_path (errno_of_fuse (Fuse_InvalidFileHandle h)) None h))"

definition fu_reply_attr :: "c_attributes \<Rightarrow> ('w, reply_attr) fu" where
  "fu_reply_attr a = fu_bind (fu_outcome (fuse_attr_from a)) (\<lambda>attr.
     fu_return \<lparr>ra_ttl = 0, ra_attr = attr\<rparr>)"

definition fuse_init :: "('w, u32) fu" where
  "fuse_init = fu_return (64 * 1024)"

definition fuse_lookup :: "'w fs_conf \<Rightarrow> string \<Rightarrow> string \<Rightarrow> ('w, reply_attr) fu" where
  "fuse_lookup conf parent name =
     (let path = path_join (components parent) name
      in fu_bind (fu_fs (fs_get_attributes conf path)) fu_reply_attr)"

definition fuse_forget :: "'w fs_conf \<Rightarrow> string \<Rightarrow> u64 \<Rightarrow> ('w, unit) fu" where
  "fuse_forget conf parent nlookup = fu_fs (fs_cache_invalidate conf (components parent))"

fun fuse_batch_forget :: "'w fs_conf \<Rightarrow> string list \<Rightarrow> ('w, unit) fu" where
  "fuse_batch_forget conf [] = fu_return ()"
| "fuse_batch_forget conf (p # ps) =
     fu_bind (fu_fs (fs_cache_invalidate conf (components p))) (\<lambda>_. fuse_batch_forget conf ps)"

definition fuse_getattr ::
  "'w fs_conf \<Rightarrow> string option \<Rightarrow> u64 option \<Rightarrow> u32 \<Rightarrow> ('w, reply_attr) fu" where
  "fuse_getattr conf path fh flg =
     fu_bind (fu_path_or_fh path fh) (\<lambda>p.
     fu_bind (fu_fs (fs_get_attributes conf p)) fu_reply_attr)"

definition fuse_setattr ::
  "'w fs_conf \<Rightarrow> fuse_req \<Rightarrow> string option \<Rightarrow> u64 option \<Rightarrow> fuse_set_attr \<Rightarrow> ('w, reply_attr) fu" where
  "fuse_setattr conf req path fh set_attr =
     fu_bind (fu_path_or_fh path fh) (\<lambda>p.
     fu_bind (fu_fs (fs_set_attributes conf (rq_uid req) (rq_gid req) p (set_attr_from_fuse set_attr)))
       fu_reply_attr)"

subsection \<open>Extended attributes\<close>

text \<open>The reply protocol of \<open>getxattr\<close> and \<open>listxattr\<close>: size zero asks for the length.\<close>

definition fu_xattr_reply :: "u32 \<Rightarrow> bytes \<Rightarrow> ('w, reply_xattr) fu" where
  "fu_xattr_reply sz value =
     (if sz = 0 then fu_return (Xattr_Size (of_nat (length value)))
      else if sz < of_nat (length value) then fu_fail ERANGE
      else fu_return (Xattr_Data value))"

definition fu_utf8 :: "string \<Rightarrow> ('w, string) fu" where
  "fu_utf8 name = (if utf8 name then fu_return name else fu_fail (errno_of_fuse Fuse_InvalidInput))"

definition fu_with_xattr :: "'w fs_conf \<Rightarrow> ('w, 'a) fu \<Rightarrow> ('w, 'a) fu" where
  "fu_with_xattr conf m =
     (if fc_xattributes_enabled conf then m else fu_fail (errno_of_fuse Fuse_Unsupported))"

definition fuse_getxattr ::
  "'w fs_conf \<Rightarrow> string \<Rightarrow> string \<Rightarrow> u32 \<Rightarrow> ('w, reply_xattr) fu" where
  "fuse_getxattr conf path name sz =
     fu_with_xattr conf
       (fu_bind (fu_utf8 name) (\<lambda>n.
        fu_bind (fu_fs (fs_get_x_attributes conf (components path) n)) (fu_xattr_reply sz)))"

definition fuse_setxattr ::
  "'w fs_conf \<Rightarrow> string \<Rightarrow> string \<Rightarrow> bytes \<Rightarrow> u32 \<Rightarrow> u32 \<Rightarrow> ('w, unit) fu" where
  "fuse_setxattr conf path name value flg position =
     fu_with_xattr conf
       (fu_bind (fu_utf8 name) (\<lambda>n.
        fu_fs (fs_set_x_attributes conf (components path) n value flg position)))"

fun names_buffer :: "string list \<Rightarrow> bytes" where
  "names_buffer [] = []"
| "names_buffer (n # ns) = map of_char n @ [0] @ names_buffer ns"

definition fuse_listxattr :: "'w fs_conf \<Rightarrow> string \<Rightarrow> u32 \<Rightarrow> ('w, reply_xattr) fu" where
  "fuse_listxattr conf path sz =
     fu_with_xattr conf
       (fu_bind (fu_fs (fs_list_x_attribute conf (components path)))
         (\<lambda>names. fu_xattr_reply sz (names_buffer names)))"

definition fuse_removexattr :: "'w fs_conf \<Rightarrow> string \<Rightarrow> string \<Rightarrow> ('w, unit) fu" where
  "fuse_removexattr conf path name =
     fu_with_xattr conf
       (fu_bind (fu_utf8 name) (\<lambda>n. fu_fs (fs_remove_x_attributes conf (components path) n)))"


subsection \<open>File system state\<close>

text \<open>\<open>ReplyStatFs\<close> has the fields of \<open>Stats\<close>.\<close>

definition fuse_statfs :: "'w fs_conf \<Rightarrow> string \<Rightarrow> ('w, stats) fu" where
  "fuse_statfs conf path =
     fu_bind (fu_fs (fs_get_fs_stats conf (components path))) (\<lambda>st.
     fu_return \<lparr>s_blocks = s_blocks st, s_bfree = s_bfree st, s_bavail = s_bavail st,
       s_files = s_files st, s_ffree = s_ffree st, s_bsize = s_bsize st,
       s_namelen = s_namelen st, s_frsize = s_frsize st\<rparr>)"

definition fuse_access :: "'w fs_conf \<Rightarrow> string \<Rightarrow> u32 \<Rightarrow> ('w, unit) fu" where
  "fuse_access conf path m = fu_fs (fs_get_permissions conf (components path) m)"

subsection \<open>Files\<close>

definition fuse_mknod :: "'w fs_conf \<Rightarrow> string \<Rightarrow> string \<Rightarrow> u32 \<Rightarrow> u32 \<Rightarrow> ('w, reply_attr) fu" where
  "fuse_mknod conf parent name mode rdev =
     (let path = path_join (components parent) name
      in fu_bind (fu_try (c_file_type_of_code mode)) (\<lambda>fs_type.
         fu_bind (fu_fs (fs_create_file conf path fs_type 0 [])) fu_reply_attr))"

definition fuse_create ::
  "'w fs_conf \<Rightarrow> string \<Rightarrow> string \<Rightarrow> u32 \<Rightarrow> u32 \<Rightarrow> ('w, reply_created) fu" where
  "fuse_create conf parent name mode flg =
     (let path = path_join (components parent) name
      in fu_bind (fu_try (c_file_type_of_code mode)) (\<lambda>fs_type.
         fu_bind (fu_try (flags_try_from flg)) (\<lambda>fs_flags.
         if fl_noctt fs_flags then fu_fail (errno_of_fuse Fuse_InvalidInput)
         else fu_bind (fu_fs (fs_create_file conf path fs_type 0 [])) (\<lambda>file_attr.
           fu_bind (fu_fs (fs_open path fs_flags)) (\<lambda>fh.
           fu_bind (fu_outcome (fuse_attr_from file_attr)) (\<lambda>attr.
           fu_return \<lparr>ra_ttl = 0, ra_attr = attr, cr_generation = 0, cr_fh = fh, cr_flags = flg\<rparr>))))))"

definition fuse_open :: "'w fs_conf \<Rightarrow> fuse_req \<Rightarrow> string \<Rightarrow> u32 \<Rightarrow> ('w, reply_open) fu" where
  "fuse_open conf req path flg =
     fu_bind (fu_try (flags_try_from flg)) (\<lambda>fs_flags.
     if fl_create fs_flags \<or> fl_excl fs_flags \<or> fl_noctt fs_flags
     then fu_fail (errno_of_fuse Fuse_InvalidInput)
     else fu_bind (fu_try (flags_try_from flg)) (\<lambda>fs_flags.
       fu_bind (if fl_trunc fs_flags
           then fu_bind (fu_fs (fs_set_attributes conf (rq_uid req) (rq_gid req) (components path)
                  (c_set_size 0))) (\<lambda>_. fu_return ())
           else fu_return ()) (\<lambda>_.
       fu_bind (fu_fs (fs_open (components path) fs_flags)) (\<lambda>fh.
       fu_return \<lparr>ro_fh = fh, ro_flags = flg\<rparr>))))"

text \<open>The loop of \<open>read\<close> and of \<open>copy_file_range\<close>; \<open>data_read\<close> is the length of \<open>data\<close>.\<close>

function read_loop ::
  "'w fs_conf \<Rightarrow> pathbuf \<Rightarrow> nat \<Rightarrow> nat \<Rightarrow> bytes \<Rightarrow> ('w, bytes) fu" where
  "read_loop conf path offset sz data s =
     (if length data < sz
      then (case fu_fs (fs_read_file conf path (offset + length data) (sz - length data)) s of
              (Panic, s') \<Rightarrow> (Panic, s')
            | (Ret (Inl e), s') \<Rightarrow> (Ret (Inl e), s')
            | (Ret (Inr new_data), s') \<Rightarrow>
                if new_data = [] then (Ret (Inr data), s')
                else read_loop conf path offset sz (data @ new_data) s')
      else (Ret (Inr data), s))"
  by pat_completeness auto
termination
  by (relation "measure (\<lambda>(conf, path, offset, sz, data, s). sz - length data)")
    (auto intro!: diff_less_mono2)

declare read_loop.simps [simp del]

definition fuse_read ::
  "'w fs_conf \<Rightarrow> string option \<Rightarrow> u64 \<Rightarrow> u64 \<Rightarrow> u32 \<Rightarrow> ('w, bytes) fu" where
  "fuse_read conf path fh offset sz =
     fu_bind (fu_path (errno_of_fuse Fuse_InvalidInput) path fh) (\<lambda>file_path.
     read_loop conf file_path (unat offset) (unat sz) [])"

definition fuse_write ::
  "'w fs_conf \<Rightarrow> string option \<Rightarrow> u64 \<Rightarrow> u64 \<Rightarrow> bytes \<Rightarrow> u32 \<Rightarrow> u32 \<Rightarrow> ('w, u32) fu" where
  "fuse_write conf path fh offset data write_flags flg =
     fu_bind (fu_path (errno_of_fuse Fuse_InvalidInput) path fh) (\<lambda>file_path.
     fu_bind (fu_try (flags_try_from flg)) (\<lambda>fs_flags.
     fu_bind (fu_fs (fs_write_file conf file_path fs_flags (unat offset) data)) (\<lambda>n.
     fu_return (of_nat n))))"

definition fuse_flush :: "'w fs_conf \<Rightarrow> string option \<Rightarrow> u64 \<Rightarrow> u64 \<Rightarrow> ('w, unit) fu" where
  "fuse_flush conf path fh lock_owner =
     fu_bind (fu_path (errno_of_fuse Fuse_InvalidInput) path fh) (\<lambda>_.
     fu_fs (fs_flush_write_buffer conf))"

definition fuse_release ::
  "'w fs_conf \<Rightarrow> string option \<Rightarrow> u64 \<Rightarrow> u32 \<Rightarrow> u64 \<Rightarrow> bool \<Rightarrow> ('w, unit) fu" where
  "fuse_release conf path fh flg lock_owner flush =
     fu_bind (fu_path (errno_of_fuse (Fuse_InvalidFileHandle fh)) path fh) (\<lambda>file_path.
     fu_bind (fu_try (flags_try_from flg)) (\<lambda>fs_flags.
     fu_bind (fu_fs (fs_release file_path fs_flags fh)) (\<lambda>_.
     if flush then fu_fs (fs_flush_write_buffer conf) else fu_return ())))"

definition fuse_fsync :: "'w fs_conf \<Rightarrow> string option \<Rightarrow> u64 \<Rightarrow> bool \<Rightarrow> ('w, unit) fu" where
  "fuse_fsync conf path fh datasync =
     fu_bind (fu_fs (fs_flush_write_buffer conf)) (\<lambda>_.
     fu_bind (fu_path (errno_of_fuse (Fuse_InvalidFileHandle fh)) path fh) (\<lambda>file_path.
     fu_fs (fs_cache_invalidate conf file_path)))"

definition fuse_copy_file_range ::
  "'w fs_conf \<Rightarrow> fuse_req \<Rightarrow> string option \<Rightarrow> u64 \<Rightarrow> u64 \<Rightarrow> string option \<Rightarrow> u64 \<Rightarrow> u64 \<Rightarrow> u64 \<Rightarrow>
   u64 \<Rightarrow> ('w, u64) fu" where
  "fuse_copy_file_range conf req from_path fh_in offset_in to_path fh_out offset_out len flg =
     fu_bind (fu_path (errno_of_fuse (Fuse_InvalidFileHandle fh_in)) from_path fh_in) (\<lambda>file_in_path.
     fu_bind (fu_path (errno_of_fuse (Fuse_InvalidFileHandle fh_out)) to_path fh_out) (\<lambda>file_out_path.
     fu_bind (read_loop conf file_in_path (unat offset_in) (unat len) []) (\<lambda>data.
     fu_bind (fu_try (flags_try_from flg)) (\<lambda>fs_flags.
     fu_bind (if offset_out = 0
         then fu_bind (fu_fs (fs_set_attributes conf (rq_uid req) (rq_gid req) file_out_path
                (c_set_size 0))) (\<lambda>_. fu_return ())
         else fu_return ()) (\<lambda>_.
     fu_bind (fu_fs (fs_write_file conf file_out_path fs_flags (unat offset_out) data)) (\<lambda>n.
     fu_return (of_nat n)))))))"

text \<open>\<open>Vec::with_capacity\<close>: an empty vector; a capacity above \<open>isize::MAX\<close> panics.\<close>

definition vec_with_capacity :: "nat \<Rightarrow> bytes outcome" where
  "vec_with_capacity n = (if 2 ^ 63 \<le> n then Panic else Ret [])"

definition fuse_fallocate ::
  "'w fs_conf \<Rightarrow> string option \<Rightarrow> u64 \<Rightarrow> u64 \<Rightarrow> u64 \<Rightarrow> u32 \<Rightarrow> ('w, unit) fu" where
  "fuse_fallocate conf path fh offset len mode =
     fu_bind (fu_path (errno_of_fuse (Fuse_InvalidFileHandle fh)) path fh) (\<lambda>file_path.
     fu_bind (fu_try (c_file_type_of_code mode)) (\<lambda>fs_type.
     fu_bind (fu_outcome (vec_with_capacity (unat len))) (\<lambda>data.
     fu_bind (fu_fs (fs_create_file conf file_path fs_type (unat offset) data)) (\<lambda>_.
     fu_return ()))))"

subsection \<open>Directories\<close>

definition fuse_mkdir :: "'w fs_conf \<Rightarrow> string \<Rightarrow> string \<Rightarrow> u32 \<Rightarrow> u32 \<Rightarrow> ('w, reply_attr) fu" where
  "fuse_mkdir conf parent name mode umask =
     (let complete_path = path_join (components parent) name
      in fu_bind (fu_fs (fs_mkdir conf complete_path)) fu_reply_attr)"

definition fuse_rmdir :: "'w fs_conf \<Rightarrow> string \<Rightarrow> string \<Rightarrow> ('w, unit) fu" where
  "fuse_rmdir conf parent name = fu_fs (fs_remove conf (path_join (components parent) name))"

definition fuse_opendir :: "'w fs_conf \<Rightarrow> string \<Rightarrow> u32 \<Rightarrow> ('w, reply_open) fu" where
  "fuse_opendir conf path flg =
     fu_bind (fu_try (flags_try_from flg)) (\<lambda>fs_flags.
     fu_bind (fu_fs (fs_open (components path) fs_flags)) (\<lambda>fh.
     fu_return \<lparr>ro_fh = fh, ro_flags = flg\<rparr>))"

fun item_kind :: "c_item_type \<Rightarrow> file_type" where
  "item_kind CI_File = RegularFile"
| "item_kind CI_SymLink = Symlink_T"
| "item_kind CI_Directory = Directory_T"

text \<open>\<open>skip(offset as usize).enumerate()\<close>: the index counts from the first entry sent.\<close>

definition directory_entries :: "i64 \<Rightarrow> c_item list \<Rightarrow> directory_entry list" where
  "directory_entries offset items =
     map (\<lambda>(idx, item). \<lparr>de_offset = offset + of_nat idx + 1, de_name = ci_name item,
            de_kind = item_kind (ci_type item)\<rparr>)
       (List.enumerate 0 (drop (unat offset) items))"

definition fuse_readdir :: "'w fs_conf \<Rightarrow> string \<Rightarrow> u64 \<Rightarrow> i64 \<Rightarrow> ('w, directory_entry list) fu" where
  "fuse_readdir conf path fh offset =
     fu_bind (fu_fs (fs_readdir conf (components path))) (\<lambda>items.
     fu_return (directory_entries offset items))"

fun map_outcome :: "('a \<Rightarrow> 'b outcome) \<Rightarrow> 'a list \<Rightarrow> 'b list outcome" where
  "map_outcome f [] = Ret []"
| "map_outcome f (x # xs) =
     outcome_bind (f x) (\<lambda>y. outcome_bind (map_outcome f xs) (\<lambda>ys. Ret (y # ys)))"

definition directory_entries_plus :: "u64 \<Rightarrow> c_item list \<Rightarrow> directory_entry_plus list outcome" where
  "directory_entries_plus offset items =
     map_outcome (\<lambda>(idx, item).
         outcome_bind (fuse_attr_from (ci_attributes item)) (\<lambda>attr.
         Ret \<lparr>de_offset = ucast (offset + of_nat idx + 1), de_name = ci_name item,
           de_kind = item_kind (ci_type item), dp_attr = attr, dp_entry_ttl = 0, dp_attr_ttl = 0\<rparr>))
       (List.enumerate 0 (drop (unat offset) items))"

definition fuse_readdirplus ::
  "'w fs_conf \<Rightarrow> string \<Rightarrow> u64 \<Rightarrow> u64 \<Rightarrow> u64 \<Rightarrow> ('w, directory_entry_plus list) fu" where
  "fuse_readdirplus conf parent fh offset lock_owner =
     fu_bind (fu_fs (fs_readdir conf (components parent))) (\<lambda>items.
     fu_outcome (directory_entries_plus offset items))"

definition fuse_releasedir :: "'w fs_conf \<Rightarrow> string \<Rightarrow> u64 \<Rightarrow> u32 \<Rightarrow> ('w, unit) fu" where
  "fuse_releasedir conf path fh flg =
     fu_bind (fu_try (flags_try_from flg)) (\<lambda>fs_flags. fu_fs (fs_release (components path) fs_flags fh))"

definition fuse_fsyncdir :: "'w fs_conf \<Rightarrow> string \<Rightarrow> u64 \<Rightarrow> bool \<Rightarrow> ('w, unit) fu" where
  "fuse_fsyncdir conf path fh datasync = fu_fs (fs_cache_invalidate conf (components path))"

subsection \<open>Names\<close>

definition fuse_rename :: "'w fs_conf \<Rightarrow> string \<Rightarrow> string \<Rightarrow> string \<Rightarrow> string \<Rightarrow> ('w, unit) fu" where
  "fuse_rename conf origin_parent origin_name parent name =
     (let old_path = path_join (components origin_parent) origin_name;
          new_path = path_join (components parent) name
      in fu_fs (fs_rename conf old_path new_path (c_flags_truncate 0)))"

definition fuse_rename2 ::
  "'w fs_conf \<Rightarrow> string \<Rightarrow> string \<Rightarrow> string \<Rightarrow> string \<Rightarrow> u32 \<Rightarrow> ('w, unit) fu" where
  "fuse_rename2 conf origin_parent origin_name parent name flg =
     (let old_path = path_join (components origin_parent) origin_name;
          new_path = path_join (components parent) name
      in fu_fs (fs_rename conf old_path new_path (c_flags_truncate flg)))"

definition fuse_unlink :: "'w fs_conf \<Rightarrow> string \<Rightarrow> string \<Rightarrow> ('w, unit) fu" where
  "fuse_unlink conf parent name = fu_fs (fs_remove conf (path_join (components parent) name))"

definition fuse_readlink :: "'w fs_conf \<Rightarrow> string \<Rightarrow> ('w, bytes) fu" where
  "fuse_readlink conf path =
     fu_bind (fu_fs (fs_read_symlink conf (components path))) (\<lambda>target. fu_return (map of_char target))"

definition fuse_symlink :: "'w fs_conf \<Rightarrow> string \<Rightarrow> string \<Rightarrow> string \<Rightarrow> ('w, reply_attr) fu" where
  "fuse_symlink conf parent name link_path =
     (let path = path_join (components parent) name
      in if \<not> utf8 link_path then fu_fail (errno_of_fuse Fuse_InvalidInput)
         else fu_bind (fu_fs (fs_create_symlink conf path link_path)) fu_reply_attr)"

subsection \<open>What is not supported\<close>

definition fuse_bmap :: "string \<Rightarrow> u32 \<Rightarrow> u64 \<Rightarrow> ('w, u64) fu" where
  "fuse_bmap path block_size idx = fu_fail (errno_of_fuse Fuse_Unsupported)"

definition fuse_lseek :: "string option \<Rightarrow> u64 \<Rightarrow> u64 \<Rightarrow> u32 \<Rightarrow> ('w, u64) fu" where
  "fuse_lseek path fh offset whence = fu_fail (errno_of_fuse Fuse_Unsupported)"

definition fuse_link :: "string \<Rightarrow> string \<Rightarrow> string \<Rightarrow> ('w, reply_attr) fu" where
  "fuse_link path new_parent new_name = fu_fail (errno_of_fuse Fuse_Unsupported)"

definition fuse_getlk :: "string option \<Rightarrow> u64 \<Rightarrow> u64 \<Rightarrow> u64 \<Rightarrow> u64 \<Rightarrow> u32 \<Rightarrow> u32 \<Rightarrow> ('w, unit) fu" where
  "fuse_getlk path fh lock_owner start_at end_at kind pid = fu_fail (errno_of_fuse Fuse_NotImplemented)"

definition fuse_setlk ::
  "string option \<Rightarrow> u64 \<Rightarrow> u64 \<Rightarrow> u64 \<Rightarrow> u64 \<Rightarrow> u32 \<Rightarrow> u32 \<Rightarrow> bool \<Rightarrow> ('w, unit) fu" where
  "fuse_setlk path fh lock_owner start_at end_at kind pid block =
     fu_fail (errno_of_fuse Fuse_NotImplemented)"

definition fuse_interrupt :: "u64 \<Rightarrow> ('w, unit) fu" where
  "fuse_interrupt unique = fu_fail (errno_of_fuse Fuse_Unsupported)"

definition fuse_poll :: "string option \<Rightarrow> u64 \<Rightarrow> u64 option \<Rightarrow> u32 \<Rightarrow> u32 \<Rightarrow> ('w, u32) fu" where
  "fuse_poll path fh kn flg events = fu_fail (errno_of_fuse Fuse_Unsupported)"

definition fuse_notify_reply :: "string \<Rightarrow> u64 \<Rightarrow> bytes \<Rightarrow> ('w, unit) fu" where
  "fuse_notify_reply path offset data = fu_fail (errno_of_fuse Fuse_Unsupported)"

end
