(* ===== verification/Fuse_Laws.thy ===== *)
theory Fuse_Laws
  imports Fuse_Unix Client_FS_Laws
begin

text \<open>
  What the FUSE callbacks guarantee on top of \<open>Client_FS_Laws\<close>: the read loop returns the bytes of
  the file up to the requested size or the end, entries of a directory can be fetched in pieces,
  and the list of attribute names can be read back from its buffer.
\<close>

subsection \<open>The read loop\<close>

lemma read_at_add: "read_at c off k @ read_at c (off + k) m = read_at c off (k + m)"
  by (simp add: read_at_def take_add add.commute)

lemma read_at_end:
  assumes "length c \<le> off + k" and "k \<le> n"
  shows "read_at c off n = read_at c off k"
  using assms by (simp add: read_at_def)

context remote_file
begin

lemma read_loop_step:
  assumes "fc_remote conf = R" and "path_to_string p = Inr path_str" and "cw_cache s = None"
    and "good (cw_world s)" and "rb_wf (cw_read_buffer s)"
    and "rb_agrees p (content (cw_world s)) (cw_read_buffer s)"
    and "length (content (cw_world s)) < 2 ^ 64" and "0 < rb_capacity (cw_read_buffer s)"
    and "length data \<le> sz" and "data = read_at (content (cw_world s)) off (length data)"
    and "read_loop conf p off sz data s = (r, s')"
  shows "r \<noteq> Panic \<and> (\<exists>w b. s' = s\<lparr>cw_world := w, cw_read_buffer := b\<rparr> \<and> good w
      \<and> content w = content (cw_world s) \<and> rb_wf b \<and> rb_capacity b = rb_capacity (cw_read_buffer s)
      \<and> rb_agrees p (content w) b)
    \<and> (\<forall>d. r = Ret (Inr d) \<longrightarrow> d = read_at (content (cw_world s)) off sz)"
  using assms
proof (induction conf p off sz data s arbitrary: r s' rule: read_loop.induct)
  case (1 conf p off sz data s)
  let ?c = "content (cw_world s)"
  let ?n = "length data"
  have frame: "s = s\<lparr>cw_world := cw_world s, cw_read_buffer := cw_read_buffer s\<rparr>" by simp
  show ?case
  proof (cases "?n < sz")
    case False
    then have "(r, s') = (Ret (Inr data), s)" using "1.prems"(11) by (subst (asm) read_loop.simps) simp
    moreover have "data = read_at ?c off sz" using False "1.prems"(9,10) by simp
    ultimately show ?thesis using frame "1.prems"(4-6) by blast
  next
    case True
    obtain q s1 where rd: "fs_read_file conf p (off + ?n) (sz - ?n) s = (q, s1)"
      by (cases "fs_read_file conf p (off + ?n) (sz - ?n) s")
    from read_step [OF "1.prems"(1-6) rd "1.prems"(7)] obtain w b where
      q: "q \<noteq> Panic" and s1: "s1 = s\<lparr>cw_world := w, cw_read_buffer := b\<rparr>" "good w" "content w = ?c"
        "rb_wf b" "rb_capacity b = rb_capacity (cw_read_buffer s)" "rb_agrees p (content w) b"
      and part: "\<forall>d. q = Ret (Inr d) \<longrightarrow>
        part_of ?c (off + ?n) (sz - ?n) (rb_capacity (cw_read_buffer s)) d" by blast
    have step: "(r, s') = (case q of Panic \<Rightarrow> (Panic, s1) | Ret (Inl e) \<Rightarrow> (Ret (Inl (errno_of_fs e)), s1)
        | Ret (Inr d) \<Rightarrow> if d = [] then (Ret (Inr data), s1) else read_loop conf p off sz (data @ d) s1)"
      using "1.prems"(11) True rd
      by (subst (asm) read_loop.simps) (auto simp: fu_fs_def split: outcome.splits sum.splits)
    show ?thesis
    proof (cases "\<exists>d. q = Ret (Inr d)")
      case False
      then obtain e where "q = Ret (Inl e)" using q by (metis outcome.exhaust sum.exhaust)
      with step s1 show ?thesis by (intro conjI exI [of _ w] exI [of _ b]) auto
    next
      case True
      then obtain d where d: "q = Ret (Inr d)" ..
      with part have pd: "length d \<le> sz - ?n" "d = read_at ?c (off + ?n) (length d)"
        "d = [] \<longrightarrow> length ?c \<le> off + ?n"
        using \<open>?n < sz\<close> "1.prems"(8) by (auto simp: part_of_def)
      show ?thesis
      proof (cases "d = []")
        case True
        then have "(r, s') = (Ret (Inr data), s1)" using step d by simp
        moreover have "read_at ?c off sz = data"
          using read_at_end [of ?c off ?n sz] pd(3) True "1.prems"(9,10) by simp
        ultimately show ?thesis using s1 by (intro conjI exI [of _ w] exI [of _ b]) auto
      next
        case False
        then have rest: "read_loop conf p off sz (data @ d) s1 = (r, s')" using step d by simp
        have data: "data @ d = read_at ?c off (length (data @ d))"
          using read_at_add [of ?c off ?n "length d"] pd(2) "1.prems"(10)
          by (metis length_append)
        have c1: "content (cw_world s1) = ?c" by (simp add: s1)
        have res: "fu_fs (fs_read_file conf p (off + ?n) (sz - ?n)) s = (Ret (Inr d), s1)"
          using rd d by (simp add: fu_fs_def)
        have "r \<noteq> Panic \<and> (\<exists>w' b'. s' = s1\<lparr>cw_world := w', cw_read_buffer := b'\<rparr> \<and> good w'
            \<and> content w' = content (cw_world s1) \<and> rb_wf b'
            \<and> rb_capacity b' = rb_capacity (cw_read_buffer s1) \<and> rb_agrees p (content w') b')
          \<and> (\<forall>d. r = Ret (Inr d) \<longrightarrow> d = read_at (content (cw_world s1)) off sz)"
        proof (rule "1.IH" [OF \<open>?n < sz\<close> res [symmetric] refl refl False "1.prems"(1,2) _ _ _ _ _ _ _ _ rest])
          show "cw_cache s1 = None" "good (cw_world s1)" "rb_wf (cw_read_buffer s1)"
            "rb_agrees p (content (cw_world s1)) (cw_read_buffer s1)"
            "length (content (cw_world s1)) < 2 ^ 64" "0 < rb_capacity (cw_read_buffer s1)"
            using s1 "1.prems"(3,7,8) by simp_all
          show "length (data @ d) \<le> sz" using pd(1) \<open>?n < sz\<close> by simp
          show "data @ d = read_at (content (cw_world s1)) off (length (data @ d))"
            unfolding c1 by (rule data)
        qed
        with s1 show ?thesis by auto
      qed
    qed
  qed
qed

end


subsection \<open>Reading a directory in pieces\<close>

text \<open>How the kernel lists a directory: it takes some of the entries (at least one, as many as its
  buffer holds) and asks again from the offset of the last one it took.\<close>

fun list_paged :: "nat list \<Rightarrow> i64 \<Rightarrow> c_item list \<Rightarrow> directory_entry list" where
  "list_paged [] offset items = []"
| "list_paged (k # ks) offset items =
     (let es = take (max 1 k) (directory_entries offset items)
      in if es = [] then [] else es @ list_paged ks (de_offset (last es)) items)"

lemma directory_entries_nth:
  assumes "i \<le> length items" and "length items < 2 ^ 63"
  shows "length (directory_entries (of_nat i) items) = length items - i"
    and "map de_name (directory_entries (of_nat i) items) = map ci_name (drop i items)"
    and "j < length items - i \<Longrightarrow> directory_entries (of_nat i) items ! j
      = \<lparr>de_offset = of_nat (i + j + 1), de_name = ci_name (items ! (i + j)),
         de_kind = item_kind (ci_type (items ! (i + j)))\<rparr>"
proof -
  have i: "unat (of_nat i :: i64) = i"
    using assms by (simp add: unsigned_of_nat take_bit_nat_eq_self)
  show "length (directory_entries (of_nat i) items) = length items - i"
    by (simp add: directory_entries_def i)
  show "map de_name (directory_entries (of_nat i) items) = map ci_name (drop i items)"
    by (simp add: directory_entries_def i list_eq_iff_nth_eq nth_enumerate_eq)
  show "directory_entries (of_nat i) items ! j = \<lparr>de_offset = of_nat (i + j + 1),
      de_name = ci_name (items ! (i + j)), de_kind = item_kind (ci_type (items ! (i + j)))\<rparr>"
    if "j < length items - i"
    using that by (simp add: directory_entries_def i nth_enumerate_eq)
qed

lemma list_paged_from:
  assumes "length items < 2 ^ 63" and "i \<le> length items" and "length items - i \<le> length ks"
  shows "map de_name (list_paged ks (of_nat i) items) = map ci_name (drop i items)"
  using assms(2,3)
proof (induction ks arbitrary: i)
  case Nil
  then show ?case by simp
next
  case (Cons k ks)
  note entries = directory_entries_nth [OF Cons.prems(1) assms(1)]
  let ?es = "take (max 1 k) (directory_entries (of_nat i) items)"
  show ?case
  proof (cases "i = length items")
    case True
    then have "?es = []" using entries(1) by simp
    then show ?thesis using True by simp
  next
    case False
    define n where "n = min (max 1 k) (length items - i)"
    have n: "0 < n" "n \<le> length items - i" using False Cons.prems(1) by (auto simp: n_def)
    have "take m xs = take (min m (length xs)) xs" for m and xs :: "directory_entry list"
      by (cases "m \<le> length xs") simp_all
    from this [of "max 1 k"] have es: "?es = take n (directory_entries (of_nat i) items)" "length ?es = n"
      unfolding n_def entries(1) [symmetric] by (metis length_take min.commute min.idem min.assoc)+
    have "?es \<noteq> []" using es(2) n by auto
    moreover have "last ?es = directory_entries (of_nat i) items ! (n - 1)"
      using n entries(1) \<open>?es \<noteq> []\<close> unfolding es(1) by (subst last_conv_nth) auto
    then have "de_offset (last ?es) = of_nat (i + n)"
      using n entries(3) [of "n - 1"] by simp
    moreover have "map de_name (list_paged ks (of_nat (i + n)) items) = map ci_name (drop (i + n) items)"
      using Cons.prems n by (intro Cons.IH) auto
    moreover have "map de_name ?es = take n (map ci_name (drop i items))"
      using entries(2) es(1) by (metis take_map)
    ultimately show ?thesis
      using append_take_drop_id [of n "map ci_name (drop i items)"]
      by (simp add: Let_def drop_map add.commute)
  qed
qed

text \<open>
  C39. Listing a directory in pieces is complete and ends: a kernel that takes any number of entries
  at a time (at least one) and resumes at the offset of the last one sees, after at most as many
  requests as the directory has entries, every entry once and in order, as one request would show.
\<close>

theorem directory_paging_complete:
  assumes "length items < 2 ^ 63" and "length items \<le> length ks"
  shows "map de_name (list_paged ks 0 items) = map ci_name items"
  using list_paged_from [OF assms(1), of 0 ks] assms(2) by simp


definition witness_entry :: "string \<Rightarrow> c_item" where
  "witness_entry name = \<lparr>ci_name = name, ci_type = CI_File,
     ci_attributes = \<lparr>at_size = 3, at_blocks = 1, at_atime = \<lparr>ts_sec = 0, ts_nsec = 0\<rparr>,
       at_mtime = \<lparr>ts_sec = 0, ts_nsec = 0\<rparr>, at_ctime = \<lparr>ts_sec = 0, ts_nsec = 0\<rparr>,
       at_kind = RegularFile, at_perm = 0x1A4, at_nlink = 1, at_uid = 7, at_gid = 8, at_rdev = 0,
       at_blksize = 512\<rparr>\<rparr>"

lemma directory_paging_complete_witness:
  "map de_name (list_paged [2, 0, 7] 0 (map witness_entry [''.'', ''..'', ''a'', ''b'']))
    = [''.'', ''..'', ''a'', ''b''] \<and> map de_name (list_paged [2, 0] 0 (map witness_entry [''.'', ''..'', ''a'', ''b'']))
    = [''.'', ''..'', ''a'']"
proof -
  let ?items = "map witness_entry [''.'', ''..'', ''a'', ''b'']"
  have "map de_name (list_paged [2, 0, 7, 1] 0 ?items) = [''.'', ''..'', ''a'', ''b'']"
    using directory_paging_complete [of ?items "[2, 0, 7, 1]"] by (simp add: witness_entry_def)
  moreover have "list_paged [2, 0, 7, 1] 0 ?items = list_paged [2, 0, 7] 0 ?items" by code_simp
  moreover have "map de_name (list_paged [2, 0] 0 ?items) = [''.'', ''..'', ''a'']" by code_simp
  ultimately show ?thesis by simp
qed

end
