(* ===== verification/Fuse_Windows.thy ===== *)
theory Fuse_Windows
  imports Client_FS "HOL-Library.List_Lexorder" "HOL-Library.Char_ord"
begin

text \<open>
  The file system callbacks of the client on Windows: \<open>client/src/fuse/windows.rs\<close>, the
  implementation of \<open>FileSystemContext\<close> (crate \<open>winfsp\<close>) on top of \<open>FileSystem\<close>. A callback
  returns \<open>Panic\<close>, an \<open>FspError\<close> or its result; what it writes through a \<open>&mut\<close> argument is part
  of the result.

  \<^item> A wide string is a list of 16-bit units. The paths WinFsp hands over are absolute on the
    volume; after their backslashes became slashes they are split as on Unix.
  \<^item> Arithmetic on 64-bit values wraps around, as in a release build.
  \<^item> What \<open>winfsp\<close> does with a directory buffer is a parameter (\<open>win_env\<close>): the room an entry
    takes, and which names \<open>set_name\<close> accepts. An entry without room is not written; the entries a
    call wrote are its result.
  \<^item> \<open>DefaultHasher\<close> is a parameter; its values are not used by the client.
\<close>

unbundle bit_operations_syntax

type_synonym u16s = "u16 list"

subsection \<open>Errors\<close>

datatype nt_status =
    STATUS_OBJECT_NAME_NOT_FOUND | STATUS_ACCESS_DENIED | STATUS_INVALID_PARAMETER
  | STATUS_INVALID_HANDLE | STATUS_IO_DEVICE_ERROR | STATUS_NO_EAS_ON_FILE
  | STATUS_UNEXPECTED_IO_ERROR | STATUS_HOST_UNREACHABLE | STATUS_BAD_NETWORK_PATH
  | STATUS_FILE_IS_A_DIRECTORY | STATUS_CODE u32

datatype fsp_error = Fsp_InvalidInput | Fsp_Status nt_status

fun fsp_error_of_network :: "network_error \<Rightarrow> fsp_error" where
  "fsp_error_of_network Net_ConnectionFailed = Fsp_Status STATUS_HOST_UNREACHABLE"
| "fsp_error_of_network Net_InvalidInput = Fsp_Status STATUS_INVALID_PARAMETER"
| "fsp_error_of_network Net_Request = Fsp_Status STATUS_IO_DEVICE_ERROR"
| "fsp_error_of_network (Net_ServerError Fuse_NotFound) = Fsp_Status STATUS_OBJECT_NAME_NOT_FOUND"
| "fsp_error_of_network (Net_ServerError _) = Fsp_Status STATUS_UNEXPECTED_IO_ERROR"
| "fsp_error_of_network Net_UnexpectedResponse = Fsp_Status STATUS_BAD_NETWORK_PATH"
| "fsp_error_of_network Net_InvalidCredentials = Fsp_Status STATUS_ACCESS_DENIED"
| "fsp_error_of_network Net_Other = Fsp_Status STATUS_IO_DEVICE_ERROR"

fun fsp_error_of_fs :: "fs_model_error \<Rightarrow> fsp_error" where
  "fsp_error_of_fs Fs_NotFound = Fsp_Status STATUS_OBJECT_NAME_NOT_FOUND"
| "fsp_error_of_fs Fs_PermissionDenied = Fsp_Status STATUS_ACCESS_DENIED"
| "fsp_error_of_fs Fs_InvalidInput = Fsp_Status STATUS_INVALID_PARAMETER"
| "fsp_error_of_fs Fs_ConversionFailed = Fsp_Status STATUS_INVALID_PARAMETER"
| "fsp_error_of_fs Fs_FileHandlerError = Fsp_Status STATUS_INVALID_HANDLE"
| "fsp_error_of_fs Fs_WriterError = Fsp_Status STATUS_IO_DEVICE_ERROR"
| "fsp_error_of_fs Fs_NoData = Fsp_Status STATUS_NO_EAS_ON_FILE"
| "fsp_error_of_fs (Fs_ServerError net) = fsp_error_of_network net"
| "fsp_error_of_fs Fs_Other = Fsp_Status STATUS_UNEXPECTED_IO_ERROR"

type_synonym ('w, 'a) wi = "'w client \<Rightarrow> (fsp_error + 'a) outcome \<times> 'w client"

definition wi_return :: "'a \<Rightarrow> ('w, 'a) wi" where
  "wi_return x s = (Ret (Inr x), s)"

definition wi_fail :: "fsp_error \<Rightarrow> ('w, 'a) wi" where
  "wi_fail e s = (Ret (Inl e), s)"

definition wi_bind :: "('w, 'a) wi \<Rightarrow> ('a \<Rightarrow> ('w, 'b) wi) \<Rightarrow> ('w, 'b) wi" where
  "wi_bind m f s =
     (case m s of
        (Panic, s') \<Rightarrow> (Panic, s')
      | (Ret (Inl e), s') \<Rightarrow> (Ret (Inl e), s')
      | (Ret (Inr x), s') \<Rightarrow> f x s')"

text \<open>A call of \<open>FileSystem\<close> with \<open>?\<close>, and one whose result is inspected.\<close>

definition wi_fs :: "('w, 'a) cm \<Rightarrow> ('w, 'a) wi" where
  "wi_fs m s =
     (case m s of
        (Panic, s') \<Rightarrow> (Panic, s')
      | (Ret (Inl e), s') \<Rightarrow> (Ret (Inl (fsp_error_of_fs e)), s')
      | (Ret (Inr x), s') \<Rightarrow> (Ret (Inr x), s'))"

definition wi_try :: "('w, 'a) cm \<Rightarrow> ('w, fs_model_error + 'a) wi" where
  "wi_try m s = (case m s of (Panic, s') \<Rightarrow> (Panic, s') | (Ret r, s') \<Rightarrow> (Ret (Inr r), s'))"

definition wi_sum :: "fsp_error + 'a \<Rightarrow> ('w, 'a) wi" where
  "wi_sum r s = (Ret r, s)"

subsection \<open>Wide strings\<close>

text \<open>\<open>char::decode_utf16\<close>: \<open>None\<close> stands for a surrogate without its partner.\<close>

fun decode_utf16 :: "u16s \<Rightarrow> nat option list" where
  "decode_utf16 [] = []"
| "decode_utf16 [u] = (if unat u < 0xD800 \<or> 0xDFFF < unat u then [Some (unat u)] else [None])"
| "decode_utf16 (u # v # us) =
     (if unat u < 0xD800 \<or> 0xDFFF < unat u then Some (unat u) # decode_utf16 (v # us)
      else if unat u < 0xDC00 \<and> 0xDC00 \<le> unat v \<and> unat v \<le> 0xDFFF
      then Some (0x10000 + (unat u - 0xD800) * 0x400 + (unat v - 0xDC00)) # decode_utf16 us
      else None # decode_utf16 (v # us))"

definition encode_utf8 :: "nat \<Rightarrow> string" where
  "encode_utf8 c = map char_of
     (if c < 0x80 then [c]
      else if c < 0x800 then [0xC0 + c div 0x40, 0x80 + c mod 0x40]
      else if c < 0x10000 then [0xE0 + c div 0x1000, 0x80 + c div 0x40 mod 0x40, 0x80 + c mod 0x40]
      else [0xF0 + c div 0x40000, 0x80 + c div 0x1000 mod 0x40, 0x80 + c div 0x40 mod 0x40,
            0x80 + c mod 0x40 :: nat])"

text \<open>\<open>U16CStr::to_string\<close>, and \<open>OsString::from_wide(_).to_string_lossy()\<close>\<close>

definition wide_to_string :: "u16s \<Rightarrow> string option" where
  "wide_to_string w =
     (if None \<in> set (decode_utf16 w) then None
      else Some (concat (map (\<lambda>c. encode_utf8 (the c)) (decode_utf16 w))))"

definition wide_to_string_lossy :: "u16s \<Rightarrow> string" where
  "wide_to_string_lossy w =
     concat (map (\<lambda>c. encode_utf8 (case c of Some n \<Rightarrow> n | None \<Rightarrow> 0xFFFD)) (decode_utf16 w))"

definition winfsp_path_to_pathbuf :: "u16s \<Rightarrow> fsp_error + pathbuf" where
  "winfsp_path_to_pathbuf path =
     (case wide_to_string path of
        None \<Rightarrow> Inl Fsp_InvalidInput
      | Some s0 \<Rightarrow>
          (let s = map (\<lambda>c. if c = CHR 0x5C then slash else c) s0
           in if s = [] \<or> s = [slash] then Inr [RootDir]
              else Inr (components (if hd s \<noteq> slash then slash # s else s))))"

definition le16 :: "bytes \<Rightarrow> nat \<Rightarrow> nat" where
  "le16 buf i = unat (buf ! i) + 256 * unat (buf ! (i + 1))"

definition IO_REPARSE_TAG_SYMLINK :: u32 where "IO_REPARSE_TAG_SYMLINK = 0xA000000C"

text \<open>The 16-bit units of \<open>slice::from_raw_parts\<close> on little-endian bytes.\<close>

fun wide_units :: "nat \<Rightarrow> bytes \<Rightarrow> u16s" where
  "wide_units (Suc n) (a # b # bs) = (ucast a + 256 * ucast b) # wide_units n bs"
| "wide_units _ _ = []"

definition parse_symlink_target :: "bytes option \<Rightarrow> fsp_error + string" where
  "parse_symlink_target extra_buffer =
     (case extra_buffer of
        None \<Rightarrow> Inl (fsp_error_of_fs Fs_InvalidInput)
      | Some buf \<Rightarrow>
          if length buf < 20 then Inl Fsp_InvalidInput
          else if of_nat (le16 buf 0 + 65536 * le16 buf 2) \<noteq> IO_REPARSE_TAG_SYMLINK
          then Inl Fsp_InvalidInput
          else (let print_name_offset = le16 buf 12; print_name_length = le16 buf 14;
                    start = 20 + print_name_offset; end_of = start + print_name_length
                in if length buf < end_of then Inl Fsp_InvalidInput
                   else Inr (wide_to_string_lossy
                     (wide_units (print_name_length div 2)
                       (take print_name_length (drop start buf))))))"


subsection \<open>File information\<close>

definition FILE_ATTRIBUTE_DIRECTORY :: u32 where "FILE_ATTRIBUTE_DIRECTORY = 0x10"
definition FILE_ATTRIBUTE_NORMAL :: u32 where "FILE_ATTRIBUTE_NORMAL = 0x80"
definition FILE_ATTRIBUTE_REPARSE_POINT :: u32 where "FILE_ATTRIBUTE_REPARSE_POINT = 0x400"

definition FILE_OPEN :: u32 where "FILE_OPEN = 1"
definition FILE_CREATE :: u32 where "FILE_CREATE = 2"
definition FILE_OPEN_IF :: u32 where "FILE_OPEN_IF = 3"
definition FILE_DIRECTORY_FILE :: u32 where "FILE_DIRECTORY_FILE = 1"
definition FILE_NON_DIRECTORY_FILE :: u32 where "FILE_NON_DIRECTORY_FILE = 0x40"

lemmas windows_constants = FILE_OPEN_def FILE_CREATE_def FILE_OPEN_IF_def FILE_DIRECTORY_FILE_def
  FILE_NON_DIRECTORY_FILE_def

record file_info =
  fi_file_attributes :: u32
  fi_reparse_tag :: u32
  fi_allocation_size :: u64
  fi_file_size :: u64
  fi_creation_time :: u64
  fi_last_access_time :: u64
  fi_last_write_time :: u64
  fi_change_time :: u64
  fi_index_number :: u64
  fi_hard_links :: u32
  fi_ea_size :: u32

definition file_info_default :: file_info where
  "file_info_default = \<lparr>fi_file_attributes = 0, fi_reparse_tag = 0, fi_allocation_size = 0,
     fi_file_size = 0, fi_creation_time = 0, fi_last_access_time = 0, fi_last_write_time = 0,
     fi_change_time = 0, fi_index_number = 0, fi_hard_links = 0, fi_ea_size = 0\<rparr>"

definition WINDOWS_EPOCH_DIFF :: u64 where "WINDOWS_EPOCH_DIFF = 11644473600"

definition unix_to_filetime :: "timestamp \<Rightarrow> u64" where
  "unix_to_filetime ts = (scast (ts_sec ts) + WINDOWS_EPOCH_DIFF) * 10000000"

definition filetime_to_unix :: "u64 \<Rightarrow> timestamp option" where
  "filetime_to_unix t =
     (if t = 0 then None
      else (let unix_100ns = t - WINDOWS_EPOCH_DIFF * 10000000;
                secs = unix_100ns div 10000000;
                nanos = (unix_100ns mod 10000000) * 100
            in Some \<lparr>ts_sec = ucast secs, ts_nsec = ucast nanos\<rparr>))"

definition plain_attributes :: "file_type \<Rightarrow> u32" where
  "plain_attributes kind =
     (if kind = Directory_T then FILE_ATTRIBUTE_DIRECTORY else FILE_ATTRIBUTE_NORMAL)"

definition link_attributes :: "file_type \<Rightarrow> u32" where
  "link_attributes kind =
     (if kind = Directory_T then FILE_ATTRIBUTE_DIRECTORY
      else if kind = Symlink_T then FILE_ATTRIBUTE_REPARSE_POINT else FILE_ATTRIBUTE_NORMAL)"

definition allocation_of :: "c_attributes \<Rightarrow> u64" where
  "allocation_of attr =
     (if 0 < at_blocks attr \<and> 0 < at_blksize attr then at_blocks attr * ucast (at_blksize attr)
      else at_size attr)"

definition fill_file_info :: "c_attributes \<Rightarrow> file_info \<Rightarrow> file_info" where
  "fill_file_info attr info = info\<lparr>
     fi_file_attributes := plain_attributes (at_kind attr), fi_file_size := at_size attr,
     fi_allocation_size := allocation_of attr, fi_creation_time := unix_to_filetime (at_ctime attr),
     fi_last_access_time := unix_to_filetime (at_atime attr),
     fi_last_write_time := unix_to_filetime (at_mtime attr),
     fi_change_time := unix_to_filetime (at_ctime attr), fi_index_number := 0, fi_hard_links := 1,
     fi_ea_size := 0\<rparr>"

text \<open>\<open>From<Attributes> for FileInfo\<close>\<close>

definition file_info_of :: "c_attributes \<Rightarrow> file_info" where
  "file_info_of attr = file_info_default\<lparr>
     fi_file_size := at_size attr, fi_allocation_size := at_blocks attr * ucast (at_blksize attr),
     fi_creation_time := unix_to_filetime (at_ctime attr),
     fi_last_access_time := unix_to_filetime (at_atime attr),
     fi_last_write_time := unix_to_filetime (at_mtime attr),
     fi_change_time := unix_to_filetime (at_ctime attr),
     fi_file_attributes := link_attributes (at_kind attr)\<rparr>"

record win_env =
  we_entry_size :: "string \<Rightarrow> nat"
  we_set_name :: "string \<Rightarrow> fsp_error + unit"
  we_hash :: "pathbuf \<Rightarrow> u64"

definition index_from_path :: "win_env \<Rightarrow> pathbuf \<Rightarrow> u64" where
  "index_from_path we path = we_hash we path"

record handle =
  ha_path :: pathbuf
  ha_delete_on_close :: bool

definition new_handle :: "pathbuf \<Rightarrow> handle" where
  "new_handle path = \<lparr>ha_path = path, ha_delete_on_close = False\<rparr>"

subsection \<open>Opening and closing\<close>

definition win_open ::
  "'w fs_conf \<Rightarrow> u16s \<Rightarrow> u32 \<Rightarrow> file_info \<Rightarrow> ('w, handle \<times> file_info) wi" where
  "win_open conf file_name create_options info =
     wi_bind (wi_sum (winfsp_path_to_pathbuf file_name)) (\<lambda>path.
     wi_bind (wi_fs (fs_get_attributes conf path)) (\<lambda>attr.
       if at_kind attr = Directory_T \<and> create_options AND FILE_NON_DIRECTORY_FILE \<noteq> 0
       then wi_fail (Fsp_Status STATUS_FILE_IS_A_DIRECTORY)
       else wi_return (new_handle path,
         info\<lparr>fi_file_attributes := plain_attributes (at_kind attr), fi_file_size := at_size attr,
              fi_allocation_size := at_size attr\<rparr>)))"

definition win_close :: "'w fs_conf \<Rightarrow> handle \<Rightarrow> ('w, unit) wi" where
  "win_close conf context = wi_bind (wi_try (fs_flush_write_buffer conf)) (\<lambda>_. wi_return ())"

definition win_get_security_by_name :: "'w fs_conf \<Rightarrow> u16s \<Rightarrow> ('w, u32) wi" where
  "win_get_security_by_name conf file_name =
     wi_bind (wi_sum (winfsp_path_to_pathbuf file_name)) (\<lambda>path.
     wi_bind (wi_fs (fs_get_attributes conf path)) (\<lambda>attr.
     wi_return (link_attributes (at_kind attr))))"

definition win_get_file_info ::
  "win_env \<Rightarrow> 'w fs_conf \<Rightarrow> handle \<Rightarrow> file_info \<Rightarrow> ('w, file_info) wi" where
  "win_get_file_info we conf context info =
     wi_bind (wi_fs (fs_get_attributes conf (ha_path context))) (\<lambda>attr.
     wi_return (info\<lparr>
       fi_file_attributes := plain_attributes (at_kind attr), fi_reparse_tag := 0,
       fi_allocation_size := allocation_of attr, fi_file_size := at_size attr,
       fi_creation_time := unix_to_filetime (at_ctime attr),
       fi_last_access_time := unix_to_filetime (at_atime attr),
       fi_last_write_time := unix_to_filetime (at_mtime attr),
       fi_change_time := unix_to_filetime (at_ctime attr),
       fi_index_number := index_from_path we (ha_path context), fi_hard_links := 1,
       fi_ea_size := 0\<rparr>))"

definition win_created ::
  "pathbuf \<Rightarrow> file_info \<Rightarrow> u32 \<Rightarrow> ('w, handle \<times> file_info) wi" where
  "win_created path info attributes =
     wi_return (new_handle path,
       info\<lparr>fi_file_attributes := attributes, fi_file_size := 0, fi_allocation_size := 0\<rparr>)"

definition win_create ::
  "'w fs_conf \<Rightarrow> u16s \<Rightarrow> u32 \<Rightarrow> bytes option \<Rightarrow> bool \<Rightarrow> file_info \<Rightarrow> ('w, handle \<times> file_info) wi" where
  "win_create conf file_name create_options extra_buffer extra_buffer_is_reparse_point info =
     wi_bind (wi_sum (winfsp_path_to_pathbuf file_name)) (\<lambda>path.
     let is_dir = create_options AND FILE_DIRECTORY_FILE \<noteq> 0;
         is_file = create_options AND FILE_NON_DIRECTORY_FILE \<noteq> 0;
         create = create_options AND FILE_CREATE \<noteq> 0;
         open_it = create_options AND FILE_OPEN \<noteq> 0;
         open_if = create_options AND FILE_OPEN_IF \<noteq> 0
     in if extra_buffer_is_reparse_point
        then wi_bind (wi_sum (parse_symlink_target extra_buffer)) (\<lambda>target.
             wi_bind (wi_fs (fs_create_symlink conf path target)) (\<lambda>_.
             wi_return (new_handle path,
               info\<lparr>fi_file_attributes := FILE_ATTRIBUTE_REPARSE_POINT,
                    fi_reparse_tag := IO_REPARSE_TAG_SYMLINK, fi_file_size := 0,
                    fi_allocation_size := 0\<rparr>)))
        else if is_dir
        then wi_bind
               (if create \<or> open_if
                then wi_bind (wi_fs (fs_mkdir conf path)) (\<lambda>_. wi_return ())
                else if open_it
                then wi_bind (wi_fs (fs_get_attributes conf path)) (\<lambda>_. wi_return ())
                else wi_return ())
               (\<lambda>_. win_created path info FILE_ATTRIBUTE_DIRECTORY)
        else if is_file
        then wi_bind
               (if create \<or> open_if
                then wi_bind (wi_fs (fs_create_file conf path RegularFile 0 [])) (\<lambda>_. wi_return ())
                else if open_it
                then wi_bind (wi_fs (fs_get_attributes conf path)) (\<lambda>_. wi_return ())
                else wi_return ())
               (\<lambda>_. win_created path info FILE_ATTRIBUTE_NORMAL)
        else wi_fail Fsp_InvalidInput)"

definition win_cleanup :: "'w fs_conf \<Rightarrow> handle \<Rightarrow> u16s option \<Rightarrow> ('w, unit) wi" where
  "win_cleanup conf context file_name =
     wi_bind (wi_try (fs_flush_write_buffer conf)) (\<lambda>_.
     wi_bind (case map_option winfsp_path_to_pathbuf file_name of
         Some (Inr path) \<Rightarrow> wi_bind (wi_try (fs_cache_invalidate conf path)) (\<lambda>_. wi_return ())
       | _ \<Rightarrow> wi_return ()) (\<lambda>_.
     if ha_delete_on_close context
     then wi_bind (wi_try (fs_remove conf (ha_path context))) (\<lambda>_. wi_return ())
     else wi_return ()))"

definition win_flush :: "'w fs_conf \<Rightarrow> ('w, unit) wi" where
  "win_flush conf = wi_fs (fs_flush_write_buffer conf)"

subsection \<open>Directories\<close>

text \<open>The entries a call writes: those after the marker, while there is room.\<close>

fun emit_entries ::
  "win_env \<Rightarrow> nat \<Rightarrow> c_item list \<Rightarrow> fsp_error + (string \<times> file_info) list" where
  "emit_entries we room [] = Inr []"
| "emit_entries we room (item # items) =
     (case we_set_name we (ci_name item) of
        Inl e \<Rightarrow> Inl e
      | Inr _ \<Rightarrow>
          if room < we_entry_size we (ci_name item) then Inr []
          else map_sum id (Cons (ci_name item, fill_file_info (ci_attributes item) file_info_default))
                 (emit_entries we (room - we_entry_size we (ci_name item)) items))"

fun position :: "('a \<Rightarrow> bool) \<Rightarrow> 'a list \<Rightarrow> nat option" where
  "position P [] = None"
| "position P (x # xs) = (if P x then Some 0 else map_option Suc (position P xs))"

definition after_marker :: "u16s option \<Rightarrow> c_item list \<Rightarrow> c_item list" where
  "after_marker marker items =
     (case Option.bind (Option.bind marker wide_to_string) (\<lambda>name. position (\<lambda>e. ci_name e = name) items) of
        Some pos \<Rightarrow> drop (pos + 1) items
      | None \<Rightarrow> items)"

definition win_read_directory ::
  "win_env \<Rightarrow> 'w fs_conf \<Rightarrow> handle \<Rightarrow> u16s option \<Rightarrow> nat \<Rightarrow> ('w, (string \<times> file_info) list) wi" where
  "win_read_directory we conf context marker room =
     wi_bind (wi_fs (fs_readdir conf (ha_path context))) (\<lambda>items.
     wi_sum (emit_entries we room (after_marker marker (sort_key ci_name items))))"

text \<open>\<open>Path::join\<close> of a path: one that starts at the root replaces the first.\<close>

definition path_join_path :: "pathbuf \<Rightarrow> pathbuf \<Rightarrow> pathbuf" where
  "path_join_path p q = (case q of RootDir # _ \<Rightarrow> q | _ \<Rightarrow> p @ q)"

definition win_get_dir_info_by_name ::
  "win_env \<Rightarrow> 'w fs_conf \<Rightarrow> handle \<Rightarrow> u16s \<Rightarrow> ('w, file_info \<times> string) wi" where
  "win_get_dir_info_by_name we conf context file_name =
     wi_bind (wi_sum (winfsp_path_to_pathbuf file_name)) (\<lambda>name.
     wi_bind (wi_fs (fs_get_attributes conf (path_join_path (ha_path context) name))) (\<lambda>attrs.
     wi_bind (wi_sum (we_set_name we (path_render name))) (\<lambda>_.
     wi_return (file_info_of attrs, path_render name))))"


subsection \<open>Security descriptors\<close>

definition SD :: bytes where
  "SD = [0x01, 0x00, 0x04, 0x80, 0x14, 0x00, 0x00, 0x00, 0x14, 0x00, 0x00, 0x00, 0x00, 0x00,
         0x00, 0x00, 0x00, 0x00, 0x00, 0x00]"

text \<open>A buffer is the memory from its first byte on, and its length; \<open>buf.len() * size_of_val(buf)\<close>
  is the square of the length, \<open>c_void\<close> being one byte.\<close>

definition win_get_security :: "(nat \<times> bytes) option \<Rightarrow> u64 \<times> bytes option" where
  "win_get_security security_descriptor =
     (of_nat (length SD),
      case security_descriptor of
        None \<Rightarrow> None
      | Some (buf_len, memory) \<Rightarrow>
          (let len = min (length SD) (buf_len * buf_len)
           in Some (copy_slice memory 0 (take len SD))))"

definition win_set_security :: "handle \<Rightarrow> u32 \<Rightarrow> ('w, unit) wi" where
  "win_set_security context security_information = wi_return ()"

subsection \<open>Changes\<close>

definition c_set_none :: c_set_attr where
  "c_set_none = \<lparr>cs_mode = None, cs_uid = None, cs_gid = None, cs_size = None, cs_atime = None,
     cs_mtime = None, cs_ctime = None\<rparr>"

definition win_overwrite :: "'w fs_conf \<Rightarrow> handle \<Rightarrow> u64 \<Rightarrow> file_info \<Rightarrow> ('w, file_info) wi" where
  "win_overwrite conf context allocation_size info =
     wi_bind (wi_fs (fs_set_attributes conf 0 0 (ha_path context) (c_set_size 0))) (\<lambda>_.
     wi_return (info\<lparr>fi_file_size := 0, fi_allocation_size := allocation_size\<rparr>))"

definition win_rename :: "'w fs_conf \<Rightarrow> handle \<Rightarrow> u16s \<Rightarrow> bool \<Rightarrow> ('w, unit) wi" where
  "win_rename conf context new_file_name replace_if_exists =
     wi_bind (wi_sum (winfsp_path_to_pathbuf new_file_name)) (\<lambda>new_path.
     if replace_if_exists
     then wi_fs (fs_rename conf (ha_path context) new_path (c_flags_truncate 0))
     else wi_fs (fs_rename conf (ha_path context) new_path C_NOREPLACE))"

definition win_set_basic_info ::
  "'w fs_conf \<Rightarrow> handle \<Rightarrow> u64 \<Rightarrow> u64 \<Rightarrow> u64 \<Rightarrow> file_info \<Rightarrow> ('w, file_info) wi" where
  "win_set_basic_info conf context last_access_time last_write_time last_change_time info =
     (let a = c_set_none\<lparr>cs_atime := filetime_to_unix last_access_time,
                cs_mtime := filetime_to_unix last_write_time,
                cs_ctime := filetime_to_unix last_change_time\<rparr>
      in if cs_atime a \<noteq> None \<or> cs_mtime a \<noteq> None \<or> cs_ctime a \<noteq> None
         then wi_bind (wi_fs (fs_set_attributes conf 0 0 (ha_path context) a)) (\<lambda>attrs.
              wi_return (file_info_of attrs))
         else wi_return info)"

definition win_set_delete :: "handle \<Rightarrow> bool \<Rightarrow> ('w, handle) wi" where
  "win_set_delete context delete_file = wi_return (context\<lparr>ha_delete_on_close := delete_file\<rparr>)"

definition win_set_file_size :: "'w fs_conf \<Rightarrow> handle \<Rightarrow> u64 \<Rightarrow> file_info \<Rightarrow> ('w, file_info) wi" where
  "win_set_file_size conf context new_size info =
     wi_bind (wi_fs (fs_set_attributes conf 0 0 (ha_path context) (c_set_size new_size))) (\<lambda>_.
     wi_return (info\<lparr>fi_file_size := new_size, fi_allocation_size := new_size\<rparr>))"

subsection \<open>Contents\<close>

text \<open>\<open>buffer[..len].copy_from_slice\<close> panics when more came back than the buffer holds.\<close>

definition win_read :: "'w fs_conf \<Rightarrow> handle \<Rightarrow> bytes \<Rightarrow> u64 \<Rightarrow> ('w, u32 \<times> bytes) wi" where
  "win_read conf context buffer offset =
     wi_bind (wi_fs (fs_read_file conf (ha_path context) (unat offset) (length buffer))) (\<lambda>res s.
       if length buffer < length res then (Panic, s)
       else (Ret (Inr (of_nat (length res), copy_slice buffer 0 res)), s))"

definition win_write :: "'w fs_conf \<Rightarrow> handle \<Rightarrow> bytes \<Rightarrow> u64 \<Rightarrow> file_info \<Rightarrow> ('w, u32 \<times> file_info) wi" where
  "win_write conf context buffer offset info =
     wi_bind (wi_try (fs_get_attributes conf (ha_path context))) (\<lambda>r.
     wi_bind (if is_ok r then wi_return ()
              else wi_bind (wi_fs (fs_create_file conf (ha_path context) RegularFile 0 []))
                     (\<lambda>_. wi_return ())) (\<lambda>_.
     wi_bind (wi_fs (fs_write_file conf (ha_path context) flags_default (unat offset) buffer)) (\<lambda>written.
     let sz = max (fi_file_size info) (offset + of_nat written)
     in wi_return (of_nat written, info\<lparr>fi_file_size := sz, fi_allocation_size := sz\<rparr>))))"

subsection \<open>Volume, streams and reparse points\<close>

record volume_info =
  vi_total_size :: u64
  vi_free_size :: u64
  vi_label :: string

definition win_get_volume_info :: "('w, volume_info) wi" where
  "win_get_volume_info =
     wi_return \<lparr>vi_total_size = 1024 * 1024 * 1024, vi_free_size = 1024 * 1024 * 1024,
       vi_label = ''remote FS''\<rparr>"

definition win_set_volume_label :: "u16s \<Rightarrow> volume_info \<Rightarrow> ('w, volume_info) wi" where
  "win_set_volume_label label v = wi_return (v\<lparr>vi_label := ''remote FS''\<rparr>)"

definition win_get_stream_info :: "handle \<Rightarrow> ('w, u32) wi" where
  "win_get_stream_info context = wi_return 0"

definition win_get_reparse_point_by_name :: "u16s \<Rightarrow> bool \<Rightarrow> ('w, u64) wi" where
  "win_get_reparse_point_by_name file_name is_directory = wi_fail (Fsp_Status (STATUS_CODE 0xC0000275))"

definition win_get_reparse_point :: "handle \<Rightarrow> u16s \<Rightarrow> ('w, u64) wi" where
  "win_get_reparse_point context file_name = wi_fail (Fsp_Status (STATUS_CODE 0xC0000275))"

definition win_set_reparse_point :: "handle \<Rightarrow> u16s \<Rightarrow> bytes \<Rightarrow> ('w, unit) wi" where
  "win_set_reparse_point context file_name buffer = wi_fail (Fsp_Status (STATUS_CODE 0xC0000275))"

definition win_delete_reparse_point :: "handle \<Rightarrow> u16s \<Rightarrow> bytes \<Rightarrow> ('w, unit) wi" where
  "win_delete_reparse_point context file_name buffer = wi_fail (Fsp_Status (STATUS_CODE 0xC0000275))"

definition win_get_extended_attributes :: "handle \<Rightarrow> bytes \<Rightarrow> ('w, u32) wi" where
  "win_get_extended_attributes context buffer = wi_return 0"

definition win_set_extended_attributes :: "handle \<Rightarrow> bytes \<Rightarrow> ('w, unit) wi" where
  "win_set_extended_attributes context buffer = wi_fail (Fsp_Status (STATUS_CODE 0xC00000BB))"

definition win_control :: "handle \<Rightarrow> u32 \<Rightarrow> bytes \<Rightarrow> ('w, u32) wi" where
  "win_control context control_code input = wi_fail (Fsp_Status (STATUS_CODE 0xC0000010))"

end
