(* ===== verification/Config.thy ===== *)
theory Config
  imports Rust_Path Cache
begin

text \<open>
  The configuration of both programs after its sources are merged:
  \<open>server/src/config.rs\<close> and \<open>config/logging.rs\<close>, \<open>client/src/config.rs\<close> with its modules, and
  \<open>util.rs\<close>. Merging the defaults, the file, the environment and the command line is the work of
  the crates \<open>config\<close> and \<open>clap\<close>; their result is an argument of \<open>load\<close>. The logging module is the
  same on both sides and is defined once.

  Names are compared after \<open>trim\<close> and \<open>to_lowercase\<close>; no character outside ASCII becomes a letter
  of one of these names, so lower case is that of ASCII.
\<close>

subsection \<open>Text\<close>

definition to_lower :: "string \<Rightarrow> string" where
  "to_lower = map (\<lambda>c. let n = of_char c :: nat in if 65 \<le> n \<and> n \<le> 90 then char_of (n + 32) else c)"

text \<open>The characters with the property \<open>White_Space\<close>, in UTF-8.\<close>

definition white_space :: "string list" where
  "white_space = map (map char_of) ([[9], [10], [11], [12], [13], [32], [0xC2, 0x85], [0xC2, 0xA0],
     [0xE1, 0x9A, 0x80]] @ map (\<lambda>n. [0xE2, 0x80, n]) [0x80..<0x8B] @
     [[0xE2, 0x80, 0xA8], [0xE2, 0x80, 0xA9], [0xE2, 0x80, 0xAF], [0xE2, 0x81, 0x9F],
      [0xE3, 0x80, 0x80 :: nat]])"

definition strip_one :: "string \<Rightarrow> string option" where
  "strip_one s = map_option (\<lambda>w. drop (length w) s)
     (List.find (\<lambda>w. take (length w) s = w) white_space)"

definition strip_last :: "string \<Rightarrow> string option" where
  "strip_last s = map_option (\<lambda>w. take (length s - length w) s)
     (List.find (\<lambda>w. length w \<le> length s \<and> drop (length s - length w) s = w) white_space)"

lemma white_space_nonempty: "w \<in> set white_space \<Longrightarrow> w \<noteq> []"
  by (auto simp: white_space_def)

lemma find_SomeD: "List.find P xs = Some w \<Longrightarrow> w \<in> set xs \<and> P w"
  by (auto simp: find_Some_iff)

lemma strip_one_shorter: "strip_one s = Some t \<Longrightarrow> length t < length s"
proof -
  assume "strip_one s = Some t"
  then obtain w where w: "w \<in> set white_space" "take (length w) s = w" "t = drop (length w) s"
    by (auto simp: strip_one_def dest!: find_SomeD)
  then show ?thesis using white_space_nonempty [OF w(1)] by (cases s) auto
qed

lemma strip_last_shorter: "strip_last s = Some t \<Longrightarrow> length t < length s"
proof -
  assume "strip_last s = Some t"
  then obtain w where w: "w \<in> set white_space" "length w \<le> length s" "t = take (length s - length w) s"
    by (auto simp: strip_last_def dest!: find_SomeD)
  have "0 < length w" using white_space_nonempty [OF w(1)] by simp
  moreover have "length t = length s - length w" using w by simp
  ultimately show ?thesis using w(2) by arith
qed

function trim_start :: "string \<Rightarrow> string" where
  "trim_start s = (case strip_one s of None \<Rightarrow> s | Some t \<Rightarrow> trim_start t)"
  by pat_completeness auto
termination by (relation "measure length") (simp_all add: strip_one_shorter)

function trim_end :: "string \<Rightarrow> string" where
  "trim_end s = (case strip_last s of None \<Rightarrow> s | Some t \<Rightarrow> trim_end t)"
  by pat_completeness auto
termination by (relation "measure length") (simp_all add: strip_last_shorter)

declare trim_start.simps [simp del] trim_end.simps [simp del]

definition trim :: "string \<Rightarrow> string" where
  "trim s = trim_end (trim_start s)"

subsection \<open>Lists in one value\<close>

text \<open>The values \<open>deserialize_flexible_vec\<close> accepts: a string, a sequence of values that were
  already read, or a map whose keys are dropped.\<close>

datatype 'a flexible = Flex_Str string | Flex_Seq "'a list" | Flex_Map "(string \<times> 'a) list"

fun collect_results :: "('e + 'a) list \<Rightarrow> 'e + 'a list" where
  "collect_results [] = Inr []"
| "collect_results (r # rs) =
     (case r of Inl e \<Rightarrow> Inl e | Inr x \<Rightarrow> map_sum id (Cons x) (collect_results rs))"

definition flexible_vec :: "(string \<Rightarrow> string + 'a) \<Rightarrow> 'a flexible \<Rightarrow> string + 'a list" where
  "flexible_vec from_str v =
     (case v of
        Flex_Str s \<Rightarrow>
          if s = [] then Inr []
          else collect_results (map (\<lambda>p. from_str (trim p)) (split_on CHR '','' s))
      | Flex_Seq xs \<Rightarrow> Inr xs
      | Flex_Map kvs \<Rightarrow> Inr (map snd kvs))"

subsection \<open>Logging\<close>

datatype log_target = Target_None | Target_Console | Target_File | Target_All
datatype log_format = Format_Full | Format_Compact | Format_Pretty | Format_Json
datatype log_level = Level_Trace | Level_Debug | Level_Info | Level_Warn | Level_Error
datatype log_rotation = Rot_Minutely | Rot_Hourly | Rot_Daily | Rot_Never

definition log_target_from_str :: "string \<Rightarrow> string + log_target" where
  "log_target_from_str s =
     (let t = to_lower (trim s)
      in if t = ''console'' then Inr Target_Console
         else if t = ''file'' then Inr Target_File
         else if t = ''none'' then Inr Target_None
         else if t = ''all'' then Inr Target_All
         else Inl (''Target invalid: '' @ s))"

fun log_target_string :: "log_target \<Rightarrow> string" where
  "log_target_string Target_None = ''none''"
| "log_target_string Target_Console = ''console''"
| "log_target_string Target_File = ''file''"
| "log_target_string Target_All = ''all''"

fun log_format_string :: "log_format \<Rightarrow> string" where
  "log_format_string Format_Full = ''FULL''"
| "log_format_string Format_Compact = ''COMPACT''"
| "log_format_string Format_Pretty = ''PRETTY''"
| "log_format_string Format_Json = ''JSON''"

fun log_level_name :: "log_level \<Rightarrow> string" where
  "log_level_name Level_Trace = ''trace''"
| "log_level_name Level_Debug = ''debug''"
| "log_level_name Level_Info = ''info''"
| "log_level_name Level_Warn = ''warn''"
| "log_level_name Level_Error = ''error''"

definition client_log_filter :: "string \<Rightarrow> log_level \<Rightarrow> string" where
  "client_log_filter crate l = crate @ ''='' @ log_level_name l"

definition server_log_filter :: "string \<Rightarrow> log_level \<Rightarrow> string" where
  "server_log_filter crate l = crate @ ''='' @ log_level_name l @ '',actix_web=info''"

fun log_level_gui :: "log_level \<Rightarrow> string" where
  "log_level_gui Level_Trace = ''TRACE''"
| "log_level_gui Level_Debug = ''DEBUG''"
| "log_level_gui Level_Info = ''INFO''"
| "log_level_gui Level_Warn = ''WARN''"
| "log_level_gui Level_Error = ''ERROR''"

fun log_rotation_string :: "log_rotation \<Rightarrow> string" where
  "log_rotation_string Rot_Minutely = ''MINUTELY''"
| "log_rotation_string Rot_Hourly = ''HOURLY''"
| "log_rotation_string Rot_Daily = ''DAILY''"
| "log_rotation_string Rot_Never = ''NEVER''"

definition log_rotation_from :: "string \<Rightarrow> log_rotation" where
  "log_rotation_from s =
     (let t = to_lower s
      in if t = ''minutely'' then Rot_Minutely
         else if t = ''hourly'' then Rot_Hourly
         else if t = ''daily'' then Rot_Daily
         else Rot_Never)"

text \<open>The order of the variants of \<open>LogTargets\<close>, derived.\<close>

fun target_rank :: "log_target \<Rightarrow> nat" where
  "target_rank Target_None = 0"
| "target_rank Target_Console = 1"
| "target_rank Target_File = 2"
| "target_rank Target_All = 3"

instantiation log_target :: linorder
begin

definition less_eq_log_target :: "log_target \<Rightarrow> log_target \<Rightarrow> bool" where
  "a \<le> b \<longleftrightarrow> target_rank a \<le> target_rank b"

definition less_log_target :: "log_target \<Rightarrow> log_target \<Rightarrow> bool" where
  "a < b \<longleftrightarrow> target_rank a < target_rank b"

instance
proof
  fix a b :: log_target
  show "a \<le> b \<Longrightarrow> b \<le> a \<Longrightarrow> a = b"
    by (cases a; cases b) (simp_all add: less_eq_log_target_def)
qed (auto simp: less_eq_log_target_def less_log_target_def)

end

record logging_config =
  lc_targets :: "log_target list"
  lc_format :: log_format
  lc_level :: log_level
  lc_dir :: "pathbuf option"
  lc_file :: "pathbuf option"
  lc_rotation :: "log_rotation option"

text \<open>The two programs differ in the default name of the log file.\<close>

definition DEFAULT_LOG_DIR :: pathbuf where "DEFAULT_LOG_DIR = components ''./logs''"

definition logging_default :: "string \<Rightarrow> logging_config" where
  "logging_default file_name =
     \<lparr>lc_targets = [Target_All], lc_format = Format_Full, lc_level = Level_Info,
      lc_dir = Some DEFAULT_LOG_DIR, lc_file = Some (components file_name),
      lc_rotation = Some Rot_Never\<rparr>"

definition logging_finalize :: "string \<Rightarrow> logging_config \<Rightarrow> logging_config" where
  "logging_finalize file_name c =
     (let dir = normalize_optional_path (lc_dir c); file = normalize_optional_path (lc_file c);
          ts1 = remdups_adj (sort (lc_targets c));
          ts2 = (if Target_None \<in> set ts1 then [] else ts1);
          ts3 = (if Target_All \<in> set ts2 then [Target_All] else ts2);
          needs_file = Target_All \<in> set ts3 \<or> Target_File \<in> set ts3
      in if needs_file
         then c\<lparr>lc_targets := ts3,
                lc_dir := Some (case dir of None \<Rightarrow> DEFAULT_LOG_DIR | Some d \<Rightarrow> d),
                lc_file := Some (case file of None \<Rightarrow> components file_name | Some f \<Rightarrow> f),
                lc_rotation := Some (case lc_rotation c of None \<Rightarrow> Rot_Never | Some r \<Rightarrow> r)\<rparr>
         else c\<lparr>lc_targets := ts3, lc_dir := None, lc_file := None, lc_rotation := None\<rparr>)"

text \<open>The rolling log file of \<open>logging/file.rs\<close>, with the defaults of its builder.\<close>

record file_log =
  fl_directory :: pathbuf
  fl_name :: pathbuf
  fl_ext :: string
  fl_rotation :: log_rotation

definition file_log_build ::
  "string \<Rightarrow> pathbuf option \<Rightarrow> pathbuf option \<Rightarrow> string option \<Rightarrow> log_rotation option \<Rightarrow> file_log" where
  "file_log_build default_name directory file_name file_ext rotation =
     \<lparr>fl_directory = (case directory of None \<Rightarrow> DEFAULT_LOG_DIR | Some d \<Rightarrow> d),
      fl_name = (case file_name of None \<Rightarrow> components default_name | Some f \<Rightarrow> f),
      fl_ext = (case file_ext of None \<Rightarrow> ''log'' | Some e \<Rightarrow> e),
      fl_rotation = (case rotation of None \<Rightarrow> Rot_Never | Some r \<Rightarrow> r)\<rparr>"

definition file_log_from_config :: "string \<Rightarrow> logging_config \<Rightarrow> file_log" where
  "file_log_from_config default_name c =
     file_log_build default_name (lc_dir c) (lc_file c) None (lc_rotation c)"

text \<open>The writers \<open>Logging::from\<close> builds its layers from.\<close>

datatype log_writer = Writer_Console bool | Writer_File file_log

fun log_writers :: "string \<Rightarrow> logging_config \<Rightarrow> log_target list \<Rightarrow> log_writer list \<Rightarrow> log_writer list" where
  "log_writers name c [] layers = layers"
| "log_writers name c (Target_None # ts) layers = []"
| "log_writers name c (Target_Console # ts) layers =
     log_writers name c ts (layers @ [Writer_Console True])"
| "log_writers name c (Target_File # ts) layers =
     log_writers name c ts (layers @ [Writer_File (file_log_from_config name c)])"
| "log_writers name c (Target_All # ts) layers =
     log_writers name c ts (layers @ [Writer_File (file_log_from_config name c), Writer_Console False])"

subsection \<open>The server\<close>

record server_config =
  sg_server_host :: string
  sg_server_port :: u16
  sg_filesystem_root :: pathbuf
  sg_logging :: logging_config

definition server_log_name :: string where "server_log_name = ''remote_fs_server''"

definition server_config_default :: server_config where
  "server_config_default =
     \<lparr>sg_server_host = ''localhost'', sg_server_port = 8080,
      sg_filesystem_root = components ''/remote_fs'', sg_logging = logging_default server_log_name\<rparr>"

definition server_config_finalize :: "server_config \<Rightarrow> server_config" where
  "server_config_finalize c = c\<lparr>sg_logging := logging_finalize server_log_name (sg_logging c)\<rparr>"

text \<open>No module overrides \<open>ConfigModule::validate\<close>. What the crate \<open>config\<close> built is an argument.\<close>

definition server_config_load :: "'e + server_config \<Rightarrow> 'e + server_config" where
  "server_config_load built = map_sum id server_config_finalize built"

subsection \<open>The client\<close>

record mount_config =
  mo_allow_other :: bool
  mo_read_only :: bool
  mo_privileged :: bool

record file_system_config =
  fy_xattr_enable :: bool
  fy_page_size :: nat
  fy_max_pages :: nat
  fy_buffer_size :: nat

record client_config =
  cg_mount_point :: pathbuf
  cg_server_url :: string
  cg_username :: "string option"
  cg_foreground :: bool
  cg_gui_enabled :: bool
  cg_mount :: mount_config
  cg_file_system :: file_system_config
  cg_cache :: cache_config
  cg_logging :: logging_config

definition client_log_name :: string where "client_log_name = ''remote_fs_client''"

definition mount_config_default :: mount_config where
  "mount_config_default = \<lparr>mo_allow_other = False, mo_read_only = False, mo_privileged = False\<rparr>"

definition file_system_config_default :: file_system_config where
  "file_system_config_default =
     \<lparr>fy_xattr_enable = False, fy_page_size = 4096, fy_max_pages = 256,
      fy_buffer_size = 2 * 1024 * 1024\<rparr>"

definition client_config_default :: client_config where
  "client_config_default =
     \<lparr>cg_mount_point = components ''/mnt/remote-fs'', cg_server_url = ''http://localhost:8080'',
      cg_username = None, cg_foreground = False, cg_gui_enabled = True,
      cg_mount = mount_config_default, cg_file_system = file_system_config_default,
      cg_cache = cache_config_default, cg_logging = logging_default client_log_name\<rparr>"

definition client_config_finalize :: "bool \<Rightarrow> client_config \<Rightarrow> client_config" where
  "client_config_finalize windows c =
     (let c1 = c\<lparr>cg_logging := logging_finalize client_log_name (cg_logging c)\<rparr>;
          c2 = (if cg_gui_enabled c1 then c1\<lparr>cg_foreground := True\<rparr> else c1)
      in if windows then c2\<lparr>cg_foreground := True\<rparr> else c2)"

definition client_config_load :: "bool \<Rightarrow> 'e + client_config \<Rightarrow> 'e + client_config" where
  "client_config_load windows built = map_sum id (client_config_finalize windows) built"

end
