(* ===== verification/Config_Laws.thy ===== *)
theory Config_Laws
  imports Config
begin

text \<open>
  The logging configuration after \<open>finalize\<close>, and lists of log targets in an environment variable.
\<close>

subsection \<open>Log targets\<close>

lemma target_le [simp]:
  "Target_Console \<le> Target_File" "\<not> Target_File \<le> Target_Console"
  by (simp_all add: less_eq_log_target_def)

lemma two_targets:
  assumes "sorted ts" and "distinct ts" and "set ts \<subseteq> {Target_Console, Target_File}"
  shows "ts \<in> {[], [Target_Console], [Target_File], [Target_Console, Target_File]}"
proof (cases ts)
  case (Cons a us)
  show ?thesis
  proof (cases us)
    case (Cons b vs)
    then have ab: "ts = a # b # vs" using \<open>ts = a # us\<close> by simp
    then have "vs = []" using assms(2,3) by (cases vs) auto
    then show ?thesis using ab assms by auto
  qed (use Cons assms(3) in auto)
qed simp

lemma distinct_remdups_adj: "sorted xs \<Longrightarrow> distinct (remdups_adj xs)"
proof (induction xs rule: remdups_adj.induct)
  case (3 x y xs)
  then show ?case by (cases "x = y") auto
qed auto

lemma remdups_adj_sorted: "sorted (remdups_adj (sort ts))" "distinct (remdups_adj (sort ts))"
  "set (remdups_adj (sort ts)) = set ts"
  by (simp_all add: distinct_remdups_adj)

text \<open>The targets \<open>finalize\<close> leaves.\<close>

definition final_targets :: "log_target list \<Rightarrow> log_target list" where
  "final_targets ts =
     (let ts1 = remdups_adj (sort ts);
          ts2 = (if Target_None \<in> set ts1 then [] else ts1)
      in if Target_All \<in> set ts2 then [Target_All] else ts2)"

lemma final_targets_cases:
  "final_targets ts \<in> {[], [Target_All], [Target_Console], [Target_File], [Target_Console, Target_File]}"
proof (cases "Target_None \<in> set ts \<or> Target_All \<in> set ts")
  case True
  then show ?thesis by (auto simp: final_targets_def remdups_adj_sorted)
next
  case False
  have "set ts \<subseteq> {Target_Console, Target_File}"
  proof
    fix t assume "t \<in> set ts"
    with False show "t \<in> {Target_Console, Target_File}" by (cases t) auto
  qed
  with two_targets [of "remdups_adj (sort ts)"] have
    "remdups_adj (sort ts) \<in> {[], [Target_Console], [Target_File], [Target_Console, Target_File]}"
    by (simp add: remdups_adj_sorted)
  with False show ?thesis by (auto simp: final_targets_def remdups_adj_sorted)
qed

definition wants_file :: "log_target list \<Rightarrow> bool" where
  "wants_file ts \<longleftrightarrow> Target_All \<in> set ts \<or> Target_File \<in> set ts"

lemma logging_finalize_eq:
  "logging_finalize name c =
    (let ts = final_targets (lc_targets c);
         dir = normalize_optional_path (lc_dir c); file = normalize_optional_path (lc_file c)
     in if wants_file ts
        then c\<lparr>lc_targets := ts, lc_dir := Some (case dir of None \<Rightarrow> DEFAULT_LOG_DIR | Some d \<Rightarrow> d),
               lc_file := Some (case file of None \<Rightarrow> components name | Some f \<Rightarrow> f),
               lc_rotation := Some (case lc_rotation c of None \<Rightarrow> Rot_Never | Some r \<Rightarrow> r)\<rparr>
        else c\<lparr>lc_targets := ts, lc_dir := None, lc_file := None, lc_rotation := None\<rparr>)"
  by (simp add: logging_finalize_def final_targets_def wants_file_def Let_def)

lemma finalize_targets: "lc_targets (logging_finalize name c) = final_targets (lc_targets c)"
  by (simp add: logging_finalize_eq Let_def)

text \<open>
  C40. The logging configuration is canonical after \<open>finalize\<close>, whatever the sources said: the
  targets are nothing, the console, the file, or both (\<open>None\<close> anywhere in the list wins over every
  other target, \<open>All\<close> over the single ones), the settings of the log file are there exactly when a
  file is written, and the program opens at most one file and one console writer.
\<close>

theorem logging_config_canonical:
  "let c' = logging_finalize name c; ws = log_writers name c' (lc_targets c') [] in
    lc_targets c' \<in> {[], [Target_All], [Target_Console], [Target_File], [Target_Console, Target_File]}
    \<and> (Target_None \<in> set (lc_targets c) \<longrightarrow> lc_targets c' = [])
    \<and> (lc_dir c' = None \<longleftrightarrow> \<not> wants_file (lc_targets c'))
    \<and> (lc_file c' = None \<longleftrightarrow> \<not> wants_file (lc_targets c'))
    \<and> (lc_rotation c' = None \<longleftrightarrow> \<not> wants_file (lc_targets c'))
    \<and> length (filter (\<lambda>w. \<exists>f. w = Writer_File f) ws) = (if wants_file (lc_targets c') then 1 else 0)
    \<and> length (filter (\<lambda>w. \<exists>a. w = Writer_Console a) ws) \<le> 1"
proof -
  define ts where "ts = final_targets (lc_targets c)"
  have "Target_None \<in> set (lc_targets c) \<Longrightarrow> ts = []"
    by (simp add: ts_def final_targets_def remdups_adj_sorted)
  moreover have "ts \<in> {[], [Target_All], [Target_Console], [Target_File], [Target_Console, Target_File]}"
    unfolding ts_def by (rule final_targets_cases)
  ultimately show ?thesis
    by (auto simp: logging_finalize_eq Let_def wants_file_def simp flip: ts_def)
qed

subsection \<open>Environment variables\<close>

lemma trim_plain:
  assumes "s \<noteq> []" and "strip_one s = None" and "strip_last s = None"
  shows "trim s = s"
  using assms by (simp add: trim_def trim_start.simps trim_end.simps)

lemma white_space_ends:
  assumes "w \<in> set white_space"
  shows "w \<noteq> [] \<and> (of_char (hd w) \<le> (32 :: nat) \<or> (128 :: nat) \<le> of_char (hd w))
    \<and> (of_char (last w) \<le> (32 :: nat) \<or> (128 :: nat) \<le> of_char (last w))"
  using assms by (auto simp: white_space_def)

text \<open>A string that begins and ends with visible ASCII has nothing to strip.\<close>

lemma strip_visible:
  assumes "s \<noteq> []" and "32 < (of_char (hd s) :: nat)" "of_char (hd s) < (128 :: nat)"
    and "32 < (of_char (last s) :: nat)" "of_char (last s) < (128 :: nat)"
  shows "strip_one s = None" "strip_last s = None"
proof -
  have "take (length w) s \<noteq> w" if "w \<in> set white_space" for w
    using white_space_ends [OF that] assms(1-3) by (cases w; cases s) auto
  then show "strip_one s = None" by (auto simp: strip_one_def find_None_iff)
  have "drop (length s - length w) s \<noteq> w" if "w \<in> set white_space" "length w \<le> length s" for w
  proof
    assume "drop (length s - length w) s = w"
    then have "last w = last s" using white_space_ends [OF that(1)] by (metis drop_eq_Nil last_drop not_le)
    with white_space_ends [OF that(1)] assms(4,5) show False by auto
  qed
  then show "strip_last s = None" by (auto simp: strip_last_def find_None_iff)
qed

lemma strip_target: "strip_one (log_target_string t) = None" "strip_last (log_target_string t) = None"
  by (rule strip_visible; cases t; simp)+

lemma trim_target: "trim (log_target_string t) = log_target_string t"
  by (simp add: trim_def trim_start.simps [of "log_target_string t"] trim_end.simps [of "log_target_string t"]
      strip_target)

lemma lower_target: "to_lower (log_target_string t) = log_target_string t"
  by (cases t; simp only: log_target_string.simps; code_simp)

lemma comma_target: "CHR '','' \<notin> set (log_target_string t)"
  by (cases t) simp_all

lemma target_name: "log_target_from_str (trim (log_target_string t)) = Inr t"
  unfolding log_target_from_str_def trim_target lower_target Let_def by (cases t) simp_all

fun joined_targets :: "log_target list \<Rightarrow> string" where
  "joined_targets [] = []"
| "joined_targets [t] = log_target_string t"
| "joined_targets (t # u # ts) = log_target_string t @ '','' @ joined_targets (u # ts)"

text \<open>
  A list of log targets survives the way through an environment variable: the names joined by
  commas, with any white space around them removed, are read back as the same list.
\<close>

lemma log_targets_roundtrip:
  assumes "ts \<noteq> []"
  shows "flexible_vec log_target_from_str (Flex_Str (joined_targets ts)) = Inr ts"
proof -
  have "split_on CHR '','' (joined_targets ts) = map log_target_string ts"
    using assms by (induction ts rule: joined_targets.induct)
      (simp_all add: split_on_append split_on_no_sep comma_target)
  moreover have "joined_targets ts \<noteq> []"
    using assms by (cases ts rule: joined_targets.cases; cases "hd ts") simp_all
  moreover have "collect_results (map (\<lambda>p. log_target_from_str (trim p)) (map log_target_string us)) = Inr us" for us
    by (induction us) (simp_all add: target_name)
  ultimately show ?thesis by (simp add: flexible_vec_def)
qed


lemma log_targets_roundtrip_witness:
  "flexible_vec log_target_from_str (Flex_Str ''console,file'') = Inr [Target_Console, Target_File]"
  using log_targets_roundtrip [of "[Target_Console, Target_File]"] by simp

lemma logging_config_canonical_witness:
  "lc_targets (logging_finalize ''log''
     ((logging_default ''log'')\<lparr>lc_targets := [Target_File, Target_None, Target_All]\<rparr>)) = []"
  using logging_config_canonical [of "''log''"
      "(logging_default ''log'')\<lparr>lc_targets := [Target_File, Target_None, Target_All]\<rparr>"]
  by (simp add: Let_def)

end
