(* ===== verification/Admin.thy ===== *)
theory Admin
  imports Database_Laws Config
begin

text \<open>
  The commands of both programs: \<open>server/src/commands.rs\<close> with its dispatch in \<open>app.rs\<close>, and
  \<open>client/src/commands.rs\<close>. A user command runs on the database; the generators compute the text
  they write and where. What the file system answers (whether a file exists, whether it can be
  written), the TOML formatter and the external unmount commands are arguments.

  \<open>to_uppercase\<close> is applied to the names of fields, the prefix and the separator, which are ASCII.
\<close>

datatype command_error =
  Cmd_InvalidCommand | Cmd_MissingArgument | Cmd_ExecutionFailed | Cmd_Other

type_synonym 'a cmd = "database \<Rightarrow> (command_error + 'a) \<times> database"

subsection \<open>Users\<close>

definition cmd_db :: "'a dbm \<Rightarrow> 'a cmd" where
  "cmd_db m d = (case m d of (Inl e, d') \<Rightarrow> (Inl Cmd_ExecutionFailed, d') | (Inr x, d') \<Rightarrow> (Inr x, d'))"

definition cmd_bind :: "'a cmd \<Rightarrow> ('a \<Rightarrow> 'b cmd) \<Rightarrow> 'b cmd" where
  "cmd_bind m f d = (case m d of (Inl e, d') \<Rightarrow> (Inl e, d') | (Inr x, d') \<Rightarrow> f x d')"

definition cmd_fail :: "command_error \<Rightarrow> 'a cmd" where
  "cmd_fail e d = (Inl e, d)"

definition user_create_command ::
  "auth_env \<Rightarrow> engine \<Rightarrow> nat \<Rightarrow> string \<Rightarrow> string \<Rightarrow> u32 option \<Rightarrow> u32 option \<Rightarrow> (u32 \<times> u32) cmd" where
  "user_create_command env eng salt username password user_id group_id =
     cmd_db (create_user env eng salt username password user_id group_id)"

text \<open>The three commands on an existing user look it up by name first.\<close>

definition with_user :: "engine \<Rightarrow> string \<Rightarrow> (user \<Rightarrow> unit dbm) \<Rightarrow> unit cmd" where
  "with_user eng username f =
     cmd_bind (cmd_db (get_user eng username)) (\<lambda>user_opt.
       case user_opt of
         None \<Rightarrow> cmd_fail Cmd_ExecutionFailed
       | Some u \<Rightarrow> cmd_db (f u))"

definition user_change_username_command :: "engine \<Rightarrow> string \<Rightarrow> string \<Rightarrow> unit cmd" where
  "user_change_username_command eng current_username new_username =
     with_user eng current_username (\<lambda>u. edit_username eng (us_user_id u) new_username)"

definition user_change_password_command ::
  "auth_env \<Rightarrow> engine \<Rightarrow> nat \<Rightarrow> string \<Rightarrow> string \<Rightarrow> unit cmd" where
  "user_change_password_command env eng salt username new_password =
     with_user eng username (\<lambda>u. edit_password env eng salt (us_user_id u) new_password)"

definition user_delete_command :: "engine \<Rightarrow> string \<Rightarrow> unit cmd" where
  "user_delete_command eng username = with_user eng username (\<lambda>u. delete_user eng (us_user_id u))"

subsection \<open>Names of generated files\<close>

text \<open>\<open>Path::extension\<close> and \<open>Path::set_extension\<close>: what follows the last dot of the file name, unless
  the name begins with that dot.\<close>

definition split_extension :: "string \<Rightarrow> (string \<times> string) option" where
  "split_extension n =
     (if CHR ''.'' \<notin> set n \<or> n = ''..'' then None
      else (let after = rev (takeWhile (\<lambda>c. c \<noteq> CHR ''.'') (rev n));
                before = take (length n - length after - 1) n
            in if before = [] then None else Some (before, after)))"

definition path_extension :: "pathbuf \<Rightarrow> string option" where
  "path_extension p = map_option snd (Option.bind (path_file_name p) split_extension)"

definition path_set_extension :: "pathbuf \<Rightarrow> string \<Rightarrow> pathbuf" where
  "path_set_extension p ext =
     (case path_file_name p of
        None \<Rightarrow> p
      | Some n \<Rightarrow> butlast p @ [Normal ((case split_extension n of Some (stem, _) \<Rightarrow> stem | None \<Rightarrow> n)
                                        @ ''.'' @ ext)])"

definition ensure_extension :: "pathbuf \<Rightarrow> string \<Rightarrow> command_error + pathbuf" where
  "ensure_extension path ext =
     (case path_extension path of
        Some extension \<Rightarrow> if extension = ext then Inr path else Inl Cmd_ExecutionFailed
      | None \<Rightarrow> Inr (path_set_extension path ext))"

subsection \<open>Configuration templates\<close>

text \<open>The path and the text of the file to write, for a file system that says which paths exist and
  which can be written.\<close>

definition toml_config_generator ::
  "(pathbuf \<Rightarrow> bool) \<Rightarrow> (pathbuf \<Rightarrow> bool) \<Rightarrow> ('c \<Rightarrow> string option) \<Rightarrow> 'c \<Rightarrow> pathbuf \<Rightarrow> bool \<Rightarrow>
   command_error + (pathbuf \<times> string)" where
  "toml_config_generator file_exists writable format cfg output force =
     (case ensure_extension (normalize_path output) ''toml'' of
        Inl e \<Rightarrow> Inl e
      | Inr out \<Rightarrow>
          if file_exists out \<and> \<not> force then Inl Cmd_ExecutionFailed
          else (case format cfg of
                  None \<Rightarrow> Inl Cmd_ExecutionFailed
                | Some config_toml \<Rightarrow>
                    if writable out then Inr (out, config_toml) else Inl Cmd_ExecutionFailed))"

datatype json =
    J_Null | J_Bool bool | J_Number string | J_String string | J_Array "json list"
  | J_Object "(string \<times> json) list"

definition to_upper :: "string \<Rightarrow> string" where
  "to_upper = map (\<lambda>c. let n = of_char c :: nat in if 97 \<le> n \<and> n \<le> 122 then char_of (n - 32) else c)"

fun join :: "string \<Rightarrow> string list \<Rightarrow> string" where
  "join sep [] = []"
| "join sep [s] = s"
| "join sep (s # t # ss) = s @ sep @ join sep (t # ss)"

fun leaf_string :: "json \<Rightarrow> string" where
  "leaf_string (J_Bool b) = (if b then ''true'' else ''false'')"
| "leaf_string (J_Number n) = n"
| "leaf_string (J_String s) = s"
| "leaf_string _ = ''...''"

definition env_line :: "string \<Rightarrow> string \<Rightarrow> string" where
  "env_line path v = to_upper path @ ''='' @ v @ ''\<newline>''"

fun env_walk :: "string \<Rightarrow> json \<Rightarrow> string option \<Rightarrow> string" where
  "env_walk sep (J_Object kvs) path =
     concat (map (\<lambda>kv. env_walk sep (snd kv)
         (Some (case path of Some p \<Rightarrow> p @ sep @ fst kv | None \<Rightarrow> fst kv))) kvs)"
| "env_walk sep (J_Array vs) path =
     (let array_values = join '','' (map (\<lambda>v. env_walk sep v None) vs)
      in case path of Some p \<Rightarrow> env_line p array_values | None \<Rightarrow> array_values)"
| "env_walk sep v path =
     (case path of Some p \<Rightarrow> env_line p (leaf_string v) | None \<Rightarrow> leaf_string v)"

datatype env_output = Env_File pathbuf string | Env_Stdout string

definition env_var_generator ::
  "(pathbuf \<Rightarrow> bool) \<Rightarrow> json \<Rightarrow> pathbuf option \<Rightarrow> string \<Rightarrow> string \<Rightarrow> command_error + env_output" where
  "env_var_generator writable instance_value output prefix separator =
     (let text = ''# Supported Environment Variables:\<newline>'' @ env_walk separator instance_value (Some prefix)
      in case output of
           None \<Rightarrow> Inr (Env_Stdout text)
         | Some path \<Rightarrow>
             (case ensure_extension (normalize_path path) ''env'' of
                Inl e \<Rightarrow> Inl e
              | Inr out \<Rightarrow> if writable out then Inr (Env_File out text) else Inl Cmd_ExecutionFailed))"


text \<open>The JSON value of a configuration; the fields of an object are sorted by name.\<close>

fun log_rotation_json :: "log_rotation \<Rightarrow> json" where
  "log_rotation_json Rot_Minutely = J_String ''minutely''"
| "log_rotation_json Rot_Hourly = J_String ''hourly''"
| "log_rotation_json Rot_Daily = J_String ''daily''"
| "log_rotation_json Rot_Never = J_String ''never''"

fun log_format_json :: "log_format \<Rightarrow> json" where
  "log_format_json Format_Full = J_String ''full''"
| "log_format_json Format_Compact = J_String ''compact''"
| "log_format_json Format_Pretty = J_String ''pretty''"
| "log_format_json Format_Json = J_String ''json''"

definition json_option :: "('a \<Rightarrow> json) \<Rightarrow> 'a option \<Rightarrow> json" where
  "json_option f x = (case x of None \<Rightarrow> J_Null | Some y \<Rightarrow> f y)"

definition json_path :: "pathbuf \<Rightarrow> json" where
  "json_path p = J_String (path_render p)"

definition json_of_logging :: "logging_config \<Rightarrow> json" where
  "json_of_logging c = J_Object
     [(''log_dir'', json_option json_path (lc_dir c)), (''log_file'', json_option json_path (lc_file c)),
      (''log_format'', log_format_json (lc_format c)), (''log_level'', J_String (log_level_name (lc_level c))),
      (''log_rotation'', json_option log_rotation_json (lc_rotation c)),
      (''log_targets'', J_Array (map (\<lambda>t. J_String (log_target_string t)) (lc_targets c)))]"

text \<open>Numbers are printed by \<open>num\<close>, \<open>serde_json\<close>'s decimal notation.\<close>

definition json_of_server_config :: "(nat \<Rightarrow> string) \<Rightarrow> server_config \<Rightarrow> json" where
  "json_of_server_config num c = J_Object
     [(''filesystem_root'', json_path (sg_filesystem_root c)), (''logging'', json_of_logging (sg_logging c)),
      (''server_host'', J_String (sg_server_host c)), (''server_port'', J_Number (num (unat (sg_server_port c))))]"

fun cache_policy_json :: "cache_policy \<Rightarrow> json" where
  "cache_policy_json Lru = J_String ''lru''"
| "cache_policy_json Lfu = J_String ''lfu''"

definition json_of_cache_config :: "(nat \<Rightarrow> string) \<Rightarrow> cache_config \<Rightarrow> json" where
  "json_of_cache_config num c = J_Object
     [(''capacity'', J_Number (num (cc_capacity c))), (''enabled'', J_Bool (cc_enabled c)),
      (''max_size'', J_Number (num (cc_max_size c))), (''policy'', cache_policy_json (cc_policy c)),
      (''ttl'', J_Number (num (cc_ttl c))), (''use_ttl'', J_Bool (cc_use_ttl c))]"

definition json_of_client_config :: "(nat \<Rightarrow> string) \<Rightarrow> client_config \<Rightarrow> json" where
  "json_of_client_config num c = J_Object
     [(''cache'', json_of_cache_config num (cg_cache c)),
      (''file_system'', J_Object
         [(''buffer_size'', J_Number (num (fy_buffer_size (cg_file_system c)))),
          (''max_pages'', J_Number (num (fy_max_pages (cg_file_system c)))),
          (''page_size'', J_Number (num (fy_page_size (cg_file_system c)))),
          (''xattr_enable'', J_Bool (fy_xattr_enable (cg_file_system c)))]),
      (''foreground'', J_Bool (cg_foreground c)), (''gui_enabled'', J_Bool (cg_gui_enabled c)),
      (''logging'', json_of_logging (cg_logging c)),
      (''mount'', J_Object
         [(''allow_other'', J_Bool (mo_allow_other (cg_mount c))),
          (''privileged'', J_Bool (mo_privileged (cg_mount c))),
          (''read_only'', J_Bool (mo_read_only (cg_mount c)))]),
      (''mount_point'', json_path (cg_mount_point c)), (''server_url'', J_String (cg_server_url c)),
      (''username'', json_option J_String (cg_username c))]"

subsection \<open>Unmounting\<close>

text \<open>The programs \<open>CliUnmountArgs::execute\<close> and \<open>UnixSession::lazy_unmount\<close> try, in this order.\<close>

definition unmount_commands :: "string list list" where
  "unmount_commands = [[''umount'', ''-l''], [''fusermount3'', ''-u'', ''-z''], [''fusermount'', ''-u'', ''-z'']]"

end
