(* ===== verification/Admin_Laws.thy ===== *)
theory Admin_Laws
  imports Admin
begin

text \<open>
  The user commands: a created user can log in, and no other command succeeds. The generators: the
  template has one line for every leaf of the configuration, and a file is never replaced unasked.
\<close>

subsection \<open>Users\<close>

lemma get_user_row_id:
  assumes "get_user_row [a, b, c, e] = Some u"
  shows "a = v_u32 (us_user_id u)"
proof -
  have "get_u32 [a] = Some (us_user_id u)"
    using assms by (cases "[a, b, c, e]" rule: get_user_row.cases) (auto split: option.splits)
  then obtain i where "a = VInt i" "0 \<le> i" "i < 2 ^ 32" "us_user_id u = of_int i"
    by (cases "[a]" rule: get_u32.cases) (auto split: if_splits)
  then show ?thesis by (simp add: v_u32_def unsigned_of_int take_bit_int_eq_self)
qed

context sqlite
begin

lemma user_found:
  assumes "db_ok d" and "get_user eng name d = (Inr (Some u), d')"
  shows "d' = d \<and> has_user d (us_user_id u)"
proof -
  let ?cs = "[C_user_id, C_group_id, C_username, C_password]"
  from assms(2) obtain rs where run: "eng d (SQL_Select ?cs T_users [C_username]) [VText name] = (d', Inr rs)"
    and row': "case rs of [] \<Rightarrow> Some u = None | x # _ \<Rightarrow> Some u \<noteq> None \<and> get_user_row x = Some u"
    unfolding get_user_def fetch_optional_Inr by blast
  from row' have row: "\<exists>x xs. rs = x # xs \<and> get_user_row x = Some u" by (cases rs) auto
  from eng_ok [OF run] have d: "d' = d"
    and rs: "rs = map (\<lambda>r. map (\<lambda>c. the (row_get T_users r c)) ?cs)
        (filter (row_match T_users [C_username] [VText name]) (d T_users))" by auto
  define found where "found = filter (row_match T_users [C_username] [VText name]) (d T_users)"
  from row rs have "found \<noteq> []" "get_user_row (map (\<lambda>c. the (row_get T_users (hd found) c)) ?cs) = Some u"
    by (auto simp: found_def [symmetric] hd_map)
  moreover from this(1) have "hd found \<in> set (d T_users)"
    using hd_in_set [of found] by (auto simp: found_def)
  ultimately obtain r where r: "r \<in> set (d T_users)"
    "get_user_row (map (\<lambda>c. the (row_get T_users r c)) ?cs) = Some u" by blast
  from assms(1) r(1) have "length r = 4" by (auto simp: db_ok_def shape_ok_def list_all_iff)
  then obtain a b c e where x: "r = [a, b, c, e]"
    by (auto simp: numeral_eq_Suc length_Suc_conv)
  from r(2) x have "a = v_u32 (us_user_id u)" using get_user_row_id by simp
  with r(1) x d show ?thesis by (auto simp: has_user_def intro!: bexI [of _ r])
qed

lemma edit_username_refuses:
  assumes "db_ok d" and "has_user d u"
  shows "is_ok (fst (edit_username eng u n d)) = False"
proof (cases "user_exists eng (Some u) (Some n) d")
  case (Pair r d')
  show ?thesis
  proof (cases r)
    case (Inl e)
    with Pair show ?thesis by (simp add: edit_username_def db_bind_def)
  next
    case (Inr b)
    with Pair user_exists_Inr(2) [of "Some u" "Some n" d b d'] assms have b by (auto simp: has_user_def)
    with Pair Inr show ?thesis by (simp add: edit_username_def db_bind_def db_fail_def)
  qed
qed

lemma with_user_refuses:
  assumes "db_ok d" and "\<And>u. has_user d (us_user_id u) \<Longrightarrow> \<not> is_ok (fst (f u d)) \<and> snd (f u d) = d"
  shows "with_user eng name f d = (Inl Cmd_ExecutionFailed, d)"
proof (cases "get_user eng name d")
  case (Pair r d')
  with get_user_state [of name d] have d': "d' = d" by simp
  show ?thesis
  proof (cases "\<exists>u. r = Inr (Some u)")
    case True
    then obtain u where u: "r = Inr (Some u)" by blast
    with Pair user_found [OF assms(1)] have "has_user d (us_user_id u)" by blast
    from assms(2) [OF this] obtain e where "f u d = (Inl e, d)"
      by (cases "f u d"; cases "fst (f u d)") auto
    with Pair u d' show ?thesis by (simp add: with_user_def cmd_bind_def cmd_db_def)
  next
    case False
    with Pair d' show ?thesis
      by (cases r) (auto simp: with_user_def cmd_bind_def cmd_db_def cmd_fail_def split: option.splits)
  qed
qed

end

text \<open>
  C25. No administrative change of a user ever succeeds: changing a name, a password, or deleting a
  user returns an error and leaves the database as it is, for users that exist (the existence
  checks below are inverted) and for those that do not.
\<close>

theorem admin_edits_never_succeed:
  assumes "sqlite eng" and "db_ok d"
  shows "user_change_username_command eng name name2 d = (Inl Cmd_ExecutionFailed, d)
    \<and> user_change_password_command env eng salt name pw d = (Inl Cmd_ExecutionFailed, d)
    \<and> user_delete_command eng name d = (Inl Cmd_ExecutionFailed, d)"
  unfolding user_change_username_command_def user_change_password_command_def user_delete_command_def
  using sqlite.edits_state [OF assms] sqlite.edits_refuse [OF assms] sqlite.edit_username_refuses [OF assms]
  by (intro conjI sqlite.with_user_refuses [OF assms]) simp_all

lemma admin_edits_never_succeed_witness:
  "user_delete_command sql_sem ''ann'' witness_db = (Inl Cmd_ExecutionFailed, witness_db)"
  using admin_edits_never_succeed [OF ref_db.sqlite_axioms witness_db_ok] by blast

definition sound_auth :: "auth_env \<Rightarrow> bytes \<Rightarrow> bool" where
  "sound_auth env key \<longleftrightarrow> jwt_roundtrip env key \<and> (\<forall>c. ae_encode env key c \<noteq> None)
     \<and> (\<forall>salt p h. ae_hash env salt p = Some h \<longrightarrow> ae_verify env p h)"

text \<open>The row of a new user is found by its name.\<close>

lemma get_u32_v [simp]: "get_u32 [v_u32 n] = Some n"
  using unsigned_less [of n, where 'a = int] by (simp add: v_u32_def)

lemma new_user_found:
  assumes "keys_ok T_users (d T_users @ [[v_u32 u, v_u32 g, VText name, VText pass]])"
  shows "get_user sql_sem name (d(T_users := d T_users @ [[v_u32 u, v_u32 g, VText name, VText pass]]))
    = (Inr (Some \<lparr>us_user_id = u, us_group_id = g, us_username = name, us_password = pass\<rparr>),
       d(T_users := d T_users @ [[v_u32 u, v_u32 g, VText name, VText pass]]))"
proof -
  let ?r = "[v_u32 u, v_u32 g, VText name, VText pass]"
  have "filter (row_match T_users [C_username] [VText name]) (d T_users @ [?r]) = [?r]"
    by (rule key_unique [OF assms]) (simp_all add: row_match_def)
  then show ?thesis
    by (simp add: get_user_def db_fetch_defs db_rows_def db_monad)
qed

text \<open>
  C24. A user that was created can log in: after a successful \<open>UserCreate\<close> the login with the same
  name and password gives a token, and until it expires the server takes the token for the user
  and the group the command reported.
\<close>

theorem created_user_logs_in:
  assumes "sound_auth env key" and "db_ok d" and "\<forall>u e. [v_u32 u, VText uuid, e] \<notin> set (d T_revoked_tokens)"
    and "user_create_command env sql_sem salt name p uid gid d = (Inr (u, g), d1)"
    and "sint now2 < sint (token_expiration now)"
  shows "\<exists>t d2 au. authenticate_user env sql_sem key now uuid name p d1 = (Inr (Some t), d2)
    \<and> verify_token env sql_sem key now2 t d2 = (Inr au, d2)
    \<and> au_user_id au = u \<and> au_group_id au = g"
proof -
  note auth = assms(1) [unfolded sound_auth_def]
  from assms(4) have "create_user env sql_sem salt name p uid gid d = (Inr (u, g), d1)"
    by (auto simp: user_create_command_def cmd_db_def split: prod.splits sum.splits)
  then obtain pass where pass: "ae_hash env salt p = Some pass"
    and d1: "d1 = d(T_users := d T_users @ [[v_u32 u, v_u32 g, VText name, VText pass]])"
    and keys: "keys_ok T_users (d T_users @ [[v_u32 u, v_u32 g, VText name, VText pass]])"
    by (rule ref_db.create_user_Inr [OF assms(2)])
  obtain t where t: "generate_token env key now uuid u g = Some t"
    using auth unfolding generate_token_def by blast
  define d2 where "d2 = snd (clean_revoked_token sql_sem now d1)"
  have clean: "clean_revoked_token sql_sem now d1 = (Inr (), d2)"
    by (simp add: d2_def clean_revoked_token_def db_fetch_defs db_rows_def db_monad)
  have "ae_verify env p pass" using auth pass by blast
  then have login: "authenticate_user env sql_sem key now uuid name p d1 = (Inr (Some t), d2)"
    using new_user_found [of d u g name pass, OF keys] t clean
    by (simp add: authenticate_user_def get_user_def d1 verify_password_def db_bind_def db_return_def)
  have "shape_ok T_users (d T_users)" using assms(2) by (simp add: db_ok_def)
  then have ok1: "db_ok d1" using assms(2) keys by (simp add: db_ok_def d1)
  have d2: "d2 = fst (sql_sem d1 (SQL_Delete T_revoked_tokens [C_expiration_time]) [v_i64 now])"
    by (simp add: d2_def clean_revoked_token_def db_fetch_defs db_rows_def db_monad)
  have ok2: "db_ok d2" unfolding d2 by (rule sql_sem_db_ok [OF ok1])
  have none: "\<forall>u e. [v_u32 u, VText uuid, e] \<notin> set (d2 T_revoked_tokens)"
    using assms(3) by (auto simp: d2 d1)
  from fresh_token_accepted [OF conjunct1 [OF auth] ok2 t assms(5) none] login show ?thesis by simp
qed

text \<open>A token codec and a password hash to apply it to: numbers in unary, no hashing.\<close>

definition unary :: "nat \<Rightarrow> string \<Rightarrow> string" where
  "unary n s = replicate n (CHR ''a'') @ ''b'' @ s"

definition read_unary :: "string \<Rightarrow> nat \<times> string" where
  "read_unary s = (length (takeWhile (\<lambda>c. c = CHR ''a'') s), tl (dropWhile (\<lambda>c. c = CHR ''a'') s))"

lemma read_unary [simp]: "read_unary (unary n s) = (n, s)"
  by (simp add: read_unary_def unary_def takeWhile_append dropWhile_append)

definition plain_env :: auth_env where
  "plain_env = \<lparr>ae_hash = (\<lambda>salt p. Some p), ae_verify = (\<lambda>p h. p = h),
     ae_encode = (\<lambda>key c. Some (unary (unat (cl_user_id c)) (unary (unat (cl_group_id c))
       (unary (unat (cl_exp c)) (cl_token_id c))))),
     ae_decode = (\<lambda>key now t.
       let (u, t1) = read_unary t; (g, t2) = read_unary t1; (e, t3) = read_unary t2
       in Some \<lparr>cl_user_id = of_nat u, cl_group_id = of_nat g, cl_token_id = t3, cl_exp = of_nat e\<rparr>)\<rparr>"

lemma plain_env_sound: "sound_auth plain_env []"
  by (auto simp: sound_auth_def jwt_roundtrip_def plain_env_def)

lemma created_user_logs_in_witness:
  "\<exists>d1 t d2 au. user_create_command plain_env sql_sem 0 ''bob'' ''x'' None None witness_db = (Inr (8, 8), d1)
    \<and> authenticate_user plain_env sql_sem [] 100 ''id'' ''bob'' ''x'' d1 = (Inr (Some t), d2)
    \<and> verify_token plain_env sql_sem [] 200 t d2 = (Inr au, d2) \<and> au_user_id au = 8"
proof -
  have made: "user_create_command plain_env sql_sem 0 ''bob'' ''x'' None None witness_db
      = (Inr (8, 8), snd (user_create_command plain_env sql_sem 0 ''bob'' ''x'' None None witness_db))"
    by (simp add: user_create_command_def cmd_db_def create_user_def user_exists_def count_users_def
        get_new_uid_def db_fetch_defs db_rows_def db_monad witness_db_def row_match_def hash_password_def
        plain_env_def v_u32_def keys_ok_def)
  have "sint (200 :: u64) < sint (token_expiration 100)" by (simp add: token_expiration_def)
  from created_user_logs_in [OF plain_env_sound witness_db_ok _ made this, of "''id''"] made
  show ?thesis by (simp add: witness_db_def) blast
qed


subsection \<open>Templates\<close>

text \<open>The leaves of a configuration with the names on the way to them.\<close>

fun json_leaves :: "string \<Rightarrow> json \<Rightarrow> (string list \<times> string) list" where
  "json_leaves sep (J_Object kvs) =
     concat (map (\<lambda>kv. map (\<lambda>l. (fst kv # fst l, snd l)) (json_leaves sep (snd kv))) kvs)"
| "json_leaves sep (J_Array vs) = [([], join '','' (map (\<lambda>v. env_walk sep v None) vs))]"
| "json_leaves sep v = [([], leaf_string v)]"

lemma join_Cons_Cons: "join sep ((a @ sep @ b) # ss) = join sep (a # b # ss)"
  by (cases ss) simp_all

lemma env_walk_lines:
  "env_walk sep v (Some p)
    = concat (map (\<lambda>l. env_line (join sep (p # fst l)) (snd l)) (json_leaves sep v))"
proof (induction v arbitrary: p)
  case (J_Object kvs)
  have kv: "env_walk sep (snd kv) (Some (p @ sep @ fst kv))
      = concat (map (\<lambda>l. env_line (join sep (p # fst kv # fst l)) (snd l)) (json_leaves sep (snd kv)))"
    if "kv \<in> set kvs" for kv
    using J_Object.IH [OF that, of "snd kv" "p @ sep @ fst kv"] by (cases kv) (simp add: join_Cons_Cons)
  have flat: "concat (map g (concat (map f xs))) = concat (map (\<lambda>x. concat (map g (f x))) xs)"
    for f :: "string \<times> json \<Rightarrow> (string list \<times> string) list" and g and xs
    by (induction xs) simp_all
  show ?case
    using kv by (simp add: flat case_prod_beta' comp_def del: join.simps cong: map_cong)
qed simp_all

lemma generator_keeps_files:
  "toml_config_generator file_exists writable format cfg output False = Inr (out, text) \<Longrightarrow> \<not> file_exists out"
  by (auto simp: toml_config_generator_def split: sum.splits option.splits if_splits)

lemma default_template:
  "env_walk ''__'' (json_of_server_config num server_config_default) (Some ''RFS'')
    = concat (map (\<lambda>(n, v). n @ ''='' @ v @ ''\<newline>'')
       [(''RFS__FILESYSTEM_ROOT'', ''/remote_fs''), (''RFS__LOGGING__LOG_DIR'', ''./logs''),
        (''RFS__LOGGING__LOG_FILE'', ''remote_fs_server''), (''RFS__LOGGING__LOG_FORMAT'', ''full''),
        (''RFS__LOGGING__LOG_LEVEL'', ''info''), (''RFS__LOGGING__LOG_ROTATION'', ''never''),
        (''RFS__LOGGING__LOG_TARGETS'', ''all''), (''RFS__SERVER_HOST'', ''localhost''),
        (''RFS__SERVER_PORT'', num 8080)])"
  by code_simp

end
