(* ===== verification/Http_Link.thy ===== *)
theory Http_Link
  imports Network Server_Laws
begin

text \<open>
  The wire between the client and the server: what \<open>actix-web\<close> does with a request of \<open>RemoteClient\<close>
  before and after a handler, by the routes of \<open>server/src/routes.rs\<close> (\<open>configure\<close> and the attribute
  of each handler) and the payload limit of \<open>server/src/lib.rs\<close>, and the retries of
  \<open>client/src/network/client.rs\<close>.

  \<^item> A path pattern \<open>{path}\<close> matches one non-empty segment of the URL, which is then
    percent-decoded; decoding is a parameter \<open>dec\<close>, related to the client's \<open>urlencoding::encode\<close>
    by \<open>url_codec\<close>.
  \<^item> A panic of a handler closes the connection without a response.
  \<^item> A request no route or no extractor accepts is answered 400 with text.
  \<^item> The server sees each request at an instant of its own clock (\<open>lk_arrivals\<close>, with the random
    token id a login takes); when there is none left, the server is out of reach.
\<close>

subsection \<open>Routing\<close>

definition url_codec :: "(string \<Rightarrow> string) \<Rightarrow> (string \<Rightarrow> string) \<Rightarrow> bool" where
  "url_codec enc dec \<longleftrightarrow>
     (\<forall>s. dec (enc s) = s \<and> set (enc s) \<inter> {slash, CHR ''?'', CHR ''#''} = {} \<and> (s \<noteq> [] \<longrightarrow> enc s \<noteq> []))"

text \<open>\<open>to_string\<close> of an unsigned integer\<close>

fun show_nat :: "nat \<Rightarrow> string" where
  "show_nat n =
     (if n < 10 then [char_of (48 + n)] else show_nat (n div 10) @ [char_of (48 + n mod 10)])"

declare show_nat.simps [simp del]

text \<open>Routes by the number of segments below \<open>/api/v1\<close>.\<close>

definition route_short :: "http_method \<Rightarrow> http_body \<Rightarrow> string \<Rightarrow> request option" where
  "route_short m body api =
     (if api = ''health'' \<and> m = GET then Some Req_Health
      else if api = ''rename'' \<and> m = PUT then
        (case body of B_Rename old new flg \<Rightarrow> Some (Req_Rename old new flg) | _ \<Rightarrow> None)
      else None)"

definition route_auth :: "http_method \<Rightarrow> http_body \<Rightarrow> string \<Rightarrow> request option" where
  "route_auth m body name =
     (if name = ''login'' \<and> m = POST then
        (case body of B_Login u p \<Rightarrow> Some (Req_Login u p) | _ \<Rightarrow> None)
      else if name = ''logout'' \<and> m = POST then Some Req_Logout
      else None)"

definition route_path ::
  "http_method \<Rightarrow> (string \<times> nat) list \<Rightarrow> http_body \<Rightarrow> string \<Rightarrow> string \<Rightarrow> request option" where
  "route_path m query body api path =
     (case m of
        GET \<Rightarrow>
          if api = ''list'' then Some (Req_List path)
          else if api = ''files'' then
            (case body of B_ReadFile off sz \<Rightarrow> Some (Req_ReadFile path off sz) | _ \<Rightarrow> None)
          else if api = ''attributes'' then Some (Req_GetAttr path)
          else if api = ''permissions'' then
            map_option (\<lambda>n. Req_GetPerm path (show_nat n)) (map_of query ''mask'')
          else if api = ''stats'' then Some (Req_Stats path)
          else if api = ''symlink'' then Some (Req_ReadSymlink path)
          else None
      | PUT \<Rightarrow>
          if api = ''files'' then
            (case (map_of query ''offset'', body) of
               (Some off, B_Octets b) \<Rightarrow> Some (Req_WriteFile path off b) | _ \<Rightarrow> None)
          else if api = ''attributes'' then
            (case body of B_SetAttr a \<Rightarrow> Some (Req_SetAttr path (set_attr_on_wire a)) | _ \<Rightarrow> None)
          else None
      | POST \<Rightarrow>
          if api = ''mkdir'' then Some (Req_MakeDir path)
          else if api = ''symlink'' then
            (case body of B_Symlink t \<Rightarrow> Some (Req_CreateSymlink path t) | _ \<Rightarrow> None)
          else None
      | DELETE \<Rightarrow> if api = ''files'' then Some (Req_Delete path) else None)"

definition route_name :: "http_method \<Rightarrow> http_body \<Rightarrow> string \<Rightarrow> string \<Rightarrow> request option" where
  "route_name m body path name =
     (case m of
        GET \<Rightarrow> Some (Req_GetX path name)
      | PUT \<Rightarrow> (case body of B_Xattr v \<Rightarrow> Some (Req_SetX path name v) | _ \<Rightarrow> None)
      | DELETE \<Rightarrow> Some (Req_DeleteX path name)
      | POST \<Rightarrow> None)"

definition route_segments ::
  "(string \<Rightarrow> string) \<Rightarrow> http_method \<Rightarrow> (string \<times> nat) list \<Rightarrow> http_body \<Rightarrow> string list \<Rightarrow> request option" where
  "route_segments dec m query body segs =
     (if [] \<in> set segs then None
      else case segs of
        [api] \<Rightarrow> route_short m body api
      | [api, p] \<Rightarrow>
          if api = ''auth'' then route_auth m body p else route_path m query body api (dec p)
      | [api, p, grp] \<Rightarrow>
          if api = ''xattributes'' \<and> grp = ''names'' \<and> m = GET then Some (Req_ListX (dec p)) else None
      | [api, p, grp, name] \<Rightarrow>
          if api = ''xattributes'' \<and> grp = ''names'' then route_name m body (dec p) (dec name) else None
      | _ \<Rightarrow> None)"

text \<open>The segments of a URL below \<open>/api/v1\<close> on a server whose origin is given.\<close>

definition url_path :: "string \<Rightarrow> string" where
  "url_path url = takeWhile (\<lambda>c. c \<noteq> CHR ''?'' \<and> c \<noteq> CHR ''#'') url"

definition api_segments :: "string \<Rightarrow> string \<Rightarrow> string list option" where
  "api_segments origin url =
     (let base = origin @ ''/api/v1/'' ; p = url_path url
      in if take (length base) p = base then Some (split_on slash (drop (length base) p)) else None)"

definition route :: "(string \<Rightarrow> string) \<Rightarrow> string \<Rightarrow> http_request \<Rightarrow> request option" where
  "route dec origin req =
     Option.bind (api_segments origin (hq_url req))
       (route_segments dec (hq_method req) (hq_query req) (hq_body req))"

subsection \<open>One request\<close>

text \<open>\<open>HeaderValue::to_str\<close>: visible ASCII and tabs.\<close>

definition auth_header_of :: "string option \<Rightarrow> auth_header" where
  "auth_header_of v =
     (case v of
        None \<Rightarrow> Hdr_Missing
      | Some t \<Rightarrow> if \<forall>c \<in> set t. (32 \<le> (of_char c :: nat) \<and> of_char c < (127 :: nat)) \<or> of_char c = (9 :: nat)
                  then Hdr_Text t else Hdr_NotText)"

definition respond :: "(api_error + response) outcome \<Rightarrow> http_response option" where
  "respond r =
     (case r of
        Panic \<Rightarrow> None
      | Ret (Inl e) \<Rightarrow> Some \<lparr>hr_status = status_code e, hr_body = RB_Error (api_error_tag e)\<rparr>
      | Ret (Inr R_NoContent) \<Rightarrow> Some \<lparr>hr_status = 204, hr_body = RB_Value R_NoContent\<rparr>
      | Ret (Inr x) \<Rightarrow> Some \<lparr>hr_status = 200, hr_body = RB_Value x\<rparr>)"

text \<open>\<open>PayloadConfig::new(10 * 1024 * 1024)\<close>, checked when the body of \<open>write_file\<close> is extracted,
  behind the middleware.\<close>

definition payload_limit :: nat where
  "payload_limit = 10 * 1024 * 1024"

definition payload_ok :: "request \<Rightarrow> bool" where
  "payload_ok rq = (case rq of Req_WriteFile _ _ b \<Rightarrow> length b \<le> payload_limit | _ \<Rightarrow> True)"

definition serve ::
  "server_conf \<Rightarrow> u64 \<Rightarrow> string \<Rightarrow> auth_header \<Rightarrow> request \<Rightarrow> server_state \<Rightarrow>
   http_response option \<times> server_state" where
  "serve conf now uuid hdr rq s =
     (if payload_ok rq
      then (let (r, s') = handle_request conf now uuid hdr rq s in (respond r, s'))
      else (case auth_middleware conf now hdr (\<lambda>u. h_ok R_Finish) s of
              (Ret (Inr _), s') \<Rightarrow> (Some \<lparr>hr_status = 413, hr_body = RB_Text\<rparr>, s')
            | (r, s') \<Rightarrow> (respond r, s')))"

record link =
  lk_server :: server_state
  lk_arrivals :: "(u64 \<times> string) list"

definition send_once ::
  "server_conf \<Rightarrow> (string \<Rightarrow> string) \<Rightarrow> string \<Rightarrow> http_request \<Rightarrow> link \<Rightarrow> http_response option \<times> link" where
  "send_once conf dec origin req w =
     (case lk_arrivals w of
        [] \<Rightarrow> (None, w)
      | (now, uuid) # rest \<Rightarrow>
          (case route dec origin req of
             None \<Rightarrow> (Some \<lparr>hr_status = 400, hr_body = RB_Text\<rparr>, w\<lparr>lk_arrivals := rest\<rparr>)
           | Some rq \<Rightarrow>
               (let (r, s) = serve conf now uuid (auth_header_of (hq_authorization req)) rq (lk_server w)
                in (r, w\<lparr>lk_server := s, lk_arrivals := rest\<rparr>))))"

subsection \<open>Retries\<close>

text \<open>\<open>RetryTransientMiddleware\<close> with at most three retries: of failed connections and of the
  statuses \<open>reqwest_retry\<close> takes for transient.\<close>

definition transient_status :: "nat \<Rightarrow> bool" where
  "transient_status st \<longleftrightarrow> st = 408 \<or> st = 429 \<or> 500 \<le> st \<and> st \<le> 599"

fun send_retry ::
  "nat \<Rightarrow> ('h \<Rightarrow> http_response option \<times> 'h) \<Rightarrow> 'h \<Rightarrow> http_response option \<times> 'h" where
  "send_retry 0 f w = f w"
| "send_retry (Suc n) f w =
     (case f w of
        (Some r, w') \<Rightarrow> if transient_status (hr_status r) then send_retry n f w' else (Some r, w')
      | (None, w') \<Rightarrow> send_retry n f w')"

definition server_send ::
  "server_conf \<Rightarrow> (string \<Rightarrow> string) \<Rightarrow> string \<Rightarrow> http_request \<Rightarrow> link \<Rightarrow> http_response option \<times> link" where
  "server_send conf dec origin req = send_retry 3 (send_once conf dec origin req)"

text \<open>The HTTP stack of a client of this server.\<close>

definition server_net ::
  "server_conf \<Rightarrow> (string \<Rightarrow> string) \<Rightarrow> (string \<Rightarrow> string) \<Rightarrow> (string \<Rightarrow> bool) \<Rightarrow> (link \<Rightarrow> nat) \<Rightarrow> string \<Rightarrow>
   link net_env" where
  "server_net conf enc dec header_ok clock base_url =
     \<lparr>ne_send = server_send conf dec (trim_end_slashes base_url), ne_encode = enc,
      ne_header_ok = header_ok, ne_now = clock\<rparr>"

end
