(* ===== verification/Client_Server.thy ===== *)
theory Client_Server
  imports Http_Link Fuse_Laws
begin

text \<open>
  The client and the server together, over the link of \<open>Http_Link\<close>: every method of \<open>RemoteClient\<close>
  is the handler of the same operation on the server (\<open>rc_direct\<close>), and a file on the server is a
  \<open>remote_file\<close> of the client, so that buffered writes and reads through FUSE are writes and reads
  of the bytes the server holds.
\<close>

subsection \<open>Requests find their handler\<close>

text \<open>A request that is already known to belong to a handler.\<close>

definition deliver ::
  "server_conf \<Rightarrow> string option \<Rightarrow> request \<Rightarrow> link \<Rightarrow> http_response option \<times> link" where
  "deliver conf hdr rq w =
     (case lk_arrivals w of
        [] \<Rightarrow> (None, w)
      | (now, uuid) # rest \<Rightarrow>
          (let (r, s) = serve conf now uuid (auth_header_of hdr) rq (lk_server w)
           in (r, w\<lparr>lk_server := s, lk_arrivals := rest\<rparr>)))"

text \<open>The reference: attach the token, run the handler, read the answer.\<close>

definition direct_call ::
  "server_conf \<Rightarrow> (string \<Rightarrow> bool) \<Rightarrow> request \<Rightarrow> (http_response \<Rightarrow> 'a option) \<Rightarrow>
   (link net_world, 'a) net" where
  "direct_call conf header_ok rq extractor w =
     (let hdr = map_option (\<lambda>t. ''Bearer '' @ t) (nw_token w)
      in if (case hdr of Some v \<Rightarrow> \<not> header_ok v | None \<Rightarrow> False) then (Inl Net_Request, w)
         else (case send_retry 3 (deliver conf hdr rq) (nw_http w) of
                 (None, h) \<Rightarrow> (Inl Net_Request, w\<lparr>nw_http := h\<rparr>)
               | (Some resp, h) \<Rightarrow> (handle_response resp extractor, w\<lparr>nw_http := h\<rparr>)))"

lemma send_once_deliver:
  "route dec origin req = Some rq \<Longrightarrow> send_once conf dec origin req = deliver conf (hq_authorization req) rq"
  by (rule ext) (simp add: send_once_def deliver_def split: list.splits)

lemma rc_call_direct:
  assumes "route dec (trim_end_slashes b) \<lparr>hq_method = m, hq_url = url, hq_query = q, hq_body = body,
      hq_authorization = None\<rparr> = Some rq"
  shows "rc_call (server_net conf enc dec header_ok clock b) m url q body extractor
    = direct_call conf header_ok rq extractor"
proof
  fix w
  have r: "route dec (trim_end_slashes b) \<lparr>hq_method = m, hq_url = url, hq_query = q, hq_body = body,
      hq_authorization = h\<rparr> = Some rq" for h
    using assms by (simp add: route_def)
  show "rc_call (server_net conf enc dec header_ok clock b) m url q body extractor w
    = direct_call conf header_ok rq extractor w"
    by (cases "nw_token w")
       (simp_all add: rc_call_def auth_handle_def token_read_def server_net_def server_send_def
        direct_call_def send_once_deliver [OF r] split: prod.splits option.splits)
qed

definition url_clean :: "string \<Rightarrow> bool" where
  "url_clean s \<longleftrightarrow> set s \<inter> {slash, CHR ''?'', CHR ''#''} = {}"

definition query_free :: "string \<Rightarrow> bool" where
  "query_free s \<longleftrightarrow> set s \<inter> {CHR ''?'', CHR ''#''} = {}"

lemma url_path_free: "query_free s \<Longrightarrow> url_path s = s"
  unfolding url_path_def query_free_def by (rule takeWhile_eq_all_conv [THEN iffD2]) auto

lemma api_segments_base:
  assumes "query_free (trim_end_slashes b)" and "query_free rest"
  shows "api_segments (trim_end_slashes b) (client_base_url b @ ''/'' @ rest) = Some (split_on slash rest)"
proof -
  have "query_free (client_base_url b @ ''/'' @ rest)"
    using assms by (auto simp: query_free_def client_base_url_def)
  then show ?thesis
    by (simp add: api_segments_def url_path_free client_base_url_def)
qed

lemma split_on_clean: "url_clean a \<Longrightarrow> split_on slash (a @ CHR ''/'' # rest) = a # split_on slash rest"
  using split_on_append [of slash a rest] split_on_no_sep [of slash a]
  by (simp add: url_clean_def)

lemma split_on_last: "url_clean a \<Longrightarrow> split_on slash a = [a]"
  by (simp add: url_clean_def split_on_no_sep)

lemma url_clean_free: "url_clean s \<Longrightarrow> query_free s"
  by (auto simp: url_clean_def query_free_def)

lemma url_clean_enc:
  assumes "url_codec enc dec"
  shows "url_clean (enc s)" "dec (enc s) = s" "s \<noteq> [] \<Longrightarrow> enc s \<noteq> []"
  using assms by (auto simp: url_codec_def url_clean_def)

lemma route_url:
  assumes "query_free (trim_end_slashes b)" and "query_free rest"
  shows "route dec (trim_end_slashes b) \<lparr>hq_method = m, hq_url = client_base_url b @ ''/'' @ rest,
      hq_query = q, hq_body = body, hq_authorization = None\<rparr>
    = route_segments dec m q body (split_on slash rest)"
  using api_segments_base [OF assms] by (simp add: route_def)

lemma route_set_url:
  assumes "url_codec enc dec" and "query_free (trim_end_slashes b)" and "path \<noteq> []"
    and "url_clean api" and "api \<noteq> []" and "api \<noteq> ''auth''"
  shows "route dec (trim_end_slashes b) \<lparr>hq_method = m,
      hq_url = set_url (server_net conf enc dec header_ok clock b) (client_base_url b) api path,
      hq_query = q, hq_body = body, hq_authorization = None\<rparr> = route_path m q body api path"
proof -
  note c = url_clean_enc [OF assms(1), of path]
  have "query_free (api @ ''/'' @ enc path)"
    using assms(4) c(1) by (auto simp: url_clean_def query_free_def)
  from route_url [OF assms(2) this] show ?thesis
    using assms(3-6) c
    by (simp add: set_url_def server_net_def split_on_clean split_on_last route_segments_def)
qed

lemma route_set_long_url:
  assumes "url_codec enc dec" and "query_free (trim_end_slashes b)" and "path \<noteq> []"
    and "case obj of None \<Rightarrow> True | Some name \<Rightarrow> name \<noteq> [] \<and> url_clean name"
  shows "route dec (trim_end_slashes b) \<lparr>hq_method = m,
      hq_url = set_long_url (server_net conf enc dec header_ok clock b) (client_base_url b)
        ''xattributes'' path ''names'' obj,
      hq_query = q, hq_body = body, hq_authorization = None\<rparr>
    = (case obj of
         None \<Rightarrow> if m = GET then Some (Req_ListX path) else None
       | Some name \<Rightarrow> route_name m body path (dec name))"
proof (cases obj)
  case None
  note c = url_clean_enc [OF assms(1), of path]
  have "query_free (''xattributes'' @ ''/'' @ enc path @ ''/'' @ ''names'')"
    using c(1) by (auto simp: url_clean_def query_free_def)
  from route_url [OF assms(2) this] have "route dec (trim_end_slashes b) \<lparr>hq_method = m,
      hq_url = set_long_url (server_net conf enc dec header_ok clock b) (client_base_url b)
        ''xattributes'' path ''names'' None,
      hq_query = q, hq_body = body, hq_authorization = None\<rparr>
    = route_segments dec m q body (split_on slash (''xattributes'' @ ''/'' @ enc path @ ''/'' @ ''names''))"
    by (simp add: set_long_url_def server_net_def)
  also have "split_on slash (''xattributes'' @ ''/'' @ enc path @ ''/'' @ ''names'')
      = [''xattributes'', enc path, ''names'']"
    using c(1) by (simp add: split_on_clean)
  finally show ?thesis using None assms(3) c by (simp add: route_segments_def)
next
  case (Some name)
  note c = url_clean_enc [OF assms(1), of path]
  have n: "url_clean name" "name \<noteq> []" using assms(4) Some by simp_all
  have "query_free (''xattributes'' @ ''/'' @ enc path @ ''/'' @ ''names'' @ ''/'' @ name)"
    using c(1) n by (auto simp: url_clean_def query_free_def)
  from route_url [OF assms(2) this] have "route dec (trim_end_slashes b) \<lparr>hq_method = m,
      hq_url = set_long_url (server_net conf enc dec header_ok clock b) (client_base_url b)
        ''xattributes'' path ''names'' (Some name),
      hq_query = q, hq_body = body, hq_authorization = None\<rparr>
    = route_segments dec m q body
        (split_on slash (''xattributes'' @ ''/'' @ enc path @ ''/'' @ ''names'' @ ''/'' @ name))"
    by (simp add: set_long_url_def server_net_def)
  also have "split_on slash (''xattributes'' @ ''/'' @ enc path @ ''/'' @ ''names'' @ ''/'' @ name)
      = [''xattributes'', enc path, ''names'', name]"
    using c(1) n by (simp add: split_on_clean split_on_last)
  finally show ?thesis using Some assms(3) n c by (simp add: route_segments_def)
qed

text \<open>The mask of \<open>get_permissions\<close> travels as decimal digits.\<close>

lemma parse_digits_append:
  "parse_digits acc (s @ [char_of (48 + d)]) = map_option (\<lambda>n. 10 * n + d) (parse_digits acc s)"
  if "d < 10" for d :: nat
  using that by (induction s arbitrary: acc) (auto simp: Let_def)

lemma parse_show: "parse_digits 0 (show_nat n) = Some n"
proof (induction n rule: show_nat.induct)
  case (1 n)
  show ?case
  proof (cases "n < 10")
    case True
    then show ?thesis
      using parse_digits_append [of n 0 "[]"] by (subst show_nat.simps) simp
  next
    case False
    with 1 show ?thesis
      by (subst show_nat.simps) (simp add: parse_digits_append)
  qed
qed

lemma show_nat_start: "show_nat n \<noteq> [] \<and> hd (show_nat n) \<noteq> CHR ''+''"
proof (induction n rule: show_nat.induct)
  case (1 n)
  have "char_of (48 + m) \<noteq> CHR ''+''" if "m < 10" for m :: nat
  proof
    assume "char_of (48 + m) = CHR ''+''"
    then have "(of_char (char_of (48 + m) :: char) :: nat) = of_char CHR ''+''" by simp
    with that show False by simp
  qed
  with 1 show ?case by (subst (1 2) show_nat.simps) auto
qed

lemma get_mask_show: "get_mask (show_nat (unat m)) = Inr m"
  using show_nat_start [of "unat m"] parse_show [of "unat m"] unsigned_less [of m, where 'a = nat]
  by (simp add: get_mask_def parse_u32_def)

lemma rc_path_direct:
  assumes "url_codec enc dec" and "query_free (trim_end_slashes b)" and "path \<noteq> []"
    and "url_clean api" and "api \<noteq> []" and "api \<noteq> ''auth''" and "route_path m q body api path = Some rq"
  shows "rc_call (server_net conf enc dec header_ok clock b) m
      (set_url (server_net conf enc dec header_ok clock b) (client_base_url b) api path) q body extractor
    = direct_call conf header_ok rq extractor"
  using route_set_url [OF assms(1-6), of m conf header_ok clock q body] assms(7)
  by (intro rc_call_direct) simp

lemma rc_name_direct:
  assumes "url_codec enc dec" and "query_free (trim_end_slashes b)" and "path \<noteq> []"
    and "name \<noteq> []" and "url_clean name" and "dec name = name"
    and "route_name m body path name = Some rq"
  shows "rc_call (server_net conf enc dec header_ok clock b) m
      (set_long_url (server_net conf enc dec header_ok clock b) (client_base_url b)
        ''xattributes'' path ''names'' (Some name)) q body extractor
    = direct_call conf header_ok rq extractor"
  using route_set_long_url [OF assms(1-3), of "Some name" m conf header_ok clock q body] assms(4-7)
  by (intro rc_call_direct) simp

lemma rc_names_direct:
  assumes "url_codec enc dec" and "query_free (trim_end_slashes b)" and "path \<noteq> []"
  shows "rc_call (server_net conf enc dec header_ok clock b) GET
      (set_long_url (server_net conf enc dec header_ok clock b) (client_base_url b)
        ''xattributes'' path ''names'' None) q body extractor
    = direct_call conf header_ok (Req_ListX path) extractor"
  using route_set_long_url [OF assms(1-3), of None GET conf header_ok clock q body]
  by (intro rc_call_direct) simp

lemma rc_short_direct:
  assumes "query_free (trim_end_slashes b)" and "query_free api"
    and "route_segments dec m q body (split_on slash api) = Some rq"
  shows "rc_call (server_net conf enc dec header_ok clock b) m
      (set_short_url (client_base_url b) api) q body extractor = direct_call conf header_ok rq extractor"
  using route_url [OF assms(1,2), of dec m q body] assms(3)
  by (intro rc_call_direct) (simp add: set_short_url_def)

lemmas route_parts = route_path_def route_name_def route_short_def route_auth_def url_clean_def
  query_free_def route_segments_def


subsection \<open>Errors\<close>

lemma errno_of_api: "errno_of_fuse (fuse_error_of_api e) =
  (case e of
     Api_Unauthorized \<Rightarrow> EACCES | Api_NotFound \<Rightarrow> ENOENT | Api_AlreadyExists \<Rightarrow> EEXIST
   | Api_NotADirectory \<Rightarrow> ENOTDIR | Api_IsADirectory \<Rightarrow> EISDIR | Api_DirectoryNotEmpty \<Rightarrow> ENOTEMPTY
   | Api_PermissionDenied \<Rightarrow> EACCES | Api_OperationNotPermitted \<Rightarrow> EPERM | Api_StorageFull \<Rightarrow> ENOSPC
   | Api_OutOfMemory \<Rightarrow> ENOMEM | Api_InvalidInput \<Rightarrow> EINVAL | Api_FileTooLarge \<Rightarrow> EOVERFLOW
   | Api_Unsupported \<Rightarrow> EOPNOTSUPP | Api_CrossDeviceLink \<Rightarrow> EXDEV | Api_IoError \<Rightarrow> EIO
   | Api_TextFileBusy \<Rightarrow> ETXTBSY | Api_ResourceBusy \<Rightarrow> EBUSY | Api_TryAgain \<Rightarrow> EAGAIN
   | Api_InternalError \<Rightarrow> EIO)"
  by (cases e) (simp_all add: fuse_error_of_api_def fuse_error_of_tag_def message_variants_def)

text \<open>
  C13. An error of a handler reaches the kernel as itself: the answer of the server is read back as
  the \<open>FuseError\<close> of the same name, and two errors of the server give the same \<open>errno\<close> only when
  they are the same, or are the two that mean a refused access, or the two that mean a failed I/O.
\<close>

theorem errors_reach_the_kernel:
  "(case respond (Ret (Inl e)) of
      Some resp \<Rightarrow> handle_response resp extractor = Inl (Net_ServerError (fuse_error_of_api e))
    | None \<Rightarrow> False)
   \<and> (errno_of_fs (Fs_ServerError (Net_ServerError (fuse_error_of_api e)))
        = errno_of_fs (Fs_ServerError (Net_ServerError (fuse_error_of_api e')))
      \<longleftrightarrow> e = e' \<or> {e, e'} = {Api_Unauthorized, Api_PermissionDenied}
        \<or> {e, e'} = {Api_IoError, Api_InternalError})"
proof -
  have "hr_status r < 200 \<or> 299 < hr_status r" if "respond (Ret (Inl e)) = Some r" for r
    using that by (cases e) (auto simp: respond_def)
  then have 1: "case respond (Ret (Inl e)) of
      Some resp \<Rightarrow> handle_response resp extractor = Inl (Net_ServerError (fuse_error_of_api e))
    | None \<Rightarrow> False"
    by (auto simp: respond_def handle_response_def fuse_error_of_tag_api)
  have 2: "errno_of_fuse (fuse_error_of_api e) = errno_of_fuse (fuse_error_of_api e')
      \<longleftrightarrow> e = e' \<or> {e, e'} = {Api_Unauthorized, Api_PermissionDenied}
        \<or> {e, e'} = {Api_IoError, Api_InternalError}"
    unfolding errno_of_api by (cases e; cases e') (simp_all add: doubleton_eq_iff)
  show ?thesis using 1 2 by simp
qed

subsection \<open>A file on the server\<close>

text \<open>A path that leads to a regular file, and not through a link in its last piece.\<close>

definition served_file :: "server_conf \<Rightarrow> string \<Rightarrow> server_state \<Rightarrow> bool" where
  "served_file conf p s \<longleftrightarrow> wf_kernel (sv_kernel s)
     \<and> (\<exists>q m b. sys_node False (sv_kernel s) (make_real_path (sc_root conf) p) = Inr (q, FileN m b)
          \<and> sys_node True (sv_kernel s) (make_real_path (sc_root conf) p) = Inr (q, FileN m b))"

definition served_bytes :: "server_conf \<Rightarrow> string \<Rightarrow> server_state \<Rightarrow> bytes" where
  "served_bytes conf p s =
     (case file_bytes (sv_kernel s) (make_real_path (sc_root conf) p) of Some b \<Rightarrow> b | None \<Rightarrow> [])"

lemma write_at_twice: "write_at (write_at c off d) off d = write_at c off d"
proof (cases "d = []")
  case False
  then have "off + length d \<le> length (write_at c off d)" by (simp add: slice_simps)
  then show ?thesis
    by (intro nth_equalityI) (use False nth_write_at in \<open>auto simp: slice_simps\<close>)
qed simp

lemma served_cong:
  "sv_kernel s' = sv_kernel s \<Longrightarrow> served_file conf p s' = served_file conf p s"
  "sv_kernel s' = sv_kernel s \<Longrightarrow> served_bytes conf p s' = served_bytes conf p s"
  by (simp_all add: served_file_def served_bytes_def)

lemma st_write_served:
  assumes "served_file conf p s"
    and "st_write_file (sc_externs conf) (sc_root conf) u g p d off (sv_kernel s) = (r, k')"
    and "sv_kernel s' = k'"
  shows "served_file conf p s'
    \<and> served_bytes conf p s' = (if r = Inr () then write_at (served_bytes conf p s) off d else served_bytes conf p s)"
proof -
  let ?p = "make_real_path (sc_root conf) p"
  let ?k = "sv_kernel s"
  obtain q m b where wf: "wf_kernel ?k" and n: "sys_node False ?k ?p = Inr (q, FileN m b)"
    "sys_node True ?k ?p = Inr (q, FileN m b)"
    using assms(1) by (auto simp: served_file_def)
  note l = sys_node_lookup [OF n(1)] sys_node_lookup [OF n(2)]
  have fb: "served_bytes conf p s = b" using n by (simp add: served_bytes_def file_bytes_def)
  have open_q: "sys_open_rw True ?k ?p = Inr (q, ?k)" using l by (simp add: sys_open_rw_def)
  have "is_ok (sys_lstat ?k ?p)" using n by (simp add: sys_lstat_def)
  then have w: "(r, k') = (case sys_seek off of
      Inl e \<Rightarrow> (Inl (storage_error_of_io e), ?k)
    | Inr off' \<Rightarrow> (case sys_write_all ?k q off' d of
        Inl e \<Rightarrow> (Inl (storage_error_of_io e), ?k) | Inr k2 \<Rightarrow> (Inr (), k2)))"
    using assms(2) open_q by (auto simp: st_write_file_def Let_def split: sum.splits)
  show ?thesis
  proof (cases "off < 2 ^ 63")
    case False
    then have "k' = ?k" "r \<noteq> Inr ()" using w by (simp_all add: sys_seek_def)
    with assms(1,3) served_cong [of s' s] show ?thesis by simp
  next
    case True
    show ?thesis
    proof (cases "d = []")
      case True
      with w \<open>off < 2 ^ 63\<close> l have "k' = ?k" "r = Inr ()" by (simp_all add: sys_seek_def sys_write_all_def)
      with assms(1,3) served_cong [of s' s] True show ?thesis by simp
    next
      case False
      let ?k2 = "k_put q (FileN (touch_data ?k m) (write_at b off d)) ?k"
      from w True False l have k': "k' = ?k2" "r = Inr ()"
        by (simp_all add: sys_seek_def sys_write_all_def)
      from l have r: "sys_resolve False ?k ?p = Inr q" "sys_resolve True ?k ?p = Inr q"
        and f: "case nlookup (k_root ?k) q of None \<Rightarrow> True | Some o' \<Rightarrow> is_file o'" by auto
      note put = sys_node_put_file [OF wf r(1) f, of "touch_data ?k m" "write_at b off d"]
        sys_node_put_file [OF wf r(2) f, of "touch_data ?k m" "write_at b off d"]
      show ?thesis using put fb assms(3) k' by (simp add: served_file_def served_bytes_def file_bytes_def)
    qed
  qed
qed

lemma st_read_served:
  assumes "served_file conf p s" and "st_read_file (sc_root conf) p off n (sv_kernel s) = Inr d"
  shows "d = read_at (served_bytes conf p s) off n"
  using assms
  by (auto simp: served_file_def served_bytes_def file_bytes_def st_read_file_def Let_def
      sys_open_read_def sys_seek_def sys_read_def map_err_def dest!: sys_node_lookup
      split: sum.splits if_splits)

lemma st_attributes_served:
  assumes "served_file conf p s" and "length (served_bytes conf p s) < 2 ^ 64"
    and "st_get_attributes (sc_root conf) p (sv_kernel s) = Inr a"
  shows "unat (fa_size a) = length (served_bytes conf p s)"
proof -
  let ?p = "make_real_path (sc_root conf) p"
  obtain q m b where n: "sys_node False (sv_kernel s) ?p = Inr (q, FileN m b)"
    "sys_node True (sv_kernel s) ?p = Inr (q, FileN m b)"
    using assms(1) by (auto simp: served_file_def)
  then have "served_bytes conf p s = b" by (simp add: served_bytes_def file_bytes_def)
  moreover have "fa_size a = of_nat (length b)"
    using assms(3) n by (auto simp: st_get_attributes_def get_attributes_by_path_def sys_lstat_def
        file_attr_of_node_def Let_def)
  ultimately show ?thesis using assms(2) by (simp add: unat_of_nat)
qed

subsection \<open>One request for that file\<close>

definition success :: "http_response \<Rightarrow> bool" where
  "success r \<longleftrightarrow> 200 \<le> hr_status r \<and> hr_status r \<le> 299"

lemma respond_success:
  assumes "respond res = Some r"
  shows "success r \<longleftrightarrow> (\<exists>x. res = Ret (Inr x) \<and> hr_body r = RB_Value x)"
proof (cases res)
  case (Ret y)
  then show ?thesis
  proof (cases y)
    case (Inl e)
    with Ret assms show ?thesis by (cases e) (auto simp: respond_def success_def)
  next
    case (Inr x)
    with Ret assms show ?thesis by (cases x) (auto simp: respond_def success_def)
  qed
qed (use assms in \<open>simp add: respond_def\<close>)

lemma auth_cases:
  assumes "auth_middleware conf now hdr h s = (res, s')"
  shows "(\<exists>u d. h u (s\<lparr>sv_db := d\<rparr>) = (res, s')) \<or> sv_kernel s' = sv_kernel s \<and> (\<exists>e. res = Ret (Inl e))"
  using assms
  by (auto simp: auth_middleware_def h_fail_def split: sum.splits prod.splits)

lemma serve_cases:
  assumes "needs_auth rq" and "serve conf now uuid hdr rq s = (resp, s')"
  shows "(\<exists>u d res. protected_handler conf rq u (s\<lparr>sv_db := d\<rparr>) = (res, s') \<and> resp = respond res)
    \<or> sv_kernel s' = sv_kernel s \<and> (\<forall>r. resp = Some r \<longrightarrow> \<not> success r)"
proof (cases "payload_ok rq")
  case True
  obtain res s1 where h: "auth_middleware conf now hdr (protected_handler conf rq) s = (res, s1)"
    by (cases "auth_middleware conf now hdr (protected_handler conf rq) s")
  with True assms have "resp = respond res" "s' = s1"
    by (simp_all add: serve_def handle_request_auth)
  with auth_cases [OF h] show ?thesis using respond_success by fastforce
next
  case False
  obtain res s1 where h: "auth_middleware conf now hdr (\<lambda>u. h_ok R_Finish) s = (res, s1)"
    by (cases "auth_middleware conf now hdr (\<lambda>u. h_ok R_Finish) s")
  have k: "sv_kernel s1 = sv_kernel s"
    using auth_cases [OF h] by (auto simp: h_ok_def)
  show ?thesis
  proof (cases "\<exists>x. res = Ret (Inr x)")
    case True
    then show ?thesis using False assms(2) h k
      by (auto simp: serve_def success_def)
  next
    case not_ok: False
    then have "resp = respond res" "s' = s1"
      using False assms(2) h by (auto simp: serve_def split: outcome.splits sum.splits)
    with k not_ok respond_success show ?thesis by fastforce
  qed
qed

lemma write_file_kernel:
  assumes "write_file conf u p off d s = (res, s')"
  shows "(\<exists>e. res = Ret (Inl e)) \<and> sv_kernel s' = sv_kernel s
    \<or> (\<exists>r. st_write_file (sc_externs conf) (sc_root conf) (au_user_id u) (au_group_id u) p d off (sv_kernel s)
          = (r, sv_kernel s') \<and> (\<forall>x. res = Ret (Inr x) \<longrightarrow> r = Inr ()))"
proof (cases "check_permission conf u (sv_kernel s) p Op_Write")
  case (Inl e)
  with assms show ?thesis by (auto simp: write_file_def with_permission_def h_fail_def)
next
  case (Inr x)
  obtain r k' where w: "st_write_file (sc_externs conf) (sc_root conf) (au_user_id u) (au_group_id u) p d off
      (sv_kernel s) = (r, k')" by fastforce
  have "sv_kernel s' = k' \<and> (\<forall>x. res = Ret (Inr x) \<longrightarrow> r = Inr ())"
  proof (cases r)
    case (Inl e)
    with assms Inr w show ?thesis
      by (auto simp: write_file_def with_permission_def storage_do_def h_fail_def)
  next
    case (Inr y)
    with assms \<open>check_permission conf u (sv_kernel s) p Op_Write = Inr x\<close> w show ?thesis
      by (auto simp: write_file_def with_permission_def storage_do_def storage_read_def h_fail_def
          h_ok_def split: sum.splits)
  qed
  with w show ?thesis by auto
qed

lemma serve_write:
  assumes "served_file conf p s" and "serve conf now uuid hdr (Req_WriteFile p off d) s = (resp, s')"
  shows "served_file conf p s'
    \<and> (served_bytes conf p s' = served_bytes conf p s
       \<or> served_bytes conf p s' = write_at (served_bytes conf p s) off d)
    \<and> (\<forall>r. resp = Some r \<longrightarrow> success r \<longrightarrow> served_bytes conf p s' = write_at (served_bytes conf p s) off d)"
proof -
  have "(\<exists>u db res. write_file conf u p off d (s\<lparr>sv_db := db\<rparr>) = (res, s') \<and> resp = respond res)
    \<or> sv_kernel s' = sv_kernel s \<and> (\<forall>r. resp = Some r \<longrightarrow> \<not> success r)"
    using serve_cases [OF _ assms(2)] by (simp add: needs_auth_def)
  then consider (idle) "sv_kernel s' = sv_kernel s" "\<forall>r. resp = Some r \<longrightarrow> \<not> success r"
    | (run) u db res where "write_file conf u p off d (s\<lparr>sv_db := db\<rparr>) = (res, s')" "resp = respond res"
    by blast
  then show ?thesis
  proof cases
    case idle
    with assms(1) served_cong [OF idle(1)] show ?thesis by simp
  next
    case run
    from write_file_kernel [OF run(1)] consider (refused) "\<exists>e. res = Ret (Inl e)" "sv_kernel s' = sv_kernel s"
      | (served) r where "st_write_file (sc_externs conf) (sc_root conf) (au_user_id u) (au_group_id u) p d off
          (sv_kernel s) = (r, sv_kernel s')" "\<forall>x. res = Ret (Inr x) \<longrightarrow> r = Inr ()"
      by auto
    then show ?thesis
    proof cases
      case refused
      from assms(1) served_cong [OF refused(2)] refused(1) run(2) respond_success show ?thesis by fastforce
    next
      case served
      from st_write_served [OF assms(1) served(1) refl] served(2) run(2) respond_success
      show ?thesis by (metis (no_types, lifting))
    qed
  qed
qed

lemma serve_read:
  assumes "served_file conf p s" and "serve conf now uuid hdr (Req_ReadFile p off n) s = (resp, s')"
  shows "sv_kernel s' = sv_kernel s
    \<and> (\<forall>r. resp = Some r \<longrightarrow> success r \<longrightarrow> hr_body r = RB_Value (R_Bytes (read_at (served_bytes conf p s) off n)))"
proof -
  have "sv_kernel s' = sv_kernel s \<and> (\<forall>r. resp = Some r \<longrightarrow> \<not> success r)
    \<or> (\<exists>u db res. get_file_content conf u p off n (s\<lparr>sv_db := db\<rparr>) = (res, s') \<and> resp = respond res)"
    using serve_cases [OF _ assms(2)] by (auto simp: needs_auth_def)
  then show ?thesis
  proof
    assume "\<exists>u db res. get_file_content conf u p off n (s\<lparr>sv_db := db\<rparr>) = (res, s') \<and> resp = respond res"
    then obtain u db res where run: "get_file_content conf u p off n (s\<lparr>sv_db := db\<rparr>) = (res, s')"
      "resp = respond res" by blast
    have "sv_kernel s' = sv_kernel s \<and> (\<forall>x. res = Ret (Inr x) \<longrightarrow>
        (\<exists>d. x = R_Bytes d \<and> st_read_file (sc_root conf) p off n (sv_kernel s) = Inr d))"
      using run(1) by (auto simp: get_file_content_def with_permission_def storage_read_def h_fail_def
          h_ok_def split: sum.splits)
    with run(2) show ?thesis by (auto simp: respond_success dest!: st_read_served [OF assms(1)])
  qed auto
qed

lemma get_attributes_kernel: "sv_kernel (snd (get_attributes conf u p s)) = sv_kernel s"
  by (simp add: get_attributes_def storage_read_def h_fail_def h_ok_def split: sum.splits)

lemma serve_attributes_kernel:
  assumes "serve conf now uuid hdr (Req_GetAttr p) s = (resp, s')"
  shows "sv_kernel s' = sv_kernel s"
proof -
  have "sv_kernel s' = sv_kernel s \<or> (\<exists>u db res. get_attributes conf u p (s\<lparr>sv_db := db\<rparr>) = (res, s'))"
    using serve_cases [OF _ assms] by (auto simp: needs_auth_def)
  then show ?thesis using get_attributes_kernel by (metis server_state.select_convs(1) server_state.surjective server_state.update_convs(2) snd_conv)
qed

lemma serve_attributes:
  assumes "served_file conf p s" and "serve conf now uuid hdr (Req_GetAttr p) s = (resp, s')"
    and "length (served_bytes conf p s) < 2 ^ 64"
  shows "sv_kernel s' = sv_kernel s
    \<and> (\<forall>r. resp = Some r \<longrightarrow> success r \<longrightarrow>
        (\<exists>a. hr_body r = RB_Value (R_Attr a) \<and> unat (fa_size a) = length (served_bytes conf p s)))"
proof -
  have "sv_kernel s' = sv_kernel s \<and> (\<forall>r. resp = Some r \<longrightarrow> \<not> success r)
    \<or> (\<exists>u db res. get_attributes conf u p (s\<lparr>sv_db := db\<rparr>) = (res, s') \<and> resp = respond res)"
    using serve_cases [OF _ assms(2)] by (auto simp: needs_auth_def)
  then show ?thesis
  proof
    assume "\<exists>u db res. get_attributes conf u p (s\<lparr>sv_db := db\<rparr>) = (res, s') \<and> resp = respond res"
    then obtain u db res where run: "get_attributes conf u p (s\<lparr>sv_db := db\<rparr>) = (res, s')"
      "resp = respond res" by blast
    have "sv_kernel s' = sv_kernel s \<and> (\<forall>x. res = Ret (Inr x) \<longrightarrow>
        (\<exists>a. x = R_Attr a \<and> st_get_attributes (sc_root conf) p (sv_kernel s) = Inr a))"
      using run(1) by (auto simp: get_attributes_def storage_read_def h_fail_def h_ok_def split: sum.splits)
    with run(2) show ?thesis by (auto simp: respond_success dest!: st_attributes_served [OF assms(1,3)])
  qed auto
qed

subsection \<open>Retries\<close>

lemma send_retry_rule:
  assumes step: "\<And>w r w'. I w \<Longrightarrow> f w = (r, w') \<Longrightarrow> I w' \<and> (\<forall>x. r = Some x \<longrightarrow> Q x w')"
    and "I w" and "send_retry n f w = (r, w')"
  shows "I w' \<and> (\<forall>x. r = Some x \<longrightarrow> Q x w')"
  using assms(2,3)
proof (induction n arbitrary: w)
  case 0
  then show ?case using step by simp
next
  case (Suc n)
  obtain q w1 where f: "f w = (q, w1)" by (cases "f w")
  note one = step [OF Suc.prems(1) f]
  show ?case
  proof (cases "case q of None \<Rightarrow> True | Some x \<Rightarrow> transient_status (hr_status x)")
    case True
    then have "send_retry n f w1 = (r, w')" using Suc.prems(2) f by (auto split: option.splits)
    with Suc.IH one show ?thesis by blast
  next
    case False
    then show ?thesis using Suc.prems(2) f one by (auto split: option.splits)
  qed
qed

text \<open>A rule for a call: what every attempt keeps, and what a successful answer means.\<close>

lemma direct_call_rule:
  assumes "\<And>s now uuid hdr resp s'. J s \<Longrightarrow> serve conf now uuid hdr rq s = (resp, s') \<Longrightarrow>
      J s' \<and> (\<forall>r. resp = Some r \<longrightarrow> success r \<longrightarrow> Q r s')"
    and "J (lk_server (nw_http w))" and "direct_call conf header_ok rq extractor w = (r, w')"
  shows "J (lk_server (nw_http w')) \<and> (\<forall>x. r = Inr x \<longrightarrow>
    (\<exists>resp. Q resp (lk_server (nw_http w')) \<and> extractor resp = Some x))"
proof -
  let ?hdr = "map_option (\<lambda>t. ''Bearer '' @ t) (nw_token w)"
  have step: "J (lk_server h') \<and> (\<forall>x. q = Some x \<longrightarrow> (success x \<longrightarrow> Q x (lk_server h')))"
    if "J (lk_server h)" "deliver conf ?hdr rq h = (q, h')" for h q h'
    using that assms(1) by (fastforce simp: deliver_def split: list.splits prod.splits)
  obtain q h where send: "send_retry 3 (deliver conf ?hdr rq) (nw_http w) = (q, h)"
    by (cases "send_retry 3 (deliver conf ?hdr rq) (nw_http w)")
  have sent: "J (lk_server h) \<and> (\<forall>x. q = Some x \<longrightarrow> (success x \<longrightarrow> Q x (lk_server h)))"
    by (rule send_retry_rule [where I = "\<lambda>h. J (lk_server h)" and Q = "\<lambda>x h. success x \<longrightarrow> Q x (lk_server h)",
          OF _ assms(2) send]) (use step in blast)
  show ?thesis
  proof (cases "case ?hdr of Some v \<Rightarrow> \<not> header_ok v | None \<Rightarrow> False")
    case True
    then have "(r, w') = (Inl Net_Request, w)" using assms(3) by (simp add: direct_call_def)
    with assms(2) show ?thesis by simp
  next
    case False
    then have "(r, w') = (case q of None \<Rightarrow> (Inl Net_Request, w\<lparr>nw_http := h\<rparr>)
        | Some resp \<Rightarrow> (handle_response resp extractor, w\<lparr>nw_http := h\<rparr>))"
      using assms(3) send by (simp add: direct_call_def)
    with sent show ?thesis
      by (auto simp: handle_response_def success_def split: option.splits resp_body.splits if_splits)
  qed
qed

subsection \<open>The file is a remote file of the client\<close>

definition file_link ::
  "server_conf \<Rightarrow> (string \<Rightarrow> string) \<Rightarrow> (string \<Rightarrow> string) \<Rightarrow> string \<Rightarrow> string \<Rightarrow> link net_world \<Rightarrow> bool" where
  "file_link conf enc dec b p w \<longleftrightarrow> url_codec enc dec \<and> query_free (trim_end_slashes b) \<and> p \<noteq> []
     \<and> served_file conf p (lk_server (nw_http w))"

definition link_content :: "server_conf \<Rightarrow> string \<Rightarrow> link net_world \<Rightarrow> bytes" where
  "link_content conf p w = served_bytes conf p (lk_server (nw_http w))"

lemma file_link_calls:
  assumes "url_codec enc dec" and "query_free (trim_end_slashes b)" and "p \<noteq> []"
  shows "rm_write_file (remote_client (server_net conf enc dec hok clock b) b) p off d
      = direct_call conf hok (Req_WriteFile p off d) json_attributes"
    and "rm_read_file (remote_client (server_net conf enc dec hok clock b) b) p off n
      = direct_call conf hok (Req_ReadFile p off n) body_bytes"
    and "rm_get_attributes (remote_client (server_net conf enc dec hok clock b) b) p
      = direct_call conf hok (Req_GetAttr p) json_attributes"
  unfolding remote_client_def Let_def remote.simps rc_defs
  by (intro rc_path_direct [OF assms]; simp add: route_parts)+

lemma file_linkD:
  assumes "file_link conf enc dec b p w"
  shows "url_codec enc dec" "query_free (trim_end_slashes b)" "p \<noteq> []"
    and "served_file conf p (lk_server (nw_http w))"
  using assms by (simp_all add: file_link_def)

lemma link_write_law:
  assumes "file_link conf enc dec b p w"
    and "rm_write_file (remote_client (server_net conf enc dec hok clock b) b) p off d w = (Inr a, w')"
  shows "file_link conf enc dec b p w' \<and> link_content conf p w' = write_at (link_content conf p w) off d"
proof -
  note env = file_linkD [OF assms(1)]
  define c where "c = served_bytes conf p (lk_server (nw_http w))"
  let ?J = "\<lambda>s. served_file conf p s \<and> (served_bytes conf p s = c \<or> served_bytes conf p s = write_at c off d)"
  have step: "?J s' \<and> (\<forall>r. resp = Some r \<longrightarrow> success r \<longrightarrow> served_bytes conf p s' = write_at c off d)"
    if "?J s" "serve conf now uuid hdr (Req_WriteFile p off d) s = (resp, s')" for s now uuid hdr resp s'
    using serve_write [OF conjunct1 [OF that(1)] that(2)] conjunct2 [OF that(1)] write_at_twice [of c off d]
    by metis
  note call = assms(2) [unfolded file_link_calls(1) [OF env(1-3)]]
  have init: "?J (lk_server (nw_http w))" using env(4) c_def by simp
  let ?Q = "\<lambda>(r :: http_response) s. served_bytes conf p s = write_at c off d"
  have "?J (lk_server (nw_http w')) \<and> (\<forall>x. (Inr a :: network_error + c_attributes) = Inr x \<longrightarrow>
      (\<exists>resp. ?Q resp (lk_server (nw_http w')) \<and> json_attributes resp = Some x))"
    by (rule direct_call_rule [where J = ?J and Q = ?Q, OF _ init call]) (rule step)
  then show ?thesis using env(1-3) by (simp add: file_link_def link_content_def c_def)
qed

lemma link_read_law:
  assumes "file_link conf enc dec b p w"
    and "rm_read_file (remote_client (server_net conf enc dec hok clock b) b) p off n w = (r, w')"
  shows "file_link conf enc dec b p w' \<and> link_content conf p w' = link_content conf p w
    \<and> (\<forall>d. r = Inr d \<longrightarrow> d = read_at (link_content conf p w) off n)"
proof -
  note env = file_linkD [OF assms(1)]
  define c where "c = served_bytes conf p (lk_server (nw_http w))"
  let ?J = "\<lambda>s. served_file conf p s \<and> served_bytes conf p s = c"
  let ?Q = "\<lambda>(r :: http_response) (s :: server_state). hr_body r = RB_Value (R_Bytes (read_at c off n))"
  have step: "?J s' \<and> (\<forall>r. resp = Some r \<longrightarrow> success r \<longrightarrow> ?Q r s')"
    if "?J s" "serve conf now uuid hdr (Req_ReadFile p off n) s = (resp, s')" for s now uuid hdr resp s'
    using serve_read [OF conjunct1 [OF that(1)] that(2)] that(1) served_cong [of s' s] by simp
  note call = assms(2) [unfolded file_link_calls(2) [OF env(1-3)]]
  have init: "?J (lk_server (nw_http w))" using env(4) c_def by simp
  have "?J (lk_server (nw_http w')) \<and> (\<forall>x. r = Inr x \<longrightarrow>
      (\<exists>resp. ?Q resp (lk_server (nw_http w')) \<and> body_bytes resp = Some x))"
    by (rule direct_call_rule [where J = ?J and Q = ?Q, OF _ init call]) (rule step)
  then show ?thesis using env(1-3) by (auto simp: file_link_def link_content_def c_def body_bytes_def)
qed

lemma link_attributes_law:
  assumes "file_link conf enc dec b p w"
    and "rm_get_attributes (remote_client (server_net conf enc dec hok clock b) b) p w = (r, w')"
  shows "file_link conf enc dec b p w' \<and> link_content conf p w' = link_content conf p w
    \<and> (\<forall>a. r = Inr a \<longrightarrow> length (link_content conf p w) < 2 ^ 64 \<longrightarrow>
        unat (at_size a) = length (link_content conf p w))"
proof -
  note env = file_linkD [OF assms(1)]
  define c where "c = served_bytes conf p (lk_server (nw_http w))"
  let ?J = "\<lambda>s. served_file conf p s \<and> served_bytes conf p s = c"
  let ?Q = "\<lambda>(r :: http_response) (s :: server_state). length c < 2 ^ 64 \<longrightarrow>
    (\<exists>a. hr_body r = RB_Value (R_Attr a) \<and> unat (fa_size a) = length c)"
  have step: "?J s' \<and> (\<forall>r. resp = Some r \<longrightarrow> success r \<longrightarrow> ?Q r s')"
    if "?J s" "serve conf now uuid hdr (Req_GetAttr p) s = (resp, s')" for s now uuid hdr resp s'
    using that(1) serve_attributes_kernel [OF that(2)] serve_attributes [OF conjunct1 [OF that(1)] that(2)]
      served_cong [of s' s] by simp
  note call = assms(2) [unfolded file_link_calls(3) [OF env(1-3)]]
  have init: "?J (lk_server (nw_http w))" using env(4) c_def by simp
  have "?J (lk_server (nw_http w')) \<and> (\<forall>x. r = Inr x \<longrightarrow>
      (\<exists>resp. ?Q resp (lk_server (nw_http w')) \<and> json_attributes resp = Some x))"
    by (rule direct_call_rule [where J = ?J and Q = ?Q, OF _ init call]) (rule step)
  then show ?thesis using env(1-3)
    by (auto simp: file_link_def link_content_def c_def json_attributes_def attributes_of_wire_def
        split: if_splits)
qed

interpretation server_file: remote_file "remote_client (server_net conf enc dec hok clock b) b" p
  "file_link conf enc dec b p" "link_content conf p"
  for conf enc dec hok clock b p
  using link_write_law link_read_law link_attributes_law by unfold_locales blast+

end
