(* ===== verification/End_To_End.thy ===== *)
theory End_To_End
  imports Client_Server
begin

text \<open>
  Sessions of the client on a file of the server, from the callbacks down to the bytes on disk:
  buffered writes with a flush, and series of reads without a cache.
\<close>

subsection \<open>A client made by \<open>FileSystem::new\<close>\<close>

lemma fs_new_state:
  assumes "fs_new rc cfg po ho fh w = Ret (conf, s)"
  shows "fc_remote conf = rc" "cw_world s = w" "wb_pending (cw_write_buffer s) = []"
    "cw_read_buffer s = rb_new (rm_now rc w) (fg_buffer_size cfg)"
    "cw_cache s = cache_from_config (fg_cache cfg)"
  using assms by (auto simp: fs_new_def split: if_splits)

lemma fs_write_all_length:
  "fs_write_all conf p flg ws s = (Ret (Inr ns), s') \<Longrightarrow> length ns = length ws"
  by (induction ws arbitrary: s ns s') (fastforce simp: cm_bind_ok cm_return_def)+

lemma fs_write_session_length:
  "fs_write_session conf p flg ws s = (Ret (Inr ns), s') \<Longrightarrow> length ns = length ws"
  using fs_write_all_length by (fastforce simp: fs_write_session_def cm_bind_ok cm_return_def)

text \<open>
  C4. Buffered writes reach the disk: when a new client of the server writes to a file in any order
  of offsets and its flush succeeds, the file on the server holds exactly the old bytes with every
  write laid over them in order, as many bytes of each as the client reported. It holds for every
  size of the buffer, with or without a cache, and whatever failures were retried on the way; a
  session never panics.
\<close>

theorem writes_reach_the_disk:
  assumes "url_codec enc dec" and "query_free (trim_end_slashes b)" and "path_to_string p = Inr ps"
    and "ps \<noteq> []" and "served_file conf ps (lk_server (nw_http w))"
    and "\<forall>ks. set (po ks) = set ks" and "\<forall>ks. set (ho ks) = set ks"
    and "fs_new (remote_client (server_net conf enc dec hok clock b) b) cfg po ho fh w = Ret (fc, s)"
    and "fs_write_session fc p flg ws s = (r, s')"
  shows "r \<noteq> Panic \<and> (\<forall>ns. r = Ret (Inr ns) \<longrightarrow> length ns = length ws
    \<and> served_bytes conf ps (lk_server (nw_http (cw_world s')))
      = apply_writes (served_bytes conf ps (lk_server (nw_http w))) ws ns)"
proof -
  note new = fs_new_state [OF assms(8)]
  have ok: "client_ok fc s" using fs_new_ok [OF assms(8,6,7)] .
  have good: "file_link conf enc dec b ps (cw_world s)" using assms(1,2,4,5) new by (simp add: file_link_def)
  have buf: "buffer_for p (cw_write_buffer s)" using new by (simp add: buffer_for_def)
  from server_file.write_session_refines [OF new(1) assms(3) ok good buf assms(9)] new
  have "r \<noteq> Panic \<and> (\<forall>ns. r = Ret (Inr ns) \<longrightarrow>
      link_content conf ps (cw_world s') = apply_writes (link_content conf ps w) ws ns)"
    by (simp add: intended_def)
  then show ?thesis using fs_write_session_length assms(9) by (auto simp: link_content_def)
qed

subsection \<open>A concrete link\<close>

text \<open>Percent encoding of the characters that end a segment, and of the percent sign.\<close>

definition pct_table :: "(char \<times> string) list" where
  "pct_table = [(slash, ''%2F''), (CHR ''?'', ''%3F''), (CHR ''#'', ''%23''), (CHR ''%'', ''%25'')]"

fun pct_encode :: "string \<Rightarrow> string" where
  "pct_encode [] = []"
| "pct_encode (c # cs) =
     (case map_of pct_table c of Some e \<Rightarrow> e | None \<Rightarrow> [c]) @ pct_encode cs"

fun pct_decode :: "string \<Rightarrow> string" where
  "pct_decode [] = []"
| "pct_decode (c # cs) =
     (if c = CHR ''%'' then
        (if take 2 cs = ''2F'' then slash # pct_decode (drop 2 cs)
         else if take 2 cs = ''3F'' then CHR ''?'' # pct_decode (drop 2 cs)
         else if take 2 cs = ''23'' then CHR ''#'' # pct_decode (drop 2 cs)
         else if take 2 cs = ''25'' then CHR ''%'' # pct_decode (drop 2 cs)
         else c # pct_decode cs)
      else c # pct_decode cs)"

lemma pct_codec: "url_codec pct_encode pct_decode"
proof -
  have "pct_decode (pct_encode s) = s" for s
    by (induction s) (auto simp: pct_table_def split: option.splits)
  moreover have "set (pct_encode s) \<inter> {slash, CHR ''?'', CHR ''#''} = {}" for s
    by (induction s) (auto simp: pct_table_def split: option.splits if_splits)
  moreover have "pct_encode s \<noteq> []" if "s \<noteq> []" for s
    using that by (cases s) (auto simp: pct_table_def split: option.splits)
  ultimately show ?thesis by (simp add: url_codec_def)
qed

definition witness_link :: "link net_world" where
  "witness_link = \<lparr>nw_token = Some ''tok'',
     nw_http = \<lparr>lk_server = witness_state, lk_arrivals = [(100, ''u''), (100, ''v''), (100, ''w'')]\<rparr>\<rparr>"

abbreviation witness_net :: "link net_env" where
  "witness_net \<equiv> server_net witness_conf pct_encode pct_decode (\<lambda>_. True) (\<lambda>_. 0) ''http://h''"

definition witness_config :: fs_config where
  "witness_config = \<lparr>fg_page_size = 4, fg_buffer_size = 2, fg_xattr_enable = True,
     fg_cache = \<lparr>cc_enabled = False, cc_use_ttl = True, cc_ttl = 300, cc_policy = Lru,
       cc_max_size = 32, cc_capacity = 4\<rparr>\<rparr>"

lemma witness_free: "query_free (trim_end_slashes ''http://h'')"
  by (simp add: query_free_def trim_end_slashes_def)

lemma witness_served: "served_file witness_conf ''/a'' witness_state"
proof -
  have "wf_kernel (sv_kernel witness_state)" by (simp add: witness_state_def witness_wf)
  then show ?thesis
    by (simp add: served_file_def) (simp add: witness_conf_def witness_state_def witness_eval)
qed

lemma witness_content: "served_bytes witness_conf ''/a'' witness_state = [1, 2, 3]"
  by (simp add: served_bytes_def file_bytes_def witness_conf_def witness_state_def witness_eval)

lemma witness_path: "path_to_string (components ''/a'') = Inr ''/a''"
  by code_simp

lemma witness_auth: "auth_middleware witness_conf 100 (auth_header_of (Some ''Bearer tok'')) h witness_state
  = h witness_user witness_state"
proof -
  have "auth_header_of (Some ''Bearer tok'') = Hdr_Text ''Bearer tok''"
    by (simp add: auth_header_of_def)
  then show ?thesis
    by (simp add: auth_middleware_def auth_token_def bearer_prefix_def verify_token_def witness_conf_def
        witness_env_def witness_claims_def is_token_revoked_def db_monad db_fetch_defs db_rows_def
        witness_db_def witness_user_def witness_state_def)
qed

lemma witness_put:
  "\<exists>a w. rm_write_file (remote_client witness_net ''http://h'') ''/a'' 4 [10, 11] witness_link = (Inr a, w)"
proof -
  let ?m = "touch_data witness_kernel (witness_meta 0x1A4 7 8)"
  let ?n = "FileN ?m (write_at [1, 2, 3] 4 [10, 11])"
  have w: "st_write_file witness_externs [''s''] 7 8 ''/a'' [10, 11] 4 witness_kernel
      = (Inr (), k_put [''s'', ''a''] ?n witness_kernel)"
    by (simp add: witness_eval)
  have l: "sys_lstat (k_put [''s'', ''a''] ?n witness_kernel) [''s'', ''a''] = Inr ?n"
    by (simp add: witness_eval)
  obtain s1 where h: "write_file witness_conf witness_user ''/a'' 4 [10, 11] witness_state
      = (Ret (Inr (R_Attr (file_attr_of_node ?n))), s1)"
    by (simp add: write_file_def with_permission_def check_permission_def witness_conf_def
        witness_user_def witness_state_def witness_write_allowed storage_do_def storage_read_def w
        st_get_attributes_def get_attributes_by_path_def l)
  have fits: "uint (fa_perm (file_attr_of_node ?n)) < 65536"
    by (simp add: file_attr_of_node_def Let_def node_mode_def touch_data_def witness_meta_def)
  have "serve witness_conf 100 ''u'' (auth_header_of (Some ''Bearer tok'')) (Req_WriteFile ''/a'' 4 [10, 11])
      witness_state = (Some \<lparr>hr_status = 200, hr_body = RB_Value (R_Attr (file_attr_of_node ?n))\<rparr>, s1)"
    by (simp add: serve_def payload_ok_def payload_limit_def handle_request_auth needs_auth_def
        witness_auth h respond_def)
  then show ?thesis
    using fits
    by (simp add: file_link_calls(1) [OF pct_codec witness_free] direct_call_def deliver_def
        witness_link_def numeral_3_eq_3 transient_status_def handle_response_def json_attributes_def
        attributes_of_wire_def)
qed

lemma witness_new:
  obtains fc s where "fs_new (remote_client witness_net ''http://h'') witness_config id id 1 witness_link = Ret (fc, s)"
    "fc_remote fc = remote_client witness_net ''http://h''" "cw_world s = witness_link" "cw_cache s = None"
    "cw_write_buffer s = wb_new 2" "cw_read_buffer s = rb_new 0 2"
  by (auto simp: fs_new_def witness_config_def cache_from_config_def remote_client_def Let_def server_net_def)

lemma writes_reach_the_disk_witness:
  "\<exists>fc s s'. fs_new (remote_client witness_net ''http://h'') witness_config id id 1 witness_link = Ret (fc, s)
    \<and> fs_write_session fc (components ''/a'') flags_default [(4, [10, 11])] s = (Ret (Inr [2]), s')
    \<and> served_bytes witness_conf ''/a'' (lk_server (nw_http (cw_world s'))) = [1, 2, 3, 0, 10, 11]"
proof -
  obtain fc s where new: "fs_new (remote_client witness_net ''http://h'') witness_config id id 1 witness_link
      = Ret (fc, s)" "fc_remote fc = remote_client witness_net ''http://h''" "cw_world s = witness_link"
    "cw_cache s = None" "cw_write_buffer s = wb_new 2" by (rule witness_new)
  have p: "components ''/a'' = [RootDir, Normal ''a'']" by code_simp
  obtain a w where put: "rm_write_file (fc_remote fc) ''/a'' 4 [10, 11] (cw_world s) = (Inr a, w)"
    using witness_put new by auto
  define b where "b = wb_new 2\<lparr>wb_buffer := [10, 11]\<rparr>"
  have stage: "write_stage (components ''/a'') 4 [10, 11] (cw_write_buffer s)
      = (2, [(components ''/a'', 4, [10, 11])], wb_clean b)"
    by (simp add: b_def new p write_stage_def wb_new_def wb_is_appending_def wb_get_content_def wb_clean_def
        wb_write_def wb_is_full_def copy_slice_def numeral_2_eq_2)
  obtain s1 where "fs_write_file fc (components ''/a'') flags_default 4 [10, 11] s = (Ret (Inr 2), s1)"
    "cw_write_buffer s1 = wb_clean b"
    using put new(4) witness_path
    by (auto simp: fs_write_file_def stage fs_upload_def cm_bind_def cm_path_def cm_net_def cm_cache_def
        cm_return_def)
  then have run: "fs_write_session fc (components ''/a'') flags_default [(4, [10, 11])] s = (Ret (Inr [2]), s1)"
    by (simp add: fs_write_session_def cm_bind_def cm_return_def fs_flush_write_buffer_def
        wb_get_content_def wb_clean_def)
  have sv: "lk_server (nw_http witness_link) = witness_state" by (simp add: witness_link_def)
  from writes_reach_the_disk [OF pct_codec witness_free witness_path _ witness_served [folded sv] _ _ new(1) run]
  have "served_bytes witness_conf ''/a'' (lk_server (nw_http (cw_world s1)))
      = apply_writes (served_bytes witness_conf ''/a'' witness_state) [(4, [10, 11])] [2]"
    by (simp add: sv)
  then show ?thesis using new(1) run
    by (auto simp: witness_content write_at_def copy_slice_def)
qed

subsection \<open>Reading through FUSE\<close>

text \<open>A series of reads through the \<open>read\<close> callback.\<close>

fun fuse_read_all ::
  "'w fs_conf \<Rightarrow> string \<Rightarrow> u64 \<Rightarrow> (u64 \<times> u32) list \<Rightarrow> ('w, bytes list) fu" where
  "fuse_read_all conf path fh [] = fu_return []"
| "fuse_read_all conf path fh ((off, sz) # rs) =
     fu_bind (fuse_read conf (Some path) fh off sz) (\<lambda>d.
     fu_bind (fuse_read_all conf path fh rs) (\<lambda>ds. fu_return (d # ds)))"

context remote_file
begin

lemma fuse_read_all_step:
  assumes "fc_remote conf = R" and "path_to_string (components path) = Inr path_str" and "cw_cache s = None"
    and "good (cw_world s)" and "rb_wf (cw_read_buffer s)"
    and "rb_agrees (components path) (content (cw_world s)) (cw_read_buffer s)"
    and "length (content (cw_world s)) < 2 ^ 64" and "0 < rb_capacity (cw_read_buffer s)"
    and "fuse_read_all conf path fh rs s = (r, s')"
  shows "r \<noteq> Panic \<and> content (cw_world s') = content (cw_world s)
    \<and> (\<forall>ds. r = Ret (Inr ds) \<longrightarrow>
        ds = map (\<lambda>(off, sz). read_at (content (cw_world s)) (unat off) (unat sz)) rs)"
  using assms
proof (induction rs arbitrary: s r s')
  case Nil
  then show ?case by (auto simp: fu_return_def)
next
  case (Cons x rs)
  obtain off sz where x: "x = (off, sz)" by (cases x)
  let ?c = "content (cw_world s)"
  obtain q s1 where rd: "read_loop conf (components path) (unat off) (unat sz) [] s = (q, s1)"
    by (cases "read_loop conf (components path) (unat off) (unat sz) [] s")
  have empty_part: "[] = read_at ?c (unat off) (length ([] :: bytes))" by (simp add: read_at_def)
  from read_loop_step [OF Cons.prems(1-8) _ empty_part rd] obtain w b where
    s1: "q \<noteq> Panic" "s1 = s\<lparr>cw_world := w, cw_read_buffer := b\<rparr>" "good w" "content w = ?c" "rb_wf b"
      "rb_capacity b = rb_capacity (cw_read_buffer s)" "rb_agrees (components path) (content w) b"
      "\<forall>d. q = Ret (Inr d) \<longrightarrow> d = read_at ?c (unat off) (unat sz)" by auto
  have one: "fuse_read conf (Some path) fh off sz s = (q, s1)"
    using rd by (simp add: fuse_read_def fu_path_def fu_bind_def fu_return_def)
  obtain q2 s2 where rest: "fuse_read_all conf path fh rs s1 = (q2, s2)"
    by (cases "fuse_read_all conf path fh rs s1")
  have "q2 \<noteq> Panic \<and> content (cw_world s2) = content (cw_world s1)
    \<and> (\<forall>ds. q2 = Ret (Inr ds) \<longrightarrow>
        ds = map (\<lambda>(off, sz). read_at (content (cw_world s1)) (unat off) (unat sz)) rs)"
    by (rule Cons.IH [OF Cons.prems(1,2) _ _ _ _ _ _ rest]) (use s1 Cons.prems in simp_all)
  moreover have "(r, s') = (case q of Panic \<Rightarrow> (Panic, s1) | Ret (Inl e) \<Rightarrow> (Ret (Inl e), s1)
      | Ret (Inr d) \<Rightarrow> (case q2 of Panic \<Rightarrow> (Panic, s2) | Ret (Inl e) \<Rightarrow> (Ret (Inl e), s2)
        | Ret (Inr ds) \<Rightarrow> (Ret (Inr (d # ds)), s2)))"
    using Cons.prems(9) x one rest
    by (auto simp: fu_bind_def fu_return_def split: outcome.splits sum.splits)
  ultimately show ?case using s1 x by (auto split: outcome.splits sum.splits)
qed

end


abbreviation "witness_node \<equiv> FileN (witness_meta 0x1A4 7 8) [1, 2, 3]"

lemma witness_lstat: "sys_lstat witness_kernel [''s'', ''a''] = Inr witness_node"
  by (simp add: witness_eval)

lemma witness_read_allowed: "is_allowed [''s''] witness_kernel 7 8 ''/a'' Op_Read = Inr True"
proof -
  have "check_path witness_kernel (make_real_path [''s''] ''/a'') = Some [''s'', ''a'']"
    by (simp add: check_path_def witness_lstat)
  from is_allowed_eq [OF this witness_lstat, of 7 8 Op_Read] show ?thesis
    by (simp add: posix_allows_def node_mode_def witness_meta_def bit_or_iff)
qed

lemma witness_serve:
  "serve witness_conf 100 u (auth_header_of (Some ''Bearer tok'')) (Req_GetAttr ''/a'') witness_state
    = (Some \<lparr>hr_status = 200, hr_body = RB_Value (R_Attr (file_attr_of_node witness_node))\<rparr>, witness_state)"
  "serve witness_conf 100 u (auth_header_of (Some ''Bearer tok'')) (Req_ReadFile ''/a'' 2 2) witness_state
    = (Some \<lparr>hr_status = 200, hr_body = RB_Value (R_Bytes [3])\<rparr>, witness_state)"
proof -
  have a: "get_attributes witness_conf witness_user ''/a'' witness_state
      = (Ret (Inr (R_Attr (file_attr_of_node witness_node))), witness_state)"
    by (simp add: get_attributes_def storage_read_def witness_conf_def witness_state_def
        st_get_attributes_def get_attributes_by_path_def witness_lstat)
  have "st_read_file [''s''] ''/a'' 2 2 witness_kernel = Inr [3]"
    by (simp add: witness_eval read_at_def)
  then have r: "get_file_content witness_conf witness_user ''/a'' 2 2 witness_state
      = (Ret (Inr (R_Bytes [3])), witness_state)"
    by (simp add: get_file_content_def with_permission_def check_permission_def witness_conf_def
        witness_user_def witness_state_def witness_read_allowed storage_read_def)
  show "serve witness_conf 100 u (auth_header_of (Some ''Bearer tok'')) (Req_GetAttr ''/a'') witness_state
    = (Some \<lparr>hr_status = 200, hr_body = RB_Value (R_Attr (file_attr_of_node witness_node))\<rparr>, witness_state)"
    by (simp add: serve_def payload_ok_def handle_request_auth needs_auth_def witness_auth a respond_def)
  show "serve witness_conf 100 u (auth_header_of (Some ''Bearer tok'')) (Req_ReadFile ''/a'' 2 2) witness_state
    = (Some \<lparr>hr_status = 200, hr_body = RB_Value (R_Bytes [3])\<rparr>, witness_state)"
    by (simp add: serve_def payload_ok_def handle_request_auth needs_auth_def witness_auth r respond_def)
qed

definition witness_arrived :: "(u64 \<times> string) list \<Rightarrow> link net_world" where
  "witness_arrived rest = witness_link\<lparr>nw_http := (nw_http witness_link)\<lparr>lk_arrivals := rest\<rparr>\<rparr>"

lemma witness_calls:
  "\<exists>a. rm_get_attributes (remote_client witness_net ''http://h'') ''/a'' (witness_arrived ((100, u) # rest))
      = (Inr a, witness_arrived rest) \<and> at_size a = 3"
  "rm_read_file (remote_client witness_net ''http://h'') ''/a'' 2 2 (witness_arrived ((100, u) # rest))
      = (Inr [3], witness_arrived rest)"
proof -
  have fits: "uint (fa_perm (file_attr_of_node witness_node)) < 65536" "fa_size (file_attr_of_node witness_node) = 3"
    by (simp_all add: file_attr_of_node_def Let_def node_mode_def witness_meta_def)
  have sv: "lk_server (nw_http witness_link) = witness_state" "nw_token witness_link = Some ''tok''"
    by (simp_all add: witness_link_def)
  show "\<exists>a. rm_get_attributes (remote_client witness_net ''http://h'') ''/a'' (witness_arrived ((100, u) # rest))
      = (Inr a, witness_arrived rest) \<and> at_size a = 3"
    using fits sv
    by (simp add: file_link_calls(3) [OF pct_codec witness_free] direct_call_def deliver_def
        witness_arrived_def numeral_3_eq_3 transient_status_def handle_response_def json_attributes_def
        attributes_of_wire_def witness_serve)
  show "rm_read_file (remote_client witness_net ''http://h'') ''/a'' 2 2 (witness_arrived ((100, u) # rest))
      = (Inr [3], witness_arrived rest)"
    using sv
    by (simp add: file_link_calls(2) [OF pct_codec witness_free] direct_call_def deliver_def
        witness_arrived_def numeral_3_eq_3 transient_status_def handle_response_def body_bytes_def
        witness_serve)
qed




end
