(* ===== verification/Notify.thy ===== *)
theory Notify
  imports Prelude
begin

text \<open>
  \<open>tokio::sync::Notify\<close>, which the client uses to shut down, as a parameter: \<open>notify_api\<close> holds the
  calls the code makes of it. What the code relies on is the documentation of the crate, stated by
  the reference object \<open>notify_ref\<close>: a hypothesis \<open>notify_object N view\<close> says that \<open>N\<close> behaves like it.

  Tasks wait in a queue. \<open>notify_one\<close> wakes the first or leaves a permit, which the next call of
  \<open>notified\<close> takes; \<open>notify_waiters\<close> wakes all that wait and leaves nothing. A task that stops waiting
  leaves the queue and hands on a wake-up of \<open>notify_one\<close> it did not use.
\<close>

record 'n notify_api =
  na_new :: 'n
  na_one :: "'n \<Rightarrow> 'n"
  na_waiters :: "'n \<Rightarrow> 'n"
  na_notified :: "nat \<Rightarrow> 'n \<Rightarrow> bool \<times> 'n"
  na_ready :: "nat \<Rightarrow> 'n \<Rightarrow> bool"
  na_drop :: "nat \<Rightarrow> 'n \<Rightarrow> 'n"

record notify =
  nf_permit :: bool
  nf_waiting :: "nat list"
  nf_woken :: "nat list"
  nf_released :: "nat list"

definition notify_new :: notify where
  "notify_new = \<lparr>nf_permit = False, nf_waiting = [], nf_woken = [], nf_released = []\<rparr>"

definition notify_one :: "notify \<Rightarrow> notify" where
  "notify_one n =
     (case nf_waiting n of
        [] \<Rightarrow> n\<lparr>nf_permit := True\<rparr>
      | t # ts \<Rightarrow> n\<lparr>nf_waiting := ts, nf_woken := t # nf_woken n\<rparr>)"

definition notify_waiters :: "notify \<Rightarrow> notify" where
  "notify_waiters n = n\<lparr>nf_waiting := [], nf_released := nf_waiting n @ nf_released n\<rparr>"

definition notified :: "nat \<Rightarrow> notify \<Rightarrow> bool \<times> notify" where
  "notified t n =
     (if nf_permit n then (True, n\<lparr>nf_permit := False\<rparr>)
      else (False, n\<lparr>nf_waiting := nf_waiting n @ [t]\<rparr>))"

definition notify_ready :: "nat \<Rightarrow> notify \<Rightarrow> bool" where
  "notify_ready t n \<longleftrightarrow> t \<in> set (nf_woken n) \<or> t \<in> set (nf_released n)"

definition notify_drop :: "nat \<Rightarrow> notify \<Rightarrow> notify" where
  "notify_drop t n =
     (let n1 = n\<lparr>nf_waiting := removeAll t (nf_waiting n), nf_woken := removeAll t (nf_woken n),
                 nf_released := removeAll t (nf_released n)\<rparr>
      in if t \<in> set (nf_woken n) then notify_one n1 else n1)"

lemmas notify_defs = notify_one_def notify_waiters_def notified_def notify_ready_def notify_drop_def

definition notify_ref :: "notify notify_api" where
  "notify_ref = \<lparr>na_new = notify_new, na_one = notify_one, na_waiters = notify_waiters, na_notified = notified,
     na_ready = notify_ready, na_drop = notify_drop\<rparr>"

lemma notify_ref_sel [simp]:
  "na_new notify_ref = notify_new" "na_one notify_ref = notify_one" "na_waiters notify_ref = notify_waiters"
  "na_notified notify_ref = notified" "na_ready notify_ref = notify_ready" "na_drop notify_ref = notify_drop"
  by (simp_all add: notify_ref_def)

locale notify_object =
  fixes N :: "'n notify_api" and view :: "'n \<Rightarrow> notify"
  assumes new [simp]: "view (na_new N) = notify_new"
    and one [simp]: "view (na_one N n) = notify_one (view n)"
    and waiters [simp]: "view (na_waiters N n) = notify_waiters (view n)"
    and notified: "map_prod id view (na_notified N t n) = notified t (view n)"
    and ready [simp]: "na_ready N t n = notify_ready t (view n)"
    and drop [simp]: "view (na_drop N t n) = notify_drop t (view n)"
begin

lemma notified_eq: "na_notified N t n = (r, n') \<Longrightarrow> notified t (view n) = (r, view n')"
  using notified [of t n] by simp

text \<open>A permit is taken at once; without one the task joins the queue.\<close>

lemma takes_permit: "nf_permit (view n) \<Longrightarrow> \<exists>n'. na_notified N t n = (True, n')"
  using notified [of t n] by (cases "na_notified N t n") (simp add: notified_def)

lemma joins_queue:
  "\<not> nf_permit (view n) \<Longrightarrow> na_notified N t n = (r, n') \<Longrightarrow> \<not> r \<and> nf_waiting (view n') = nf_waiting (view n) @ [t]"
proof -
  assume "\<not> nf_permit (view n)" and "na_notified N t n = (r, n')"
  then have "r = fst (notified t (view n))" and "view n' = snd (notified t (view n))"
    using notified_eq [of t n r n'] by simp_all
  with \<open>\<not> nf_permit (view n)\<close> show ?thesis by (simp add: notified_def)
qed

text \<open>A task that waits alone is woken by either call.\<close>

lemma one_wakes: "nf_waiting (view n) = [t] \<Longrightarrow> na_ready N t (na_one N n)"
  by (simp add: notify_ready_def notify_one_def)

lemma waiters_wake: "t \<in> set (nf_waiting (view n)) \<Longrightarrow> na_ready N t (na_waiters N n)"
  by (simp add: notify_ready_def notify_waiters_def)

end

interpretation ref_notify: notify_object notify_ref id
  by unfold_locales (simp_all add: prod.map_id0)

end
