(* ===== verification/Startup.thy ===== *)
theory Startup
  imports Admin Network Notify
begin

text \<open>
  How the two programs start and stop: \<open>client/src/lib.rs\<close>, \<open>mount.rs\<close> with its drivers,
  \<open>daemon.rs\<close> and \<open>app.rs\<close>; \<open>server/src/app.rs\<close> and \<open>lib.rs\<close>. Everything outside the process
  (terminal, files, FUSE session, sockets, other programs) is a record of functions on the state
  \<open>'w\<close> of the world. A step returns a value or an error, panics, or ends the process; a call that
  waits returns when the event it waits for has happened.
\<close>

subsection \<open>Steps of a process\<close>

datatype ('e, 'a) ending = Returned 'a | Failed 'e | Panicked | Exited

type_synonym ('w, 'e, 'a) proc = "'w \<Rightarrow> ('e, 'a) ending \<times> 'w"

definition pr_return :: "'a \<Rightarrow> ('w, 'e, 'a) proc" where
  "pr_return x w = (Returned x, w)"

definition pr_fail :: "'e \<Rightarrow> ('w, 'e, 'a) proc" where
  "pr_fail e w = (Failed e, w)"

definition pr_bind :: "('w, 'e, 'a) proc \<Rightarrow> ('a \<Rightarrow> ('w, 'e, 'b) proc) \<Rightarrow> ('w, 'e, 'b) proc" where
  "pr_bind m f w =
     (case m w of
        (Returned x, w') \<Rightarrow> f x w'
      | (Failed e, w') \<Rightarrow> (Failed e, w')
      | (Panicked, w') \<Rightarrow> (Panicked, w')
      | (Exited, w') \<Rightarrow> (Exited, w'))"

text \<open>A result converted by \<open>map_err\<close>, and one that must be there (\<open>unwrap\<close>).\<close>

definition pr_check :: "('f \<Rightarrow> 'e) \<Rightarrow> ('w \<Rightarrow> ('f + 'a) \<times> 'w) \<Rightarrow> ('w, 'e, 'a) proc" where
  "pr_check g m w = (case m w of (Inl e, w') \<Rightarrow> (Failed (g e), w') | (Inr x, w') \<Rightarrow> (Returned x, w'))"

definition pr_unwrap :: "('w \<Rightarrow> 'a option \<times> 'w) \<Rightarrow> ('w, 'e, 'a) proc" where
  "pr_unwrap m w = (case m w of (None, w') \<Rightarrow> (Panicked, w') | (Some x, w') \<Rightarrow> (Returned x, w'))"

definition pr_ok :: "'e \<Rightarrow> ('w \<Rightarrow> bool \<times> 'w) \<Rightarrow> ('w, 'e, unit) proc" where
  "pr_ok e m w = (case m w of (ok, w') \<Rightarrow> (if ok then Returned () else Failed e, w'))"

lemmas pr_defs = pr_return_def pr_fail_def pr_bind_def pr_check_def pr_unwrap_def pr_ok_def

subsection \<open>Errors of the client\<close>

datatype mount_error =
  Mount_Failed | Mount_UnmountFailed | Mount_PointNotFound | Mount_UnsupportedPlatform | Mount_Other

datatype daemon_error =
  Daemon_StartFailed | Daemon_StopFailed | Daemon_SignalError | Daemon_UnsupportedPlatform | Daemon_Other

datatype logging_error = Logging_InitFailed | Logging_InvalidValue

datatype config_error =
  Config_EnvVar | Config_ArgsParse | Config_InvalidPath | Config_InvalidConfig | Config_Other

datatype gui_error = Gui_RenderingIssue | Gui_RunningIssue | Gui_MountingIssue | Gui_ConfigIssue

datatype rfs_client_error =
  Rfs_Command command_error | Rfs_Config config_error | Rfs_Logging logging_error
| Rfs_Daemon daemon_error | Rfs_Mount mount_error | Rfs_FsModel fs_model_error | Rfs_Fuse fuse_error
| Rfs_Network network_error | Rfs_WinFSP | Rfs_GUI gui_error | Rfs_Other

subsection \<open>Mounting (\<open>mount.rs\<close>)\<close>

record mount_options =
  op_read_only :: bool
  op_allow_other :: bool
  op_privileged :: bool

record mount_options_builder =
  ob_read_only :: "bool option"
  ob_allow_other :: "bool option"
  ob_privileged :: "bool option"

definition mount_builder_new :: mount_options_builder where
  "mount_builder_new = \<lparr>ob_read_only = None, ob_allow_other = None, ob_privileged = None\<rparr>"

definition or_default :: "bool option \<Rightarrow> bool" where
  "or_default b = (case b of None \<Rightarrow> False | Some x \<Rightarrow> x)"

definition mount_builder_build :: "mount_options_builder \<Rightarrow> mount_options" where
  "mount_builder_build b =
     \<lparr>op_read_only = or_default (ob_read_only b), op_allow_other = or_default (ob_allow_other b),
      op_privileged = or_default (ob_privileged b)\<rparr>"

definition mount_options_from :: "mount_config \<Rightarrow> mount_options" where
  "mount_options_from c =
     mount_builder_build (mount_builder_new
       \<lparr>ob_read_only := Some (mo_read_only c), ob_allow_other := Some (mo_allow_other c),
        ob_privileged := Some (mo_privileged c)\<rparr>)"

text \<open>The options of \<open>fuse3\<close> the code sets.\<close>

record fuse_mount_options =
  fo_allow_other :: bool
  fo_read_only :: bool

definition fuse_mount_options_from :: "mount_options \<Rightarrow> fuse_mount_options" where
  "fuse_mount_options_from o' =
     (let m = \<lparr>fo_allow_other = False, fo_read_only = False\<rparr>;
          m1 = (if op_allow_other o' then m\<lparr>fo_allow_other := True\<rparr> else m)
      in if op_read_only o' then m1\<lparr>fo_read_only := True\<rparr> else m1)"

subsection \<open>The operating system\<close>

text \<open>What both programs use: files, other programs, the \<open>tracing\<close> subscriber.\<close>

record 'w os =
  os_exists :: "'w \<Rightarrow> pathbuf \<Rightarrow> bool"
  os_create_dir_all :: "pathbuf \<Rightarrow> 'w \<Rightarrow> bool \<times> 'w"
  os_writable :: "'w \<Rightarrow> pathbuf \<Rightarrow> bool"
  os_write :: "pathbuf \<Rightarrow> string \<Rightarrow> 'w \<Rightarrow> 'w"
  os_spawn :: "string list \<Rightarrow> 'w \<Rightarrow> bool \<times> 'w"
  os_filter_ok :: "string \<Rightarrow> bool"
  os_subscribe :: "log_writer list \<Rightarrow> 'w \<Rightarrow> bool \<times> 'w"

text \<open>The rest is the client's: the terminal and the environment, the process, FUSE and WinFSP, and
  which of the two branches of \<open>select!\<close> in \<open>run_async\<close> is ready first.\<close>

datatype daemonized = Dz_Parent | Dz_Child | Dz_Error

datatype wake = Session_Ended | Shutdown_Notified

record 'w client_host = "'w os" +
  ch_read_line :: "'w \<Rightarrow> string option \<times> 'w"
  ch_env_password :: "'w \<Rightarrow> string option"
  ch_read_password :: "'w \<Rightarrow> string option \<times> 'w"
  ch_create_file :: "string \<Rightarrow> 'w \<Rightarrow> bool \<times> 'w"
  ch_daemonize :: "'w \<Rightarrow> daemonized \<times> 'w"
  ch_runtime :: "'w \<Rightarrow> bool \<times> 'w"
  ch_gui :: "client_config \<Rightarrow> 'w \<Rightarrow> (gui_error + unit) \<times> 'w"
  ch_select :: "'w \<Rightarrow> wake \<times> 'w"
  ch_fuse_mount :: "bool \<Rightarrow> fuse_mount_options \<Rightarrow> 'w fs_conf \<times> 'w client \<Rightarrow> pathbuf \<Rightarrow> 'w \<Rightarrow> nat option \<times> 'w"
  ch_fuse_wait :: "nat \<Rightarrow> 'w \<Rightarrow> bool \<times> 'w"
  ch_fuse_unmount :: "nat \<Rightarrow> 'w \<Rightarrow> bool \<times> 'w"
  ch_winfsp_new :: "'w fs_conf \<times> 'w client \<Rightarrow> 'w \<Rightarrow> nat option \<times> 'w"
  ch_winfsp_start :: "nat \<Rightarrow> 'w \<Rightarrow> bool \<times> 'w"
  ch_winfsp_mount :: "nat \<Rightarrow> pathbuf \<Rightarrow> 'w \<Rightarrow> bool \<times> 'w"
  ch_winfsp_unmount :: "nat \<Rightarrow> 'w \<Rightarrow> 'w"
  ch_park :: "'w \<Rightarrow> bool \<times> 'w"

subsection \<open>Sessions (\<open>mount/unix.rs\<close>, \<open>mount/windows.rs\<close>)\<close>

datatype session = Unix_Session "nat option" | Windows_Session "nat option"

type_synonym 'w session_op = "session \<Rightarrow> 'w \<Rightarrow> (mount_error + unit) \<times> session \<times> 'w"

definition unix_mount ::
  "('w, 'x) client_host_scheme \<Rightarrow> 'w fs_conf \<times> 'w client \<Rightarrow> pathbuf \<Rightarrow> mount_options \<Rightarrow> 'w session_op" where
  "unix_mount h fs path options s w =
     (case ch_fuse_mount h (op_privileged options) (fuse_mount_options_from options) fs path w of
        (None, w') \<Rightarrow> (Inl Mount_Failed, s, w')
      | (Some handle, w') \<Rightarrow> (Inr (), Unix_Session (Some handle), w'))"

definition windows_mount ::
  "('w, 'x) client_host_scheme \<Rightarrow> 'w fs_conf \<times> 'w client \<Rightarrow> pathbuf \<Rightarrow> 'w session_op" where
  "windows_mount h fs path s w =
     (case ch_winfsp_new h fs w of
        (None, w1) \<Rightarrow> (Inl Mount_Failed, s, w1)
      | (Some host, w1) \<Rightarrow>
          (case ch_winfsp_start h host w1 of
             (False, w2) \<Rightarrow> (Inl Mount_Failed, s, w2)
           | (True, w2) \<Rightarrow>
               (case ch_winfsp_mount h host path w2 of
                  (False, w3) \<Rightarrow> (Inl Mount_Failed, s, w3)
                | (True, w3) \<Rightarrow> (Inr (), Windows_Session (Some host), w3))))"

text \<open>\<open>VolumeParams\<close> does not depend on the options: WinFSP ignores them.\<close>

fun session_mount ::
  "('w, 'x) client_host_scheme \<Rightarrow> 'w fs_conf \<times> 'w client \<Rightarrow> pathbuf \<Rightarrow> mount_options \<Rightarrow> 'w session_op" where
  "session_mount h fs path options (Unix_Session x) w = unix_mount h fs path options (Unix_Session x) w"
| "session_mount h fs path options (Windows_Session x) w = windows_mount h fs path (Windows_Session x) w"

fun session_wait :: "('w, 'x) client_host_scheme \<Rightarrow> 'w session_op" where
  "session_wait h (Unix_Session None) w = (Inl Mount_Other, Unix_Session None, w)"
| "session_wait h (Unix_Session (Some handle)) w =
     (case ch_fuse_wait h handle w of
        (ok, w') \<Rightarrow> (if ok then Inr () else Inl Mount_Other, Unix_Session (Some handle), w'))"
| "session_wait h (Windows_Session x) w =
     (case ch_park h w of (ok, w') \<Rightarrow> (if ok then Inr () else Inl Mount_Other, Windows_Session x, w'))"

fun session_unmount :: "('w, 'x) client_host_scheme \<Rightarrow> 'w session_op" where
  "session_unmount h (Unix_Session None) w = (Inl Mount_Other, Unix_Session None, w)"
| "session_unmount h (Unix_Session (Some handle)) w =
     (case ch_fuse_unmount h handle w of
        (ok, w') \<Rightarrow> (if ok then Inr () else Inl Mount_UnmountFailed, Unix_Session None, w'))"
| "session_unmount h (Windows_Session None) w = (Inr (), Windows_Session None, w)"
| "session_unmount h (Windows_Session (Some host)) w =
     (Inr (), Windows_Session None, ch_winfsp_unmount h host w)"

fun spawn_first :: "('w, 'x) os_scheme \<Rightarrow> string list list \<Rightarrow> 'w \<Rightarrow> bool \<times> 'w" where
  "spawn_first h [] w = (False, w)"
| "spawn_first h (c # cs) w =
     (case os_spawn h c w of (True, w') \<Rightarrow> (True, w') | (False, w') \<Rightarrow> spawn_first h cs w')"

text \<open>\<open>WindowsSession\<close> has the default of the trait. The task of \<open>UnixSession\<close> only starts a program,
  so joining it does not fail.\<close>

fun session_lazy_unmount :: "('w, 'x) client_host_scheme \<Rightarrow> pathbuf \<Rightarrow> 'w session_op" where
  "session_lazy_unmount h path (Unix_Session x) w =
     (case spawn_first h (map (\<lambda>c. c @ [path_render path]) unmount_commands) w of
        (ok, w') \<Rightarrow> (if ok then Inr () else Inl Mount_UnmountFailed, Unix_Session x, w'))"
| "session_lazy_unmount h path (Windows_Session x) w =
     (Inl Mount_UnsupportedPlatform, Windows_Session x, w)"

record mount_point =
  mp_mount_point :: pathbuf
  mp_options :: mount_options
  mp_session :: session

definition create_driver :: "bool \<Rightarrow> session" where
  "create_driver windows = (if windows then Windows_Session None else Unix_Session None)"

definition mount_point_new :: "bool \<Rightarrow> pathbuf \<Rightarrow> mount_options \<Rightarrow> mount_point" where
  "mount_point_new windows path options =
     \<lparr>mp_mount_point = path, mp_options = options, mp_session = create_driver windows\<rparr>"

type_synonym 'w mount_op = "mount_point \<Rightarrow> 'w \<Rightarrow> (mount_error + unit) \<times> mount_point \<times> 'w"

definition with_session :: "'w session_op \<Rightarrow> 'w mount_op" where
  "with_session f m w = (case f (mp_session m) w of (r, s, w') \<Rightarrow> (r, m\<lparr>mp_session := s\<rparr>, w'))"

definition mount_point_mount ::
  "('w, 'x) client_host_scheme \<Rightarrow> bool \<Rightarrow> 'w fs_conf \<times> 'w client \<Rightarrow> 'w mount_op" where
  "mount_point_mount h windows fs m =
     with_session (session_mount h fs (if windows then components ''X:'' else mp_mount_point m) (mp_options m)) m"

definition mount_point_wait :: "('w, 'x) client_host_scheme \<Rightarrow> 'w mount_op" where
  "mount_point_wait h = with_session (session_wait h)"

definition mount_point_unmount :: "('w, 'x) client_host_scheme \<Rightarrow> 'w mount_op" where
  "mount_point_unmount h = with_session (session_unmount h)"

definition mount_point_lazy_unmount :: "('w, 'x) client_host_scheme \<Rightarrow> 'w mount_op" where
  "mount_point_lazy_unmount h m = with_session (session_lazy_unmount h (mp_mount_point m)) m"

subsection \<open>Logging\<close>

definition logging_from ::
  "('w, 'x) os_scheme \<Rightarrow> string \<Rightarrow> (log_level \<Rightarrow> string) \<Rightarrow> logging_config \<Rightarrow> ('w, logging_error, unit) proc" where
  "logging_from h file_name log_filter c =
     (if \<not> os_filter_ok h (log_filter (lc_level c)) then pr_fail Logging_InvalidValue
      else (let layers = log_writers file_name c (lc_targets c) []
            in if layers = [] then pr_return () else pr_ok Logging_InitFailed (os_subscribe h layers)))"

subsection \<open>The client (\<open>lib.rs\<close>, \<open>daemon.rs\<close>, \<open>app.rs\<close>)\<close>

text \<open>The methods of \<open>RemoteStorage\<close> that are not about files.\<close>

record 'w remote_storage = "'w remote" +
  rs_health_check :: "('w, unit) net"
  rs_login :: "string \<Rightarrow> string \<Rightarrow> ('w, string) net"
  rs_logout :: "('w, unit) net"

definition remote_storage_client :: "'h net_env \<Rightarrow> string \<Rightarrow> 'h net_world remote_storage" where
  "remote_storage_client ne base_url =
     remote.extend (remote_client ne base_url)
       (remote_storage.fields (rc_health_check ne (client_base_url base_url))
         (rc_login ne (client_base_url base_url)) (rc_logout ne (client_base_url base_url)))"

lemma remote_storage_client_sel [simp]:
  "rs_health_check (remote_storage_client ne b) = rc_health_check ne (client_base_url b)"
  "rs_login (remote_storage_client ne b) = rc_login ne (client_base_url b)"
  "rs_logout (remote_storage_client ne b) = rc_logout ne (client_base_url b)"
  "remote.truncate (remote_storage_client ne b) = remote_client ne b"
  by (simp_all add: remote_storage_client_def remote_storage.defs remote.defs)

definition pr_map_err :: "('f \<Rightarrow> 'e) \<Rightarrow> ('w, 'f, 'a) proc \<Rightarrow> ('w, 'e, 'a) proc" where
  "pr_map_err g m w =
     (case m w of
        (Returned x, w') \<Rightarrow> (Returned x, w')
      | (Failed e, w') \<Rightarrow> (Failed (g e), w')
      | (Panicked, w') \<Rightarrow> (Panicked, w')
      | (Exited, w') \<Rightarrow> (Exited, w'))"

definition login_name :: "('w, 'x) client_host_scheme \<Rightarrow> client_config \<Rightarrow> ('w, 'e, string) proc" where
  "login_name h config =
     (case cg_username config of
        Some username \<Rightarrow> pr_return username
      | None \<Rightarrow> pr_bind (pr_unwrap (ch_read_line h)) (\<lambda>input. pr_return (trim input)))"

definition login_password :: "('w, 'x) client_host_scheme \<Rightarrow> ('w, 'e, string) proc" where
  "login_password h w =
     (case ch_env_password h w of
        Some pwd \<Rightarrow> (Returned pwd, w)
      | None \<Rightarrow> pr_unwrap (ch_read_password h) w)"

definition MAX_LOGIN_ATTEMPTS :: nat where "MAX_LOGIN_ATTEMPTS = 3"

fun login_attempts ::
  "('w, 'x) client_host_scheme \<Rightarrow> ('w, 'y) remote_storage_scheme \<Rightarrow> client_config \<Rightarrow> nat
   \<Rightarrow> ('w, rfs_client_error, string) proc" where
  "login_attempts h rc config 0 = pr_fail Rfs_Other"
| "login_attempts h rc config (Suc n) =
     pr_bind (login_name h config) (\<lambda>username.
     pr_bind (login_password h) (\<lambda>password w.
       (case rs_login rc username password w of
          (Inr token, w') \<Rightarrow> (Returned token, w')
        | (Inl _, w') \<Rightarrow> login_attempts h rc config n w')))"

definition perform_login ::
  "('w, 'x) client_host_scheme \<Rightarrow> ('w, 'y) remote_storage_scheme \<Rightarrow> client_config
   \<Rightarrow> ('w, rfs_client_error, string) proc" where
  "perform_login h rc config = login_attempts h rc config MAX_LOGIN_ATTEMPTS"

definition fs_config_of :: "client_config \<Rightarrow> fs_config" where
  "fs_config_of c =
     \<lparr>fg_page_size = fy_page_size (cg_file_system c), fg_buffer_size = fy_buffer_size (cg_file_system c),
      fg_xattr_enable = fy_xattr_enable (cg_file_system c), fg_cache = cg_cache c\<rparr>"

text \<open>\<open>Fs::new\<close>. The iteration orders of the maps and the first file handle are arguments.\<close>

record orders =
  or_pages :: "nat list \<Rightarrow> nat list"
  or_paths :: "pathbuf list \<Rightarrow> pathbuf list"
  or_handle :: u64

definition client_fs_new ::
  "orders \<Rightarrow> ('w, 'y) remote_storage_scheme \<Rightarrow> client_config \<Rightarrow> ('w, 'e, 'w fs_conf \<times> 'w client) proc" where
  "client_fs_new ord rc config w =
     (case fs_new (remote.truncate rc) (fs_config_of config) (or_pages ord) (or_paths ord) (or_handle ord) w of
        Panic \<Rightarrow> (Panicked, w) | Ret fs \<Rightarrow> (Returned fs, w))"

definition shut_down :: "('w, 'x) client_host_scheme \<Rightarrow> mount_point \<Rightarrow> ('w, rfs_client_error, unit) proc" where
  "shut_down h mp w =
     (case mount_point_unmount h mp w of
        (Inr _, _, w1) \<Rightarrow> (Returned (), w1)
      | (Inl _, mp1, w1) \<Rightarrow>
          (case mount_point_lazy_unmount h mp1 w1 of (_, _, w2) \<Rightarrow> (Returned (), w2)))"

definition serve_session :: "('w, 'x) client_host_scheme \<Rightarrow> mount_point \<Rightarrow> ('w, rfs_client_error, unit) proc" where
  "serve_session h mp w =
     (case ch_select h w of
        (Session_Ended, w1) \<Rightarrow>
          (case mount_point_wait h mp w1 of
             (Inr _, _, w2) \<Rightarrow> (Returned (), w2)
           | (Inl _, _, w2) \<Rightarrow> (Failed (Rfs_Daemon Daemon_SignalError), w2))
      | (Shutdown_Notified, w1) \<Rightarrow> shut_down h mp w1)"

definition run_async ::
  "('w, 'x) client_host_scheme \<Rightarrow> bool \<Rightarrow> orders \<Rightarrow> ('w, 'y) remote_storage_scheme \<Rightarrow> client_config
   \<Rightarrow> ('w, rfs_client_error, unit) proc" where
  "run_async h windows ord rc config w =
     pr_bind (if \<not> windows \<and> \<not> os_exists h w (cg_mount_point config)
              then pr_ok Rfs_Other (os_create_dir_all h (cg_mount_point config)) else pr_return ()) (\<lambda>_.
     pr_bind (client_fs_new ord rc config) (\<lambda>fs w1.
       (case mount_point_mount h windows fs
               (mount_point_new windows (cg_mount_point config) (mount_options_from (cg_mount config))) w1 of
          (Inl e, _, w2) \<Rightarrow> (Failed (Rfs_Mount e), w2)
        | (Inr _, mp, w2) \<Rightarrow> serve_session h mp w2))) w"

definition daemon_start ::
  "('w, 'x) client_host_scheme \<Rightarrow> bool \<Rightarrow> bool \<Rightarrow> ('w, daemon_error, unit) proc" where
  "daemon_start h windows foreground =
     (if foreground then pr_return ()
      else if windows then pr_fail Daemon_StartFailed
      else pr_bind (pr_ok Daemon_StartFailed (ch_create_file h ''/tmp/remote-fs.out'')) (\<lambda>_.
           pr_bind (pr_ok Daemon_StartFailed (ch_create_file h ''/tmp/remote-fs.err'')) (\<lambda>_ w.
             (case ch_daemonize h w of
                (Dz_Parent, w') \<Rightarrow> (Exited, w')
              | (Dz_Child, w') \<Rightarrow> (Returned (), w')
              | (Dz_Error, w') \<Rightarrow> (Failed Daemon_StartFailed, w')))))"

definition client_start ::
  "('w, 'x) client_host_scheme \<Rightarrow> bool \<Rightarrow> orders \<Rightarrow> ('w, 'y) remote_storage_scheme \<Rightarrow> client_config
   \<Rightarrow> ('w, rfs_client_error, unit) proc" where
  "client_start h windows ord rc config =
     pr_bind (if cg_gui_enabled config then pr_return ()
              else pr_bind (pr_ok Rfs_Other (ch_runtime h)) (\<lambda>_.
                   pr_bind (pr_check Rfs_Network (rs_health_check rc)) (\<lambda>_.
                   pr_bind (perform_login h rc config) (\<lambda>_. pr_return ())))) (\<lambda>_.
     pr_bind (pr_map_err Rfs_Daemon (daemon_start h windows (cg_foreground config))) (\<lambda>_.
     pr_bind (pr_map_err Rfs_Logging
                (logging_from h client_log_name (client_log_filter ''client'') (cg_logging config))) (\<lambda>_.
     pr_bind (pr_ok (Rfs_Daemon Daemon_Other) (ch_runtime h)) (\<lambda>_.
       if cg_gui_enabled config then pr_check Rfs_GUI (ch_gui h config)
       else run_async h windows ord rc config))))"

text \<open>\<open>Commands::execute\<close>. The configuration that was merged from its sources comes with the command.\<close>

datatype client_command =
  Cli_Run "config_error + client_config" | Cli_TomlGen pathbuf bool
| Cli_EnvGen "pathbuf option" string string | Cli_Unmount string

definition generated :: "('w, 'x) os_scheme \<Rightarrow> command_error + env_output \<Rightarrow> ('w, command_error, unit) proc" where
  "generated h r w =
     (case r of
        Inl e \<Rightarrow> (Failed e, w)
      | Inr (Env_Stdout _) \<Rightarrow> (Returned (), w)
      | Inr (Env_File path text) \<Rightarrow> (Returned (), os_write h path text w))"

definition toml_command ::
  "('w, 'x) os_scheme \<Rightarrow> ('c \<Rightarrow> string option) \<Rightarrow> 'c \<Rightarrow> pathbuf \<Rightarrow> bool \<Rightarrow> ('w, command_error, unit) proc" where
  "toml_command h format cfg output force w =
     generated h (map_sum id (\<lambda>(p, t). Env_File p t)
       (toml_config_generator (os_exists h w) (os_writable h w) format cfg output force)) w"

definition env_command ::
  "('w, 'x) os_scheme \<Rightarrow> json \<Rightarrow> pathbuf option \<Rightarrow> string \<Rightarrow> string \<Rightarrow> ('w, command_error, unit) proc" where
  "env_command h cfg output env_prefix separator w =
     generated h (env_var_generator (os_writable h w) cfg output env_prefix separator) w"

definition cli_unmount :: "('w, 'x) os_scheme \<Rightarrow> string \<Rightarrow> ('w, command_error, unit) proc" where
  "cli_unmount h mount_point =
     pr_ok Cmd_ExecutionFailed (spawn_first h (map (\<lambda>c. c @ [mount_point]) unmount_commands))"

definition client_execute ::
  "('w, 'x) client_host_scheme \<Rightarrow> bool \<Rightarrow> orders \<Rightarrow> (string \<Rightarrow> ('w, 'y) remote_storage_scheme)
   \<Rightarrow> (client_config \<Rightarrow> string option) \<Rightarrow> (nat \<Rightarrow> string) \<Rightarrow> client_command
   \<Rightarrow> ('w, rfs_client_error, unit) proc" where
  "client_execute h windows ord rc_new format num cmd =
     (case cmd of
        Cli_Run built \<Rightarrow>
          (case client_config_load windows built of
             Inl e \<Rightarrow> pr_fail (Rfs_Config e)
           | Inr config \<Rightarrow> client_start h windows ord (rc_new (cg_server_url config)) config)
      | Cli_TomlGen output force \<Rightarrow>
          pr_map_err Rfs_Command (toml_command h format client_config_default output force)
      | Cli_EnvGen output env_prefix separator \<Rightarrow>
          pr_map_err Rfs_Command (env_command h (json_of_client_config num client_config_default) output env_prefix separator)
      | Cli_Unmount mount_point \<Rightarrow> pr_map_err Rfs_Command (cli_unmount h mount_point))"

subsection \<open>Shutting down (\<open>daemon.rs\<close>)\<close>

text \<open>
  The main task between the mount and its end (\<open>wait_for_shutdown\<close> is \<open>notified\<close>, and the other
  branch of \<open>select!\<close> drops it), and the task of \<open>spawn_signal_handler\<close>, which ends with the first
  signal. \<open>Daemon::trigger_shutdown\<close> is the button of the user interface.
\<close>

datatype main_task = Main_Mounting | Main_Waiting | Main_Unmounting | Main_Ended

record 'n shutdown_state =
  sd_notify :: 'n
  sd_main :: main_task
  sd_listening :: bool
  sd_signalled :: bool
  sd_triggered :: bool

definition shutdown_init :: "'n notify_api \<Rightarrow> 'n shutdown_state" where
  "shutdown_init N = \<lparr>sd_notify = na_new N, sd_main = Main_Mounting, sd_listening = True,
     sd_signalled = False, sd_triggered = False\<rparr>"

definition trigger_shutdown :: "'n notify_api \<Rightarrow> 'n shutdown_state \<Rightarrow> 'n shutdown_state" where
  "trigger_shutdown N s = s\<lparr>sd_triggered := True, sd_notify := na_one N (sd_notify s)\<rparr>"

definition signal_received :: "'n notify_api \<Rightarrow> 'n shutdown_state \<Rightarrow> 'n shutdown_state" where
  "signal_received N s =
     s\<lparr>sd_listening := False, sd_signalled := True, sd_notify := na_waiters N (sd_notify s)\<rparr>"

inductive shutdown_step :: "'n notify_api \<Rightarrow> 'n shutdown_state \<Rightarrow> 'n shutdown_state \<Rightarrow> bool" for N where
  Mounted: "sd_main s = Main_Mounting \<Longrightarrow>
    na_notified N 0 (sd_notify s) = (ready, n) \<Longrightarrow>
    shutdown_step N s (s\<lparr>sd_main := (if ready then Main_Unmounting else Main_Waiting), sd_notify := n\<rparr>)"
| Mount_Error: "sd_main s = Main_Mounting \<Longrightarrow> shutdown_step N s (s\<lparr>sd_main := Main_Ended\<rparr>)"
| Session_End: "sd_main s = Main_Waiting \<Longrightarrow>
    shutdown_step N s (s\<lparr>sd_main := Main_Ended, sd_notify := na_drop N 0 (sd_notify s)\<rparr>)"
| Woken: "sd_main s = Main_Waiting \<Longrightarrow> na_ready N 0 (sd_notify s) \<Longrightarrow>
    shutdown_step N s (s\<lparr>sd_main := Main_Unmounting\<rparr>)"
| Unmounted: "sd_main s = Main_Unmounting \<Longrightarrow> shutdown_step N s (s\<lparr>sd_main := Main_Ended\<rparr>)"
| Signal: "sd_listening s \<Longrightarrow> shutdown_step N s (signal_received N s)"
| Ignored_Signal: "\<not> sd_listening s \<Longrightarrow> shutdown_step N s (s\<lparr>sd_signalled := True\<rparr>)"
| Trigger: "shutdown_step N s (trigger_shutdown N s)"

subsection \<open>The server (\<open>app.rs\<close>, \<open>lib.rs\<close>)\<close>

datatype rfs_server_error =
  Srv_Command command_error | Srv_Config config_error | Srv_Logging logging_error
| Srv_Storage storage_error | Srv_Database database_error | Srv_Authentication | Srv_Other

record 'w server_host = "'w os" +
  sh_print_help :: "'w \<Rightarrow> bool \<times> 'w"
  sh_jwt_key :: "'w \<Rightarrow> bytes option"
  sh_open_db :: "string \<Rightarrow> 'w \<Rightarrow> (database_error + unit) \<times> 'w"
  sh_db :: "'w \<Rightarrow> database"
  sh_set_db :: "database \<Rightarrow> 'w \<Rightarrow> 'w"
  sh_salt :: "'w \<Rightarrow> nat"
  sh_bind :: "string \<Rightarrow> u16 \<Rightarrow> 'w \<Rightarrow> bool \<times> 'w"
  sh_local_addr :: "'w \<Rightarrow> bool \<times> 'w"
  sh_listen :: "'w \<Rightarrow> bool \<times> 'w"
  sh_serve :: "bytes \<Rightarrow> pathbuf \<Rightarrow> 'w \<Rightarrow> bool \<times> 'w"

definition pr_cmd :: "('w, 'x) server_host_scheme \<Rightarrow> 'a cmd \<Rightarrow> ('w, rfs_server_error, 'a) proc" where
  "pr_cmd h m w =
     (case m (sh_db h w) of
        (Inl e, d) \<Rightarrow> (Failed (Srv_Command e), sh_set_db h d w)
      | (Inr x, d) \<Rightarrow> (Returned x, sh_set_db h d w))"

definition run_server :: "('w, 'x) server_host_scheme \<Rightarrow> pathbuf \<Rightarrow> ('w, rfs_server_error, unit) proc" where
  "run_server h fs_root w =
     pr_bind (if os_exists h w fs_root then pr_return ()
              else pr_ok Srv_Other (os_create_dir_all h fs_root)) (\<lambda>_.
     pr_bind (pr_ok Srv_Other (sh_local_addr h)) (\<lambda>_. pr_ok Srv_Other (sh_listen h))) w"

datatype server_command =
  Srv_Run "config_error + server_config"
| Srv_UserCreate string string "u32 option" "u32 option"
| Srv_UserChangeUsername string string | Srv_UserChangePassword string string | Srv_UserDelete string
| Srv_TomlGen pathbuf bool | Srv_EnvGen "pathbuf option" string string

definition server_start ::
  "('w, 'x) server_host_scheme \<Rightarrow> bytes \<Rightarrow> server_config \<Rightarrow> ('w, rfs_server_error, unit) proc" where
  "server_start h key config =
     pr_bind (pr_map_err Srv_Logging
                (logging_from h server_log_name (server_log_filter ''server'') (sg_logging config))) (\<lambda>_.
     pr_bind (pr_ok Srv_Other (sh_bind h (sg_server_host config) (sg_server_port config))) (\<lambda>_.
     pr_bind (run_server h (sg_filesystem_root config)) (\<lambda>_.
       pr_ok Srv_Other (sh_serve h key (sg_filesystem_root config)))))"

definition server_execute ::
  "('w, 'x) server_host_scheme \<Rightarrow> auth_env \<Rightarrow> engine \<Rightarrow> (server_config \<Rightarrow> string option) \<Rightarrow> (nat \<Rightarrow> string)
   \<Rightarrow> bytes \<Rightarrow> server_command \<Rightarrow> ('w, rfs_server_error, unit) proc" where
  "server_execute h env eng format num key c =
     (case c of
        Srv_Run built \<Rightarrow>
          (case server_config_load built of
             Inl e \<Rightarrow> pr_fail (Srv_Config e) | Inr config \<Rightarrow> server_start h key config)
      | Srv_UserCreate name pw uid gid \<Rightarrow>
          (\<lambda>w. pr_bind (pr_cmd h (user_create_command env eng (sh_salt h w) name pw uid gid)) (\<lambda>_. pr_return ()) w)
      | Srv_UserChangeUsername name name2 \<Rightarrow> pr_cmd h (user_change_username_command eng name name2)
      | Srv_UserChangePassword name pw \<Rightarrow>
          (\<lambda>w. pr_cmd h (user_change_password_command env eng (sh_salt h w) name pw) w)
      | Srv_UserDelete name \<Rightarrow> pr_cmd h (user_delete_command eng name)
      | Srv_TomlGen output force \<Rightarrow>
          pr_map_err Srv_Command (toml_command h format server_config_default output force)
      | Srv_EnvGen output env_prefix separator \<Rightarrow>
          pr_map_err Srv_Command (env_command h (json_of_server_config num server_config_default) output env_prefix separator))"

text \<open>\<open>app::run\<close> after the command line is parsed.\<close>

definition server_app ::
  "('w, 'x) server_host_scheme \<Rightarrow> auth_env \<Rightarrow> engine \<Rightarrow> (server_config \<Rightarrow> string option) \<Rightarrow> (nat \<Rightarrow> string)
   \<Rightarrow> string \<Rightarrow> server_command option \<Rightarrow> ('w, rfs_server_error, unit) proc" where
  "server_app h env eng format num database_path command w =
     (case command of
        None \<Rightarrow> pr_ok Srv_Other (sh_print_help h) w
      | Some c \<Rightarrow>
          (case sh_jwt_key h w of
             None \<Rightarrow> (Failed Srv_Other, w)
           | Some key \<Rightarrow>
               pr_bind (pr_check Srv_Database (sh_open_db h database_path)) (\<lambda>_.
                 server_execute h env eng format num key c) w))"

end
