(* ===== verification/Startup_Laws.thy ===== *)
theory Startup_Laws
  imports Startup End_To_End
begin

text \<open>
  Starting and stopping: without the user interface the client mounts only after the server has
  accepted a name with its password, at most three times asked for; a request to shut down is never
  lost, but a signal that comes before the mount is done is.
\<close>

subsection \<open>Login\<close>

lemma pr_bind_Returned:
  "pr_bind m f w = (Returned x, w') \<longleftrightarrow> (\<exists>y w1. m w = (Returned y, w1) \<and> f y w1 = (Returned x, w'))"
  by (auto simp: pr_bind_def split: prod.splits ending.splits)

lemma login_attempts_rule:
  assumes "\<And>w. I w \<Longrightarrow> I (snd (ch_read_line h w))" and "\<And>w. I w \<Longrightarrow> I (snd (ch_read_password h w))"
    and "\<And>u p w r w1. I w \<Longrightarrow> rs_login rc u p w = (r, w1) \<Longrightarrow> I w1 \<and> (\<forall>t. r = Inr t \<longrightarrow> Q u p)"
    and "I w" and "login_attempts h rc config n w = (Returned t, w')"
  shows "I w' \<and> (\<exists>u p. (\<forall>x. cg_username config = Some x \<longrightarrow> u = x) \<and> Q u p)"
  using assms(4,5)
proof (induction n arbitrary: w)
  case (Suc n)
  from Suc.prems(2) obtain u w1 p w2 where
        u: "login_name h config w = (Returned u :: (rfs_client_error, string) ending, w1)"
    and p: "login_password h w1 = (Returned p :: (rfs_client_error, string) ending, w2)"
    and rest: "(case rs_login rc u p w2 of (Inr token, w3) \<Rightarrow> (Returned token, w3)
      | (Inl _, w3) \<Rightarrow> login_attempts h rc config n w3) = (Returned t, w')"
    unfolding login_attempts.simps pr_bind_Returned by blast
  obtain r w3 where r: "rs_login rc u p w2 = (r, w3)" by fastforce
  have u_ok: "I w1" "\<forall>x. cg_username config = Some x \<longrightarrow> u = x"
    using u Suc.prems(1) assms(1) [OF Suc.prems(1)]
    by (auto simp: login_name_def pr_bind_Returned pr_return_def pr_unwrap_def split: option.splits prod.splits)
  have "I w2" using p u_ok assms(2) [OF u_ok(1)]
    by (auto simp: login_password_def pr_unwrap_def split: option.splits prod.splits)
  from assms(3) [OF this r] have ok: "I w3" "\<forall>t. r = Inr t \<longrightarrow> Q u p" by auto
  with rest r u_ok Suc.IH [OF ok(1)] show ?case by (cases r) auto
qed (simp add: pr_fail_def)

text \<open>A row of the table of users with this name, whose hash the password matches.\<close>

definition knows_user :: "auth_env \<Rightarrow> row list \<Rightarrow> string \<Rightarrow> string \<Rightarrow> bool" where
  "knows_user env users name p \<longleftrightarrow>
     (\<exists>uid gid hash. [uid, gid, VText name, VText hash] \<in> set users \<and> ae_verify env p hash)"

lemma get_user_row_Some:
  "get_user_row xs = Some us \<Longrightarrow> \<exists>u g. xs = [u, g, VText (us_username us), VText (us_password us)]"
  by (cases xs rule: get_user_row.cases) (auto split: option.splits)

lemma get_user_known:
  assumes "sqlite eng" and "shape_ok T_users (d T_users)" and "get_user eng name d = (Inr (Some us), d')"
  shows "\<exists>uid gid. [uid, gid, VText name, VText (us_password us)] \<in> set (d T_users)"
proof -
  let ?s = "SQL_Select [C_user_id, C_group_id, C_username, C_password] T_users [C_username]"
  obtain rs where rs': "eng d ?s [VText name] = (d', Inr rs)"
    and row: "case rs of [] \<Rightarrow> Some us = None | x # _ \<Rightarrow> Some us \<noteq> None \<and> get_user_row x = Some us"
    using assms(3) unfolding get_user_def fetch_optional_Inr by blast
  then have rs: "eng d ?s [VText name] = (d', Inr rs)" "rs \<noteq> []" "get_user_row (hd rs) = Some us"
    by (auto split: list.splits)
  with sqlite.exec [OF assms(1), of d ?s "[VText name]"] have "rs = map (\<lambda>r. map (\<lambda>c. the (row_get T_users r c))
      [C_user_id, C_group_id, C_username, C_password]) (filter (row_match T_users [C_username] [VText name]) (d T_users))"
    by auto
  moreover from this rs(2) obtain r rs2 where f: "filter (row_match T_users [C_username] [VText name]) (d T_users) = r # rs2"
    by (cases "filter (row_match T_users [C_username] [VText name]) (d T_users)") auto
  moreover from filter_eq_ConsD [OF f] have r: "r \<in> set (d T_users)" "row_match T_users [C_username] [VText name] r"
    by auto
  ultimately have hd: "hd rs = map (\<lambda>c. the (row_get T_users r c)) [C_user_id, C_group_id, C_username, C_password]"
    by simp
  have "length r = 4" using assms(2) r(1) by (auto simp: shape_ok_def list_all_iff)
  then obtain a b c e where abcd: "r = [a, b, c, e]"
    by (auto simp: numeral_eq_Suc length_Suc_conv)
  with r hd rs(3) show ?thesis
    by (auto simp: row_match_def dest!: get_user_row_Some)
qed

lemma login_attempts_ending:
  "fst (login_attempts h rc config n w) \<in> {Panicked, Failed Rfs_Other} \<union> range Returned"
proof (induction n arbitrary: w)
  case (Suc n)
  show ?case
    using Suc.IH
    by (auto simp: pr_bind_def login_name_def login_password_def pr_unwrap_def pr_return_def
        split: prod.splits ending.splits option.splits sum.splits; metis fst_conv)
qed (simp add: pr_fail_def)

text \<open>The table of users behind the link.\<close>

abbreviation users_of :: "link net_world \<Rightarrow> row list" where
  "users_of w \<equiv> sv_db (lk_server (nw_http w)) T_users"

lemma serve_login:
  assumes "sqlite (sc_engine conf)" and "shape_ok T_users (sv_db s T_users)"
    and "serve conf now uuid hdr (Req_Login u p) s = (resp, s')"
  shows "sv_db s' T_users = sv_db s T_users
    \<and> (\<forall>r. resp = Some r \<longrightarrow> success r \<longrightarrow> knows_user (sc_env conf) (sv_db s T_users) u p)"
proof -
  obtain res where run: "handle_request conf now uuid hdr (Req_Login u p) s = (res, s')" and resp: "resp = respond res"
    using assms(3) by (auto simp: serve_def payload_ok_def split: prod.splits)
  have "knows_user (sc_env conf) (sv_db s T_users) u p" if ret: "res = Ret (Inr x)" for x
  proof -
    obtain t d where t: "authenticate_user (sc_env conf) (sc_engine conf) (sc_key conf) now uuid u p (sv_db s) = (Inr (Some t), d)"
      using run ret by (auto simp: handle_request_def login_def database_do_def h_fail_def h_ok_def
          split: prod.splits sum.splits option.splits)
    from authenticated_user [OF t] obtain us d' where g: "get_user (sc_engine conf) u (sv_db s) = (Inr (Some us), d')"
      and v: "ae_verify (sc_env conf) p (us_password us)" by blast
    from get_user_known [where d = "sv_db s", OF assms(1,2) g] v show ?thesis by (auto simp: knows_user_def)
  qed
  with resp run handle_request_users [OF assms(1), of now uuid hdr "Req_Login u p" s] show ?thesis
    by (auto simp: respond_success)
qed

lemma serve_health:
  "serve conf now uuid hdr Req_Health s = (resp, s') \<Longrightarrow> s' = s"
  by (auto simp: serve_def payload_ok_def handle_request_def h_ok_def)

lemma rc_login_known:
  assumes "sqlite (sc_engine conf)" and "shape_ok T_users users" and "query_free (trim_end_slashes b)"
    and "users_of w = users" and "rc_login (server_net conf enc dec header_ok clock b) (client_base_url b) u p w = (r, w')"
  shows "users_of w' = users \<and> (\<forall>t. r = Inr t \<longrightarrow> knows_user (sc_env conf) users u p)"
proof -
  have "rc_call (server_net conf enc dec header_ok clock b) POST (set_short_url (client_base_url b) ''auth/login'') []
      (B_Login u p) json_token = direct_call conf header_ok (Req_Login u p) json_token"
    by (rule rc_short_direct [OF assms(3)]) (simp_all add: route_parts)
  then obtain q w1 where call: "direct_call conf header_ok (Req_Login u p) json_token w = (q, w1)"
    and r: "(r, w') = (case q of Inl e \<Rightarrow> (Inl e, w1) | Inr token \<Rightarrow> (Inr token, token_set token w1))"
    using assms(5) by (auto simp: rc_login_def split: prod.splits sum.splits)
  have "users_of w1 = users \<and> (\<forall>x. q = Inr x \<longrightarrow> (\<exists>resp. knows_user (sc_env conf) users u p \<and> json_token resp = Some x))"
    by (rule direct_call_rule [OF _ _ call, where J = "\<lambda>s. sv_db s T_users = users"
        and Q = "\<lambda>r s. knows_user (sc_env conf) users u p"])
       (use serve_login [OF assms(1)] assms(2,4) in auto)
  with r show ?thesis by (auto simp: token_set_def split: sum.splits)
qed

lemma rc_health_users:
  assumes "query_free (trim_end_slashes b)"
    and "rc_health_check (server_net conf enc dec header_ok clock b) (client_base_url b) w = (r, w')"
  shows "users_of w' = users_of w"
proof -
  have "rc_call (server_net conf enc dec header_ok clock b) GET (set_short_url (client_base_url b) ''health'') []
      B_Empty no_body = direct_call conf header_ok Req_Health no_body"
    by (rule rc_short_direct [OF assms(1)]) (simp_all add: route_parts)
  then have call: "direct_call conf header_ok Req_Health no_body w = (r, w')"
    using assms(2) by (simp add: rc_health_check_def)
  show ?thesis
    using direct_call_rule [OF _ _ call, where J = "\<lambda>s. sv_db s T_users = users_of w" and Q = "\<lambda>_ _. True"]
      serve_health by blast
qed

lemma client_start_logs_in:
  assumes "\<not> cg_gui_enabled config" and "client_start h windows ord rc config w = (e, w')"
    and "e \<notin> {Panicked, Failed Rfs_Other} \<union> range (\<lambda>n. Failed (Rfs_Network n))"
  shows "\<exists>w1 w2 t w3. ch_runtime h w = (True, w1) \<and> rs_health_check rc w1 = (Inr (), w2)
    \<and> login_attempts h rc config MAX_LOGIN_ATTEMPTS w2 = (Returned t, w3)"
proof -
  obtain ok w1 where rt: "ch_runtime h w = (ok, w1)" by fastforce
  obtain r w2 where hc: "rs_health_check rc w1 = (r, w2)" by fastforce
  obtain l w3 where li: "login_attempts h rc config MAX_LOGIN_ATTEMPTS w2 = (l, w3)" by fastforce
  have l: "l \<in> {Panicked, Failed Rfs_Other} \<union> range Returned"
    using login_attempts_ending [of h rc config MAX_LOGIN_ATTEMPTS w2] li by simp
  have ok: "ok" using assms rt by (auto simp: client_start_def pr_bind_def pr_ok_def)
  have r: "r = Inr ()" using assms rt hc ok
    by (auto simp: client_start_def pr_bind_def pr_ok_def pr_check_def split: sum.splits)
  have "\<exists>t. l = Returned t" using assms rt hc li l ok r
    by (auto simp: client_start_def pr_bind_def pr_ok_def pr_check_def perform_login_def pr_return_def)
  with rt hc li ok r show ?thesis by auto
qed

text \<open>A terminal and a runtime that are not the server's.\<close>

definition local_host :: "(link net_world, 'x) client_host_scheme \<Rightarrow> bool" where
  "local_host h \<longleftrightarrow>
     (\<forall>w. users_of (snd (ch_runtime h w)) = users_of w \<and> users_of (snd (ch_read_line h w)) = users_of w
        \<and> users_of (snd (ch_read_password h w)) = users_of w)"


text \<open>A terminal where the second password is right, and a session that ends by itself.\<close>

definition witness_host :: "link net_world client_host" where
  "witness_host =
     \<lparr>os_exists = (\<lambda>_ _. True), os_create_dir_all = (\<lambda>_ w. (True, w)), os_writable = (\<lambda>_ _. True),
      os_write = (\<lambda>_ _ w. w), os_spawn = (\<lambda>_ w. (True, w)), os_filter_ok = (\<lambda>_. True),
      os_subscribe = (\<lambda>_ w. (True, w)),
      ch_read_line = (\<lambda>w. (Some ''ann'', w)), ch_env_password = (\<lambda>_. None),
      ch_read_password = (\<lambda>w. (Some (if length (lk_arrivals (nw_http w)) = 2 then ''no'' else ''pw''), w)),
      ch_create_file = (\<lambda>_ w. (True, w)), ch_daemonize = (\<lambda>w. (Dz_Child, w)), ch_runtime = (\<lambda>w. (True, w)),
      ch_gui = (\<lambda>_ w. (Inr (), w)), ch_select = (\<lambda>w. (Session_Ended, w)),
      ch_fuse_mount = (\<lambda>_ _ _ _ w. (Some 1, w)), ch_fuse_wait = (\<lambda>_ w. (True, w)),
      ch_fuse_unmount = (\<lambda>_ w. (True, w)), ch_winfsp_new = (\<lambda>_ w. (Some 1, w)),
      ch_winfsp_start = (\<lambda>_ w. (True, w)), ch_winfsp_mount = (\<lambda>_ _ w. (True, w)),
      ch_winfsp_unmount = (\<lambda>_ w. w), ch_park = (\<lambda>w. (True, w))\<rparr>"

definition witness_start :: client_config where
  "witness_start = client_config_default\<lparr>cg_gui_enabled := False, cg_username := Some ''ann''\<rparr>"

definition witness_boot :: "link net_world" where
  "witness_boot = \<lparr>nw_token = None,
     nw_http = \<lparr>lk_server = witness_state, lk_arrivals = [(100, ''u''), (100, ''v''), (100, ''id'')]\<rparr>\<rparr>"

lemma witness_health:
  "rc_health_check witness_net (client_base_url ''http://h'') witness_boot
   = (Inr (), witness_boot\<lparr>nw_http := \<lparr>lk_server = witness_state, lk_arrivals = [(100, ''v''), (100, ''id'')]\<rparr>\<rparr>)"
proof -
  have "rc_call witness_net GET (set_short_url (client_base_url ''http://h'') ''health'') [] B_Empty no_body
      = direct_call witness_conf (\<lambda>_. True) Req_Health no_body"
    by (rule rc_short_direct [OF witness_free]) (simp_all add: route_parts)
  then show ?thesis
    by (simp add: rc_health_check_def direct_call_def witness_boot_def deliver_def serve_def payload_ok_def
        handle_request_def h_ok_def respond_def numeral_3_eq_3 transient_status_def handle_response_def no_body_def)
qed

lemma witness_login_call:
  "rc_call witness_net POST (set_short_url (client_base_url ''http://h'') ''auth/login'') [] (B_Login u p) json_token
   = direct_call witness_conf (\<lambda>_. True) (Req_Login u p) json_token"
  by (rule rc_short_direct [OF witness_free]) (simp_all add: route_parts)

lemmas witness_login_eval = direct_call_def deliver_def serve_def payload_ok_def
  handle_request_def login_def database_do_def h_fail_def h_ok_def respond_def transient_status_def
  handle_response_def json_token_def authenticate_user_def db_fetch_defs db_rows_def db_monad row_match_def
  verify_password_def generate_token_def token_expiration_def clean_revoked_token_def numeral_3_eq_3
  witness_conf_def witness_state_def witness_db_def witness_env_def witness_claims_def

lemma witness_refused:
  "\<exists>e. rc_login witness_net (client_base_url ''http://h'') ''ann'' ''no''
     \<lparr>nw_token = None, nw_http = \<lparr>lk_server = witness_state, lk_arrivals = [(100, ''v''), (100, ''id'')]\<rparr>\<rparr>
   = (Inl e, \<lparr>nw_token = None, nw_http = \<lparr>lk_server = witness_state, lk_arrivals = [(100, ''id'')]\<rparr>\<rparr>)"
  unfolding rc_login_def witness_login_call
  by (cases "fuse_error_of_tag ''Unauthorized''") (simp_all add: witness_login_eval)

lemma witness_accepted:
  "\<exists>w. rc_login witness_net (client_base_url ''http://h'') ''ann'' ''pw''
     \<lparr>nw_token = None, nw_http = \<lparr>lk_server = witness_state, lk_arrivals = [(100, ''id'')]\<rparr>\<rparr> = (Inr ''tok'', w)"
  unfolding rc_login_def witness_login_call by (simp add: witness_login_eval)

lemma witness_attempts:
  "\<exists>w. login_attempts witness_host (remote_storage_client witness_net ''http://h'') witness_start MAX_LOGIN_ATTEMPTS
     \<lparr>nw_token = None, nw_http = \<lparr>lk_server = witness_state, lk_arrivals = [(100, ''v''), (100, ''id'')]\<rparr>\<rparr>
   = (Returned ''tok'', w)"
  using witness_refused witness_accepted
  by (auto simp: MAX_LOGIN_ATTEMPTS_def numeral_3_eq_3 pr_bind_def login_name_def witness_start_def
      login_password_def witness_host_def pr_return_def pr_unwrap_def)


subsection \<open>Shutting down\<close>

inductive_cases shutdown_stepE: "shutdown_step N s s'"

definition shutdown_ok :: "('n \<Rightarrow> notify) \<Rightarrow> 'n shutdown_state \<Rightarrow> bool" where
  "shutdown_ok view s \<longleftrightarrow>
     (let n = view (sd_notify s) in
     (nf_permit n \<or> nf_woken n \<noteq> [] \<longrightarrow> sd_triggered s)
     \<and> (sd_signalled s \<longrightarrow> \<not> sd_listening s)
     \<and> (sd_main s = Main_Mounting \<longrightarrow> nf_waiting n = [] \<and> nf_woken n = [] \<and> nf_released n = []
          \<and> (sd_triggered s \<longrightarrow> nf_permit n))
     \<and> (sd_main s = Main_Waiting \<longrightarrow> notify_ready 0 n \<or> nf_waiting n = [0] \<and> \<not> sd_triggered s))"

definition shutdown_lost :: "('n \<Rightarrow> notify) \<Rightarrow> 'n shutdown_state \<Rightarrow> bool" where
  "shutdown_lost view s \<longleftrightarrow> shutdown_ok view s \<and> \<not> sd_listening s \<and> nf_woken (view (sd_notify s)) = []
     \<and> nf_released (view (sd_notify s)) = [] \<and> sd_main s \<noteq> Main_Unmounting"

lemmas shutdown_defs = shutdown_ok_def trigger_shutdown_def signal_received_def Let_def

context notify_object
begin

lemma shutdown_init_ok: "shutdown_ok view (shutdown_init N)"
  by (simp add: shutdown_defs shutdown_init_def notify_new_def)

lemma shutdown_step_ok: "shutdown_step N s s' \<Longrightarrow> shutdown_ok view s \<Longrightarrow> shutdown_ok view s'"
proof (induction rule: shutdown_step.induct)
  case (Mounted s r n)
  from notified_eq [OF Mounted(2)] Mounted show ?case
    by (auto simp: shutdown_defs notified_def notify_ready_def split: if_splits dest: sym)
next
  case (Session_End s)
  then show ?case
    by (auto simp: shutdown_defs notify_defs split: list.splits)
next
  case (Trigger s)
  then show ?case
    by (auto simp: shutdown_defs notify_defs split: list.splits)
qed (auto simp: shutdown_defs notify_defs)

lemma shutdown_reachable_ok: "rtranclp (shutdown_step N) (shutdown_init N) s \<Longrightarrow> shutdown_ok view s"
  by (induction rule: rtranclp_induct) (auto intro: shutdown_init_ok shutdown_step_ok)

lemma mounted_triggered:
  assumes "shutdown_ok view s" and "sd_main s = Main_Mounting" and "sd_triggered s"
  shows "\<exists>s'. shutdown_step N s s' \<and> sd_main s' = Main_Unmounting"
proof -
  obtain n where "na_notified N 0 (sd_notify s) = (True, n)"
    using takes_permit assms by (fastforce simp: shutdown_defs)
  from Mounted [OF assms(2) this] show ?thesis by force
qed

lemma waiting_triggered:
  assumes "shutdown_ok view s" and "sd_main s = Main_Waiting" and "sd_triggered s"
  shows "\<exists>s'. shutdown_step N s s' \<and> sd_main s' = Main_Unmounting"
proof -
  have "na_ready N 0 (sd_notify s)" using assms by (simp add: shutdown_defs)
  from Woken [OF assms(2) this] show ?thesis by force
qed

lemma no_wait_triggered:
  assumes "shutdown_ok view s" and "sd_triggered s" and "shutdown_step N s s'" and "sd_main s' = Main_Waiting"
  shows "sd_main s = Main_Waiting"
  using assms(3)
proof cases
  case (Mounted r n)
  with notified_eq [OF Mounted(3)] assms show ?thesis
    by (auto simp: shutdown_defs notified_def split: if_splits)
qed (use assms(4) in \<open>auto simp: shutdown_defs\<close>)

lemma shutdown_lost_step:
  assumes "shutdown_step N s s'" and "shutdown_lost view s" and "\<not> sd_triggered s'"
  shows "shutdown_lost view s'"
proof -
  have ok: "shutdown_ok view s'" using assms shutdown_step_ok by (simp add: shutdown_lost_def)
  show ?thesis
    using assms(1)
  proof cases
    case (Mounted r n)
    with notified_eq [OF Mounted(3)] ok assms(2,3) show ?thesis
      by (auto simp: shutdown_lost_def shutdown_defs notified_def split: if_splits dest: sym)
  next
    case Session_End
    then show ?thesis using ok assms(2) by (simp add: shutdown_lost_def notify_drop_def Let_def)
  qed (use ok assms(2,3) in \<open>auto simp: shutdown_lost_def notify_ready_def trigger_shutdown_def\<close>)
qed

end

text \<open>
  C17. The button of the user interface is never lost: once \<open>trigger_shutdown\<close> was called, before the
  mount, while the main task waits or after a signal, the task can always go on to the unmount in one
  step, and it does not start to wait any more. \<open>N\<close> is any object that behaves like \<open>Notify\<close>.
\<close>

theorem trigger_is_never_lost:
  assumes "notify_object N view" and "rtranclp (shutdown_step N) (shutdown_init N) s" and "sd_triggered s"
  shows "(sd_main s \<in> {Main_Mounting, Main_Waiting} \<longrightarrow> (\<exists>s'. shutdown_step N s s' \<and> sd_main s' = Main_Unmounting))
    \<and> (\<forall>s'. shutdown_step N s s' \<longrightarrow> sd_main s' = Main_Waiting \<longrightarrow> sd_main s = Main_Waiting)"
proof -
  have ok: "shutdown_ok view s" by (rule notify_object.shutdown_reachable_ok [OF assms(1,2)])
  show ?thesis
    using notify_object.mounted_triggered [OF assms(1) ok _ assms(3)]
      notify_object.waiting_triggered [OF assms(1) ok _ assms(3)]
      notify_object.no_wait_triggered [OF assms(1) ok assms(3)] by blast
qed

lemma trigger_is_never_lost_witness:
  "\<exists>s s'. rtranclp (shutdown_step notify_ref) (shutdown_init notify_ref) s \<and> sd_main s = Main_Mounting
     \<and> sd_triggered s \<and> shutdown_step notify_ref s s' \<and> sd_main s' = Main_Unmounting"
proof -
  let ?s = "trigger_shutdown notify_ref (shutdown_init notify_ref)"
  have r: "rtranclp (shutdown_step notify_ref) (shutdown_init notify_ref) ?s"
    by (rule r_into_rtranclp) (rule Trigger)
  have t: "sd_triggered ?s" "sd_main ?s = Main_Mounting"
    by (simp_all add: trigger_shutdown_def shutdown_init_def)
  with trigger_is_never_lost [OF ref_notify.notify_object_axioms r t(1)] r show ?thesis by blast
qed

text \<open>
  C37. A signal that comes before the mount is lost: when it came while the main task was still
  mounting, no later run unmounts unless the button of the user interface is used, however many more
  signals come; the program ends only with its session.
\<close>

theorem early_signal_is_lost:
  assumes "notify_object N view" and "rtranclp (shutdown_step N) (shutdown_init N) s"
    and "sd_main s = Main_Mounting" and "sd_signalled s"
    and "rtranclp (shutdown_step N) s s'" and "\<not> sd_triggered s'"
  shows "sd_main s' \<noteq> Main_Unmounting"
proof -
  have "shutdown_ok view s" by (rule notify_object.shutdown_reachable_ok [OF assms(1,2)])
  with assms(3,4) have start: "shutdown_lost view s" by (simp add: shutdown_lost_def shutdown_defs)
  have mono: "sd_triggered u \<Longrightarrow> sd_triggered v" if "shutdown_step N u v" for u v
    using that by cases (auto simp: trigger_shutdown_def signal_received_def)
  have "\<not> sd_triggered s' \<longrightarrow> shutdown_lost view s'"
    using assms(5)
  proof (induction rule: rtranclp_induct)
    case (step u v)
    then show ?case using notify_object.shutdown_lost_step [OF assms(1)] mono by blast
  qed (use start in simp)
  with assms(6) show ?thesis by (simp add: shutdown_lost_def)
qed

text \<open>A signal while mounting, the mount, a second signal.\<close>

lemma early_signal_is_lost_witness:
  "\<exists>s s'. sd_signalled s \<and> rtranclp (shutdown_step notify_ref) (shutdown_init notify_ref) s
     \<and> rtranclp (shutdown_step notify_ref) s s' \<and> sd_main s' = Main_Waiting \<and> sd_main s' \<noteq> Main_Unmounting"
proof -
  let ?s = "signal_received notify_ref (shutdown_init notify_ref)"
  let ?n = "snd (notified 0 (sd_notify ?s))"
  let ?m = "?s\<lparr>sd_main := Main_Waiting, sd_notify := ?n\<rparr>"
  let ?t = "?m\<lparr>sd_signalled := True\<rparr>"
  have s: "rtranclp (shutdown_step notify_ref) (shutdown_init notify_ref) ?s"
    by (rule r_into_rtranclp) (rule Signal, simp add: shutdown_init_def)
  have "shutdown_step notify_ref ?s ?m"
    using Mounted [of ?s notify_ref False ?n]
    by (simp add: signal_received_def shutdown_init_def notified_def notify_waiters_def notify_new_def)
  moreover have "shutdown_step notify_ref ?m ?t"
    by (rule Ignored_Signal) (simp add: signal_received_def)
  ultimately have t: "rtranclp (shutdown_step notify_ref) ?s ?t" by simp
  have e: "sd_main ?s = Main_Mounting" "sd_signalled ?s" "\<not> sd_triggered ?t" "sd_main ?t = Main_Waiting"
    by (simp_all add: signal_received_def shutdown_init_def)
  from early_signal_is_lost [OF ref_notify.notify_object_axioms s e(1,2) t e(3)] s t e show ?thesis by blast
qed

text \<open>WinFSP mounts do not see the options.\<close>

lemma windows_ignores_options:
  "session_mount h fs path options (Windows_Session x) = session_mount h fs path options2 (Windows_Session x)"
  by (rule ext) simp

end
