(* ===== verification/Gui.thy ===== *)
theory Gui
  imports Startup
begin

text \<open>
  The logic behind the graphical user interface of the client: \<open>client/src/gui/logic.rs\<close>. The
  widgets are those of \<open>app.slint\<close>, generated by a build script; here they are the properties the
  handlers set, \<open>gui_form\<close> and \<open>gui_state\<close>. A handler of a setting changes the configuration and then,
  in the event loop, the form; both happen before the next event. Mounting and unmounting are
  concurrent: a mount runs \<open>run_async\<close> in a task of its own, and \<open>gui_step\<close> interleaves the tasks with
  the buttons.

  \<^item> \<open>as\<close> between an integer of 32 bits and \<open>usize\<close> keeps the low bits or extends the sign; the
    product of two \<open>usize\<close> wraps, as in a release build.
  \<^item> The text of a message is dropped: a message is there or not.
\<close>

subsection \<open>The form\<close>

record mount_settings =
  ms_allow_other :: bool
  ms_mount_point :: string
  ms_privileged :: bool
  ms_read_only :: bool

record cache_settings =
  cs_capacity :: i32
  cs_enabled :: bool
  cs_max_size :: i32
  cs_policy :: string
  cs_ttl :: i32
  cs_use_ttl :: bool

record fs_settings =
  fx_buffer_size :: i32
  fx_foreground :: bool
  fx_max_pages :: i32
  fx_page_size :: i32
  fx_xattr_enable :: bool

record log_settings =
  ls_dir :: string
  ls_file :: string
  ls_format :: string
  ls_level :: string
  ls_rotation :: string

record gui_form =
  gf_mount :: mount_settings
  gf_cache :: cache_settings
  gf_fs :: fs_settings
  gf_log :: log_settings

definition as_i32 :: "nat \<Rightarrow> i32" where "as_i32 n = of_nat n"

definition as_usize :: "i32 \<Rightarrow> nat" where "as_usize v = unat (scast v :: u64)"

fun cache_policy_string :: "cache_policy \<Rightarrow> string" where
  "cache_policy_string Lru = ''LRU''"
| "cache_policy_string Lfu = ''LFU''"

definition optional_path :: "pathbuf option \<Rightarrow> string" where
  "optional_path p = (case p of None \<Rightarrow> [] | Some d \<Rightarrow> path_render d)"

definition load_config :: "client_config \<Rightarrow> gui_form" where
  "load_config c =
     (let l = cg_logging c; k = cg_cache c; y = cg_file_system c; m = cg_mount c in
      \<lparr>gf_mount = \<lparr>ms_allow_other = mo_allow_other m, ms_mount_point = path_render (cg_mount_point c),
         ms_privileged = mo_privileged m, ms_read_only = mo_read_only m\<rparr>,
       gf_cache = \<lparr>cs_capacity = as_i32 (cc_capacity k), cs_enabled = cc_enabled k,
         cs_max_size = as_i32 (cc_max_size k), cs_policy = cache_policy_string (cc_policy k),
         cs_ttl = as_i32 (cc_ttl k), cs_use_ttl = cc_use_ttl k\<rparr>,
       gf_fs = \<lparr>fx_buffer_size = as_i32 (fy_buffer_size y), fx_foreground = cg_foreground c,
         fx_max_pages = as_i32 (fy_max_pages y), fx_page_size = as_i32 (fy_page_size y),
         fx_xattr_enable = fy_xattr_enable y\<rparr>,
       gf_log = \<lparr>ls_dir = optional_path (lc_dir l), ls_file = optional_path (lc_file l),
         ls_format = log_format_string (lc_format l), ls_level = log_level_gui (lc_level l),
         ls_rotation = (case lc_rotation l of None \<Rightarrow> [] | Some r \<Rightarrow> log_rotation_string r)\<rparr>\<rparr>)"

subsection \<open>Changing the configuration\<close>

record 'v gui_item =
  gi_env :: string
  gi_id :: string
  gi_value :: 'v

definition set_policy :: "string \<Rightarrow> cache_config \<Rightarrow> cache_config" where
  "set_policy v k =
     (if v = ''LRU'' then k\<lparr>cc_policy := Lru\<rparr> else if v = ''LFU'' then k\<lparr>cc_policy := Lfu\<rparr> else k)"

definition set_log_format :: "string \<Rightarrow> logging_config \<Rightarrow> logging_config" where
  "set_log_format v l =
     (if v = ''COMPACT'' then l\<lparr>lc_format := Format_Compact\<rparr>
      else if v = ''FULL'' then l\<lparr>lc_format := Format_Full\<rparr>
      else if v = ''JSON'' then l\<lparr>lc_format := Format_Json\<rparr>
      else if v = ''PRETTY'' then l\<lparr>lc_format := Format_Pretty\<rparr> else l)"

definition set_log_level :: "string \<Rightarrow> logging_config \<Rightarrow> logging_config" where
  "set_log_level v l =
     (if v = ''DEBUG'' then l\<lparr>lc_level := Level_Debug\<rparr>
      else if v = ''ERROR'' then l\<lparr>lc_level := Level_Error\<rparr>
      else if v = ''INFO'' then l\<lparr>lc_level := Level_Info\<rparr>
      else if v = ''TRACE'' then l\<lparr>lc_level := Level_Trace\<rparr>
      else if v = ''WARN'' then l\<lparr>lc_level := Level_Warn\<rparr> else l)"

definition set_log_rotation :: "string \<Rightarrow> logging_config \<Rightarrow> logging_config" where
  "set_log_rotation v l =
     (if v = ''MINUTELY'' then l\<lparr>lc_rotation := Some Rot_Minutely\<rparr>
      else if v = ''HOURLY'' then l\<lparr>lc_rotation := Some Rot_Hourly\<rparr>
      else if v = ''DAILY'' then l\<lparr>lc_rotation := Some Rot_Daily\<rparr>
      else if v = ''NEVER'' then l\<lparr>lc_rotation := Some Rot_Never\<rparr> else l)"

definition change_string :: "string gui_item \<Rightarrow> client_config \<Rightarrow> client_config" where
  "change_string i c =
     (let id = gi_id i; v = gi_value i; l = cg_logging c in
      if gi_env i = ''MOUNT'' then
        (if id = ''mountpoint'' then c\<lparr>cg_mount_point := components v\<rparr> else c)
      else if gi_env i = ''CACHE'' then
        (if id = ''policy'' then c\<lparr>cg_cache := set_policy v (cg_cache c)\<rparr> else c)
      else if gi_env i = ''LOG'' then
        (if id = ''log_format'' then c\<lparr>cg_logging := set_log_format v l\<rparr>
         else if id = ''log_level'' then c\<lparr>cg_logging := set_log_level v l\<rparr>
         else if id = ''log_dir'' then c\<lparr>cg_logging := l\<lparr>lc_dir := Some (components v)\<rparr>\<rparr>
         else if id = ''log_file'' then c\<lparr>cg_logging := l\<lparr>lc_file := Some (components v)\<rparr>\<rparr>
         else if id = ''log_rotation'' then c\<lparr>cg_logging := set_log_rotation v l\<rparr> else c)
      else c)"

definition change_bool :: "bool gui_item \<Rightarrow> client_config \<Rightarrow> client_config" where
  "change_bool i c =
     (let id = gi_id i; v = gi_value i; m = cg_mount c; k = cg_cache c in
      if gi_env i = ''MOUNT'' then
        (if id = ''allow_other'' then c\<lparr>cg_mount := m\<lparr>mo_allow_other := v\<rparr>\<rparr>
         else if id = ''read_only'' then c\<lparr>cg_mount := m\<lparr>mo_read_only := v\<rparr>\<rparr>
         else if id = ''privileged'' then c\<lparr>cg_mount := m\<lparr>mo_privileged := v\<rparr>\<rparr> else c)
      else if gi_env i = ''CACHE'' then
        (if id = ''cache_enabled'' then c\<lparr>cg_cache := k\<lparr>cc_enabled := v\<rparr>\<rparr>
         else if id = ''use_ttl'' then c\<lparr>cg_cache := k\<lparr>cc_use_ttl := v\<rparr>\<rparr> else c)
      else if gi_env i = ''FS'' then
        (if id = ''xattr_enable'' then c\<lparr>cg_file_system := (cg_file_system c)\<lparr>fy_xattr_enable := v\<rparr>\<rparr> else c)
      else c)"

text \<open>The new configuration and whether there is a message. The message for a capacity divides by
  the size.\<close>

definition one_gib :: nat where "one_gib = 1024 * 1024 * 1024"

definition usize_mult :: "nat \<Rightarrow> nat \<Rightarrow> nat" where "usize_mult a b = (a * b) mod 2 ^ 64"

definition change_int :: "i32 gui_item \<Rightarrow> client_config \<Rightarrow> (client_config \<times> bool) outcome" where
  "change_int i c =
     (let id = gi_id i; v = gi_value i; k = cg_cache c in
      if gi_env i = ''CACHE'' then
        (if id = ''max_size'' then
           (if usize_mult (cc_capacity k) (as_usize v) \<le> one_gib
            then Ret (c\<lparr>cg_cache := k\<lparr>cc_max_size := as_usize v\<rparr>\<rparr>, False) else Ret (c, True))
         else if id = ''capacity'' then
           (if usize_mult (cc_max_size k) (as_usize v) \<le> one_gib
            then Ret (c\<lparr>cg_cache := k\<lparr>cc_capacity := as_usize v\<rparr>\<rparr>, False)
            else if cc_max_size k = 0 then Panic else Ret (c, True))
         else if id = ''ttl'' then Ret (c\<lparr>cg_cache := k\<lparr>cc_ttl := as_usize v\<rparr>\<rparr>, False)
         else Ret (c, False))
      else if gi_env i = ''FS'' then
        (if id = ''buffer_size'' then
           (if v <s 5 then Ret (c\<lparr>cg_file_system := (cg_file_system c)\<lparr>fy_buffer_size := as_usize v\<rparr>\<rparr>, False)
            else Ret (c, True))
         else Ret (c, False))
      else Ret (c, False))"

subsection \<open>The settings handlers\<close>

record gui_state =
  gs_config :: client_config
  gs_default :: client_config
  gs_form :: gui_form
  gs_loading :: bool
  gs_restore :: bool
  gs_message :: bool
  gs_logged_in :: bool
  gs_unavailable :: bool

datatype gui_event =
  Change_String "string gui_item" | Change_Bool "bool gui_item" | Change_Int "i32 gui_item"
| Restore_Default

definition shown :: "client_config \<Rightarrow> gui_state \<Rightarrow> gui_state" where
  "shown c s = s\<lparr>gs_config := c, gs_loading := False, gs_restore := True, gs_form := load_config c\<rparr>"

fun gui_handle :: "gui_event \<Rightarrow> gui_state \<Rightarrow> gui_state outcome" where
  "gui_handle (Change_String i) s = Ret (shown (change_string i (gs_config s)) s)"
| "gui_handle (Change_Bool i) s = Ret (shown (change_bool i (gs_config s)) s)"
| "gui_handle (Change_Int i) s =
     outcome_bind (change_int i (gs_config s)) (\<lambda>(c, message).
       Ret (if message then s\<lparr>gs_config := c, gs_loading := False, gs_message := True\<rparr> else shown c s))"
| "gui_handle Restore_Default s =
     Ret (s\<lparr>gs_loading := False, gs_restore := False, gs_form := load_config (gs_default s)\<rparr>)"

fun gui_run :: "gui_event list \<Rightarrow> gui_state \<Rightarrow> gui_state outcome" where
  "gui_run [] s = Ret s"
| "gui_run (e # es) s = outcome_bind (gui_handle e s) (gui_run es)"

text \<open>\<open>Gui::new\<close>, and the form after a login.\<close>

definition gui_new :: "client_config \<Rightarrow> gui_state" where
  "gui_new c = \<lparr>gs_config = c, gs_default = c, gs_form = load_config c, gs_loading = False,
     gs_restore = False, gs_message = False, gs_logged_in = False, gs_unavailable = False\<rparr>"

subsection \<open>Mounting and unmounting\<close>

text \<open>
  The slot holds the daemon of the current mount. The button mounts when the interface shows no
  active file system, and unmounts when it shows one; a logout and the end of the program unmount
  too. A task is \<open>run_async\<close> with the daemon it was given, between its mount and its end. Only an
  error of the task is reported to the interface, in the step in which it happens.
\<close>

record 'n gui_mounts =
  gm_slot :: "nat option"
  gm_next :: nat
  gm_notify :: "nat \<Rightarrow> 'n"
  gm_tasks :: "(nat \<times> main_task) list"
  gm_active :: bool

definition gui_mounts_init :: "'n notify_api \<Rightarrow> 'n gui_mounts" where
  "gui_mounts_init N = \<lparr>gm_slot = Some 0, gm_next = 1, gm_notify = (\<lambda>_. na_new N), gm_tasks = [], gm_active = False\<rparr>"

definition gui_mount :: "'n gui_mounts \<Rightarrow> 'n gui_mounts" where
  "gui_mount s =
     (let (d, n) = (case gm_slot s of Some d \<Rightarrow> (d, gm_next s) | None \<Rightarrow> (gm_next s, gm_next s + 1))
      in s\<lparr>gm_slot := Some d, gm_next := n, gm_tasks := gm_tasks s @ [(d, Main_Mounting)], gm_active := True\<rparr>)"

definition gui_unmount :: "'n notify_api \<Rightarrow> 'n gui_mounts \<Rightarrow> 'n gui_mounts" where
  "gui_unmount N s =
     (case gm_slot s of
        None \<Rightarrow> s\<lparr>gm_active := False\<rparr>
      | Some d \<Rightarrow> s\<lparr>gm_slot := None, gm_notify := (gm_notify s)(d := na_one N (gm_notify s d)), gm_active := False\<rparr>)"

text \<open>The handlers that ask the server: retry, login, logout, and \<open>Drop\<close>. They run in tasks; the
  mounts and the state of the world are those of the moment they are served.\<close>

definition gui_health_check ::
  "('w, 'y) remote_storage_scheme \<Rightarrow> gui_state \<times> 'w \<Rightarrow> bool \<times> gui_state \<times> 'w" where
  "gui_health_check rc sw =
     (case sw of (s, w) \<Rightarrow>
       (case rs_health_check rc w of
          (Inr _, w') \<Rightarrow> (True, s\<lparr>gs_unavailable := False, gs_loading := False\<rparr>, w')
        | (Inl _, w') \<Rightarrow> (False, s\<lparr>gs_unavailable := True, gs_loading := False\<rparr>, w')))"

definition gui_login ::
  "('w, 'y) remote_storage_scheme \<Rightarrow> string \<Rightarrow> string \<Rightarrow> gui_state \<times> 'w \<Rightarrow> gui_state \<times> 'w" where
  "gui_login rc user pass sw =
     (case gui_health_check rc sw of
        (False, s, w) \<Rightarrow> (s, w)
      | (True, s, w) \<Rightarrow>
          (case rs_login rc user pass w of
             (Inr _, w') \<Rightarrow> (s\<lparr>gs_form := load_config (gs_config s), gs_loading := False, gs_logged_in := True\<rparr>, w')
           | (Inl _, w') \<Rightarrow> (s\<lparr>gs_message := True\<rparr>, w')))"

definition gui_logout ::
  "'n notify_api \<Rightarrow> ('w, 'y) remote_storage_scheme \<Rightarrow> gui_state \<times> 'n gui_mounts \<times> 'w \<Rightarrow> gui_state \<times> 'n gui_mounts \<times> 'w" where
  "gui_logout N rc smw =
     (case smw of (s0, m, w0) \<Rightarrow>
       (case gui_health_check rc (s0, w0) of
          (False, s, w) \<Rightarrow> (s, m, w)
        | (True, s, w) \<Rightarrow>
            (case rs_logout rc w of
               (Inr _, w') \<Rightarrow> (s\<lparr>gs_logged_in := False, gs_loading := False\<rparr>, gui_unmount N m, w')
             | (Inl _, w') \<Rightarrow> (s\<lparr>gs_message := True\<rparr>, m, w'))))"

definition gui_drop ::
  "'n notify_api \<Rightarrow> ('w, 'y) remote_storage_scheme \<Rightarrow> gui_state \<times> 'n gui_mounts \<times> 'w \<Rightarrow> 'n gui_mounts \<times> 'w" where
  "gui_drop N rc smw =
     (case smw of (s, m, w) \<Rightarrow>
       (gui_unmount N m, if gs_logged_in s then snd (rs_logout rc w) else w))"

datatype gui_label = Ev_Mount | Ev_Unmount | Ev_Mounted nat | Ev_Woken nat | Ev_Done nat | Ev_Session_End nat | Ev_Error nat

definition task_to :: "nat \<Rightarrow> main_task \<Rightarrow> 'n gui_mounts \<Rightarrow> 'n gui_mounts" where
  "task_to i t s = s\<lparr>gm_tasks := (gm_tasks s)[i := (fst (gm_tasks s ! i), t)]\<rparr>"

inductive gui_step :: "'n notify_api \<Rightarrow> 'n gui_mounts \<Rightarrow> gui_label \<Rightarrow> 'n gui_mounts \<Rightarrow> bool" for N where
  Mount: "\<not> gm_active s \<Longrightarrow> gui_step N s Ev_Mount (gui_mount s)"
| Unmount: "gui_step N s Ev_Unmount (gui_unmount N s)"
| Mounted: "i < length (gm_tasks s) \<Longrightarrow> gm_tasks s ! i = (d, Main_Mounting) \<Longrightarrow>
    na_notified N i (gm_notify s d) = (ready, n) \<Longrightarrow>
    gui_step N s (Ev_Mounted i)
      (task_to i (if ready then Main_Unmounting else Main_Waiting) (s\<lparr>gm_notify := (gm_notify s)(d := n)\<rparr>))"
| Woken: "i < length (gm_tasks s) \<Longrightarrow> gm_tasks s ! i = (d, Main_Waiting) \<Longrightarrow> na_ready N i (gm_notify s d) \<Longrightarrow>
    gui_step N s (Ev_Woken i) (task_to i Main_Unmounting s)"
| Done: "i < length (gm_tasks s) \<Longrightarrow> gm_tasks s ! i = (d, Main_Unmounting) \<Longrightarrow>
    gui_step N s (Ev_Done i) (task_to i Main_Ended s)"
| Session_End: "i < length (gm_tasks s) \<Longrightarrow> gm_tasks s ! i = (d, Main_Waiting) \<Longrightarrow>
    gui_step N s (Ev_Session_End i)
      (task_to i Main_Ended (s\<lparr>gm_notify := (gm_notify s)(d := na_drop N i (gm_notify s d))\<rparr>))"
| Mount_Error: "i < length (gm_tasks s) \<Longrightarrow> gm_tasks s ! i = (d, Main_Mounting) \<Longrightarrow>
    gui_step N s (Ev_Error i) (task_to i Main_Ended (s\<lparr>gm_active := False\<rparr>))"
| Session_Error: "i < length (gm_tasks s) \<Longrightarrow> gm_tasks s ! i = (d, Main_Waiting) \<Longrightarrow>
    gui_step N s (Ev_Error i)
      (task_to i Main_Ended (s\<lparr>gm_notify := (gm_notify s)(d := na_drop N i (gm_notify s d)), gm_active := False\<rparr>))"

end
