(* ===== verification/Gui_Laws.thy ===== *)
theory Gui_Laws
  imports Gui
begin

text \<open>
  The settings of the user interface stay within its limits and are shown as they are; a mount can
  be undone as long as no task reports an error, and not in general.
\<close>

subsection \<open>Settings\<close>

fun plain_event :: "gui_event \<Rightarrow> bool" where
  "plain_event (Change_Int i) \<longleftrightarrow> \<not> gi_value i <s 0"
| "plain_event _ \<longleftrightarrow> True"

definition small_cache_config :: "cache_config \<Rightarrow> bool" where
  "small_cache_config k \<longleftrightarrow> cc_capacity k < 2 ^ 32 \<and> cc_max_size k < 2 ^ 32"

text \<open>Whether the sizes of \<open>k'\<close> are those of \<open>k\<close> or respect the limit.\<close>

definition within_limit :: "cache_config \<Rightarrow> cache_config \<Rightarrow> bool" where
  "within_limit k k' \<longleftrightarrow>
     (cc_capacity k' = cc_capacity k \<and> cc_max_size k' = cc_max_size k) \<or> cc_capacity k' * cc_max_size k' \<le> one_gib"

lemma as_usize_nonneg:
  assumes "\<not> v <s 0"
  shows "as_usize v < 2 ^ 31"
proof -
  have v: "0 \<le> sint v" "sint v < 2 ^ 31"
    using assms sint_lt [of v] by (simp_all add: word_sless_alt)
  have "uint (scast v :: u64) = take_bit 64 (sint v)"
    by (simp only: scast_eq uint_word_of_int_eq) simp
  also have "\<dots> = sint v" using v by (intro take_bit_int_eq_self) simp_all
  finally show ?thesis using v by (simp only: as_usize_def unat_eq_nat_uint) simp
qed

lemma usize_mult_small:
  assumes "a < 2 ^ 32" and "b < 2 ^ 32"
  shows "usize_mult a b = a * b"
proof -
  have "a * b \<le> (2 ^ 32 - 1) * (2 ^ 32 - 1)" using assms by (intro mult_le_mono) simp_all
  then show ?thesis by (simp add: usize_mult_def)
qed

lemma change_other_cache:
  "cc_capacity (cg_cache (change_string i c)) = cc_capacity (cg_cache c)"
  "cc_max_size (cg_cache (change_string i c)) = cc_max_size (cg_cache c)"
  "cc_capacity (cg_cache (change_bool j c)) = cc_capacity (cg_cache c)"
  "cc_max_size (cg_cache (change_bool j c)) = cc_max_size (cg_cache c)"
  by (simp_all add: change_string_def change_bool_def set_policy_def Let_def)

lemma change_int_total: "\<exists>r. change_int i c = Ret r"
  by (auto simp: change_int_def Let_def usize_mult_def)

lemma change_int_cache:
  assumes "change_int i c = Ret (c', b)" and "\<not> gi_value i <s 0" and "small_cache_config (cg_cache c)"
  shows "small_cache_config (cg_cache c') \<and> within_limit (cg_cache c) (cg_cache c') \<and> (b \<longrightarrow> c' = c)"
proof -
  have v: "as_usize (gi_value i) < 2 ^ 32" using as_usize_nonneg [OF assms(2)] by simp
  have "cc_capacity (cg_cache c) < 2 ^ 32" "cc_max_size (cg_cache c) < 2 ^ 32"
    using assms(3) by (simp_all add: small_cache_config_def)
  note m = usize_mult_small [OF this(1) v] usize_mult_small [OF this(2) v]
  show ?thesis
    using assms(1,3) v
    by (auto simp: change_int_def Let_def small_cache_config_def within_limit_def m
        mult.commute [of "as_usize (gi_value i)"] split: if_splits)
qed

lemma within_limit_trans: "within_limit k k1 \<Longrightarrow> within_limit k1 k2 \<Longrightarrow> within_limit k k2"
  by (auto simp: within_limit_def)

definition gui_ok :: "client_config \<Rightarrow> gui_state \<Rightarrow> bool" where
  "gui_ok c s \<longleftrightarrow> small_cache_config (cg_cache (gs_config s)) \<and> gs_default s = c
     \<and> within_limit (cg_cache c) (cg_cache (gs_config s))
     \<and> (gs_form s = load_config (gs_config s) \<or> gs_form s = load_config c)"

lemma gui_handle_ok:
  assumes "gui_ok c s" and "plain_event e"
  shows "\<exists>s'. gui_handle e s = Ret s' \<and> gui_ok c s'"
proof (cases e)
  case (Change_Int i)
  obtain c' b where r: "change_int i (gs_config s) = Ret (c', b)"
    using change_int_total [of i "gs_config s"] by auto
  with change_int_cache [OF r] assms Change_Int show ?thesis
    by (auto simp: gui_ok_def shown_def intro: within_limit_trans)
qed (use assms in \<open>auto simp: gui_ok_def shown_def small_cache_config_def within_limit_def change_other_cache\<close>)



text \<open>The configuration the program starts with is above the limit of the form.\<close>

lemma default_exceeds_limit:
  "one_gib < cc_capacity (cg_cache client_config_default) * cc_max_size (cg_cache client_config_default)"
  by (simp add: one_gib_def client_config_default_def cache_config_default_def)

text \<open>A negative size passes the check once the capacity is zero, and a negative number of bytes for
  the buffer passes at any time.\<close>

lemma negative_sizes_pass:
  "cc_capacity (cg_cache c) = 0 \<Longrightarrow>
    change_int \<lparr>gi_env = ''CACHE'', gi_id = ''max_size'', gi_value = -1\<rparr> c
      = Ret (c\<lparr>cg_cache := (cg_cache c)\<lparr>cc_max_size := 2 ^ 64 - 1\<rparr>\<rparr>, False)"
  "change_int \<lparr>gi_env = ''FS'', gi_id = ''buffer_size'', gi_value = -1\<rparr> c
      = Ret (c\<lparr>cg_file_system := (cg_file_system c)\<lparr>fy_buffer_size := 2 ^ 64 - 1\<rparr>\<rparr>, False)"
  by (simp_all add: change_int_def usize_mult_def as_usize_def word_sless_alt Let_def unsigned_minus_1_eq_mask
      mask_eq_exp_minus_1)

text \<open>
  The button for the size of the buffer sends a string, which the handler of strings drops; the
  handler of numbers would take a number of megabytes for a number of bytes.
\<close>

lemma buffer_size_edit_ignored:
  "change_string \<lparr>gi_env = ''FS'', gi_id = ''buffer_size'', gi_value = v\<rparr> c = c"
  "change_int \<lparr>gi_env = ''FS'', gi_id = ''buffer_size'', gi_value = 4\<rparr> c
    = Ret (c\<lparr>cg_file_system := (cg_file_system c)\<lparr>fy_buffer_size := 4\<rparr>\<rparr>, False)"
  by (simp_all add: change_string_def change_int_def as_usize_def word_sless_alt Let_def)

text \<open>Restoring the defaults changes the form and not the configuration a mount uses.\<close>

lemma restore_keeps_config:
  "gui_handle Restore_Default s = Ret s' \<Longrightarrow> gs_config s' = gs_config s \<and> gs_form s' = load_config (gs_default s)"
  by auto

text \<open>
  A choice made in a menu is the one the form then shows.
\<close>

lemma menu_choice_is_shown:
  shows "v \<in> {''LRU'', ''LFU''} \<Longrightarrow>
      cs_policy (gf_cache (load_config (change_string \<lparr>gi_env = ''CACHE'', gi_id = ''policy'', gi_value = v\<rparr> c))) = v"
    and "v \<in> {''COMPACT'', ''FULL'', ''JSON'', ''PRETTY''} \<Longrightarrow>
      ls_format (gf_log (load_config (change_string \<lparr>gi_env = ''LOG'', gi_id = ''log_format'', gi_value = v\<rparr> c))) = v"
    and "v \<in> {''DEBUG'', ''ERROR'', ''INFO'', ''TRACE'', ''WARN''} \<Longrightarrow>
      ls_level (gf_log (load_config (change_string \<lparr>gi_env = ''LOG'', gi_id = ''log_level'', gi_value = v\<rparr> c))) = v"
    and "v \<in> {''MINUTELY'', ''HOURLY'', ''DAILY'', ''NEVER''} \<Longrightarrow>
      ls_rotation (gf_log (load_config (change_string \<lparr>gi_env = ''LOG'', gi_id = ''log_rotation'', gi_value = v\<rparr> c))) = v"
  by (auto simp: change_string_def load_config_def set_policy_def set_log_format_def set_log_level_def
      set_log_rotation_def Let_def)

subsection \<open>Mounting and unmounting\<close>

text \<open>The tasks of a daemon that have neither ended nor been told to.\<close>

definition live :: "'n gui_mounts \<Rightarrow> nat \<Rightarrow> nat set" where
  "live s d = {i. i < length (gm_tasks s) \<and> gm_tasks s ! i \<in> {(d, Main_Mounting), (d, Main_Waiting)}}"

text \<open>A task that will unmount without anybody doing anything more.\<close>

definition will_unmount :: "('n \<Rightarrow> notify) \<Rightarrow> 'n gui_mounts \<Rightarrow> nat \<Rightarrow> nat \<Rightarrow> bool" where
  "will_unmount view s d i \<longleftrightarrow>
     (if gm_tasks s ! i = (d, Main_Mounting) then nf_permit (view (gm_notify s d))
      else i \<in> set (nf_woken (view (gm_notify s d))))"

inductive gui_reach :: "'n notify_api \<Rightarrow> bool \<Rightarrow> 'n gui_mounts \<Rightarrow> bool" for N errors where
  Init: "gui_reach N errors (gui_mounts_init N)"
| Step: "gui_reach N errors s \<Longrightarrow> gui_step N s l s' \<Longrightarrow> (\<exists>i. l = Ev_Error i) \<longrightarrow> errors \<Longrightarrow> gui_reach N errors s'"

text \<open>
  The invariant of runs without errors. The daemon in the slot has no task, or one that has not been
  told to unmount, while the interface shows a mount. A daemon that was in the slot has no task, or
  one that was told. The others have not been used.
\<close>

definition daemon_ok :: "('n \<Rightarrow> notify) \<Rightarrow> 'n gui_mounts \<Rightarrow> nat \<Rightarrow> bool" where
  "daemon_ok view s d \<longleftrightarrow>
     (if gm_slot s = Some d then
        d < gm_next s
        \<and> ((live s d = {} \<and> view (gm_notify s d) = notify_new)
         \<or> (gm_active s \<and> (\<exists>i. live s d = {i} \<and>
              view (gm_notify s d) = (if gm_tasks s ! i = (d, Main_Waiting) then notify_new\<lparr>nf_waiting := [i]\<rparr> else notify_new))))
      else if gm_next s \<le> d then live s d = {} \<and> view (gm_notify s d) = notify_new
      else nf_waiting (view (gm_notify s d)) = [] \<and> (live s d = {} \<or> (\<exists>i. live s d = {i} \<and> will_unmount view s d i)))"

context notify_object
begin

lemma daemon_ok_init: "daemon_ok view (gui_mounts_init N) d"
  by (simp add: daemon_ok_def gui_mounts_init_def live_def)

lemma daemon_ok_frame:
  assumes "daemon_ok view s e" and "gm_slot s' = Some e \<longleftrightarrow> gm_slot s = Some e" and "gm_next s' \<le> e \<longleftrightarrow> gm_next s \<le> e"
    and "gm_slot s = Some e \<Longrightarrow> gm_active s \<Longrightarrow> gm_active s'" and "gm_notify s' e = gm_notify s e"
    and "live s' e = live s e" and "\<And>i. i \<in> live s e \<Longrightarrow> gm_tasks s' ! i = gm_tasks s ! i"
  shows "daemon_ok view s' e"
proof -
  have same: "live s e = {i} \<Longrightarrow> gm_tasks s' ! i = gm_tasks s ! i" for i using assms(7) [of i] by simp
  have "e < gm_next s' \<longleftrightarrow> e < gm_next s" using assms(3) by auto
  with assms(1-6) show ?thesis
    unfolding daemon_ok_def will_unmount_def by (auto simp: same split: if_splits)
qed

lemma daemon_ok_mount:
  assumes "\<And>d. daemon_ok view s d" and "\<not> gm_active s"
  shows "daemon_ok view (gui_mount s) e"
proof -
  obtain d n where d: "(case gm_slot s of Some d \<Rightarrow> (d, gm_next s) | None \<Rightarrow> (gm_next s, gm_next s + 1)) = (d, n)"
    by fastforce
  then have slot: "gm_slot s = Some d \<and> n = gm_next s \<or> gm_slot s = None \<and> d = gm_next s \<and> n = Suc (gm_next s)"
    by (auto split: option.splits)
  then have idle: "live s d = {}" "view (gm_notify s d) = notify_new" "d < n"
    using assms(1) [of d] assms(2) by (auto simp: daemon_ok_def)
  have s': "gui_mount s = s\<lparr>gm_slot := Some d, gm_next := n,
      gm_tasks := gm_tasks s @ [(d, Main_Mounting)], gm_active := True\<rparr>"
    using d by (simp add: gui_mount_def)
  have live: "live (gui_mount s) d = {length (gm_tasks s)}" "e \<noteq> d \<Longrightarrow> live (gui_mount s) e = live s e"
    using idle(1) by (auto simp: live_def s' nth_append less_Suc_eq)
  have old: "i \<in> live s e \<Longrightarrow> gm_tasks (gui_mount s) ! i = gm_tasks s ! i" for i
    by (simp add: live_def s' nth_append)
  show ?thesis
  proof (cases "e = d")
    case True
    with idle live(1) show ?thesis by (simp add: daemon_ok_def s')
  next
    case False
    then show ?thesis
      using slot by (intro daemon_ok_frame [OF assms(1)] live(2) old) (auto simp: s')
  qed
qed

lemma daemon_ok_unmount:
  assumes "\<And>d. daemon_ok view s d"
  shows "daemon_ok view (gui_unmount N s) e"
proof -
  have live: "live (gui_unmount N s) e = live s e" and tasks: "gm_tasks (gui_unmount N s) = gm_tasks s"
    by (simp_all add: live_def gui_unmount_def split: option.splits)
  show ?thesis
  proof (cases "gm_slot s = Some e")
    case False
    then show ?thesis
      using live tasks by (intro daemon_ok_frame [OF assms]) (auto simp: gui_unmount_def split: option.splits)
  next
    case True
    have e: "e < gm_next s" using assms [of e] True by (simp add: daemon_ok_def)
    consider "live s e = {}" "view (gm_notify s e) = notify_new"
      | i where "live s e = {i}" "gm_tasks s ! i = (e, Main_Waiting)" "view (gm_notify s e) = notify_new\<lparr>nf_waiting := [i]\<rparr>"
      | i where "live s e = {i}" "gm_tasks s ! i = (e, Main_Mounting)" "view (gm_notify s e) = notify_new"
      using assms [of e] True by (fastforce simp: daemon_ok_def live_def split: if_splits)
    then show ?thesis
      by cases (use e live tasks True in
        \<open>simp_all add: daemon_ok_def will_unmount_def gui_unmount_def notify_one_def notify_new_def\<close>)
  qed
qed

text \<open>A step of one task changes its daemon only.\<close>

lemma live_task_to:
  assumes "i < length (gm_tasks s)" and "gm_tasks s ! i = (d, old)"
  shows "e \<noteq> d \<Longrightarrow> live (task_to i t (s\<lparr>gm_notify := f\<rparr>)) e = live s e"
    and "live (task_to i t (s\<lparr>gm_notify := f\<rparr>)) d
      = (if t = Main_Mounting \<or> t = Main_Waiting then insert i (live s d) else live s d - {i})"
  using assms by (auto simp: live_def task_to_def nth_list_update)

lemma daemon_ok_other:
  assumes "daemon_ok view s e" and "i < length (gm_tasks s)" and "gm_tasks s ! i = (d, old)" and "e \<noteq> d"
  shows "daemon_ok view (task_to i t (s\<lparr>gm_notify := (gm_notify s)(d := n)\<rparr>)) e"
  using assms(2-4) live_task_to(1) [OF assms(2,3)]
  by (intro daemon_ok_frame [OF assms(1)]) (auto simp: task_to_def live_def nth_list_update)

lemma live_single:
  assumes "daemon_ok view s d" and "i \<in> live s d"
  obtains (held) "gm_slot s = Some d" "live s d = {i}" "d < gm_next s" "gm_active s"
      "view (gm_notify s d) = (if gm_tasks s ! i = (d, Main_Waiting) then notify_new\<lparr>nf_waiting := [i]\<rparr> else notify_new)"
    | (told) "gm_slot s \<noteq> Some d" "live s d = {i}" "d < gm_next s" "nf_waiting (view (gm_notify s d)) = []" "will_unmount view s d i"
  using assms by (auto simp: daemon_ok_def split: if_splits)

lemma in_live:
  "i < length (gm_tasks s) \<Longrightarrow> gm_tasks s ! i = (d, Main_Mounting) \<Longrightarrow> i \<in> live s d"
  "i < length (gm_tasks s) \<Longrightarrow> gm_tasks s ! i = (d, Main_Waiting) \<Longrightarrow> i \<in> live s d"
  by (simp_all add: live_def)

lemma task_to_sel [simp]:
  "gm_slot (task_to i t s) = gm_slot s" "gm_next (task_to i t s) = gm_next s"
  "gm_active (task_to i t s) = gm_active s" "gm_notify (task_to i t s) = gm_notify s"
  by (simp_all add: task_to_def)

lemma daemon_ok_ended:
  assumes "daemon_ok view s d" and "i < length (gm_tasks s)" and "gm_tasks s ! i = (d, old)" and "i \<in> live s d"
    and "t = Main_Unmounting \<or> t = Main_Ended"
    and "gm_slot s = Some d \<Longrightarrow> view n = notify_new" and "gm_slot s \<noteq> Some d \<Longrightarrow> nf_waiting (view n) = []"
  shows "daemon_ok view (task_to i t (s\<lparr>gm_notify := (gm_notify s)(d := n)\<rparr>)) d"
  using live_single [OF assms(1,4)]
  by cases (use assms(5-7) live_task_to(2) [OF assms(2,3)] in \<open>auto simp: daemon_ok_def\<close>)

lemma daemon_ok_step:
  assumes "gui_step N s l s'" and ok: "\<And>d. daemon_ok view s d" and "\<nexists>i. l = Ev_Error i"
  shows "daemon_ok view s' e"
  using assms(1)
proof cases
  case Mount
  then show ?thesis using daemon_ok_mount [OF ok] by simp
next
  case Unmount
  then show ?thesis using daemon_ok_unmount [OF ok] by simp
next
  case (Mounted i d ready n)
  note i = in_live(1) [OF Mounted(3,4)]
  show ?thesis
  proof (cases "e = d")
    case True
    have "daemon_ok view (task_to i (if ready then Main_Unmounting else Main_Waiting) (s\<lparr>gm_notify := (gm_notify s)(d := n)\<rparr>)) d"
    proof (cases rule: live_single [OF ok i, case_names held told])
      case held
      have "\<not> ready" "view n = notify_new\<lparr>nf_waiting := [i]\<rparr>"
        using held Mounted(4) notified_eq [OF Mounted(5)] by (auto simp: notified_def notify_new_def)
      with held Mounted(3,4) live_task_to(2) [OF Mounted(3,4)] show ?thesis
        by (auto simp: daemon_ok_def task_to_def)
    next
      case told
      have "ready" "nf_waiting (view n) = []"
        using told Mounted(4) notified_eq [OF Mounted(5)] by (auto simp: notified_def will_unmount_def dest: sym)
      with told Mounted(3,4) ok i show ?thesis by (intro daemon_ok_ended) auto
    qed
    with True Mounted show ?thesis by simp
  qed (use Mounted daemon_ok_other [OF ok Mounted(3,4)] in simp)
next
  case (Woken i d)
  note i = in_live(2) [OF Woken(3,4)]
  have "gm_slot s \<noteq> Some d \<and> nf_waiting (view (gm_notify s d)) = []"
    using live_single [OF ok i] by cases (use Woken in \<open>auto simp: notify_ready_def notify_new_def\<close>)
  then have "daemon_ok view (task_to i Main_Unmounting (s\<lparr>gm_notify := (gm_notify s)(d := gm_notify s d)\<rparr>)) d"
    using Woken(3,4) ok i by (intro daemon_ok_ended) auto
  with Woken daemon_ok_other [OF ok Woken(3,4), of e "Main_Unmounting" "gm_notify s d"] show ?thesis
    by (cases "e = d") simp_all
next
  case (Done i d)
  then show ?thesis
    by (intro daemon_ok_frame [OF ok]) (auto simp: task_to_def live_def nth_list_update)
next
  case (Session_End i d)
  note i = in_live(2) [OF Session_End(3,4)]
  have "daemon_ok view (task_to i Main_Ended (s\<lparr>gm_notify := (gm_notify s)(d := na_drop N i (gm_notify s d))\<rparr>)) d"
    using live_single [OF ok i]
    by cases (use Session_End(3,4) ok i in
      \<open>auto intro!: daemon_ok_ended simp: notify_drop_def notify_one_def notify_new_def Let_def\<close>)
  with Session_End daemon_ok_other [OF ok Session_End(3,4)] show ?thesis by (cases "e = d") simp_all
qed (use assms(3) in auto)

lemma gui_reach_ok: "gui_reach N False s \<Longrightarrow> daemon_ok view s d"
proof (induction arbitrary: d rule: gui_reach.induct)
  case Init
  show ?case by (rule daemon_ok_init)
next
  case (Step s l s')
  then show ?case using daemon_ok_step [of s l s'] by blast
qed

text \<open>A task that was told goes on by itself.\<close>

lemma told_goes_on:
  assumes "daemon_ok view s d" and "i \<in> live s d" and "gm_slot s \<noteq> Some d"
  shows "live s d = {i} \<and> (\<exists>l s'. l \<in> {Ev_Mounted i, Ev_Woken i} \<and> gui_step N s l s'
    \<and> gm_tasks s' ! i = (d, Main_Unmounting))"
proof (cases rule: live_single [OF assms(1,2), case_names held told])
  case told
  have i: "i < length (gm_tasks s)" using assms(2) by (simp add: live_def)
  consider "gm_tasks s ! i = (d, Main_Mounting)" | "gm_tasks s ! i = (d, Main_Waiting)"
    using assms(2) by (auto simp: live_def)
  then show ?thesis
  proof cases
    case 1
    obtain n where "na_notified N i (gm_notify s d) = (True, n)"
      using takes_permit told 1 by (fastforce simp: will_unmount_def)
    from gui_step.Mounted [OF i 1 this] have "gui_step N s (Ev_Mounted i)
        (task_to i Main_Unmounting (s\<lparr>gm_notify := (gm_notify s)(d := n)\<rparr>))" by simp
    then show ?thesis using told i 1 by (force simp: task_to_def)
  next
    case 2
    then have "na_ready N i (gm_notify s d)"
      using told by (simp add: will_unmount_def notify_ready_def)
    from gui_step.Woken [OF i 2 this] show ?thesis using told i 2 by (force simp: task_to_def)
  qed
qed (use assms(3) in simp)

end

text \<open>
  C16. As long as no mount and no session fails, unmounting works: after the button was pressed every
  task that still mounts or serves can go on to its unmount by a step of its own, and two mounts never
  share a daemon. \<open>N\<close> is any object that behaves like \<open>Notify\<close>.
\<close>

theorem unmount_reaches_every_mount:
  assumes "notify_object N view" and "gui_reach N False s" and "i \<in> live (gui_unmount N s) d"
  shows "live (gui_unmount N s) d = {i} \<and> (\<exists>l s'. l \<in> {Ev_Mounted i, Ev_Woken i}
    \<and> gui_step N (gui_unmount N s) l s' \<and> gm_tasks s' ! i = (d, Main_Unmounting))"
proof -
  have "gui_reach N False (gui_unmount N s)"
    by (rule gui_reach.Step [OF assms(2) gui_step.Unmount]) simp
  then have "daemon_ok view (gui_unmount N s) d" by (rule notify_object.gui_reach_ok [OF assms(1)])
  moreover have "gm_slot (gui_unmount N s) \<noteq> Some d"
    by (simp add: gui_unmount_def split: option.splits)
  ultimately show ?thesis using notify_object.told_goes_on [OF assms(1) _ assms(3)] by blast
qed

definition one_mount :: "notify gui_mounts" where
  "one_mount = task_to 0 Main_Waiting ((gui_mount (gui_mounts_init notify_ref))
     \<lparr>gm_notify := (gm_notify (gui_mounts_init notify_ref))(0 := notify_new\<lparr>nf_waiting := [0]\<rparr>)\<rparr>)"

lemma one_mount_reached: "gui_reach notify_ref False one_mount"
proof -
  have "gui_reach notify_ref False (gui_mount (gui_mounts_init notify_ref))"
    by (rule gui_reach.Step [OF gui_reach.Init gui_step.Mount]) (simp_all add: gui_mounts_init_def)
  moreover have "gui_step notify_ref (gui_mount (gui_mounts_init notify_ref)) (Ev_Mounted 0) one_mount"
    using gui_step.Mounted [of 0 "gui_mount (gui_mounts_init notify_ref)" 0 notify_ref False "notify_new\<lparr>nf_waiting := [0]\<rparr>"]
    by (simp add: gui_mount_def gui_mounts_init_def one_mount_def notified_def notify_new_def)
  ultimately show ?thesis by (rule gui_reach.Step) simp
qed

lemma unmount_reaches_every_mount_witness:
  "\<exists>l s. gui_step notify_ref (gui_unmount notify_ref one_mount) l s \<and> gm_tasks s ! 0 = (0, Main_Unmounting)"
proof -
  have "0 \<in> live (gui_unmount notify_ref one_mount) 0"
    by (simp add: live_def one_mount_def task_to_def gui_mount_def gui_unmount_def gui_mounts_init_def)
  from unmount_reaches_every_mount [OF ref_notify.notify_object_axioms one_mount_reached this] show ?thesis by blast
qed

text \<open>
  A late error breaks this. A mount is started and undone, a second is started, the first one fails
  and switches the interface back, so that a third can be started: it shares the daemon of the
  second, the button wakes only one of the two, and nothing is left that could wake the other.
\<close>

lemma waits:
  "i < length (gm_tasks s) \<Longrightarrow> gm_tasks s ! i = (d, Main_Mounting) \<Longrightarrow> \<not> nf_permit (gm_notify s d) \<Longrightarrow>
    gui_reach notify_ref e s \<Longrightarrow>
    gui_reach notify_ref e (task_to i Main_Waiting
      (s\<lparr>gm_notify := (gm_notify s)(d := gm_notify s d\<lparr>nf_waiting := nf_waiting (gm_notify s d) @ [i]\<rparr>)\<rparr>))"
  using gui_step.Mounted [of i s d notify_ref] by (fastforce simp: notified_def intro: gui_reach.Step)

lemma mount_can_be_orphaned:
  "\<exists>s. gui_reach notify_ref True s \<and> gm_slot s = None \<and> gm_tasks s ! 2 = (1, Main_Waiting) \<and> 2 \<in> live s 1
    \<and> \<not> notify_ready 2 (gm_notify s 1)"
proof -
  note defs = gui_mount_def gui_unmount_def gui_mounts_init_def task_to_def notify_one_def notify_new_def
    notify_ready_def live_def
  define s1 where "s1 = gui_mount (gui_unmount notify_ref (gui_mount (gui_mounts_init notify_ref)))"
  define s2 where "s2 = gui_mount (task_to 0 Main_Ended (s1\<lparr>gm_active := False\<rparr>))"
  have "gui_reach notify_ref True (gui_mount (gui_mounts_init notify_ref))"
    by (rule gui_reach.Step [OF gui_reach.Init gui_step.Mount]) (simp_all add: defs)
  then have "gui_reach notify_ref True (gui_unmount notify_ref (gui_mount (gui_mounts_init notify_ref)))"
    by (rule gui_reach.Step [OF _ gui_step.Unmount]) simp
  then have "gui_reach notify_ref True s1"
    unfolding s1_def by (rule gui_reach.Step [OF _ gui_step.Mount]) (simp_all add: defs)
  then have "gui_reach notify_ref True (task_to 0 Main_Ended (s1\<lparr>gm_active := False\<rparr>))"
    by (rule gui_reach.Step [OF _ gui_step.Mount_Error]) (simp_all add: s1_def defs)
  then have "gui_reach notify_ref True s2"
    unfolding s2_def by (rule gui_reach.Step [OF _ gui_step.Mount]) simp_all
  from waits [OF _ _ _ this, of 1 1] have r: "gui_reach notify_ref True (task_to 1 Main_Waiting
      (s2\<lparr>gm_notify := (gm_notify s2)(1 := gm_notify s2 1\<lparr>nf_waiting := [1]\<rparr>)\<rparr>))" (is "gui_reach notify_ref True ?s3")
    by (simp add: s2_def s1_def defs)
  from waits [OF _ _ _ r, of 2 1] have r: "gui_reach notify_ref True (task_to 2 Main_Waiting
      (?s3\<lparr>gm_notify := (gm_notify ?s3)(1 := gm_notify ?s3 1\<lparr>nf_waiting := [1, 2]\<rparr>)\<rparr>))" (is "gui_reach notify_ref True ?s4")
    by (simp add: s2_def s1_def defs)
  have "gui_reach notify_ref True (gui_unmount notify_ref ?s4)"
    by (rule gui_reach.Step [OF r gui_step.Unmount]) simp
  moreover have "gm_slot (gui_unmount notify_ref ?s4) = None \<and> gm_tasks (gui_unmount notify_ref ?s4) ! 2 = (1, Main_Waiting)
      \<and> 2 \<in> live (gui_unmount notify_ref ?s4) 1 \<and> \<not> notify_ready 2 (gm_notify (gui_unmount notify_ref ?s4) 1)"
    by (simp add: s2_def s1_def defs)
  ultimately show ?thesis by blast
qed

end
