(* ===== verification/Spec2Isabelle.thy ===== *)
theory Spec2Isabelle
  imports Storage_Laws Access_Laws Database_Laws Xattr_Laws Server_Laws Client_Attributes
    RW_Buffer Client_Pages_Laws Cache_Laws Client_FS_Laws Network Client_FS_Safety Fuse_Laws Fuse_Windows_Laws Config_Laws Admin_Laws End_To_End Startup_Laws Gui_Laws
begin

text \<open>
  A verification development of the remote file system: a server (\<open>src/server\<close>) that serves a
  directory of its disk over HTTP, and a client (\<open>src/client\<close>) that mounts it through FUSE on Unix
  or WinFSP on Windows.

  \<^bold>\<open>How the parts interact.\<close> The kernel calls a callback of the client (\<open>fuse/unix.rs\<close>,
  \<open>fuse/windows.rs\<close>). The callback uses \<open>FileSystem\<close> (\<open>fs_model.rs\<close>), which answers from its cache
  (\<open>cache.rs\<close>), its read buffer or its write buffer (\<open>rw_buffer.rs\<close>), or asks a \<open>RemoteStorage\<close>.
  \<open>RemoteClient\<close> (\<open>network/client.rs\<close>) turns the call into an HTTP request with the token of the
  login. The server routes it (\<open>routes.rs\<close>) through the authentication middleware
  (\<open>middleware.rs\<close>) to a handler, which checks the permission, and works on the disk (\<open>storage.rs\<close>,
  \<open>nodes.rs\<close>) and on the database (\<open>db.rs\<close>). The command lines, the configuration, the mount, the
  user interface and the shutdown are around that.

  \<^bold>\<open>Foundations.\<close> \<open>Prelude\<close>: words, bytes, fallible results and facts about lists that the rest
  shares. \<open>Rust_Path\<close>: \<open>std::path\<close> and \<open>util.rs\<close>. \<open>Unix_FS\<close>: \<open>std::fs\<close> on a Unix kernel, a tree of
  nodes with links. \<open>Sql\<close>: the statements of \<open>db.rs\<close> and the laws of the engine that runs them.
  \<open>Notify\<close>: the object of \<open>tokio\<close> the client shuts down with.

  \<^bold>\<open>Server.\<close>
  \<^item> \<open>Server_Attributes\<close>: \<open>attributes.rs\<close>, \<open>error.rs\<close>; codes on the wire and their inverses.
  \<^item> \<open>Storage\<close>: every operation of \<open>storage.rs\<close> and \<open>nodes.rs\<close> on the kernel \<open>k\<close>. \<open>Storage_Laws\<close>: contents
    after a write, what a removal, a rename and an exchange leave alone. \<open>Access_Laws\<close>: \<open>is_allowed\<close>
    against the rule of Unix, where paths may lead, ownership.
  \<^item> \<open>Database\<close>: \<open>db.rs\<close>, \<open>models.rs\<close>. \<open>Database_Laws\<close>, \<open>Xattr_Laws\<close>: the invariant of the tables,
    tokens, and the attribute table as a map, for every engine.
  \<^item> \<open>Routes\<close>: \<open>middleware.rs\<close> and the handlers of \<open>routes.rs\<close>, as steps of \<open>server_state\<close> (disk and
    tables). \<open>Server_Laws\<close>: runs of requests: no service without a token or after a logout, permissions
    before effects, what was written is read back.

  \<^bold>\<open>Client.\<close>
  \<^item> \<open>Client_Errors\<close>, \<open>Client_Attributes\<close>: \<open>error.rs\<close> with \<open>errno\<close>, \<open>fs_model/attributes.rs\<close>.
  \<^item> \<open>RW_Buffer\<close>: \<open>rw_buffer.rs\<close> with the laws of both buffers. \<open>Client_Pages\<close>, \<open>Client_Pages_Laws\<close>:
    pages of a cached file (\<open>fs_model/file.rs\<close>, \<open>directory.rs\<close>, \<open>sym_link.rs\<close>). \<open>Cache\<close>, \<open>Cache_Laws\<close>:
    \<open>cache.rs\<close>, its invariant, expiry and eviction.
  \<^item> \<open>Client_FS\<close>: \<open>fs_model.rs\<close> over any \<open>RemoteStorage\<close>. \<open>Client_FS_Laws\<close>: a file session against the
    bytes of the remote file. \<open>Client_FS_Safety\<close>: no panic from any sequence of calls.
  \<^item> \<open>Fuse_Unix\<close>, \<open>Fuse_Laws\<close>: \<open>fuse/unix.rs\<close>; the read loop and the paging of directories.
    \<open>Fuse_Windows\<close>, \<open>Fuse_Windows_Laws\<close>: \<open>fuse/windows.rs\<close>.
  \<^item> \<open>Network\<close>: \<open>network/client.rs\<close>, \<open>middleware.rs\<close>, \<open>models.rs\<close>.

  \<^bold>\<open>Both.\<close>
  \<^item> \<open>Http_Link\<close>: routing, body extraction, payload limit and retries between the two. \<open>Client_Server\<close>:
    a method of \<open>RemoteClient\<close> is a handler of the server. \<open>End_To_End\<close>: what a program on the client
    writes and reads, against the bytes on the disk of the server.
  \<^item> \<open>Config\<close>, \<open>Config_Laws\<close>: both \<open>config.rs\<close> with their modules, \<open>util.rs\<close>, the choice of log writers.
    \<open>Admin\<close>, \<open>Admin_Laws\<close>: both \<open>commands.rs\<close>.
  \<^item> \<open>Startup\<close>: both \<open>app.rs\<close> and \<open>lib.rs\<close>, \<open>mount.rs\<close> with its drivers, \<open>daemon.rs\<close>, \<open>Logging::from\<close>.
    \<open>Startup_Laws\<close>: a mount needs a login; the main task of the client as a state machine, where a
    triggered shutdown is kept and an early signal is lost.
  \<^item> \<open>Gui\<close>, \<open>Gui_Laws\<close>: \<open>gui/logic.rs\<close>; the limits of the settings, and unmounting with concurrent tasks.

  \<^bold>\<open>Interfaces.\<close> Where a component rests on another, the contract is a locale: \<open>sqlite\<close> (engine),
  \<open>unix_externs\<close> (\<open>chown\<close>, \<open>utimensat\<close>, \<open>statvfs\<close>), \<open>conversion\<close> (codes), \<open>path_cache\<close> (cache),
  \<open>remote_file\<close> (a file behind a \<open>RemoteStorage\<close>) and \<open>notify_object\<close>. \<open>path_cache\<close>, \<open>conversion\<close> and
  \<open>remote_file\<close> are interpreted on the definitions of this program, the last one on the client, the
  link and the server put together; the others belong to code outside and have a reference object.

  \<^bold>\<open>Conventions.\<close> A call that can fail returns a sum, with the error on the left; one that can panic
  returns \<open>outcome\<close>. Messages of errors are dropped where nothing reads them. State is passed
  explicitly and keeps the effects of the steps before an error. What is outside the program is an
  argument: the engine, argon2 and JWT (\<open>auth_env\<close>), the encoding of URLs, the clock, the moments at
  which requests arrive, the iteration order of hash maps, the terminal and the processes.

  \<^bold>\<open>Bounds.\<close> A path walk follows 40 links, as Linux does (\<open>max_links\<close>). A request is sent at most four
  times (\<open>send_retry 3\<close>), as the policy of the client says. A login is asked for three times. The read loop of
  \<open>fuse_read\<close> terminates by the number of bytes left. No other recursion needs fuel; \<open>inductive\<close> step
  relations model what may go on for ever: series of requests, of calls, of buttons and tasks.

  \<^bold>\<open>Assumptions.\<close> The server runs as root on one file system without hard links and without hardware
  errors. Handlers and client methods are atomic steps: the races between two of them are modelled
  where the code is concurrent by design, in the user interface and the shutdown. Arithmetic wraps as
  in a release build. Paths on Windows are split with the rules of Unix once their backslashes are
  converted; drive prefixes do not occur. The error of a mount reaches the user interface in the step in
  which it happens.

  \<^bold>\<open>Not modelled.\<close> The widgets of \<open>app.slint\<close>, its start screen and timers (generated code). Parsing of
  the command line and merging of configuration sources (crates \<open>clap\<close> and \<open>config\<close>; the argument
  structures carry no behaviour). Formatting of logs (\<open>logging/console.rs\<close>, the client's
  \<open>logging/file.rs\<close>, \<open>TimerLayer\<close>) and the \<open>main\<close> functions: they only write text. The client's copies of
  \<open>config/logging.rs\<close>, \<open>commands.rs\<close> and \<open>util.rs\<close> repeat the server's and are modelled once, with the
  differences. HTTP itself, TLS, the limit of 2 MiB for JSON bodies, opening the database and its
  migrations. The test harness \<open>src/src\<close>.
\<close>

end
